(* ===== verification/Prelude.thy ===== *)
theory Prelude
  imports Main "HOL-Library.Multiset"
begin

text \<open>
  Shared vocabulary of the development: the fact collections, the type of instants, results that
  are either an error or a value, the part of Python's \<open>str\<close> and \<open>int\<close> the sources use, and the
  generic lemmas on lists and options that the component theories rely on.

  Text is modelled on code points below 256 (\<^typ>\<open>string\<close> is a list of characters), which is where
  every literal of the sources lives. Instants are integers counting microseconds, the resolution
  of Python's \<open>datetime\<close>.
\<close>

named_theorems py_simps \<open>equations for the modelled part of Python's standard library\<close>
named_theorems queue_simps \<open>observations of the job queues after one command\<close>
named_theorems table_simps \<open>observations of the database tables after one statement\<close>

type_synonym time = int
type_synonym ('e, 'a) result = "'e + 'a"

abbreviation second :: int where
  "second \<equiv> 1000000"

section \<open>Results\<close>

text \<open>Sequencing of fallible steps: the first error wins, as a raised exception does.\<close>

definition and_then :: "('e, 'a) result \<Rightarrow> ('a \<Rightarrow> ('e, 'b) result) \<Rightarrow> ('e, 'b) result" where
  "and_then m f = (case m of Inl e \<Rightarrow> Inl e | Inr x \<Rightarrow> f x)"

lemma and_then_simps [simp]:
  "and_then (Inl e) f = Inl e"
  "and_then (Inr x) f = f x"
  by (simp_all add: and_then_def)

lemma and_then_Inr_iff:
  "and_then m f = Inr y \<longleftrightarrow> (\<exists>x. m = Inr x \<and> f x = Inr y)"
  by (cases m) simp_all

lemma and_then_Inl_iff:
  "and_then m f = Inl e \<longleftrightarrow> m = Inl e \<or> (\<exists>x. m = Inr x \<and> f x = Inl e)"
  by (cases m) simp_all

lemma and_then_assoc: "and_then (and_then m f) g = and_then m (\<lambda>x. and_then (f x) g)"
  by (cases m) simp_all

text \<open>A guard clause: \<open>if not p: raise e\<close>.\<close>

definition ensure :: "bool \<Rightarrow> 'e \<Rightarrow> ('e, unit) result" where
  "ensure p e = (if p then Inr () else Inl e)"

lemma ensure_Inr_iff [simp]: "ensure p e = Inr u \<longleftrightarrow> p"
  by (simp add: ensure_def)

lemma ensure_Inl_iff [simp]: "ensure p e = Inl e' \<longleftrightarrow> \<not> p \<and> e' = e"
  by (auto simp: ensure_def)

section \<open>Lists\<close>

lemma mset_remove1_add:
  "x \<in> set xs \<Longrightarrow> add_mset x (mset (remove1 x xs)) = mset xs"
  by (simp add: insert_DiffM)

lemma length_remove1_mem: "x \<in> set xs \<Longrightarrow> Suc (length (remove1 x xs)) = length xs"
  by (induction xs) auto

lemma mset_butlast_last: "xs \<noteq> [] \<Longrightarrow> add_mset (last xs) (mset (butlast xs)) = mset xs"
  by (induction xs) auto

lemma find_SomeD: "List.find p xs = Some x \<Longrightarrow> p x \<and> x \<in> set xs"
  by (induction xs) (auto split: if_splits)

lemma find_None_iff': "List.find p xs = None \<longleftrightarrow> (\<forall>x \<in> set xs. \<not> p x)"
  by (induction xs) auto

lemma find_append:
  "List.find p (xs @ ys) = (case List.find p xs of None \<Rightarrow> List.find p ys | Some x \<Rightarrow> Some x)"
  by (induction xs) auto

text \<open>A key that determines the row makes the first match the only one.\<close>

lemma find_unique:
  assumes "distinct (map f xs)" and "x \<in> set xs"
  shows "List.find (\<lambda>y. f y = f x) xs = Some x"
  using assms by (induction xs) auto

lemma find_map_other:
  assumes "\<And>y. p (g y) \<longleftrightarrow> p y"
  shows "List.find p (map g xs) = map_option g (List.find p xs)"
  using assms by (induction xs) auto

end
