(* ===== verification/Json.thy ===== *)
theory Json
  imports Py_Text "HOL-Library.Monad_Syntax"
begin

text \<open>
  Python's \<open>json\<close> module as the sources use it: \<open>json.dumps\<close> (with its default and its compact
  separators, and with \<open>sort_keys\<close>) and \<open>json.loads\<close>, on the values JSON documents decode to.
  The scanner follows the standard library's decoder: where it skips whitespace, which numbers it
  accepts, that control characters are rejected inside strings and that a repeated key keeps its
  first position and its last value. A number with a fraction or an exponent is kept as its text.
  Escapes above code point 255 are outside the modelled alphabet and rejected.

  The recursion is bounded by fuel; \<open>p_fuel_enough\<close> shows that the bound used by \<open>loads\<close> never cuts
  a document short, and \<open>loads_dumps\<close> is the round trip.
\<close>

datatype pyval =
    PNone
  | PBool bool
  | PInt int
  | PFloat string
  | PStr string
  | PList "pyval list"
  | PDict "(string \<times> pyval) list"

type_synonym pydict = "(string \<times> pyval) list"

section \<open>Dictionaries\<close>

text \<open>\<open>d[k] = v\<close>: a present key keeps its position, a new one goes last.\<close>

fun dict_set :: "pydict \<Rightarrow> string \<Rightarrow> pyval \<Rightarrow> pydict" where
  "dict_set [] k v = [(k, v)]"
| "dict_set ((k', v') # d) k v = (if k' = k then (k, v) # d else (k', v') # dict_set d k v)"

definition dict_of :: "pydict \<Rightarrow> pydict" where
  "dict_of kvs = foldl (\<lambda>d (k, v). dict_set d k v) [] kvs"

abbreviation dict_get :: "pydict \<Rightarrow> string \<Rightarrow> pyval option" where
  "dict_get d k \<equiv> map_of d k"

lemma dict_set_new: "k \<notin> fst ` set d \<Longrightarrow> dict_set d k v = d @ [(k, v)]"
  by (induction d) auto

lemma dict_get_set: "dict_get (dict_set d k v) k' = (if k' = k then Some v else dict_get d k')"
  by (induction d) auto

lemma dict_of_distinct: "distinct (map fst kvs) \<Longrightarrow> dict_of kvs = kvs"
proof -
  have "distinct (map fst (d @ kvs)) \<Longrightarrow> foldl (\<lambda>d (k, v). dict_set d k v) d kvs = d @ kvs" for d
    by (induction kvs arbitrary: d) (auto simp: dict_set_new)
  from this [of "[]"] show "distinct (map fst kvs) \<Longrightarrow> dict_of kvs = kvs"
    by (simp add: dict_of_def)
qed

section \<open>Printing\<close>

definition quote_char :: char where "quote_char = CHR 0x22"
definition backslash :: char where "backslash = CHR 0x5C"

text \<open>\<open>ensure_ascii\<close> escaping: everything outside the printable ASCII range becomes an escape.\<close>

definition escape_char :: "char \<Rightarrow> string" where
  "escape_char c = (let n = of_char c :: nat in
     if c = quote_char then [backslash, quote_char]
     else if c = backslash then [backslash, backslash]
     else if n = 10 then [backslash, CHR ''n'']
     else if n = 13 then [backslash, CHR ''r'']
     else if n = 9 then [backslash, CHR ''t'']
     else if n = 12 then [backslash, CHR ''f'']
     else if n = 8 then [backslash, CHR ''b'']
     else if 32 \<le> n \<and> n \<le> 126 then [c]
     else [backslash, CHR ''u'', CHR ''0'', CHR ''0'', hex_char (n div 16), hex_char (n mod 16)])"

definition quoted :: "string \<Rightarrow> string" where
  "quoted s = quote_char # concat (map escape_char s) @ [quote_char]"

fun join :: "string \<Rightarrow> string list \<Rightarrow> string" where
  "join sep [] = []"
| "join sep [x] = x"
| "join sep (x # y # zs) = x @ sep @ join sep (y # zs)"

fun dumps_with :: "string \<Rightarrow> string \<Rightarrow> pyval \<Rightarrow> string" where
  "dumps_with isep ksep PNone = ''null''"
| "dumps_with isep ksep (PBool b) = (if b then ''true'' else ''false'')"
| "dumps_with isep ksep (PInt i) = show_int i"
| "dumps_with isep ksep (PFloat l) = l"
| "dumps_with isep ksep (PStr s) = quoted s"
| "dumps_with isep ksep (PList vs) =
     CHR ''['' # join isep (map (dumps_with isep ksep) vs) @ '']''"
| "dumps_with isep ksep (PDict kvs) =
     CHR ''{'' # join isep (map (\<lambda>(k, v). quoted k @ ksep @ dumps_with isep ksep v) kvs) @ ''}''"

abbreviation dumps :: "pyval \<Rightarrow> string" where
  "dumps \<equiv> dumps_with '', '' '': ''"

section \<open>Parsing\<close>

definition json_space :: "char \<Rightarrow> bool" where
  "json_space c \<longleftrightarrow> of_char c \<in> {9, 10, 13, 32 :: nat}"

definition ws :: "string \<Rightarrow> string" where
  "ws s = dropWhile json_space s"

definition unescape :: "char \<Rightarrow> char option" where
  "unescape e =
     (if e = quote_char \<or> e = backslash \<or> e = CHR ''/'' then Some e
      else if e = CHR ''b'' then Some (CHR 0x08)
      else if e = CHR ''f'' then Some (CHR 0x0C)
      else if e = CHR ''n'' then Some (CHR 0x0A)
      else if e = CHR ''r'' then Some (CHR 0x0D)
      else if e = CHR ''t'' then Some (CHR 0x09)
      else None)"

definition hex4 :: "char \<Rightarrow> char \<Rightarrow> char \<Rightarrow> char \<Rightarrow> char option" where
  "hex4 a b c d = do {
     h3 \<leftarrow> hex_val a; h2 \<leftarrow> hex_val b; h1 \<leftarrow> hex_val c; h0 \<leftarrow> hex_val d;
     if h3 = 0 \<and> h2 = 0 then Some (char_of (16 * h1 + h0)) else None }"

text \<open>The rest of a string literal after its opening quote.\<close>

fun scan_string :: "string \<Rightarrow> (string \<times> string) option" where
  "scan_string [] = None"
| "scan_string (c # s) =
     (if c = quote_char then Some ([], s)
      else if c = backslash then
        (case s of
           [] \<Rightarrow> None
         | e # t \<Rightarrow>
             if e = CHR ''u'' then
               (case t of
                  h3 # h2 # h1 # h0 # u \<Rightarrow>
                    (case hex4 h3 h2 h1 h0 of
                       None \<Rightarrow> None
                     | Some x \<Rightarrow> map_option (apfst (Cons x)) (scan_string u))
                | _ \<Rightarrow> None)
             else
               (case unescape e of
                  None \<Rightarrow> None
                | Some x \<Rightarrow> map_option (apfst (Cons x)) (scan_string t)))
      else if of_char c < (32 :: nat) then None
      else map_option (apfst (Cons c)) (scan_string s))"

text \<open>Numbers: an integer part without leading zeros, an optional fraction, an optional exponent.\<close>

definition scan_int_part :: "string \<Rightarrow> (string \<times> string) option" where
  "scan_int_part s = (case s of
       [] \<Rightarrow> None
     | c # t \<Rightarrow>
         if c = CHR ''0'' then Some ([c], t)
         else if is_digit c then Some (takeWhile is_digit s, dropWhile is_digit s)
         else None)"

definition scan_frac :: "string \<Rightarrow> string \<times> string" where
  "scan_frac s = (case s of
       c # d # t \<Rightarrow>
         if c = CHR ''.'' \<and> is_digit d
         then (c # takeWhile is_digit (d # t), dropWhile is_digit (d # t)) else ([], s)
     | _ \<Rightarrow> ([], s))"

definition scan_exp :: "string \<Rightarrow> string \<times> string" where
  "scan_exp s = (case s of
       c # d # t \<Rightarrow>
         if c = CHR ''e'' \<or> c = CHR ''E'' then
           (if is_digit d then (c # takeWhile is_digit (d # t), dropWhile is_digit (d # t))
            else if (d = CHR ''+'' \<or> d = CHR ''-'') \<and> t \<noteq> [] \<and> is_digit (hd t)
            then (c # d # takeWhile is_digit t, dropWhile is_digit t)
            else ([], s))
         else ([], s)
     | _ \<Rightarrow> ([], s))"

definition scan_number :: "string \<Rightarrow> (pyval \<times> string) option" where
  "scan_number s =
     (let neg = (s \<noteq> [] \<and> hd s = CHR ''-''); body = (if neg then tl s else s) in
      case scan_int_part body of
        None \<Rightarrow> None
      | Some (ip, r) \<Rightarrow>
          (let (fr, r1) = scan_frac r; (ex, r2) = scan_exp r1 in
           if fr = [] \<and> ex = [] then
             Some (PInt (if neg then - int (read_nat ip) else int (read_nat ip)), r2)
           else Some (PFloat ((if neg then ''-'' else []) @ ip @ fr @ ex), r2)))"

text \<open>The literals the decoder knows, the three non-finite floats included.\<close>

definition scan_const :: "string \<Rightarrow> (pyval \<times> string) option" where
  "scan_const s =
     (if starts_with s ''null'' then Some (PNone, drop 4 s)
      else if starts_with s ''true'' then Some (PBool True, drop 4 s)
      else if starts_with s ''false'' then Some (PBool False, drop 5 s)
      else if starts_with s ''NaN'' then Some (PFloat ''NaN'', drop 3 s)
      else if starts_with s ''Infinity'' then Some (PFloat ''Infinity'', drop 8 s)
      else if starts_with s ''-Infinity'' then Some (PFloat ''-Infinity'', drop 9 s)
      else None)"

definition expect :: "char \<Rightarrow> string \<Rightarrow> string option" where
  "expect c s = (case s of [] \<Rightarrow> None | d # t \<Rightarrow> if d = c then Some t else None)"

fun p_value :: "nat \<Rightarrow> string \<Rightarrow> (pyval \<times> string) option"
  and p_items :: "nat \<Rightarrow> string \<Rightarrow> (pyval list \<times> string) option"
  and p_members :: "nat \<Rightarrow> string \<Rightarrow> (pydict \<times> string) option" where
  "p_value 0 s = None"
| "p_value (Suc f) s = (case s of
       [] \<Rightarrow> None
     | c # t \<Rightarrow>
         if c = quote_char then map_option (apfst PStr) (scan_string t)
         else if c = CHR ''{'' then
           (case expect (CHR ''}'') (ws t) of
              Some r \<Rightarrow> Some (PDict [], r)
            | None \<Rightarrow> map_option (apfst (PDict \<circ> dict_of)) (p_members f (ws t)))
         else if c = CHR ''['' then
           (case expect (CHR '']'') (ws t) of
              Some r \<Rightarrow> Some (PList [], r)
            | None \<Rightarrow> map_option (apfst PList) (p_items f (ws t)))
         else (case scan_number s of Some x \<Rightarrow> Some x | None \<Rightarrow> scan_const s))"
| "p_items 0 s = None"
| "p_items (Suc f) s = do {
     (v, r) \<leftarrow> p_value f s;
     (case expect (CHR '']'') (ws r) of
        Some r' \<Rightarrow> Some ([v], r')
      | None \<Rightarrow> do {
          r' \<leftarrow> expect (CHR '','') (ws r);
          (vs, r'') \<leftarrow> p_items f (ws r');
          Some (v # vs, r'') }) }"
| "p_members 0 s = None"
| "p_members (Suc f) s = do {
     t \<leftarrow> expect quote_char s;
     (k, r) \<leftarrow> scan_string t;
     r' \<leftarrow> expect (CHR '':'') (ws r);
     (v, q) \<leftarrow> p_value f (ws r');
     (case expect (CHR ''}'') (ws q) of
        Some q' \<Rightarrow> Some ([(k, v)], q')
      | None \<Rightarrow> do {
          q' \<leftarrow> expect (CHR '','') (ws q);
          (kvs, q'') \<leftarrow> p_members f (ws q');
          Some ((k, v) # kvs, q'') }) }"

text \<open>\<open>json.loads\<close>; \<open>None\<close> is \<open>JSONDecodeError\<close>.\<close>

definition loads :: "string \<Rightarrow> pyval option" where
  "loads s = do {
     (v, r) \<leftarrow> p_value (2 * length s + 2) (ws s);
     if ws r = [] then Some v else None }"

section \<open>The scanner consumes its input\<close>

lemma ws_length: "length (ws s) \<le> length s"
  by (simp add: ws_def length_dropWhile_le)

lemma expect_length: "expect c s = Some t \<Longrightarrow> length s = Suc (length t)"
  by (auto simp: expect_def split: list.splits if_splits)

lemma scan_string_length: "scan_string s = Some (v, r) \<Longrightarrow> length r < length s"
proof (induction s arbitrary: v r rule: scan_string.induct)
  case 1
  then show ?case by simp
next
  case (2 c s)
  then show ?case
    by (auto split: if_splits list.splits option.splits) fastforce+
qed

lemma scan_int_part_length: "scan_int_part s = Some (v, r) \<Longrightarrow> length r < length s"
  by (auto simp: scan_int_part_def less_Suc_eq_le length_dropWhile_le split: list.splits if_splits)

lemma scan_frac_length: "length (snd (scan_frac s)) \<le> length s"
  by (auto simp: scan_frac_def le_SucI length_dropWhile_le split: list.splits)

lemma scan_exp_length: "length (snd (scan_exp s)) \<le> length s"
  by (auto simp: scan_exp_def le_SucI length_dropWhile_le split: list.splits)

lemma scan_number_length: "scan_number s = Some (v, r) \<Longrightarrow> length r < length s"
proof -
  assume "scan_number s = Some (v, r)"
  then obtain ip t where ip: "scan_int_part (if s \<noteq> [] \<and> hd s = CHR ''-'' then tl s else s) = Some (ip, t)"
    and r: "r = snd (scan_exp (snd (scan_frac t)))"
    by (auto simp: scan_number_def Let_def split: option.splits if_splits prod.splits)
  have "length r \<le> length t"
    unfolding r using scan_exp_length scan_frac_length order_trans by blast
  moreover have "length t < length s"
    using scan_int_part_length [OF ip] by (cases s) (auto split: if_splits)
  ultimately show "length r < length s" by simp
qed

lemma scan_const_length: "scan_const s = Some (v, r) \<Longrightarrow> length r < length s"
  by (auto simp: scan_const_def starts_with_iff split: if_splits)

lemma p_length:
  "p_value f s = Some (v, r) \<Longrightarrow> length r < length s"
  "p_items f s = Some (vs, r) \<Longrightarrow> length r < length s"
  "p_members f s = Some (kvs, r) \<Longrightarrow> length r < length s"
proof (induction f s and f s and f s arbitrary: v r and vs r and kvs r
    rule: p_value_p_items_p_members.induct)
  case (2 f s)
  obtain c t where s: "s = c # t" using "2.prems" by (cases s) auto
  note len = ws_length [of t]
  show ?case
  proof (cases "c = quote_char")
    case True
    with "2.prems" s show ?thesis by (auto dest: scan_string_length)
  next
    case nq: False
    show ?thesis
    proof (cases "c = CHR ''{''")
      case True
      with "2.prems" "2.IH"(1) [OF s nq True] s nq len show ?thesis
        by (fastforce split: option.splits dest: expect_length)
    next
      case nb: False
      show ?thesis
      proof (cases "c = CHR ''[''")
        case True
        with "2.prems" "2.IH"(2) [OF s nq nb True] s nq nb len show ?thesis
          by (fastforce split: option.splits dest: expect_length)
      next
        case False
        with "2.prems" s nq nb show ?thesis
          by (auto split: option.splits dest: scan_number_length scan_const_length)
      qed
    qed
  qed
next
  case (4 f s)
  from "4.prems" obtain v q where v: "p_value f s = Some (v, q)" by (auto split: bind_splits)
  have q: "length q < length s" using "4.IH"(1) [OF v] .
  show ?case
  proof (cases "expect (CHR '']'') (ws q)")
    case (Some x)
    with "4.prems" v q show ?thesis
      using ws_length [of q] by (auto dest: expect_length)
  next
    case None
    with "4.prems" v obtain q' vs' where q': "expect (CHR '','') (ws q) = Some q'"
      and "p_items f (ws q') = Some (vs', r)"
      by (auto split: bind_splits)
    then have "length r < length (ws q')" using "4.IH"(2) [OF v _ None q'] by auto
    then show ?thesis
      using q expect_length [OF q'] ws_length [of q] ws_length [of q'] by simp
  qed
next
  case (6 f s)
  from "6.prems" obtain t k u u' v q where
    t: "expect quote_char s = Some t" and k: "scan_string t = Some (k, u)"
    and u': "expect (CHR '':'') (ws u) = Some u'" and v: "p_value f (ws u') = Some (v, q)"
    by (auto split: bind_splits)
  have "length q < length (ws u')" using "6.IH"(1) [OF t k _ u' v] by auto
  then have q: "length q < length s"
    using expect_length [OF t] scan_string_length [OF k] expect_length [OF u']
      ws_length [of u] ws_length [of u'] by simp
  show ?case
  proof (cases "expect (CHR ''}'') (ws q)")
    case (Some x)
    with "6.prems" t k u' v q show ?thesis
      using ws_length [of q] by (auto dest: expect_length)
  next
    case None
    with "6.prems" t k u' v obtain q' m where q': "expect (CHR '','') (ws q) = Some q'"
      and "p_members f (ws q') = Some (m, r)"
      by (auto split: bind_splits)
    then have "length r < length (ws q')" using "6.IH"(2) [OF t k _ u' v _ None q'] by auto
    then show ?thesis
      using q expect_length [OF q'] ws_length [of q] ws_length [of q'] by simp
  qed
qed simp_all

section \<open>Fuel\<close>

text \<open>
  Beyond twice the length of the input, more fuel changes nothing, so the bound of \<open>loads\<close> is a
  technical device and never the reason a document is rejected.
\<close>

lemma p_fuel_enough:
  "2 * length s < f \<Longrightarrow> 2 * length s < g \<Longrightarrow> p_value f s = p_value g s"
  "2 * length s + 1 < f \<Longrightarrow> 2 * length s + 1 < g \<Longrightarrow> p_items f s = p_items g s"
  "2 * length s + 1 < f \<Longrightarrow> 2 * length s + 1 < g \<Longrightarrow> p_members f s = p_members g s"
proof (induction f s and f s and f s arbitrary: g and g and g
    rule: p_value_p_items_p_members.induct)
  case (2 f s)
  from "2.prems" obtain g' where g: "g = Suc g'" by (cases g) auto
  show ?case
  proof (cases s)
    case Nil
    with g show ?thesis by simp
  next
    case (Cons c t)
    have len: "2 * length (ws t) + 1 < f" "2 * length (ws t) + 1 < g'"
      using "2.prems" g Cons ws_length [of t] by auto
    consider "c = quote_char" | "c \<noteq> quote_char" "c = CHR ''{''"
      | "c \<noteq> quote_char" "c \<noteq> CHR ''{''" "c = CHR ''[''"
      | "c \<noteq> quote_char" "c \<noteq> CHR ''{''" "c \<noteq> CHR ''[''" by blast
    then show ?thesis
    proof cases
      case 2
      then show ?thesis
        using "2.IH"(1) [OF Cons 2, of g'] len
        unfolding Cons g p_value.simps list.case by (simp only: if_False if_True split: option.split) simp
    next
      case 3
      then show ?thesis
        using "2.IH"(2) [OF Cons 3, of g'] len
        unfolding Cons g p_value.simps list.case by (simp only: if_False if_True split: option.split) simp
    qed (simp_all add: Cons g)
  qed
next
  case (4 f s)
  from "4.prems" obtain g' where g: "g = Suc g'" by (cases g) auto
  have v: "p_value f s = p_value g' s" using "4.IH"(1) [of g'] "4.prems" g by simp
  show ?case
  proof (cases "p_value f s")
    case None
    with v g show ?thesis by simp
  next
    case (Some x)
    obtain a q where x: "x = (a, q)" by (cases x)
    note val = Some [unfolded x]
    have "p_items f (ws q') = p_items g' (ws q')"
      if n: "expect (CHR '']'') (ws q) = None" and q': "expect (CHR '','') (ws q) = Some q'" for q'
    proof -
      have "2 * length (ws q') + 1 < f" "2 * length (ws q') + 1 < g'"
        using p_length(1) [OF val] expect_length [OF q'] ws_length [of q] ws_length [of q']
          "4.prems" g by auto
      then show ?thesis using "4.IH"(2) [OF val _ n q', where g = g'] by simp
    qed
    then show ?thesis using val v g by (auto split: option.splits bind_splits)
  qed
next
  case (6 f s)
  from "6.prems" obtain g' where g: "g = Suc g'" by (cases g) auto
  show ?case
  proof (cases "\<exists>t k u u'. expect quote_char s = Some t \<and> scan_string t = Some (k, u)
      \<and> expect (CHR '':'') (ws u) = Some u'")
    case False
    then show ?thesis using g by (fastforce split: bind_splits)
  next
    case True
    then obtain t k u u' where t: "expect quote_char s = Some t"
      and k: "scan_string t = Some (k, u)" and u': "expect (CHR '':'') (ws u) = Some u'" by blast
    have lu: "length (ws u') < length s"
      using expect_length [OF t] scan_string_length [OF k] expect_length [OF u']
        ws_length [of u] ws_length [of u'] by simp
    have v: "p_value f (ws u') = p_value g' (ws u')"
      using "6.IH"(1) [OF t k _ u', where g = g'] lu "6.prems" g by simp
    show ?thesis
    proof (cases "p_value f (ws u')")
      case None
      with v g t k u' show ?thesis by simp
    next
      case (Some x)
      obtain a q where x: "x = (a, q)" by (cases x)
      note val = Some [unfolded x]
      have "p_members f (ws q') = p_members g' (ws q')"
        if n: "expect (CHR ''}'') (ws q) = None" and q': "expect (CHR '','') (ws q) = Some q'" for q'
      proof -
        have "2 * length (ws q') + 1 < f" "2 * length (ws q') + 1 < g'"
          using p_length(1) [OF val] expect_length [OF q'] ws_length [of q] ws_length [of q']
            lu "6.prems" g by auto
        then show ?thesis using "6.IH"(2) [OF t k _ u' val _ n q', where g = g'] by simp
      qed
      then show ?thesis using val v g t k u' by (auto split: option.splits bind_splits)
    qed
  qed
qed simp_all

section \<open>Round trip\<close>

text \<open>
  Values whose text determines them: no floats (the sources print none) and dictionaries without
  repeated keys, which every Python dictionary satisfies.
\<close>

fun json_value :: "pyval \<Rightarrow> bool" where
  "json_value (PFloat l) = False"
| "json_value (PList vs) = list_all json_value vs"
| "json_value (PDict kvs) = (distinct (map fst kvs) \<and> list_all (\<lambda>(k, v). json_value v) kvs)"
| "json_value v = True"

lemma hex4_code:
  "hex4 (CHR ''0'') (CHR ''0'') (hex_char (of_char c div 16)) (hex_char (of_char c mod 16)) = Some c"
proof -
  have "of_char c < (256 :: nat)" by simp
  then have "of_char c div 16 < (16 :: nat)" by linarith
  moreover have "hex_val (CHR ''0'') = Some 0" by (simp add: hex_val_def)
  ultimately show ?thesis by (simp add: hex4_def hex_val_hex_char)
qed

lemma scan_escape:
  "scan_string (escape_char c @ t) = map_option (apfst (Cons c)) (scan_string t)"
proof -
  consider "c = quote_char" | "c = backslash"
    | "of_char c \<in> {8, 9, 10, 12, 13 :: nat}"
    | "c \<noteq> quote_char" "c \<noteq> backslash" "(32 :: nat) \<le> of_char c" "of_char c \<le> (126 :: nat)"
    | "c \<noteq> quote_char" "c \<noteq> backslash" "of_char c \<notin> {8, 9, 10, 12, 13 :: nat}"
      "\<not> ((32 :: nat) \<le> of_char c \<and> of_char c \<le> (126 :: nat))"
    by fastforce
  then show ?thesis
  proof cases
    case 3
    then have "c = CHR 0x08 \<or> c = CHR 0x09 \<or> c = CHR 0x0A \<or> c = CHR 0x0C \<or> c = CHR 0x0D"
      by (auto dest: char_codeD)
    then show ?thesis
      by (auto simp: escape_char_def unescape_def quote_char_def backslash_def)
  next
    case 5
    then show ?thesis
      by (simp add: escape_char_def hex4_code Let_def) (simp add: quote_char_def backslash_def)
  qed (auto simp: escape_char_def unescape_def quote_char_def backslash_def Let_def)
qed

lemma scan_quoted: "scan_string (concat (map escape_char s) @ quote_char # t) = Some (s, t)"
  by (induction s) (simp_all add: scan_escape)

text \<open>What may follow a value inside a printed document.\<close>

definition stops :: "string \<Rightarrow> bool" where
  "stops r \<longleftrightarrow> r = [] \<or> hd r \<in> {CHR '','', CHR '']'', CHR ''}''}"

lemma stops_simps [simp]:
  "stops []" "stops (CHR '','' # r)" "stops (CHR '']'' # r)" "stops (CHR ''}'' # r)"
  by (simp_all add: stops_def)

lemma stops_not_digit: "stops r \<Longrightarrow> r = [] \<or> \<not> is_digit (hd r)"
  by (auto simp: stops_def is_digit_def)

lemma scan_tail_stops:
  assumes "stops r"
  shows "scan_frac r = ([], r)" and "scan_exp r = ([], r)"
  using assms by (auto simp: stops_def scan_frac_def scan_exp_def split: list.splits)

lemma show_nat_hd_zero: "hd (show_nat n) = CHR ''0'' \<longleftrightarrow> n = 0"
proof (induction n rule: show_nat.induct)
  case (1 n)
  show ?case
  proof (cases "n < 10")
    case True
    have "digit_char n = CHR ''0'' \<longleftrightarrow> n = 0"
      using True digit_char_props(2) [of n] by (auto simp: digit_val_def)
    with True show ?thesis by (simp add: show_nat.simps [of n])
  next
    case False
    with "1.IH" have "hd (show_nat (n div 10)) = CHR ''0'' \<longleftrightarrow> n div 10 = 0" by simp
    with False show ?thesis by (auto simp: show_nat.simps [of n])
  qed
qed

lemma scan_int_part_show:
  assumes "stops r"
  shows "scan_int_part (show_nat n @ r) = Some (show_nat n, r)"
proof -
  obtain c cs where c: "show_nat n = c # cs" by (cases "show_nat n") auto
  have d: "list_all is_digit (c # cs)" using show_nat_digits [of n] c by simp
  have tw: "takeWhile is_digit (c # cs @ r) = c # cs" "dropWhile is_digit (c # cs @ r) = r"
    using d stops_not_digit [OF assms]
    by (auto simp: list_all_iff takeWhile_append dropWhile_append takeWhile_eq_Nil_iff
        dropWhile_eq_self_iff)
  show ?thesis
  proof (cases "n = 0")
    case True
    then show ?thesis by (simp add: scan_int_part_def show_nat.simps)
  next
    case False
    then have "c \<noteq> CHR ''0''" using show_nat_hd_zero [of n] c by simp
    then show ?thesis using c d tw by (simp add: scan_int_part_def)
  qed
qed

lemma scan_number_show:
  assumes "stops r"
  shows "scan_number (show_int i @ r) = Some (PInt i, r)"
proof -
  have "hd (show_nat m @ r) \<noteq> CHR ''-''" for m
    using show_nat_hd [of m] is_digit_neq by (cases "show_nat m") auto
  then show ?thesis
    by (auto simp: scan_number_def show_int_def scan_int_part_show [OF assms]
        scan_tail_stops [OF assms] read_show_nat Let_def)
qed

lemma show_int_start:
  obtains c t where "show_int i = c # t" "c \<notin> {quote_char, CHR ''{'', CHR ''[''}"
proof (cases "i < 0")
  case True
  then show thesis using that by (simp add: show_int_def quote_char_def)
next
  case False
  obtain c t where "show_nat (nat i) = c # t" by (cases "show_nat (nat i)") auto
  with False show thesis
    using that show_nat_hd [of "nat i"] by (force simp: show_int_def is_digit_def quote_char_def)
qed

text \<open>The separators the sources use: a comma or a colon, then whitespace.\<close>

definition seps_ok :: "string \<Rightarrow> string \<Rightarrow> bool" where
  "seps_ok isep ksep \<longleftrightarrow>
     (\<exists>w. isep = CHR '','' # w \<and> list_all json_space w) \<and>
     (\<exists>w. ksep = CHR '':'' # w \<and> list_all json_space w)"

lemma seps_ok_used: "seps_ok '', '' '': ''" "seps_ok '','' '':''"
  by (simp_all add: seps_ok_def json_space_def)

lemma ws_skip: "list_all json_space w \<Longrightarrow> ws (w @ s) = ws s"
  by (induction w) (auto simp: ws_def)

lemma ws_id: "s = [] \<or> \<not> json_space (hd s) \<Longrightarrow> ws s = s"
  by (cases s) (auto simp: ws_def)

definition value_start :: "char \<Rightarrow> bool" where
  "value_start c \<longleftrightarrow> is_digit c \<or> c \<in> {CHR ''-'', CHR ''n'', CHR ''t'', CHR ''f'', quote_char,
     CHR ''['', CHR ''{''}"

lemma value_start_props:
  "value_start c \<Longrightarrow> \<not> json_space c \<and> c \<noteq> CHR '']'' \<and> c \<noteq> CHR ''}''"
  by (auto simp: value_start_def is_digit_def json_space_def quote_char_def Let_def)

lemma dumps_start:
  assumes "json_value v"
  obtains c t where "dumps_with isep ksep v = c # t" "value_start c"
proof -
  have "dumps_with isep ksep v \<noteq> [] \<and> value_start (hd (dumps_with isep ksep v))"
    using assms show_nat_hd
    by (cases v) (auto simp: value_start_def quoted_def show_int_def)
  then show thesis using that by (cases "dumps_with isep ksep v") auto
qed

lemma ws_dumps: "json_value v \<Longrightarrow> ws (dumps_with isep ksep v @ r) = dumps_with isep ksep v @ r"
  by (rule dumps_start [of v isep ksep]) (auto intro!: ws_id dest: value_start_props)

lemma expect_dumps:
  "json_value v \<Longrightarrow> expect (CHR '']'') (dumps_with isep ksep v @ r) = None"
  by (rule dumps_start [of v isep ksep]) (auto simp: expect_def dest: value_start_props)

lemma expect_simps [simp]:
  "expect c (c # t) = Some t"
  "d \<noteq> c \<Longrightarrow> expect c (d # t) = None"
  by (simp_all add: expect_def)

lemma ws_simps [simp]:
  "ws (CHR '','' # r) = CHR '','' # r" "ws (CHR '']'' # r) = CHR '']'' # r"
  "ws (CHR ''}'' # r) = CHR ''}'' # r" "ws (CHR '':'' # r) = CHR '':'' # r"
  "ws (quote_char # r) = quote_char # r"
  by (simp_all add: ws_def json_space_def quote_char_def)

text \<open>One printed value is read back, whatever admissible text follows.\<close>

definition reads_back :: "string \<Rightarrow> string \<Rightarrow> pyval \<Rightarrow> bool" where
  "reads_back isep ksep v \<longleftrightarrow> (\<forall>r f. stops r \<longrightarrow> 2 * length (dumps_with isep ksep v @ r) < f \<longrightarrow>
     p_value f (dumps_with isep ksep v @ r) = Some (v, r))"

lemma reads_backD:
  "reads_back isep ksep v \<Longrightarrow> stops r \<Longrightarrow> 2 * length (dumps_with isep ksep v @ r) < f \<Longrightarrow>
    p_value f (dumps_with isep ksep v @ r) = Some (v, r)"
  by (auto simp: reads_back_def)

lemma reads_backI:
  assumes "\<And>r g. stops r \<Longrightarrow> 2 * length (dumps_with isep ksep v @ r) \<le> g \<Longrightarrow>
    p_value (Suc g) (dumps_with isep ksep v @ r) = Some (v, r)"
  shows "reads_back isep ksep v"
  unfolding reads_back_def
proof (intro allI impI)
  fix r f
  assume "stops r" and "2 * length (dumps_with isep ksep v @ r) < f"
  then show "p_value f (dumps_with isep ksep v @ r) = Some (v, r)"
    using assms [of r "f - 1"] by (cases f) auto
qed

lemma p_items_join:
  assumes "seps_ok isep ksep" and "vs \<noteq> []"
    and "\<And>v. v \<in> set vs \<Longrightarrow> json_value v \<and> reads_back isep ksep v"
    and "2 * length (join isep (map (dumps_with isep ksep) vs) @ CHR '']'' # r) + 1 < f"
  shows "p_items f (join isep (map (dumps_with isep ksep) vs) @ CHR '']'' # r) = Some (vs, r)"
  using assms(2-4)
proof (induction vs arbitrary: f rule: list_nonempty_induct)
  case (single v)
  then obtain g where f: "f = Suc g" by (cases f) auto
  have "p_value g (dumps_with isep ksep v @ CHR '']'' # r) = Some (v, CHR '']'' # r)"
    using single f by (intro reads_backD) auto
  then show ?case using f by simp
next
  case (cons v vs)
  obtain w where w: "isep = CHR '','' # w" "list_all json_space w"
    using assms(1) by (auto simp: seps_ok_def)
  obtain v' vs' where vs: "vs = v' # vs'" using cons.hyps by (cases vs) auto
  let ?tl = "join isep (map (dumps_with isep ksep) vs) @ CHR '']'' # r"
  from cons.prems obtain g where f: "f = Suc g" by (cases f) auto
  have layout: "join isep (map (dumps_with isep ksep) (v # vs)) @ CHR '']'' # r
      = dumps_with isep ksep v @ CHR '','' # w @ ?tl"
    using w vs by simp
  have v: "p_value g (dumps_with isep ksep v @ CHR '','' # w @ ?tl) = Some (v, CHR '','' # w @ ?tl)"
    using cons.prems f unfolding layout by (intro reads_backD) auto
  have "ws ?tl = ?tl"
  proof -
    obtain u where "?tl = dumps_with isep ksep v' @ u"
      using vs by (cases vs') auto
    then show ?thesis using ws_dumps [of v' isep ksep u] cons.prems vs by simp
  qed
  moreover have "p_items g ?tl = Some (vs, r)"
    using cons.prems f unfolding layout by (intro cons.IH) auto
  ultimately show ?case
    unfolding layout f using v w by (simp add: ws_skip)
qed

lemma p_members_join:
  assumes "seps_ok isep ksep" and "kvs \<noteq> []"
    and "\<And>k v. (k, v) \<in> set kvs \<Longrightarrow> json_value v \<and> reads_back isep ksep v"
    and "2 * length (join isep (map (\<lambda>(k, v). quoted k @ ksep @ dumps_with isep ksep v) kvs)
           @ CHR ''}'' # r) + 1 < f"
  shows "p_members f (join isep (map (\<lambda>(k, v). quoted k @ ksep @ dumps_with isep ksep v) kvs)
           @ CHR ''}'' # r) = Some (kvs, r)"
  using assms(2-4)
proof (induction kvs arbitrary: f rule: list_nonempty_induct)
  case (single kv)
  obtain k v where kv: "kv = (k, v)" by (cases kv)
  obtain w' where w': "ksep = CHR '':'' # w'" "list_all json_space w'"
    using assms(1) by (auto simp: seps_ok_def)
  from single obtain g where f: "f = Suc g" by (cases f) auto
  have v: "p_value g (dumps_with isep ksep v @ CHR ''}'' # r) = Some (v, CHR ''}'' # r)"
    using single f kv by (intro reads_backD) auto
  have "json_value v" using single kv by simp
  then show ?case using v w' kv
    unfolding f by (simp add: quoted_def scan_quoted ws_skip ws_dumps)
next
  case (cons kv kvs)
  obtain k v where kv: "kv = (k, v)" by (cases kv)
  obtain w w' where w: "isep = CHR '','' # w" "list_all json_space w"
    and w': "ksep = CHR '':'' # w'" "list_all json_space w'"
    using assms(1) by (auto simp: seps_ok_def)
  obtain kv' kvs' where kvs: "kvs = kv' # kvs'" using cons.hyps by (cases kvs) auto
  let ?m = "\<lambda>(k, v). quoted k @ ksep @ dumps_with isep ksep v"
  let ?tl = "join isep (map ?m kvs) @ CHR ''}'' # r"
  from cons.prems obtain g where f: "f = Suc g" by (cases f) auto
  have layout: "join isep (map ?m (kv # kvs)) @ CHR ''}'' # r
      = quoted k @ ksep @ dumps_with isep ksep v @ CHR '','' # w @ ?tl"
    using w kv kvs by simp
  have v: "p_value g (dumps_with isep ksep v @ CHR '','' # w @ ?tl) = Some (v, CHR '','' # w @ ?tl)"
    using cons.prems kv f unfolding layout by (intro reads_backD) auto
  have "ws ?tl = ?tl"
  proof -
    obtain u where "?tl = quote_char # u"
      using kvs by (cases kvs'; cases kv') (auto simp: quoted_def)
    then show ?thesis by simp
  qed
  moreover have "p_members g ?tl = Some (kvs, r)"
    using cons.prems f unfolding layout by (intro cons.IH) auto
  moreover have "json_value v" using cons.prems(1) [of k v] kv by simp
  ultimately show ?case
    unfolding layout f using v w w' kv by (simp add: quoted_def scan_quoted ws_skip ws_dumps)
qed

lemma reads_back_value:
  assumes "seps_ok isep ksep" and "json_value v"
  shows "reads_back isep ksep v"
  using assms(2)
proof (induction v)
  case (PList vs)
  show ?case
  proof (cases "vs = []")
    case True
    then show ?thesis by (intro reads_backI) (simp add: quote_char_def)
  next
    case False
    have vs: "json_value v \<and> reads_back isep ksep v" if "v \<in> set vs" for v
      using PList that by (auto simp: list_all_iff)
    show ?thesis
    proof (rule reads_backI)
      fix r g
      assume g: "2 * length (dumps_with isep ksep (PList vs) @ r) \<le> g"
      let ?t = "join isep (map (dumps_with isep ksep) vs) @ CHR '']'' # r"
      obtain v vs' u where "vs = v # vs'" and u: "?t = dumps_with isep ksep v @ u"
        using False by (cases vs; cases "tl vs") auto
      then have "ws ?t = ?t" "expect (CHR '']'') ?t = None"
        using ws_dumps [of v isep ksep u] expect_dumps [of v isep ksep u] vs [of v] by auto
      moreover have "p_items g ?t = Some (vs, r)"
        using g by (intro p_items_join [OF assms(1) False vs]) auto
      ultimately show "p_value (Suc g) (dumps_with isep ksep (PList vs) @ r) = Some (PList vs, r)"
        by (simp add: quote_char_def)
    qed
  qed
next
  case (PDict kvs)
  show ?case
  proof (cases "kvs = []")
    case True
    then show ?thesis by (intro reads_backI) (simp add: quote_char_def)
  next
    case False
    have kvs: "json_value v \<and> reads_back isep ksep v" if "(k, v) \<in> set kvs" for k v
      using PDict that by (force simp: list_all_iff)
    show ?thesis
    proof (rule reads_backI)
      fix r g
      assume g: "2 * length (dumps_with isep ksep (PDict kvs) @ r) \<le> g"
      let ?t = "join isep (map (\<lambda>(k, v). quoted k @ ksep @ dumps_with isep ksep v) kvs)
        @ CHR ''}'' # r"
      obtain u where u: "?t = quote_char # u"
        using False by (cases kvs; cases "tl kvs") (auto simp: quoted_def)
      then have "expect (CHR ''}'') ?t = None" "ws ?t = ?t"
        by (simp add: quote_char_def, simp only: u ws_simps)
      moreover have "p_members g ?t = Some (kvs, r)"
        using g by (intro p_members_join [OF assms(1) False kvs]) auto
      moreover have "dict_of kvs = kvs" using PDict.prems by (simp add: dict_of_distinct)
      ultimately show "p_value (Suc g) (dumps_with isep ksep (PDict kvs) @ r) = Some (PDict kvs, r)"
        by (simp add: quote_char_def)
    qed
  qed
next
  case (PInt i)
  obtain c t where c: "show_int i = c # t" "c \<notin> {quote_char, CHR ''{'', CHR ''[''}"
    by (rule show_int_start)
  then have "p_value (Suc g) (show_int i @ r) = scan_number (show_int i @ r)" if "stops r" for r g
    using scan_number_show [OF that, of i] by simp
  then show ?case by (intro reads_backI) (simp add: scan_number_show)
next
  case (PStr s)
  show ?case by (intro reads_backI) (simp add: quoted_def scan_quoted)
qed (auto intro!: reads_backI simp: quote_char_def scan_number_def scan_int_part_def is_digit_def
      scan_const_def starts_with_def)

theorem loads_dumps_with:
  assumes "seps_ok isep ksep" and "json_value v"
  shows "loads (dumps_with isep ksep v) = Some v"
proof -
  have "p_value (2 * length (dumps_with isep ksep v) + 2) (dumps_with isep ksep v) = Some (v, [])"
    using reads_backD [OF reads_back_value [OF assms], of "[]" "2 * length (dumps_with isep ksep v) + 2"]
    by (simp del: p_value.simps)
  moreover have "ws (dumps_with isep ksep v) = dumps_with isep ksep v"
    using ws_dumps [OF assms(2), of isep ksep "[]"] by simp
  moreover have "ws [] = []" by (simp add: ws_def)
  ultimately show ?thesis by (simp add: loads_def del: p_value.simps)
qed

lemmas loads_dumps = loads_dumps_with [OF seps_ok_used(1)]

end
