(* ===== verification/Redis.thy ===== *)
theory Redis
  imports Py_Text
begin

text \<open>
  The Redis server as the sources see it. The server is not part of the repository, so its commands
  are parameters: a record of functions over an abstract server state, handed to every definition
  that talks to Redis, as the sources hand around their \<open>redis\<close> client. What the sources rely on is
  stated in two locales over that record, one for the list and sorted-set commands behind the job
  queues and one for string keys with expiry; each law is the documented behaviour of the command
  at the arguments the sources use.

  Commands on string keys may raise \<open>RedisError\<close> (the value \<open>None\<close>), because callers catch it. The
  queue commands return normally; a connection failure there ends the worker process.

  The last section instantiates both locales by a store that implements the commands, which shows
  that the laws can hold together and lets concrete runs be evaluated.
\<close>

section \<open>Commands\<close>

record 'r redis_queues =
  lpush :: "string \<Rightarrow> string \<Rightarrow> 'r \<Rightarrow> 'r"
  lrem :: "string \<Rightarrow> string \<Rightarrow> 'r \<Rightarrow> int \<times> 'r"
  rpop :: "string \<Rightarrow> 'r \<Rightarrow> string option \<times> 'r"
  brpoplpush :: "string \<Rightarrow> string \<Rightarrow> 'r \<Rightarrow> string option \<times> 'r"
  lrange :: "string \<Rightarrow> int \<Rightarrow> int \<Rightarrow> 'r \<Rightarrow> string list"
  zadd :: "string \<Rightarrow> string \<Rightarrow> time \<Rightarrow> 'r \<Rightarrow> 'r"
  zrem :: "string \<Rightarrow> string \<Rightarrow> 'r \<Rightarrow> int \<times> 'r"
  zrangebyscore :: "string \<Rightarrow> time \<Rightarrow> time \<Rightarrow> 'r \<Rightarrow> string list"

text \<open>
  \<open>lrem\<close> is \<open>LREM key 1 value\<close>, the only count the sources pass. String commands take the server's
  clock as their first argument; \<open>set_key\<close> takes the \<open>nx\<close> flag and the \<open>ex\<close> seconds. \<open>scan_keys\<close> lists
  the keys that match a glob pattern; nothing is assumed of it.
\<close>

record 'r redis_keys =
  get_key :: "time \<Rightarrow> string \<Rightarrow> 'r \<Rightarrow> string option option"
  set_key :: "time \<Rightarrow> string \<Rightarrow> string \<Rightarrow> bool \<Rightarrow> int \<Rightarrow> 'r \<Rightarrow> (bool \<times> 'r) option"
  incr_key :: "time \<Rightarrow> string \<Rightarrow> 'r \<Rightarrow> (int \<times> 'r) option"
  expire_key :: "time \<Rightarrow> string \<Rightarrow> int \<Rightarrow> 'r \<Rightarrow> 'r option"
  delete_key :: "time \<Rightarrow> string \<Rightarrow> 'r \<Rightarrow> 'r option"
  exists_key :: "time \<Rightarrow> string \<Rightarrow> 'r \<Rightarrow> bool option"
  scan_keys :: "time \<Rightarrow> string \<Rightarrow> 'r \<Rightarrow> string list option"
  delete_keys :: "time \<Rightarrow> string list \<Rightarrow> 'r \<Rightarrow> (int \<times> 'r) option"

section \<open>Lists and sorted sets\<close>

text \<open>
  \<open>lst r k\<close> is the list stored at \<open>k\<close>, leftmost element first; \<open>zst r k\<close> maps the members of the
  sorted set at \<open>k\<close> to their scores. No command touches another key.
\<close>

locale redis_lists =
  fixes R :: "('r, 'm) redis_queues_scheme"
    and lst :: "'r \<Rightarrow> string \<Rightarrow> string list"
    and zst :: "'r \<Rightarrow> string \<Rightarrow> string \<rightharpoonup> time"
  assumes lst_lpush: "lst (lpush R k v r) = (lst r)(k := v # lst r k)"
    and zst_lpush: "zst (lpush R k v r) = zst r"
    and lrem_count: "fst (lrem R k v r) = (if v \<in> set (lst r k) then 1 else 0)"
    and lst_lrem: "lst (snd (lrem R k v r)) = (lst r)(k := remove1 v (lst r k))"
    and zst_lrem: "zst (snd (lrem R k v r)) = zst r"
    and rpop_result: "fst (rpop R k r) = (if lst r k = [] then None else Some (last (lst r k)))"
    and lst_rpop: "lst (snd (rpop R k r)) = (lst r)(k := butlast (lst r k))"
    and zst_rpop: "zst (snd (rpop R k r)) = zst r"
    and brpoplpush_result:
      "fst (brpoplpush R k k' r) = (if lst r k = [] then None else Some (last (lst r k)))"
    and lst_brpoplpush: "k \<noteq> k' \<Longrightarrow> lst (snd (brpoplpush R k k' r)) =
      (if lst r k = [] then lst r
       else (lst r)(k := butlast (lst r k), k' := last (lst r k) # lst r k'))"
    and zst_brpoplpush: "zst (snd (brpoplpush R k k' r)) = zst r"
    and lrange_all: "lrange R k 0 (-1) r = lst r k"
    and lrange_prefix: "0 \<le> n \<Longrightarrow> lrange R k 0 n r = take (nat (n + 1)) (lst r k)"
    and zst_zadd: "zst (zadd R k m s r) = (zst r)(k := (zst r k)(m \<mapsto> s))"
    and lst_zadd: "lst (zadd R k m s r) = lst r"
    and zrem_count: "fst (zrem R k m r) = (if zst r k m = None then 0 else 1)"
    and zst_zrem: "zst (snd (zrem R k m r)) = (zst r)(k := (zst r k)(m := None))"
    and lst_zrem: "lst (snd (zrem R k m r)) = lst r"
    and zrangebyscore_set: "set (zrangebyscore R k lo hi r) =
      {m. \<exists>s. zst r k m = Some s \<and> lo \<le> s \<and> s \<le> hi}"
    and zrangebyscore_distinct: "distinct (zrangebyscore R k lo hi r)"
    and zrangebyscore_sorted:
      "sorted (map (\<lambda>m. the (zst r k m)) (zrangebyscore R k lo hi r))"
    and zst_finite: "finite (dom (zst r k))"
begin

lemmas lst_simps = lst_lpush lst_lrem lst_rpop lst_zadd lst_zrem
lemmas zst_simps = zst_lpush zst_lrem zst_rpop zst_brpoplpush zst_zadd zst_zrem
lemmas counts = lrem_count zrem_count

text \<open>Removing an element that is there and pushing another keeps the number of elements.\<close>

lemma lrem_lpush_length:
  assumes "v \<in> set (lst r k)"
  shows "length (lst (lpush R k w (snd (lrem R k v r))) k) = length (lst r k)"
  using assms by (simp add: lst_simps length_remove1_mem)

end

section \<open>String keys with expiry\<close>

text \<open>
  \<open>entry r k\<close> is the value stored at \<open>k\<close> with its deadline, if it has one; a value whose deadline
  has passed is not visible. \<open>alive\<close> reads the value visible at an instant.
\<close>

type_synonym entries = "string \<Rightarrow> (string \<times> time option) option"

definition alive :: "entries \<Rightarrow> time \<Rightarrow> string \<Rightarrow> (string \<times> time option) option" where
  "alive e now k = (case e k of
       None \<Rightarrow> None
     | Some (v, None) \<Rightarrow> Some (v, None)
     | Some (v, Some d) \<Rightarrow> if now < d then Some (v, Some d) else None)"

locale redis_strings =
  fixes K :: "('r, 'm) redis_keys_scheme"
    and entry :: "'r \<Rightarrow> entries"
  assumes get_result: "get_key K now k r = Some x \<Longrightarrow> x = map_option fst (alive (entry r) now k)"
    and set_plain: "set_key K now k v False ex r = Some (b, r') \<Longrightarrow>
      b \<and> entry r' = (entry r)(k := Some (v, Some (now + ex * second)))"
    and set_nx: "set_key K now k v True ex r = Some (b, r') \<Longrightarrow>
      (if alive (entry r) now k = None
       then b \<and> entry r' = (entry r)(k := Some (v, Some (now + ex * second)))
       else \<not> b \<and> entry r' = entry r)"
    and incr_result: "incr_key K now k r = Some (n, r') \<Longrightarrow>
      (case alive (entry r) now k of
         None \<Rightarrow> n = 1 \<and> entry r' = (entry r)(k := Some (show_int 1, None))
       | Some (v, d) \<Rightarrow> (\<exists>i. py_int v = Some i \<and> n = i + 1
           \<and> entry r' = (entry r)(k := Some (show_int n, d))))"
    and expire_result: "expire_key K now k ex r = Some r' \<Longrightarrow>
      entry r' = (case alive (entry r) now k of
         None \<Rightarrow> entry r
       | Some (v, d) \<Rightarrow> (entry r)(k := Some (v, Some (now + ex * second))))"
    and delete_result: "delete_key K now k r = Some r' \<Longrightarrow> entry r' = (entry r)(k := None)"
    and exists_result: "exists_key K now k r = Some b \<Longrightarrow> b \<longleftrightarrow> alive (entry r) now k \<noteq> None"
    and delete_many: "delete_keys K now ks r = Some (n, r') \<Longrightarrow>
      entry r' = (\<lambda>k. if k \<in> set ks then None else entry r k)"
begin

lemma alive_set: "set_key K now k v False ex r = Some (b, r') \<Longrightarrow>
    alive (entry r') t k = (if t < now + ex * second then Some (v, Some (now + ex * second)) else None)"
  using set_plain by (auto simp: alive_def)

text \<open>A key taken with \<open>nx\<close> cannot be taken again before its deadline.\<close>

lemma nx_exclusive:
  assumes "set_key K now k v True ex r = Some (True, r')"
    and "t < now + ex * second" and "set_key K t k v' True ex' r' = Some (b, r'')"
  shows "\<not> b \<and> entry r'' = entry r'"
proof -
  have "alive (entry r') t k \<noteq> None"
    using set_nx [OF assms(1)] assms(2) by (auto simp: alive_def split: if_splits)
  then show ?thesis using set_nx [OF assms(3)] by (auto split: if_splits)
qed

end

section \<open>A store that implements the commands\<close>

record store =
  st_lists :: "string \<Rightarrow> string list"
  st_zsets :: "string \<Rightarrow> (string \<times> time) list"
  st_entries :: entries

definition empty_store :: store where
  "empty_store = \<lparr>st_lists = (\<lambda>_. []), st_zsets = (\<lambda>_. []), st_entries = (\<lambda>_. None)\<rparr>"

definition put_list :: "string \<Rightarrow> string list \<Rightarrow> store \<Rightarrow> store" where
  "put_list k xs r = r\<lparr>st_lists := (st_lists r)(k := xs)\<rparr>"

definition put_zset :: "string \<Rightarrow> (string \<times> time) list \<Rightarrow> store \<Rightarrow> store" where
  "put_zset k z r = r\<lparr>st_zsets := (st_zsets r)(k := z)\<rparr>"

definition put_entry :: "string \<Rightarrow> (string \<times> time option) option \<Rightarrow> store \<Rightarrow> store" where
  "put_entry k x r = r\<lparr>st_entries := (st_entries r)(k := x)\<rparr>"

lemma put_simps [simp]:
  "st_lists (put_list k xs r) = (st_lists r)(k := xs)" "st_zsets (put_list k xs r) = st_zsets r"
  "st_entries (put_list k xs r) = st_entries r"
  "st_lists (put_zset k z r) = st_lists r" "st_zsets (put_zset k z r) = (st_zsets r)(k := z)"
  "st_entries (put_zset k z r) = st_entries r"
  "st_lists (put_entry k x r) = st_lists r" "st_zsets (put_entry k x r) = st_zsets r"
  "st_entries (put_entry k x r) = (st_entries r)(k := x)"
  by (simp_all add: put_list_def put_zset_def put_entry_def)

definition zrange :: "(string \<times> time) list \<Rightarrow> time \<Rightarrow> time \<Rightarrow> string list" where
  "zrange z lo hi =
     (let score = (\<lambda>m. the (map_of z m)) in
      sort_key score (filter (\<lambda>m. lo \<le> score m \<and> score m \<le> hi) (remdups (map fst z))))"

definition store_queues :: "store redis_queues" where
  "store_queues = \<lparr>
     lpush = (\<lambda>k v r. put_list k (v # st_lists r k) r),
     lrem = (\<lambda>k v r. (if v \<in> set (st_lists r k) then 1 else 0,
                        put_list k (remove1 v (st_lists r k)) r)),
     rpop = (\<lambda>k r. (if st_lists r k = [] then None else Some (last (st_lists r k)),
                     put_list k (butlast (st_lists r k)) r)),
     brpoplpush = (\<lambda>k k' r. if st_lists r k = [] then (None, r)
        else (Some (last (st_lists r k)),
              put_list k' (last (st_lists r k) # st_lists r k')
                (put_list k (butlast (st_lists r k)) r))),
     lrange = (\<lambda>k a b r.
        let n = int (length (st_lists r k)); hi = (if b < 0 then n + b else b) in
        drop (nat a) (take (nat (hi + 1)) (st_lists r k))),
     zadd = (\<lambda>k m s r. put_zset k ((m, s) # st_zsets r k) r),
     zrem = (\<lambda>k m r. (if map_of (st_zsets r k) m = None then 0 else 1,
                        put_zset k (filter (\<lambda>x. fst x \<noteq> m) (st_zsets r k)) r)),
     zrangebyscore = (\<lambda>k lo hi r. zrange (st_zsets r k) lo hi)\<rparr>"

definition store_keys :: "store redis_keys" where
  "store_keys = \<lparr>
     get_key = (\<lambda>now k r. Some (map_option fst (alive (st_entries r) now k))),
     set_key = (\<lambda>now k v nx ex r.
        if nx \<and> alive (st_entries r) now k \<noteq> None then Some (False, r)
        else Some (True, put_entry k (Some (v, Some (now + ex * second))) r)),
     incr_key = (\<lambda>now k r. case alive (st_entries r) now k of
         None \<Rightarrow> Some (1, put_entry k (Some (show_int 1, None)) r)
       | Some (v, d) \<Rightarrow> (case py_int v of
             None \<Rightarrow> None
           | Some i \<Rightarrow> Some (i + 1, put_entry k (Some (show_int (i + 1), d)) r))),
     expire_key = (\<lambda>now k ex r. case alive (st_entries r) now k of
         None \<Rightarrow> Some r
       | Some (v, d) \<Rightarrow> Some (put_entry k (Some (v, Some (now + ex * second))) r)),
     delete_key = (\<lambda>now k r. Some (put_entry k None r)),
     exists_key = (\<lambda>now k r. Some (alive (st_entries r) now k \<noteq> None)),
     scan_keys = (\<lambda>now p r. Some []),
     delete_keys = (\<lambda>now ks r. Some (int (length (filter (\<lambda>k. alive (st_entries r) now k \<noteq> None) (remdups ks))),
        r\<lparr>st_entries := (\<lambda>k. if k \<in> set ks then None else st_entries r k)\<rparr>))\<rparr>"

lemma store_keys_simps [simp]:
  "get_key store_keys now k r = Some (map_option fst (alive (st_entries r) now k))"
  "set_key store_keys now k v nx ex r =
     (if nx \<and> alive (st_entries r) now k \<noteq> None then Some (False, r)
      else Some (True, put_entry k (Some (v, Some (now + ex * second))) r))"
  "incr_key store_keys now k r = (case alive (st_entries r) now k of
       None \<Rightarrow> Some (1, put_entry k (Some (show_int 1, None)) r)
     | Some (v, d) \<Rightarrow> (case py_int v of
           None \<Rightarrow> None
         | Some i \<Rightarrow> Some (i + 1, put_entry k (Some (show_int (i + 1), d)) r)))"
  "expire_key store_keys now k ex r = (case alive (st_entries r) now k of
       None \<Rightarrow> Some r
     | Some (v, d) \<Rightarrow> Some (put_entry k (Some (v, Some (now + ex * second))) r))"
  "delete_key store_keys now k r = Some (put_entry k None r)"
  "exists_key store_keys now k r = Some (alive (st_entries r) now k \<noteq> None)"
  by (simp_all add: store_keys_def)

lemma empty_store_simps [simp]:
  "st_lists empty_store = (\<lambda>_. [])" "st_zsets empty_store = (\<lambda>_. [])"
  "st_entries empty_store = (\<lambda>_. None)"
  by (simp_all add: empty_store_def)

lemma alive_empty [simp]: "alive (\<lambda>_. None) now k = None"
  by (simp add: alive_def)

lemma map_of_filter_fst: "map_of (filter (\<lambda>x. fst x \<noteq> m) z) = (map_of z)(m := None)"
  by (induction z) auto

lemma map_of_image_fst: "m \<in> fst ` set z \<longleftrightarrow> (\<exists>s. map_of z m = Some s)"
  by (metis domIff dom_map_of_conv_image_fst not_None_eq)

interpretation store_lists: redis_lists store_queues st_lists "\<lambda>r k. map_of (st_zsets r k)"
proof
  fix k lo hi and r :: store
  show "set (zrangebyscore store_queues k lo hi r) =
      {m. \<exists>s. map_of (st_zsets r k) m = Some s \<and> lo \<le> s \<and> s \<le> hi}"
    by (auto simp: store_queues_def zrange_def Let_def map_of_image_fst)
  show "distinct (zrangebyscore store_queues k lo hi r)"
    by (simp add: store_queues_def zrange_def Let_def)
  show "sorted (map (\<lambda>m. the (map_of (st_zsets r k) m)) (zrangebyscore store_queues k lo hi r))"
    by (simp add: store_queues_def zrange_def Let_def)
qed (auto simp: store_queues_def Let_def finite_dom_map_of map_of_filter_fst fun_eq_iff)

interpretation store_strings: redis_strings store_keys st_entries
  by unfold_locales
    (auto simp: store_keys_def split: option.splits if_splits prod.splits)

end
