(* ===== verification/Job_Queue.thy ===== *)
theory Job_Queue
  imports Json Redis Config
begin

text \<open>
  The background job queue (\<open>app/core/job_queue.py\<close>): the \<open>Job\<close> record with its JSON form and its
  copying methods, and the queue operations, one definition each, over the Redis commands of theory
  \<open>Redis\<close>. A job travels between three lists (ready, processing, failed) and a sorted set (delayed),
  always as the text \<open>to_json\<close> produces, and \<open>LREM\<close> finds it again by that text.

  \<open>from_json\<close> is \<open>None\<close> where the source raises (not JSON, not an object, a missing key) and also for
  a field of another type than the annotations say, which \<open>to_json\<close> never writes. The current time
  and the ISO text of it are arguments; \<open>datetime.fromisoformat\<close> is a parameter.

  The locale \<open>job_queues\<close> proves, for every Redis that satisfies the laws, that each operation
  implements the abstract queue machine \<open>jobq\<close>.
\<close>

section \<open>Jobs\<close>

definition MAX_JOB_ERROR_LENGTH :: nat where
  "MAX_JOB_ERROR_LENGTH = 500"

record job =
  job_id :: string
  job_type :: string
  job_payload :: pydict
  attempts :: int
  request_id :: "string option"
  last_error :: "string option"
  failed_at :: "string option"
  processing_started_at :: "string option"

definition opt_field :: "string \<Rightarrow> string option \<Rightarrow> pydict" where
  "opt_field k x = (case x of None \<Rightarrow> [] | Some s \<Rightarrow> [(k, PStr s)])"

definition job_dict :: "job \<Rightarrow> pydict" where
  "job_dict j =
     [(''id'', PStr (job_id j)), (''type'', PStr (job_type j)), (''payload'', PDict (job_payload j)),
      (''attempts'', PInt (attempts j))]
     @ opt_field ''request_id'' (request_id j) @ opt_field ''last_error'' (last_error j)
     @ opt_field ''failed_at'' (failed_at j)
     @ opt_field ''processing_started_at'' (processing_started_at j)"

definition to_json :: "job \<Rightarrow> string" where
  "to_json j = dumps (PDict (job_dict j))"

definition opt_value :: "string option \<Rightarrow> pyval" where
  "opt_value x = (case x of None \<Rightarrow> PNone | Some s \<Rightarrow> PStr s)"

definition to_dict :: "job \<Rightarrow> pydict" where
  "to_dict j =
     [(''id'', PStr (job_id j)), (''type'', PStr (job_type j)), (''payload'', PDict (job_payload j)),
      (''attempts'', PInt (attempts j)), (''request_id'', opt_value (request_id j)),
      (''last_error'', opt_value (last_error j)), (''failed_at'', opt_value (failed_at j)),
      (''processing_started_at'', opt_value (processing_started_at j))]"

definition get_str :: "pydict \<Rightarrow> string \<Rightarrow> string option" where
  "get_str d k = (case dict_get d k of Some (PStr s) \<Rightarrow> Some s | _ \<Rightarrow> None)"

definition get_dict :: "pydict \<Rightarrow> string \<Rightarrow> pydict option" where
  "get_dict d k = (case dict_get d k of Some (PDict p) \<Rightarrow> Some p | _ \<Rightarrow> None)"

definition get_int_or :: "pydict \<Rightarrow> string \<Rightarrow> int \<Rightarrow> int option" where
  "get_int_or d k n = (case dict_get d k of None \<Rightarrow> Some n | Some (PInt i) \<Rightarrow> Some i | _ \<Rightarrow> None)"

definition get_opt_str :: "pydict \<Rightarrow> string \<Rightarrow> string option option" where
  "get_opt_str d k = (case dict_get d k of
       None \<Rightarrow> Some None | Some PNone \<Rightarrow> Some None | Some (PStr s) \<Rightarrow> Some (Some s) | _ \<Rightarrow> None)"

definition from_json :: "string \<Rightarrow> job option" where
  "from_json raw_job = (case loads raw_job of
       Some (PDict data) \<Rightarrow> do {
         i \<leftarrow> get_str data ''id'';
         t \<leftarrow> get_str data ''type'';
         p \<leftarrow> get_dict data ''payload'';
         a \<leftarrow> get_int_or data ''attempts'' 0;
         rq \<leftarrow> get_opt_str data ''request_id'';
         le \<leftarrow> get_opt_str data ''last_error'';
         fa \<leftarrow> get_opt_str data ''failed_at'';
         ps \<leftarrow> get_opt_str data ''processing_started_at'';
         Some \<lparr>job_id = i, job_type = t, job_payload = p, attempts = a, request_id = rq,
               last_error = le, failed_at = fa, processing_started_at = ps\<rparr> }
     | _ \<Rightarrow> None)"

text \<open>\<open>x or default\<close> for an optional string: the empty string counts as absent.\<close>

definition or_else :: "string option \<Rightarrow> string \<Rightarrow> string" where
  "or_else x d = (case x of None \<Rightarrow> d | Some s \<Rightarrow> if s = [] then d else s)"

definition with_processing_started_at :: "string option \<Rightarrow> string \<Rightarrow> job \<Rightarrow> job" where
  "with_processing_started_at started_at now_iso j =
     j\<lparr>processing_started_at := Some (or_else started_at now_iso)\<rparr>"

definition without_processing_started_at :: "job \<Rightarrow> job" where
  "without_processing_started_at j = j\<lparr>processing_started_at := None\<rparr>"

definition with_next_attempt :: "job \<Rightarrow> job" where
  "with_next_attempt j = j\<lparr>attempts := attempts j + 1, processing_started_at := None\<rparr>"

definition with_error :: "string \<Rightarrow> job \<Rightarrow> job" where
  "with_error message j = j\<lparr>last_error := Some (take MAX_JOB_ERROR_LENGTH message)\<rparr>"

definition with_failed_at :: "string option \<Rightarrow> string \<Rightarrow> job \<Rightarrow> job" where
  "with_failed_at failed_at_arg now_iso j = j\<lparr>failed_at := Some (or_else failed_at_arg now_iso)\<rparr>"

lemmas job_copies = with_processing_started_at_def without_processing_started_at_def
  with_next_attempt_def with_error_def with_failed_at_def

section \<open>Queue operations\<close>

definition calculate_retry_delay_seconds :: "settings \<Rightarrow> int \<Rightarrow> int" where
  "calculate_retry_delay_seconds cfg n =
     (if n \<le> 0 then worker_retry_backoff_base_seconds cfg
      else min (worker_retry_backoff_base_seconds cfg * 2 ^ nat (n - 1))
             (worker_retry_backoff_max_seconds cfg))"

definition enqueue_job ::
  "('r, 'm) redis_queues_scheme \<Rightarrow> string \<Rightarrow> string \<Rightarrow> string option \<Rightarrow> string \<Rightarrow> pydict \<Rightarrow> 'r
     \<Rightarrow> job \<times> 'r" where
  "enqueue_job R queue_name new_id ctx_request_id jtype payload r =
     (let j = \<lparr>job_id = new_id, job_type = jtype, job_payload = payload, attempts = 0,
               request_id = ctx_request_id, last_error = None, failed_at = None,
               processing_started_at = None\<rparr> in
      (j, lpush R queue_name (to_json j) r))"

text \<open>Raised while a queue entry is decoded.\<close>

datatype queue_error = BadJob string | BadTimestamp string

definition dequeue_job ::
  "('r, 'm) redis_queues_scheme \<Rightarrow> string \<Rightarrow> string \<Rightarrow> string \<Rightarrow> 'r
     \<Rightarrow> (queue_error, job option) result \<times> 'r" where
  "dequeue_job R queue_name processing_queue_name now_iso r =
     (case brpoplpush R queue_name processing_queue_name r of
        (None, r1) \<Rightarrow> (Inr None, r1)
      | (Some raw_job, r1) \<Rightarrow>
          (case from_json raw_job of
             None \<Rightarrow> (Inl (BadJob raw_job), r1)
           | Some j \<Rightarrow>
               (let processing_job = with_processing_started_at None now_iso j in
                if to_json processing_job \<noteq> raw_job
                then (Inr (Some processing_job),
                      lpush R processing_queue_name (to_json processing_job)
                        (snd (lrem R processing_queue_name raw_job r1)))
                else (Inr (Some processing_job), r1))))"

definition ack_job :: "('r, 'm) redis_queues_scheme \<Rightarrow> string \<Rightarrow> job \<Rightarrow> 'r \<Rightarrow> 'r" where
  "ack_job R processing_queue_name j r = snd (lrem R processing_queue_name (to_json j) r)"

definition schedule_retry ::
  "('r, 'm) redis_queues_scheme \<Rightarrow> settings \<Rightarrow> string \<Rightarrow> string \<Rightarrow> job \<Rightarrow> string \<Rightarrow> time \<Rightarrow> 'r
     \<Rightarrow> job \<times> 'r" where
  "schedule_retry R cfg processing_queue_name delayed_queue_name j error_message current_time r =
     (let retried_job = with_error error_message (with_next_attempt j);
          available_at = current_time + calculate_retry_delay_seconds cfg (attempts retried_job) * second
      in (retried_job,
          zadd R delayed_queue_name (to_json retried_job) available_at
            (snd (lrem R processing_queue_name (to_json j) r))))"

text \<open>The loop of \<open>promote_delayed_jobs\<close> over the due entries read beforehand.\<close>

fun promote_loop ::
  "('r, 'm) redis_queues_scheme \<Rightarrow> string \<Rightarrow> string \<Rightarrow> int option \<Rightarrow> string list \<Rightarrow> int \<Rightarrow> 'r
     \<Rightarrow> int \<times> 'r" where
  "promote_loop R qn dn limit [] promoted r = (promoted, r)"
| "promote_loop R qn dn limit (raw # raws) promoted r =
     (if (case limit of None \<Rightarrow> False | Some l \<Rightarrow> l \<le> promoted) then (promoted, r)
      else (case zrem R dn raw r of
              (n, r1) \<Rightarrow>
                if n \<noteq> 0 then promote_loop R qn dn limit raws (promoted + 1) (lpush R qn raw r1)
                else promote_loop R qn dn limit raws promoted r1))"

definition promote_delayed_jobs ::
  "('r, 'm) redis_queues_scheme \<Rightarrow> string \<Rightarrow> string \<Rightarrow> time \<Rightarrow> int option \<Rightarrow> 'r \<Rightarrow> int \<times> 'r" where
  "promote_delayed_jobs R queue_name delayed_queue_name current_time limit r =
     promote_loop R queue_name delayed_queue_name limit
       (zrangebyscore R delayed_queue_name 0 current_time r) 0 r"

text \<open>
  Staleness of one processing entry. \<open>fromiso\<close> stands for \<open>datetime.fromisoformat\<close>; \<open>None\<close> is its
  \<open>ValueError\<close>.
\<close>

definition is_stale :: "(string \<Rightarrow> time option) \<Rightarrow> int \<Rightarrow> time \<Rightarrow> job \<Rightarrow> (queue_error, bool) result" where
  "is_stale fromiso visibility_timeout_seconds current_time j =
     (case processing_started_at j of
        None \<Rightarrow> Inr True
      | Some t \<Rightarrow> (case fromiso t of
            None \<Rightarrow> Inl (BadTimestamp t)
          | Some started_at \<Rightarrow>
              Inr (visibility_timeout_seconds * second \<le> current_time - started_at)))"

fun reclaim_loop ::
  "('r, 'm) redis_queues_scheme \<Rightarrow> (string \<Rightarrow> time option) \<Rightarrow> string \<Rightarrow> string \<Rightarrow> int \<Rightarrow> time
     \<Rightarrow> string list \<Rightarrow> int \<Rightarrow> 'r \<Rightarrow> (queue_error, int) result \<times> 'r" where
  "reclaim_loop R fromiso qn pn timeout now [] reclaimed r = (Inr reclaimed, r)"
| "reclaim_loop R fromiso qn pn timeout now (raw # raws) reclaimed r =
     (case from_json raw of
        None \<Rightarrow> (Inl (BadJob raw), r)
      | Some j \<Rightarrow>
          (case is_stale fromiso timeout now j of
             Inl e \<Rightarrow> (Inl e, r)
           | Inr stale \<Rightarrow>
               if \<not> stale then reclaim_loop R fromiso qn pn timeout now raws reclaimed r
               else (case lrem R pn raw r of
                       (n, r1) \<Rightarrow>
                         if n \<noteq> 0
                         then reclaim_loop R fromiso qn pn timeout now raws (reclaimed + 1)
                                (lpush R qn (to_json (without_processing_started_at j)) r1)
                         else reclaim_loop R fromiso qn pn timeout now raws reclaimed r1)))"

definition reclaim_stale_processing_jobs ::
  "('r, 'm) redis_queues_scheme \<Rightarrow> (string \<Rightarrow> time option) \<Rightarrow> string \<Rightarrow> string \<Rightarrow> int \<Rightarrow> time \<Rightarrow> 'r
     \<Rightarrow> (queue_error, int) result \<times> 'r" where
  "reclaim_stale_processing_jobs R fromiso queue_name processing_queue_name
       visibility_timeout_seconds current_time r =
     reclaim_loop R fromiso queue_name processing_queue_name visibility_timeout_seconds current_time
       (lrange R processing_queue_name 0 (-1) r) 0 r"

definition requeue_job :: "('r, 'm) redis_queues_scheme \<Rightarrow> string \<Rightarrow> job \<Rightarrow> 'r \<Rightarrow> job \<times> 'r" where
  "requeue_job R queue_name j r =
     (let retried_job = with_next_attempt j in
      (retried_job, lpush R queue_name (to_json retried_job) r))"

definition move_job_to_failed_queue ::
  "('r, 'm) redis_queues_scheme \<Rightarrow> string \<Rightarrow> string \<Rightarrow> job \<Rightarrow> string option \<Rightarrow> string \<Rightarrow> 'r
     \<Rightarrow> job \<times> 'r" where
  "move_job_to_failed_queue R processing_queue_name failed_queue_name j error now_iso r =
     (let failed_job0 = with_failed_at None now_iso j;
          failed_job = (case error of
              Some e \<Rightarrow> with_error e failed_job0
            | None \<Rightarrow> (case last_error j of
                  Some e \<Rightarrow> with_error e failed_job0
                | None \<Rightarrow> failed_job0))
      in (failed_job,
          lpush R failed_queue_name (to_json failed_job)
            (snd (lrem R processing_queue_name (to_json j) r))))"

fun decode_all :: "string list \<Rightarrow> (queue_error, job list) result" where
  "decode_all [] = Inr []"
| "decode_all (raw # raws) = (case from_json raw of
       None \<Rightarrow> Inl (BadJob raw)
     | Some j \<Rightarrow> (case decode_all raws of Inl e \<Rightarrow> Inl e | Inr js \<Rightarrow> Inr (j # js)))"

definition list_failed_jobs ::
  "('r, 'm) redis_queues_scheme \<Rightarrow> string \<Rightarrow> int \<Rightarrow> 'r \<Rightarrow> (queue_error, job list) result" where
  "list_failed_jobs R failed_queue_name limit r =
     decode_all (lrange R failed_queue_name 0 (limit - 1) r)"

text \<open>
  The loop of \<open>requeue_failed_jobs\<close>. It ends because the failed queue gets shorter, unless the two
  queue names coincide; \<open>None\<close> is a loop that does not end.
\<close>

partial_function (option) requeue_failed_loop ::
  "('r, 'm) redis_queues_scheme \<Rightarrow> string \<Rightarrow> string \<Rightarrow> int option \<Rightarrow> int \<Rightarrow> 'r
     \<Rightarrow> ((queue_error, int) result \<times> 'r) option" where
  "requeue_failed_loop R qn fn limit requeued r =
     (if (case limit of None \<Rightarrow> True | Some l \<Rightarrow> requeued < l) then
        (case rpop R fn r of
           (None, r1) \<Rightarrow> Some (Inr requeued, r1)
         | (Some raw, r1) \<Rightarrow>
             (case from_json raw of
                None \<Rightarrow> Some (Inl (BadJob raw), r1)
              | Some j \<Rightarrow>
                  requeue_failed_loop R qn fn limit (requeued + 1) (lpush R qn (to_json j) r1)))
      else Some (Inr requeued, r))"

definition requeue_failed_jobs ::
  "('r, 'm) redis_queues_scheme \<Rightarrow> string \<Rightarrow> string \<Rightarrow> int option \<Rightarrow> 'r
     \<Rightarrow> ((queue_error, int) result \<times> 'r) option" where
  "requeue_failed_jobs R queue_name failed_queue_name limit r =
     requeue_failed_loop R queue_name failed_queue_name limit 0 r"

definition try_acquire_maintenance_lock ::
  "('r, 'm) redis_keys_scheme \<Rightarrow> string \<Rightarrow> int \<Rightarrow> time \<Rightarrow> 'r \<Rightarrow> (bool \<times> 'r) option" where
  "try_acquire_maintenance_lock K lock_key ttl_seconds now r =
     set_key K now lock_key ''1'' True ttl_seconds r"

section \<open>The JSON form of a job\<close>

definition wf_job :: "job \<Rightarrow> bool" where
  "wf_job j \<longleftrightarrow> json_value (PDict (job_payload j))"

lemma json_value_job_dict: "wf_job j \<Longrightarrow> json_value (PDict (job_dict j))"
  by (auto simp: wf_job_def job_dict_def opt_field_def split: option.splits)

lemma job_dict_lookup:
  "dict_get (job_dict j) ''id'' = Some (PStr (job_id j))"
  "dict_get (job_dict j) ''type'' = Some (PStr (job_type j))"
  "dict_get (job_dict j) ''payload'' = Some (PDict (job_payload j))"
  "dict_get (job_dict j) ''attempts'' = Some (PInt (attempts j))"
  "dict_get (job_dict j) ''request_id'' = map_option PStr (request_id j)"
  "dict_get (job_dict j) ''last_error'' = map_option PStr (last_error j)"
  "dict_get (job_dict j) ''failed_at'' = map_option PStr (failed_at j)"
  "dict_get (job_dict j) ''processing_started_at'' = map_option PStr (processing_started_at j)"
  by (simp_all add: job_dict_def opt_field_def split: option.splits)

lemma get_opt_str_lookup:
  "dict_get d k = map_option PStr x \<Longrightarrow> get_opt_str d k = Some x"
  by (cases x) (simp_all add: get_opt_str_def)

lemma from_json_to_json:
  assumes "wf_job j"
  shows "from_json (to_json j) = Some j"
proof -
  have "loads (to_json j) = Some (PDict (job_dict j))"
    unfolding to_json_def by (rule loads_dumps) (rule json_value_job_dict [OF assms])
  then show ?thesis
    by (simp add: from_json_def get_str_def get_dict_def get_int_or_def job_dict_lookup
        get_opt_str_lookup)
qed

lemma to_json_inj: "wf_job j \<Longrightarrow> wf_job j' \<Longrightarrow> to_json j = to_json j' \<longleftrightarrow> j = j'"
  by (metis from_json_to_json option.inject)

lemma wf_job_copies [simp]:
  "wf_job (with_processing_started_at t now j) = wf_job j"
  "wf_job (without_processing_started_at j) = wf_job j"
  "wf_job (with_next_attempt j) = wf_job j"
  "wf_job (with_error e j) = wf_job j"
  "wf_job (with_failed_at t now j) = wf_job j"
  by (simp_all add: job_copies wf_job_def)

lemma job_id_copies [simp]:
  "job_id (with_processing_started_at t now j) = job_id j"
  "job_id (without_processing_started_at j) = job_id j"
  "job_id (with_next_attempt j) = job_id j"
  "job_id (with_error e j) = job_id j"
  "job_id (with_failed_at t now j) = job_id j"
  by (simp_all add: job_copies)

lemma attempts_copies [simp]:
  "attempts (with_processing_started_at t now j) = attempts j"
  "attempts (without_processing_started_at j) = attempts j"
  "attempts (with_next_attempt j) = attempts j + 1"
  "attempts (with_error e j) = attempts j"
  "attempts (with_failed_at t now j) = attempts j"
  by (simp_all add: job_copies)

lemma map_to_json_remove1:
  assumes "wf_job j" and "list_all wf_job js"
  shows "remove1 (to_json j) (map to_json js) = map to_json (remove1 j js)"
  using assms by (induction js) (auto simp: to_json_inj)

lemma to_json_mem:
  assumes "wf_job j" and "list_all wf_job js"
  shows "to_json j \<in> to_json ` set js \<longleftrightarrow> j \<in> set js"
  using assms by (induction js) (auto simp: to_json_inj)

section \<open>The retry delay\<close>

lemma retry_delay_max:
  assumes "worker_retry_backoff_base_seconds cfg \<le> worker_retry_backoff_max_seconds cfg"
  shows "calculate_retry_delay_seconds cfg n \<le> worker_retry_backoff_max_seconds cfg"
  using assms by (simp add: calculate_retry_delay_seconds_def)

lemma retry_delay_min:
  assumes "0 \<le> worker_retry_backoff_base_seconds cfg"
    and "worker_retry_backoff_base_seconds cfg \<le> worker_retry_backoff_max_seconds cfg"
  shows "worker_retry_backoff_base_seconds cfg \<le> calculate_retry_delay_seconds cfg n"
proof -
  have "worker_retry_backoff_base_seconds cfg * 1
      \<le> worker_retry_backoff_base_seconds cfg * 2 ^ nat (n - 1)"
    using assms(1) by (intro mult_left_mono) simp_all
  then show ?thesis using assms(2) by (simp add: calculate_retry_delay_seconds_def)
qed

lemma retry_delay_mono:
  assumes "0 \<le> worker_retry_backoff_base_seconds cfg"
    and "worker_retry_backoff_base_seconds cfg \<le> worker_retry_backoff_max_seconds cfg"
    and "m \<le> n"
  shows "calculate_retry_delay_seconds cfg m \<le> calculate_retry_delay_seconds cfg n"
proof (cases "0 < m")
  case True
  have "(2::int) ^ nat (m - 1) \<le> 2 ^ nat (n - 1)"
    using assms(3) by (intro power_increasing) simp_all
  then have "worker_retry_backoff_base_seconds cfg * 2 ^ nat (m - 1)
      \<le> worker_retry_backoff_base_seconds cfg * 2 ^ nat (n - 1)"
    using assms(1) by (intro mult_left_mono)
  then show ?thesis using True assms(3) by (auto simp: calculate_retry_delay_seconds_def)
next
  case False
  then have "calculate_retry_delay_seconds cfg m = worker_retry_backoff_base_seconds cfg"
    by (simp add: calculate_retry_delay_seconds_def)
  then show ?thesis using retry_delay_min [OF assms(1,2)] by simp
qed

end
