(* ===== verification/Queue_Refinement.thy ===== *)
theory Queue_Refinement
  imports Job_Queue
begin

text \<open>
  What the job queue promises. \<open>jobq\<close> is the abstract machine: jobs that are ready, in work, delayed
  until an instant, or dead. \<open>represents\<close> relates it to the four Redis keys, which hold the JSON text
  of the jobs. The locale \<open>job_queues\<close> extends the Redis laws by pairwise different key names and
  shows, operation by operation, that the code of theory \<open>Job_Queue\<close> implements the machine.
  \<open>queue_history\<close> collects the states any interleaving of the operations reaches, together with the
  ids enqueued and the ids acknowledged; its invariant is that no job is lost and none is duplicated.
\<close>

section \<open>The abstract queue\<close>

record jobq =
  ready :: "job list"
  working :: "job list"
  delayed :: "job \<rightharpoonup> time"
  dead :: "job list"

definition empty_jobq :: jobq where
  "empty_jobq = \<lparr>ready = [], working = [], delayed = Map.empty, dead = []\<rparr>"

definition wf_jobq :: "jobq \<Rightarrow> bool" where
  "wf_jobq q \<longleftrightarrow> list_all wf_job (ready q) \<and> list_all wf_job (working q) \<and>
     (\<forall>j \<in> dom (delayed q). wf_job j) \<and> finite (dom (delayed q)) \<and> list_all wf_job (dead q)"

definition enqueued :: "job \<Rightarrow> jobq \<Rightarrow> jobq" where
  "enqueued j q = q\<lparr>ready := j # ready q\<rparr>"

text \<open>Taking serves the oldest ready job and stamps the copy that is in work.\<close>

definition taken :: "string \<Rightarrow> jobq \<Rightarrow> job option \<times> jobq" where
  "taken now_iso q =
     (if ready q = [] then (None, q)
      else let j = with_processing_started_at None now_iso (last (ready q)) in
           (Some j, q\<lparr>ready := butlast (ready q), working := j # working q\<rparr>))"

definition acked :: "job \<Rightarrow> jobq \<Rightarrow> jobq" where
  "acked j q = q\<lparr>working := remove1 j (working q)\<rparr>"

definition retried :: "job \<Rightarrow> job \<Rightarrow> time \<Rightarrow> jobq \<Rightarrow> jobq" where
  "retried j j' t q = q\<lparr>working := remove1 j (working q), delayed := (delayed q)(j' \<mapsto> t)\<rparr>"

definition buried :: "job \<Rightarrow> job \<Rightarrow> jobq \<Rightarrow> jobq" where
  "buried j j' q = q\<lparr>working := remove1 j (working q), dead := j' # dead q\<rparr>"

text \<open>Promotion of the jobs \<open>js\<close>, in that order.\<close>

definition promoted :: "job list \<Rightarrow> jobq \<Rightarrow> jobq" where
  "promoted js q = q\<lparr>ready := rev js @ ready q, delayed := (delayed q) |` (- set js)\<rparr>"

definition due_jobs :: "time \<Rightarrow> jobq \<Rightarrow> job set" where
  "due_jobs now q = {j. \<exists>t. delayed q j = Some t \<and> 0 \<le> t \<and> t \<le> now}"

definition reclaimed :: "(job \<Rightarrow> bool) \<Rightarrow> jobq \<Rightarrow> jobq" where
  "reclaimed stale q =
     q\<lparr>ready := rev (map without_processing_started_at (filter stale (working q))) @ ready q,
       working := filter (\<lambda>j. \<not> stale j) (working q)\<rparr>"

text \<open>The oldest \<open>n\<close> dead jobs go back to the ready list.\<close>

definition revived :: "nat \<Rightarrow> jobq \<Rightarrow> jobq" where
  "revived n q =
     q\<lparr>ready := drop (length (dead q) - n) (dead q) @ ready q,
       dead := take (length (dead q) - n) (dead q)\<rparr>"

lemmas jobq_ops = enqueued_def taken_def acked_def retried_def buried_def promoted_def
  reclaimed_def revived_def

text \<open>How many of \<open>n\<close> entries a batch limit lets through when \<open>m\<close> have gone through already.\<close>

definition quota :: "int option \<Rightarrow> int \<Rightarrow> nat \<Rightarrow> nat" where
  "quota limit m n = (case limit of None \<Rightarrow> n | Some l \<Rightarrow> min n (nat (l - m)))"

section \<open>Ids of the jobs in the queue\<close>

definition ids :: "jobq \<Rightarrow> string multiset" where
  "ids q = image_mset job_id
     (mset (ready q) + mset (working q) + mset_set (dom (delayed q)) + mset (dead q))"

lemma ids_empty [simp]: "ids empty_jobq = {#}"
  by (simp add: ids_def empty_jobq_def)

lemma image_mset_remove1:
  "j \<in> set js \<Longrightarrow> add_mset (job_id j) (image_mset job_id (mset (remove1 j js))) = image_mset job_id (mset js)"
  by (metis image_mset_add_mset mset_remove1_add)

lemma ids_enqueued: "ids (enqueued j q) = add_mset (job_id j) (ids q)"
  by (simp add: ids_def enqueued_def)

lemma ids_taken: "ids (snd (taken now_iso q)) = ids q"
proof (cases "ready q = []")
  case False
  then have "image_mset job_id (mset (ready q))
      = add_mset (job_id (last (ready q))) (image_mset job_id (mset (butlast (ready q))))"
    by (metis image_mset_add_mset mset_butlast_last)
  then show ?thesis using False by (simp add: ids_def taken_def Let_def)
qed (simp add: taken_def)

lemma ids_acked: "j \<in> set (working q) \<Longrightarrow> add_mset (job_id j) (ids (acked j q)) = ids q"
  by (simp add: ids_def acked_def del: mset_remove1 flip: image_mset_remove1 [of j "working q"])

lemma ids_buried:
  "j \<in> set (working q) \<Longrightarrow> job_id j' = job_id j \<Longrightarrow> ids (buried j j' q) = ids q"
  by (simp add: ids_def buried_def del: mset_remove1 flip: image_mset_remove1 [of j "working q"])

lemma ids_retried:
  assumes "j \<in> set (working q)" and "job_id j' = job_id j" and "delayed q j' = None"
    and "finite (dom (delayed q))"
  shows "ids (retried j j' t q) = ids q"
proof -
  have "mset_set (insert j' (dom (delayed q))) = add_mset j' (mset_set (dom (delayed q)))"
    using assms(3,4) by (intro mset_set.insert) auto
  then show ?thesis
    using assms(1,2) by (simp add: ids_def retried_def del: mset_remove1 flip: image_mset_remove1 [of j "working q"])
qed

lemma ids_promoted:
  assumes "set js \<subseteq> dom (delayed q)" and "distinct js" and "finite (dom (delayed q))"
  shows "ids (promoted js q) = ids q"
proof -
  have "dom (delayed q) = set js \<union> (dom (delayed q) - set js)" using assms(1) by auto
  then have "mset_set (dom (delayed q)) = mset_set (set js) + mset_set (dom (delayed q) - set js)"
    using assms(3) by (metis Diff_disjoint finite_Diff finite_set mset_set_Union)
  moreover have "dom (delayed q |` (- set js)) = dom (delayed q) - set js"
    by (auto simp: restrict_map_def split: if_splits)
  moreover have "mset_set (set js) = mset js" using assms(2) by (rule mset_set_set)
  ultimately show ?thesis by (simp add: ids_def promoted_def)
qed

lemma ids_reclaimed: "ids (reclaimed stale q) = ids q"
proof -
  have "image_mset job_id (mset (map without_processing_started_at (filter stale ws)))
      + image_mset job_id (mset (filter (\<lambda>j. \<not> stale j) ws)) = image_mset job_id (mset ws)" for ws
    by (induction ws) simp_all
  then show ?thesis by (simp add: ids_def reclaimed_def add.commute add.left_commute)
qed

lemma ids_revived: "ids (revived n q) = ids q"
proof -
  have "mset (drop m ds) + mset (take m ds) = mset ds" for m and ds :: "job list"
    by (metis add.commute append_take_drop_id mset_append)
  then have "image_mset job_id (mset (drop m ds)) + image_mset job_id (mset (take m ds))
      = image_mset job_id (mset ds)" for m and ds :: "job list"
    by (metis image_mset_union)
  then show ?thesis by (simp add: ids_def revived_def add.commute add.left_commute)
qed

lemma wf_jobq_ops:
  assumes "wf_jobq q"
  shows "wf_job j \<Longrightarrow> wf_jobq (enqueued j q)" "wf_jobq (snd (taken now_iso q))"
    "wf_jobq (acked j q)" "wf_job j' \<Longrightarrow> wf_jobq (retried j j' t q)"
    "wf_job j' \<Longrightarrow> wf_jobq (buried j j' q)" "wf_jobq (reclaimed stale q)" "wf_jobq (revived n q)"
    "set js \<subseteq> dom (delayed q) \<Longrightarrow> wf_jobq (promoted js q)"
proof -
  note wf = assms [unfolded wf_jobq_def list_all_iff]
  show "wf_job j \<Longrightarrow> wf_jobq (enqueued j q)" "wf_jobq (snd (taken now_iso q))"
    using wf by (auto simp: wf_jobq_def list_all_iff jobq_ops Let_def dest: in_set_butlastD)
  show "wf_jobq (acked j q)" "wf_job j' \<Longrightarrow> wf_jobq (retried j j' t q)"
    "wf_job j' \<Longrightarrow> wf_jobq (buried j j' q)"
    using wf by (auto simp: wf_jobq_def list_all_iff jobq_ops dest: notin_set_remove1)
  show "wf_jobq (reclaimed stale q)" "wf_jobq (revived n q)"
    using wf by (auto simp: wf_jobq_def list_all_iff jobq_ops dest: in_set_dropD in_set_takeD)
  have "dom (delayed q |` (- set js)) \<subseteq> dom (delayed q)"
    by (auto simp: restrict_map_def split: if_splits)
  then show "set js \<subseteq> dom (delayed q) \<Longrightarrow> wf_jobq (promoted js q)"
    using wf by (auto simp: wf_jobq_def list_all_iff promoted_def intro: finite_subset)
qed

section \<open>Representation\<close>

definition zimage :: "(job \<rightharpoonup> time) \<Rightarrow> string \<rightharpoonup> time" where
  "zimage d m = (case from_json m of
       None \<Rightarrow> None | Some j \<Rightarrow> if to_json j = m then d j else None)"

definition represents ::
  "(string \<Rightarrow> string list) \<Rightarrow> (string \<Rightarrow> string \<rightharpoonup> time) \<Rightarrow> string \<Rightarrow> string \<Rightarrow> string \<Rightarrow> string
     \<Rightarrow> jobq \<Rightarrow> bool" where
  "represents ls zs qn pn dn fn q \<longleftrightarrow>
     ls qn = map to_json (ready q) \<and> ls pn = map to_json (working q) \<and>
     zs dn = zimage (delayed q) \<and> ls fn = map to_json (dead q) \<and> wf_jobq q"

lemma zimage_to_json: "wf_job j \<Longrightarrow> zimage d (to_json j) = d j"
  by (simp add: zimage_def from_json_to_json)

lemma zimage_SomeD: "zimage d m = Some t \<Longrightarrow> \<exists>j. m = to_json j \<and> d j = Some t"
  by (auto simp: zimage_def split: option.splits if_splits)

lemma zimage_upd: "wf_job j \<Longrightarrow> zimage (d(j \<mapsto> t)) = (zimage d)(to_json j \<mapsto> t)"
  by (auto simp: fun_eq_iff zimage_def from_json_to_json split: option.splits)

lemma zimage_del: "wf_job j \<Longrightarrow> zimage (d(j := None)) = (zimage d)(to_json j := None)"
  by (auto simp: fun_eq_iff zimage_def from_json_to_json split: option.splits)

lemma zimage_empty [simp]: "zimage Map.empty = Map.empty"
  by (auto simp: fun_eq_iff zimage_def split: option.splits)

section \<open>The code implements the abstract queue\<close>

locale job_queues = redis_lists R lst zst
  for R :: "('r, 'm) redis_queues_scheme"
    and lst :: "'r \<Rightarrow> string \<Rightarrow> string list"
    and zst :: "'r \<Rightarrow> string \<Rightarrow> string \<rightharpoonup> time" +
  fixes qn pn dn fn :: string
  assumes names: "distinct [qn, pn, dn, fn]"
begin

abbreviation rep :: "'r \<Rightarrow> jobq \<Rightarrow> bool" where
  "rep r q \<equiv> represents (lst r) (zst r) qn pn dn fn q"

lemma name_neqs [simp]: "qn \<noteq> pn" "pn \<noteq> qn" "qn \<noteq> fn" "fn \<noteq> qn" "pn \<noteq> fn" "fn \<noteq> pn"
  using names by auto

lemma rep_wf: "rep r q \<Longrightarrow> wf_jobq q"
  by (simp add: represents_def)

lemma rep_lists:
  assumes "rep r q"
  shows "list_all wf_job (ready q)" "list_all wf_job (working q)" "list_all wf_job (dead q)"
    "j \<in> dom (delayed q) \<Longrightarrow> wf_job j" "finite (dom (delayed q))"
  using assms by (auto simp: represents_def wf_jobq_def)

lemma enqueue_refines:
  assumes "rep r q" and "json_value (PDict payload)"
  shows "case enqueue_job R qn i rid ty payload r of (j, r') \<Rightarrow>
     rep r' (enqueued j q) \<and> wf_job j \<and> job_id j = i \<and> attempts j = 0"
  using assms wf_jobq_ops(1) [OF rep_wf [OF assms(1)]]
  by (simp add: enqueue_job_def Let_def represents_def lst_simps zst_simps enqueued_def wf_job_def)

lemma dequeue_refines:
  assumes "rep r q"
  shows "case dequeue_job R qn pn now_iso r of (res, r') \<Rightarrow>
     res = Inr (fst (taken now_iso q)) \<and> rep r' (snd (taken now_iso q))"
proof (cases "ready q = []")
  case True
  then have "lst r qn = []" using assms by (simp add: represents_def)
  then have "brpoplpush R qn pn r = (None, snd (brpoplpush R qn pn r))"
    and "lst (snd (brpoplpush R qn pn r)) = lst r"
    by (simp_all add: brpoplpush_result lst_brpoplpush prod_eq_iff)
  then show ?thesis
    using True assms zst_brpoplpush [of qn pn r]
    by (auto simp: dequeue_job_def taken_def represents_def split: prod.splits)
next
  case False
  define j where "j = last (ready q)"
  define j' where "j' = with_processing_started_at None now_iso j"
  have wf: "wf_job j" "wf_job j'"
    using rep_lists(1) [OF assms] False by (auto simp: j_def j'_def list_all_iff)
  obtain r1 where pop: "brpoplpush R qn pn r = (Some (to_json j), r1)"
    using assms False brpoplpush_result [of qn pn r]
    by (cases "brpoplpush R qn pn r") (auto simp: represents_def j_def last_map)
  have r1: "lst r1 = (lst r)(qn := map to_json (butlast (ready q)),
        pn := to_json j # map to_json (working q))" "zst r1 = zst r"
    using lst_brpoplpush [of qn pn r] zst_brpoplpush [of qn pn r] assms False
    by (auto simp: pop represents_def map_butlast last_map j_def)
  have r2: "lst (lpush R pn (to_json j') (snd (lrem R pn (to_json j) r1))) =
      (lst r)(qn := map to_json (butlast (ready q)), pn := to_json j' # map to_json (working q))"
    "zst (lpush R pn (to_json j') (snd (lrem R pn (to_json j) r1))) = zst r"
    by (simp_all add: lst_simps zst_simps r1)
  have "wf_jobq (snd (taken now_iso q))" using wf_jobq_ops(2) [OF rep_wf [OF assms]] .
  then show ?thesis
    using False assms r1 r2 wf
    by (simp add: dequeue_job_def pop from_json_to_json Let_def taken_def represents_def
        flip: j_def j'_def)
qed

lemma ack_refines:
  assumes "rep r q" and "wf_job j"
  shows "rep (ack_job R pn j r) (acked j q)"
  using assms wf_jobq_ops(3) [OF rep_wf [OF assms(1)]] rep_lists [OF assms(1)]
  by (simp add: ack_job_def represents_def lst_simps zst_simps acked_def map_to_json_remove1)

lemma retry_refines:
  assumes "rep r q" and "wf_job j"
  shows "case schedule_retry R cfg pn dn j msg now r of (j', r') \<Rightarrow>
     j' = with_error msg (with_next_attempt j) \<and>
     rep r' (retried j j' (now + calculate_retry_delay_seconds cfg (attempts j') * second) q)"
  using assms wf_jobq_ops(4) [OF rep_wf [OF assms(1)]] rep_lists [OF assms(1)]
  by (simp add: schedule_retry_def Let_def represents_def lst_simps zst_simps retried_def
      map_to_json_remove1 zimage_upd)

text \<open>The copy a failed job is buried as.\<close>

lemma bury_refines:
  assumes "rep r q" and "wf_job j"
  shows "case move_job_to_failed_queue R pn fn j msg now_iso r of (j', r') \<Rightarrow>
     rep r' (buried j j' q) \<and> wf_job j' \<and> job_id j' = job_id j \<and> attempts j' = attempts j"
proof -
  obtain j' r' where res: "move_job_to_failed_queue R pn fn j msg now_iso r = (j', r')"
    by force
  have j': "wf_job j'" "job_id j' = job_id j" "attempts j' = attempts j"
    using res assms(2) by (auto simp: move_job_to_failed_queue_def Let_def split: option.splits)
  have "r' = lpush R fn (to_json j') (snd (lrem R pn (to_json j) r))"
    using res by (auto simp: move_job_to_failed_queue_def Let_def)
  then have "rep r' (buried j j' q)"
    using assms wf_jobq_ops(5) [OF rep_wf [OF assms(1)] j'(1)] rep_lists [OF assms(1)]
    by (simp add: represents_def lst_simps zst_simps buried_def map_to_json_remove1)
  then show ?thesis using res j' by simp
qed

lemma requeue_refines:
  assumes "rep r q" and "wf_job j"
  shows "case requeue_job R qn j r of (j', r') \<Rightarrow>
     j' = with_next_attempt j \<and> rep r' (enqueued j' q)"
  using assms wf_jobq_ops(1) [OF rep_wf [OF assms(1)], of "with_next_attempt j"]
  by (simp add: requeue_job_def Let_def represents_def lst_simps zst_simps enqueued_def)

subsection \<open>Promotion of delayed jobs\<close>

lemma promote_one:
  assumes "rep r q" and "wf_job j" and "delayed q j \<noteq> None"
  shows "fst (zrem R dn (to_json j) r) = 1"
    and "rep (lpush R qn (to_json j) (snd (zrem R dn (to_json j) r))) (promoted [j] q)"
proof -
  have z: "zst r dn = zimage (delayed q)" using assms(1) by (simp add: represents_def)
  show "fst (zrem R dn (to_json j) r) = 1"
    using assms(2,3) by (simp add: zrem_count z zimage_to_json)
  have "delayed q |` (- {j}) = (delayed q)(j := None)"
    by (auto simp: restrict_map_def fun_eq_iff)
  then show "rep (lpush R qn (to_json j) (snd (zrem R dn (to_json j) r))) (promoted [j] q)"
    using assms wf_jobq_ops(8) [OF rep_wf [OF assms(1)], of "[j]"]
    by (auto simp: represents_def lst_simps zst_simps promoted_def zimage_del)
qed

lemma promoted_Cons: "promoted js (promoted [j] q) = promoted (j # js) q"
proof -
  have "- {j} \<inter> - set js = - set (j # js)" by auto
  then show ?thesis by (simp add: promoted_def)
qed

lemma promote_loop_refines:
  assumes "rep r q" and "list_all wf_job js" and "distinct js" and "set js \<subseteq> dom (delayed q)"
  shows "case promote_loop R qn dn limit (map to_json js) n r of (m, r') \<Rightarrow>
     (let k = quota limit n (length js) in m = n + int k \<and> rep r' (promoted (take k js) q))"
  using assms
proof (induction js arbitrary: r q n)
  case Nil
  have "quota limit n 0 = 0" by (simp add: quota_def split: option.splits)
  then show ?case using Nil by (simp add: promoted_def restrict_map_def)
next
  case (Cons j js)
  show ?case
  proof (cases "case limit of None \<Rightarrow> False | Some l \<Rightarrow> l \<le> n")
    case True
    then have "quota limit n (length (j # js)) = 0"
      by (simp add: quota_def split: option.splits)
    then show ?thesis
      using True Cons.prems by (simp add: promoted_def restrict_map_def)
  next
    case False
    have j: "wf_job j" "delayed q j \<noteq> None" using Cons.prems by auto
    note one = promote_one [OF Cons.prems(1) j]
    have "set js \<subseteq> dom (delayed (promoted [j] q))"
      using Cons.prems by (auto simp: promoted_def restrict_map_def)
    with Cons.prems one have IH: "case promote_loop R qn dn limit (map to_json js) (n + 1)
        (lpush R qn (to_json j) (snd (zrem R dn (to_json j) r))) of (m, r') \<Rightarrow>
      (let k = quota limit (n + 1) (length js) in
        m = n + 1 + int k \<and> rep r' (promoted (take k js) (promoted [j] q)))"
      by (intro Cons.IH) simp_all
    have k: "quota limit n (Suc (length js)) = Suc (quota limit (n + 1) (length js))"
      using False by (auto simp: quota_def split: option.splits)
    obtain r1 where "zrem R dn (to_json j) r = (1, r1)"
      using one(1) by (cases "zrem R dn (to_json j) r") simp
    then show ?thesis
      using IH False by (simp add: k promoted_Cons Let_def split_beta)
  qed
qed

lemma promote_refines:
  assumes "rep r q"
  shows "\<exists>js. distinct js \<and> set js = due_jobs now q \<and>
     sorted (map (\<lambda>j. the (delayed q j)) js) \<and>
     (case promote_delayed_jobs R qn dn now limit r of (m, r') \<Rightarrow>
       (let k = quota limit 0 (length js) in m = int k \<and> rep r' (promoted (take k js) q)))"
proof -
  define raws where "raws = zrangebyscore R dn 0 now r"
  define js where "js = map (the \<circ> from_json) raws"
  have z: "zst r dn = zimage (delayed q)" using assms by (simp add: represents_def)
  have mem: "\<exists>j t. m = to_json j \<and> wf_job j \<and> delayed q j = Some t \<and> 0 \<le> t \<and> t \<le> now"
    if m: "m \<in> set raws" for m
  proof -
    from m obtain t where "zimage (delayed q) m = Some t" "0 \<le> t" "t \<le> now"
      by (auto simp: raws_def zrangebyscore_set z)
    then show ?thesis using zimage_SomeD rep_lists(4) [OF assms] by blast
  qed
  then have raws: "raws = map to_json js" and wfs: "list_all wf_job js"
    by (auto simp: js_def list_all_iff from_json_to_json intro!: nth_equalityI)
       (metis from_json_to_json nth_mem option.sel)+
  have inj: "delayed q j = zimage (delayed q) (to_json j)" if "j \<in> set js" for j
    using wfs that by (simp add: list_all_iff zimage_to_json)
  have due: "set js = due_jobs now q"
  proof (intro set_eqI iffI)
    fix j assume j: "j \<in> set js"
    then have "to_json j \<in> set raws" by (simp add: raws)
    then show "j \<in> due_jobs now q"
      using inj [OF j] by (auto simp: raws_def zrangebyscore_set z due_jobs_def)
  next
    fix j assume j: "j \<in> due_jobs now q"
    then have wf: "wf_job j" using rep_lists(4) [OF assms] by (auto simp: due_jobs_def)
    then have "to_json j \<in> set raws"
      using j by (auto simp: raws_def zrangebyscore_set z due_jobs_def zimage_to_json)
    then show "j \<in> set js" using wf wfs by (auto simp: raws list_all_iff to_json_inj)
  qed
  have "distinct raws" by (simp add: raws_def zrangebyscore_distinct)
  then have dist: "distinct js" by (simp add: raws distinct_map)
  have "sorted (map (\<lambda>m. the (zimage (delayed q) m)) raws)"
    using zrangebyscore_sorted [of r dn 0 now] by (simp add: raws_def z)
  then have "sorted (map (\<lambda>j. the (zimage (delayed q) (to_json j))) js)"
    by (simp add: raws o_def)
  then have srt: "sorted (map (\<lambda>j. the (delayed q j)) js)"
    by (metis (no_types, lifting) inj map_eq_conv)
  have "set js \<subseteq> dom (delayed q)" by (auto simp: due due_jobs_def)
  from promote_loop_refines [OF assms wfs dist this, of limit 0]
  show ?thesis
    using dist due srt unfolding promote_delayed_jobs_def
    by (intro exI [of _ js]) (simp add: Let_def split_beta flip: raws raws_def)
qed

subsection \<open>Reclaiming stale jobs\<close>

lemma reclaim_loop_refines:
  assumes "rep r q" and "working q = filter (\<lambda>j. \<not> stale j) ds @ js"
    and "\<And>j. j \<in> set js \<Longrightarrow> is_stale fromiso timeout now j = Inr (stale j)"
  shows "case reclaim_loop R fromiso qn pn timeout now (map to_json js) n r of (res, r') \<Rightarrow>
     res = Inr (n + int (length (filter stale js))) \<and>
     rep r' (q\<lparr>ready := rev (map without_processing_started_at (filter stale js)) @ ready q,
               working := filter (\<lambda>j. \<not> stale j) (ds @ js)\<rparr>)"
  using assms
proof (induction js arbitrary: r q n ds)
  case Nil
  then show ?case by (simp add: represents_def wf_jobq_def)
next
  case (Cons j js)
  have wf: "wf_job j" and st: "is_stale fromiso timeout now j = Inr (stale j)"
    using Cons.prems rep_lists(2) [OF Cons.prems(1)] by auto
  show ?case
  proof (cases "stale j")
    case False
    have "working q = filter (\<lambda>j. \<not> stale j) (ds @ [j]) @ js"
      using Cons.prems(2) False by simp
    from Cons.IH [OF Cons.prems(1) this] Cons.prems(3) show ?thesis
      using wf st False by (simp add: from_json_to_json)
  next
    case True
    define j' where "j' = without_processing_started_at j"
    define q' where "q' = q\<lparr>ready := j' # ready q, working := filter (\<lambda>j. \<not> stale j) ds @ js\<rparr>"
    obtain m r1 where rem: "lrem R pn (to_json j) r = (m, r1)" by force
    have w: "lst r pn = map to_json (working q)" using Cons.prems(1) by (simp add: represents_def)
    have m: "m = 1"
      using lrem_count [of pn "to_json j" r] w Cons.prems(2) by (simp add: rem)
    have "remove1 j (working q) = filter (\<lambda>j. \<not> stale j) ds @ js"
      using True by (simp add: Cons.prems(2) remove1_append)
    then have r1: "lst r1 = (lst r)(pn := map to_json (filter (\<lambda>j. \<not> stale j) ds @ js))"
      "zst r1 = zst r"
      using lst_lrem [of pn "to_json j" r] zst_lrem [of pn "to_json j" r] w
        map_to_json_remove1 [OF wf rep_lists(2) [OF Cons.prems(1)]]
      by (simp_all add: rem)
    have "wf_jobq q'"
      using rep_wf [OF Cons.prems(1)] Cons.prems(2) wf by (auto simp: q'_def j'_def wf_jobq_def)
    then have rep': "rep (lpush R qn (to_json j') r1) q'"
      using Cons.prems(1) by (simp add: represents_def lst_simps zst_simps r1 q'_def)
    have "working q' = filter (\<lambda>j. \<not> stale j) ds @ js" by (simp add: q'_def)
    from Cons.IH [OF rep' this, of "n + 1"] Cons.prems(3) show ?thesis
      using wf st True
      by (simp add: from_json_to_json rem m q'_def flip: j'_def)
         (auto simp: algebra_simps split: prod.splits)
  qed
qed

lemma reclaim_refines:
  assumes "rep r q"
    and "\<And>j. j \<in> set (working q) \<Longrightarrow> is_stale fromiso timeout now j = Inr (stale j)"
  shows "case reclaim_stale_processing_jobs R fromiso qn pn timeout now r of (res, r') \<Rightarrow>
     res = Inr (int (length (filter stale (working q)))) \<and> rep r' (reclaimed stale q)"
proof -
  have "lrange R pn 0 (-1) r = map to_json (working q)"
    using assms(1) by (simp add: lrange_all represents_def)
  then show ?thesis
    using reclaim_loop_refines [of r q stale "[]" "working q" fromiso timeout now 0] assms
    by (simp add: reclaim_stale_processing_jobs_def reclaimed_def)
qed

subsection \<open>Dead jobs\<close>

lemma revive_loop_terminates:
  assumes "rep r q" and "k = quota limit n (length (dead q))"
  shows "\<exists>r'. requeue_failed_loop R qn fn limit n r = Some (Inr (n + int k), r') \<and> rep r' (revived k q)"
  using assms
proof (induction "length (dead q)" arbitrary: r q n k)
  case 0
  then have "k = 0" by (simp add: quota_def split: option.splits)
  moreover have "lst r fn = []" using 0 by (simp add: represents_def)
  then have "rpop R fn r = (None, snd (rpop R fn r))" "lst (snd (rpop R fn r)) = lst r"
    using rpop_result [of fn r] by (auto simp: prod_eq_iff lst_rpop fun_eq_iff)
  then obtain r1 where "rpop R fn r = (None, r1)" "lst r1 = lst r" "zst r1 = zst r"
    by (metis snd_conv zst_rpop)
  ultimately show ?case
    using 0 by (subst requeue_failed_loop.simps) (auto simp: revived_def represents_def wf_jobq_def)
next
  case (Suc d)
  show ?case
  proof (cases "case limit of None \<Rightarrow> True | Some l \<Rightarrow> n < l")
    case False
    then have "k = 0" using Suc.prems(2) by (auto simp: quota_def split: option.splits)
    then show ?thesis
      using False Suc.prems(1)
      by (subst requeue_failed_loop.simps) (auto simp: revived_def represents_def)
  next
    case True
    define j where "j = last (dead q)"
    define q' where "q' = q\<lparr>ready := j # ready q, dead := butlast (dead q)\<rparr>"
    have ne: "dead q \<noteq> []" using Suc.hyps(2) by auto
    then have wf: "wf_job j" using rep_lists(3) [OF Suc.prems(1)] by (simp add: j_def list_all_iff)
    have fnl: "lst r fn = map to_json (dead q)" using Suc.prems(1) by (simp add: represents_def)
    obtain r1 where pop: "rpop R fn r = (Some (to_json j), r1)"
      using rpop_result [of fn r] ne by (cases "rpop R fn r") (auto simp: fnl last_map j_def)
    have r1: "lst r1 = (lst r)(fn := map to_json (butlast (dead q)))" "zst r1 = zst r"
      using lst_rpop [of fn r] zst_rpop [of fn r] by (simp_all add: pop fnl map_butlast)
    have "wf_jobq q'" using rep_wf [OF Suc.prems(1)] wf
      by (auto simp: q'_def wf_jobq_def list_all_iff dest: in_set_butlastD)
    then have rep': "rep (lpush R qn (to_json j) r1) q'"
      using Suc.prems(1) by (simp add: represents_def lst_simps zst_simps r1 q'_def)
    have len: "d = length (dead q')" using Suc.hyps(2) by (simp add: q'_def)
    obtain k' where k': "k' = quota limit (n + 1) (length (dead q'))" by blast
    have k: "k = Suc k'"
      using True Suc.prems(2) Suc.hyps(2) by (auto simp: k' quota_def q'_def split: option.splits)
    have "k' \<le> d" by (auto simp: k' quota_def len split: option.splits)
    moreover have "dead q = butlast (dead q) @ [j]" using ne by (simp add: j_def)
    then obtain b where b: "dead q = b @ [j]" "length b = d" using Suc.hyps(2)
      by (metis diff_Suc_1 length_butlast)
    ultimately have rev: "revived k' q' = revived k q"
      by (simp add: revived_def q'_def k Suc_diff_Suc)
    from Suc.hyps(1) [OF len rep' k'] obtain r' where
      "requeue_failed_loop R qn fn limit (n + 1) (lpush R qn (to_json j) r1)
         = Some (Inr (n + 1 + int k'), r')" "rep r' (revived k' q')" by blast
    then show ?thesis
      using True by (subst requeue_failed_loop.simps)
        (simp add: pop from_json_to_json [OF wf] k rev algebra_simps)
  qed
qed

lemma revive_refines:
  assumes "rep r q"
  shows "\<exists>r'. requeue_failed_jobs R qn fn limit r
      = Some (Inr (int (quota limit 0 (length (dead q)))), r')
    \<and> rep r' (revived (quota limit 0 (length (dead q))) q)"
  using revive_loop_terminates [OF assms refl, of limit 0] by (simp add: requeue_failed_jobs_def)

lemma decode_all_to_json: "list_all wf_job js \<Longrightarrow> decode_all (map to_json js) = Inr js"
  by (induction js) (simp_all add: from_json_to_json)

text \<open>A listing limit of zero is passed to Redis as the end index -1, which means the whole list.\<close>

lemma list_failed:
  assumes "rep r q" and "0 \<le> limit"
  shows "list_failed_jobs R fn limit r
      = Inr (if limit = 0 then dead q else take (nat limit) (dead q))"
proof -
  have "lst r fn = map to_json (dead q)" using assms(1) by (simp add: represents_def)
  moreover have "list_all wf_job (take n (dead q))" for n
    using rep_lists(3) [OF assms(1)] by (auto simp: list_all_iff dest: in_set_takeD)
  ultimately show ?thesis
    using assms(2) rep_lists(3) [OF assms(1)] lrange_prefix [of "limit - 1" fn r]
    by (cases "limit = 0")
       (simp_all add: list_failed_jobs_def lrange_all decode_all_to_json take_map)
qed

end

section \<open>Interleavings\<close>

text \<open>
  The states any sequence of queue operations reaches from empty queues, with the ids enqueued so far
  and the ids acknowledged so far. A worker may acknowledge, retry or bury a job as long as the job
  is still in the processing list, that is, until the visibility timeout has let another worker
  reclaim it. An operation that raises takes no step.
\<close>

inductive queue_history ::
  "('r, 'm) redis_queues_scheme \<Rightarrow> ('r \<Rightarrow> string \<Rightarrow> string list) \<Rightarrow> ('r \<Rightarrow> string \<Rightarrow> string \<rightharpoonup> time)
     \<Rightarrow> settings \<Rightarrow> (string \<Rightarrow> time option) \<Rightarrow> string \<Rightarrow> string \<Rightarrow> string \<Rightarrow> string
     \<Rightarrow> 'r \<Rightarrow> string multiset \<Rightarrow> string multiset \<Rightarrow> bool"
  for R :: "('r, 'm) redis_queues_scheme" and lst zst cfg fromiso qn pn dn fn
  where
    start: "lst r qn = [] \<Longrightarrow> lst r pn = [] \<Longrightarrow> zst r dn = Map.empty \<Longrightarrow> lst r fn = [] \<Longrightarrow>
      queue_history R lst zst cfg fromiso qn pn dn fn r {#} {#}"
  | enqueue: "queue_history R lst zst cfg fromiso qn pn dn fn r E A \<Longrightarrow> i \<notin># E \<Longrightarrow>
      json_value (PDict payload) \<Longrightarrow> enqueue_job R qn i rid ty payload r = (j, r') \<Longrightarrow>
      queue_history R lst zst cfg fromiso qn pn dn fn r' (add_mset i E) A"
  | dequeue: "queue_history R lst zst cfg fromiso qn pn dn fn r E A \<Longrightarrow>
      dequeue_job R qn pn now_iso r = (Inr x, r') \<Longrightarrow>
      queue_history R lst zst cfg fromiso qn pn dn fn r' E A"
  | ack: "queue_history R lst zst cfg fromiso qn pn dn fn r E A \<Longrightarrow> wf_job j \<Longrightarrow>
      to_json j \<in> set (lst r pn) \<Longrightarrow>
      queue_history R lst zst cfg fromiso qn pn dn fn (ack_job R pn j r) E (add_mset (job_id j) A)"
  | retry: "queue_history R lst zst cfg fromiso qn pn dn fn r E A \<Longrightarrow> wf_job j \<Longrightarrow>
      to_json j \<in> set (lst r pn) \<Longrightarrow> schedule_retry R cfg pn dn j msg now r = (j', r') \<Longrightarrow>
      queue_history R lst zst cfg fromiso qn pn dn fn r' E A"
  | bury: "queue_history R lst zst cfg fromiso qn pn dn fn r E A \<Longrightarrow> wf_job j \<Longrightarrow>
      to_json j \<in> set (lst r pn) \<Longrightarrow> move_job_to_failed_queue R pn fn j e now_iso r = (j', r') \<Longrightarrow>
      queue_history R lst zst cfg fromiso qn pn dn fn r' E A"
  | promote: "queue_history R lst zst cfg fromiso qn pn dn fn r E A \<Longrightarrow>
      promote_delayed_jobs R qn dn now limit r = (n, r') \<Longrightarrow>
      queue_history R lst zst cfg fromiso qn pn dn fn r' E A"
  | reclaim: "queue_history R lst zst cfg fromiso qn pn dn fn r E A \<Longrightarrow>
      reclaim_stale_processing_jobs R fromiso qn pn timeout now r = (Inr n, r') \<Longrightarrow>
      queue_history R lst zst cfg fromiso qn pn dn fn r' E A"
  | revive: "queue_history R lst zst cfg fromiso qn pn dn fn r E A \<Longrightarrow>
      requeue_failed_jobs R qn fn limit r = Some (Inr n, r') \<Longrightarrow>
      queue_history R lst zst cfg fromiso qn pn dn fn r' E A"

lemma count_le_1_union:
  assumes "\<forall>x. count (add_mset a M) x \<le> 1"
  shows "a \<notin># M"
  using assms [rule_format, of a] by (simp add: not_in_iff)

context job_queues
begin

text \<open>A job whose id is unique in the queue is not delayed while it is in work.\<close>

lemma working_not_delayed:
  assumes "wf_jobq q" and "\<forall>x. count (ids q) x \<le> 1" and "j \<in> set (working q)"
    and "job_id j' = job_id j"
  shows "delayed q j' = None"
proof (rule ccontr)
  assume d: "delayed q j' \<noteq> None"
  let ?rest = "image_mset job_id (mset (ready q) + mset (remove1 j (working q))
      + mset_set (dom (delayed q)) + mset (dead q))"
  have "ids q = add_mset (job_id j) ?rest"
    using assms(3) by (simp add: ids_def del: mset_remove1 flip: image_mset_remove1 [of j "working q"])
  then have "job_id j \<notin># ?rest" using assms(2) count_le_1_union by metis
  moreover have "j' \<in># mset_set (dom (delayed q))"
    using d assms(1) by (auto simp: wf_jobq_def)
  then have "job_id j' \<in># ?rest" by simp
  ultimately show False using assms(4) by simp
qed

lemma reclaim_loop_stale:
  "reclaim_loop R fromiso qn pn timeout now (map to_json js) n r = (Inr m, r') \<Longrightarrow>
   list_all wf_job js \<Longrightarrow> j \<in> set js \<Longrightarrow> \<exists>b. is_stale fromiso timeout now j = Inr b"
  by (induction js arbitrary: n r)
     (auto simp: from_json_to_json split: sum.splits if_splits prod.splits)

lemma reclaim_stale:
  assumes "rep r q"
    and "reclaim_stale_processing_jobs R fromiso qn pn timeout now r = (Inr m, r')"
  shows "\<exists>stale. rep r' (reclaimed stale q)"
proof -
  define stale where "stale j = (is_stale fromiso timeout now j = Inr True)" for j
  have "lrange R pn 0 (-1) r = map to_json (working q)"
    using assms(1) by (simp add: lrange_all represents_def)
  then have "is_stale fromiso timeout now j = Inr (stale j)" if "j \<in> set (working q)" for j
    using reclaim_loop_stale [OF _ rep_lists(2) [OF assms(1)] that] assms(2)
    by (fastforce simp: reclaim_stale_processing_jobs_def stale_def)
  from reclaim_refines [OF assms(1) this] assms(2) show ?thesis by auto
qed

lemma history_conserves:
  assumes "queue_history R lst zst cfg fromiso qn pn dn fn r E A"
  shows "\<exists>q. rep r q \<and> ids q + A = E \<and> (\<forall>i. count E i \<le> 1)"
  using assms
proof (induction rule: queue_history.induct)
  case (start r)
  then have "rep r empty_jobq" by (simp add: represents_def empty_jobq_def wf_jobq_def)
  then show ?case by (intro exI [of _ empty_jobq]) simp
next
  case (enqueue r E A i payload rid ty j r')
  then obtain q where q: "rep r q" "ids q + A = E" "\<forall>i. count E i \<le> 1" by blast
  then have "rep r' (enqueued j q)" "job_id j = i"
    using enqueue_refines [OF q(1) enqueue.hyps(3), of i rid ty] enqueue.hyps(4) by auto
  then show ?case
    using q enqueue.hyps(2)
    by (intro exI [of _ "enqueued j q"]) (auto simp: ids_enqueued not_in_iff)
next
  case (dequeue r E A now_iso x r')
  then obtain q where q: "rep r q" "ids q + A = E" "\<forall>i. count E i \<le> 1" by blast
  then show ?case
    using dequeue_refines [OF q(1), of now_iso] dequeue.hyps(2)
    by (intro exI [of _ "snd (taken now_iso q)"]) (simp add: ids_taken)
next
  case (ack r E A j)
  then obtain q where q: "rep r q" "ids q + A = E" "\<forall>i. count E i \<le> 1" by blast
  then have "j \<in> set (working q)"
    using ack.hyps to_json_mem [OF _ rep_lists(2) [OF q(1)]] by (simp add: represents_def)
  then show ?case
    using q ack_refines [OF q(1) ack.hyps(2)]
    by (intro exI [of _ "acked j q"]) (metis add_mset_add_single ids_acked union_assoc union_commute)
next
  case (retry r E A j msg now j' r')
  then obtain q where q: "rep r q" "ids q + A = E" "\<forall>i. count E i \<le> 1" by blast
  have w: "j \<in> set (working q)"
    using q(1) retry.hyps to_json_mem [OF _ rep_lists(2) [OF q(1)]] by (simp add: represents_def)
  have u: "\<forall>i. count (ids q) i \<le> 1"
    using q by (metis count_union le_add1 order_trans)
  obtain t where t: "rep r' (retried j j' t q)" "job_id j' = job_id j"
    using retry_refines [OF q(1) retry.hyps(2), where cfg = cfg and msg = msg and now = now] retry.hyps(4) by auto
  have "ids (retried j j' t q) = ids q"
    using w t(2) working_not_delayed [OF rep_wf [OF q(1)] u w t(2)] rep_lists(5) [OF q(1)]
    by (rule ids_retried)
  then show ?case using q t(1) by metis
next
  case (bury r E A j e now_iso j' r')
  then obtain q where q: "rep r q" "ids q + A = E" "\<forall>i. count E i \<le> 1" by blast
  have "j \<in> set (working q)"
    using q(1) bury.hyps to_json_mem [OF _ rep_lists(2) [OF q(1)]] by (simp add: represents_def)
  then show ?case
    using q bury_refines [OF q(1) bury.hyps(2), of e now_iso] bury.hyps(4)
    by (intro exI [of _ "buried j j' q"]) (simp add: ids_buried)
next
  case (promote r E A now limit n r')
  then obtain q where q: "rep r q" "ids q + A = E" "\<forall>i. count E i \<le> 1" by blast
  obtain js k where js: "distinct js" "set js = due_jobs now q" "rep r' (promoted (take k js) q)"
    using promote_refines [OF q(1), of now limit] promote.hyps(2) by (auto simp: Let_def)
  have "set (take k js) \<subseteq> dom (delayed q)"
    using js(2) set_take_subset [of k js] by (auto simp: due_jobs_def)
  then show ?case
    using q js ids_promoted [of "take k js" q] rep_lists(5) [OF q(1)] by (metis distinct_take)
next
  case (reclaim r E A timeout now n r')
  then show ?case using reclaim_stale ids_reclaimed by metis
next
  case (revive r E A limit n r')
  then obtain q where q: "rep r q" "ids q + A = E" "\<forall>i. count E i \<le> 1" by blast
  then show ?case
    using revive_refines [OF q(1), of limit] revive.hyps(2) by (auto simp: ids_revived)
qed

end

section \<open>The reference store runs the queue\<close>

lemma default_queue_names:
  "distinct [worker_queue_name (default_settings s), worker_processing_queue_name (default_settings s),
     worker_delayed_queue_name (default_settings s), worker_failed_queue_name (default_settings s)]"
  by (simp add: default_settings_def)

interpretation store_jobs: job_queues store_queues st_lists "\<lambda>r k. map_of (st_zsets r k)"
  "''app_jobs''" "''app_jobs_processing''" "''app_jobs_delayed''" "''app_jobs_failed''"
  by unfold_locales simp

section \<open>Properties\<close>


definition example_run :: "job option \<times> store" where
  "example_run =
     (let (j, r1) = enqueue_job store_queues ''app_jobs'' ''j1'' None ''mail'' [] empty_store;
          (res, r2) = dequeue_job store_queues ''app_jobs'' ''app_jobs_processing'' ''t0'' r1
      in (case res of Inr (Some j') \<Rightarrow> (Some j', snd (schedule_retry store_queues (default_settings ''k'')
             ''app_jobs_processing'' ''app_jobs_delayed'' j' ''boom'' 1000000 r2))
          | _ \<Rightarrow> (None, r2)))"


text \<open>
  C15: a job survives its JSON form: decoding what \<open>to_json\<close> wrote gives the job back, with every
  optional field, for any payload that is a JSON document without floats.
\<close>

theorem job_json_roundtrip:
  assumes "wf_job j"
  shows "from_json (to_json j) = Some j"
  using assms by (rule from_json_to_json)

theorem job_json_roundtrip_witness:
  "let j = \<lparr>job_id = ''1'', job_type = ''mail'', job_payload = [(''user_id'', PInt 7)], attempts = 2,
      request_id = Some ''r'', last_error = Some ''a \<newline>'', failed_at = None,
      processing_started_at = None\<rparr> in from_json (to_json j) = Some j"
  unfolding Let_def by (rule job_json_roundtrip) (simp add: wf_job_def)

text \<open>
  C16: with any settings that can be constructed, the retry delay is at least the configured base, at
  most the configured maximum, and never shrinks from one attempt to a later one.
\<close>

theorem retry_delay_bounds:
  assumes "validate_settings raw = Inr cfg"
  shows "worker_retry_backoff_base_seconds cfg \<le> calculate_retry_delay_seconds cfg n
    \<and> calculate_retry_delay_seconds cfg n \<le> worker_retry_backoff_max_seconds cfg
    \<and> calculate_retry_delay_seconds cfg n \<le> calculate_retry_delay_seconds cfg (n + int k)"
  using validate_settings_backoff [OF assms] retry_delay_min retry_delay_max retry_delay_mono
  by auto

theorem retry_delay_bounds_witness:
  "\<exists>cfg. validate_settings (default_settings ''local-dev-key'') = Inr cfg \<and>
     calculate_retry_delay_seconds cfg 4 \<le> worker_retry_backoff_max_seconds cfg"
proof -
  have "case validate_settings (default_settings ''local-dev-key'') of Inr s \<Rightarrow> True | Inl e \<Rightarrow> False"
    by code_simp
  then obtain s where s: "validate_settings (default_settings ''local-dev-key'') = Inr s"
    by (auto split: sum.splits)
  then show ?thesis using retry_delay_bounds [OF s, of 4 0] by blast
qed

text \<open>
  Promotion moves due jobs only. The entries whose instant has passed go to the ready list in the
  order of their instants, all of them without a limit and the earliest ones with a limit, and the
  returned count is the number moved; every other delayed job stays.
\<close>

theorem promote_moves_due_jobs:
  assumes "job_queues R lst zst qn pn dn fn" and "represents (lst r) (zst r) qn pn dn fn q"
  shows "\<exists>js. distinct js \<and> set js = due_jobs now q \<and> sorted (map (\<lambda>j. the (delayed q j)) js)
    \<and> (case promote_delayed_jobs R qn dn now limit r of (n, r') \<Rightarrow>
         (let k = quota limit 0 (length js) in
          n = int k \<and> represents (lst r') (zst r') qn pn dn fn (promoted (take k js) q)))"
  using job_queues.promote_refines [OF assms] .

text \<open>
  Reclaiming returns every job whose visibility timeout has expired to the ready list, without
  its processing stamp, and leaves the others in work, when the stamps are readable.
\<close>

theorem reclaim_returns_stale_jobs:
  assumes "job_queues R lst zst qn pn dn fn" and "represents (lst r) (zst r) qn pn dn fn q"
    and "\<forall>j \<in> set (working q). is_stale fromiso timeout now j = Inr (stale j)"
  shows "case reclaim_stale_processing_jobs R fromiso qn pn timeout now r of (res, r') \<Rightarrow>
     res = Inr (int (length (filter stale (working q))))
     \<and> represents (lst r') (zst r') qn pn dn fn (reclaimed stale q)"
  by (rule job_queues.reclaim_refines [OF assms(1,2)]) (use assms(3) in blast)

text \<open>
  C17: requeueing dead jobs terminates, although its loop has no bound of its own when no limit is
  given: it moves the oldest dead jobs, as many as the limit allows, to the ready list and reports
  their number.
\<close>

theorem requeue_failed_terminates:
  assumes "job_queues R lst zst qn pn dn fn" and "represents (lst r) (zst r) qn pn dn fn q"
  shows "\<exists>r'. requeue_failed_jobs R qn fn limit r
      = Some (Inr (int (quota limit 0 (length (dead q)))), r')
    \<and> represents (lst r') (zst r') qn pn dn fn (revived (quota limit 0 (length (dead q))) q)"
  using job_queues.revive_refines [OF assms] .

text \<open>A store in which one job is ready, one in work, one delayed and one dead.\<close>

definition example_job :: "string \<Rightarrow> job" where
  "example_job i = \<lparr>job_id = i, job_type = ''mail'', job_payload = [], attempts = 0,
     request_id = None, last_error = None, failed_at = None, processing_started_at = None\<rparr>"

definition example_jobq :: jobq where
  "example_jobq = \<lparr>ready = [example_job ''a''], working = [example_job ''b''],
     delayed = [example_job ''c'' \<mapsto> 5], dead = [example_job ''d'']\<rparr>"

definition example_store :: store where
  "example_store =
     put_list ''app_jobs'' [to_json (example_job ''a'')]
      (put_list ''app_jobs_processing'' [to_json (example_job ''b'')]
       (put_list ''app_jobs_failed'' [to_json (example_job ''d'')]
        (put_zset ''app_jobs_delayed'' [(to_json (example_job ''c''), 5)] empty_store)))"

lemma example_represents:
  "represents (st_lists example_store) (\<lambda>k. map_of (st_zsets example_store k)) ''app_jobs''
     ''app_jobs_processing'' ''app_jobs_delayed'' ''app_jobs_failed'' example_jobq"
proof -
  have wf: "wf_job (example_job i)" for i by (simp add: wf_job_def example_job_def)
  then have "wf_jobq example_jobq" by (simp add: wf_jobq_def example_jobq_def)
  then show ?thesis
    by (simp add: represents_def example_store_def example_jobq_def zimage_upd [OF wf])
qed

theorem promote_moves_due_jobs_witness:
  "\<exists>js. set js = due_jobs 10 example_jobq \<and>
     (case promote_delayed_jobs store_queues ''app_jobs'' ''app_jobs_delayed'' 10 None example_store of
        (n, r') \<Rightarrow> n = int (length js))"
  using promote_moves_due_jobs [OF store_jobs.job_queues_axioms example_represents, of 10 None]
  by (auto simp: quota_def Let_def split: prod.splits)

theorem reclaim_returns_stale_jobs_witness:
  "fst (reclaim_stale_processing_jobs store_queues (\<lambda>_. None) ''app_jobs'' ''app_jobs_processing''
     300 10 example_store) = Inr 1"
proof -
  have "\<forall>j \<in> set (working example_jobq). is_stale (\<lambda>_. None) 300 10 j = Inr ((\<lambda>_. True) j)"
    by (simp add: example_jobq_def example_job_def is_stale_def)
  from reclaim_returns_stale_jobs [OF store_jobs.job_queues_axioms example_represents this]
  show ?thesis by (auto simp: example_jobq_def)
qed

theorem requeue_failed_terminates_witness:
  "\<exists>r'. requeue_failed_jobs store_queues ''app_jobs'' ''app_jobs_failed'' None example_store
      = Some (Inr 1, r')"
  using requeue_failed_terminates [OF store_jobs.job_queues_axioms example_represents, of None]
  by (auto simp: quota_def example_jobq_def)

end
