(* ===== verification/Errors.thy ===== *)
theory Errors
  imports Json
begin

text \<open>
  Errors of the API (\<open>app/core/domain_errors.py\<close>, \<open>app/core/exception_handlers.py\<close>) and the shape of
  the operations that may raise them.

  \<open>exn\<close> has one constructor for each exception the modelled code raises or lets through: the domain
  errors with their class and message, FastAPI's \<open>HTTPException\<close>, \<open>ValueError\<close>, the database's
  \<open>IntegrityError\<close>, \<open>RedisError\<close>, and \<open>Unexpected\<close> for any other. \<open>handle_exn\<close> is the set of installed
  exception handlers.

  An operation is a function from a state to a result and a state: what it has changed before raising
  stays changed, as in the source.
\<close>

section \<open>Exceptions\<close>

datatype domain_error_class =
    DomainErrorBase | BadRequestError | UnauthorizedError | ForbiddenError | NotFoundError
  | ConflictError | PayloadTooLargeError | ServiceUnavailableError

fun class_status :: "domain_error_class \<Rightarrow> int" where
  "class_status DomainErrorBase = 400"
| "class_status BadRequestError = 400"
| "class_status UnauthorizedError = 401"
| "class_status ForbiddenError = 403"
| "class_status NotFoundError = 404"
| "class_status ConflictError = 409"
| "class_status PayloadTooLargeError = 413"
| "class_status ServiceUnavailableError = 503"

text \<open>\<open>DomainError(message, status_code=None)\<close>: an explicit status overrides the one of the class.\<close>

record domain_error =
  de_class :: domain_error_class
  de_message :: string
  de_status_code :: int

definition DomainError :: "domain_error_class \<Rightarrow> string \<Rightarrow> int option \<Rightarrow> domain_error" where
  "DomainError c message status_code =
     \<lparr>de_class = c, de_message = message,
      de_status_code = (case status_code of None \<Rightarrow> class_status c | Some s \<Rightarrow> s)\<rparr>"

datatype exn =
    Domain domain_error
  | HTTPException int string
  | ValueErr string
  | IntegrityError
  | RedisError
  | Unexpected string

abbreviation domain :: "domain_error_class \<Rightarrow> string \<Rightarrow> exn" where
  "domain c m \<equiv> Domain (DomainError c m None)"

section \<open>Exception handlers\<close>

definition ERROR_CODES_BY_STATUS :: "(int \<times> string) list" where
  "ERROR_CODES_BY_STATUS =
     [(400, ''bad_request''), (401, ''unauthorized''), (403, ''forbidden''), (404, ''not_found''),
      (405, ''method_not_allowed''), (409, ''conflict''), (413, ''payload_too_large''),
      (422, ''validation_error''), (429, ''rate_limit_exceeded''), (500, ''internal_server_error'')]"

record response =
  resp_status :: int
  resp_body :: pyval

definition error_response :: "int \<Rightarrow> string \<Rightarrow> string \<Rightarrow> pyval option \<Rightarrow> response" where
  "error_response status_code code message details =
     \<lparr>resp_status = status_code,
      resp_body = PDict [(''error'', PDict ([(''code'', PStr code), (''message'', PStr message)]
        @ (case details of None \<Rightarrow> [] | Some d \<Rightarrow> [(''details'', d)])))]\<rparr>"

definition get_error_code :: "int \<Rightarrow> string" where
  "get_error_code status_code =
     (case map_of ERROR_CODES_BY_STATUS status_code of None \<Rightarrow> ''api_error'' | Some c \<Rightarrow> c)"

definition domain_error_handler :: "domain_error \<Rightarrow> response" where
  "domain_error_handler e =
     error_response (de_status_code e) (get_error_code (de_status_code e)) (de_message e) None"

definition http_exception_handler :: "int \<Rightarrow> string \<Rightarrow> response" where
  "http_exception_handler status_code detail =
     error_response status_code (get_error_code status_code) detail None"

definition validation_exception_handler :: "pyval \<Rightarrow> response" where
  "validation_exception_handler errors =
     error_response 422 ''validation_error'' ''Request validation failed'' (Some errors)"

definition unhandled_exception_handler :: response where
  "unhandled_exception_handler =
     error_response 500 ''internal_server_error'' ''An unexpected error occurred'' None"

definition handle_exn :: "exn \<Rightarrow> response" where
  "handle_exn e = (case e of
       Domain d \<Rightarrow> domain_error_handler d
     | HTTPException s m \<Rightarrow> http_exception_handler s m
     | _ \<Rightarrow> unhandled_exception_handler)"

definition exn_status :: "exn \<Rightarrow> int" where
  "exn_status e = resp_status (handle_exn e)"

lemma exn_status_simps [simp]:
  "exn_status (Domain d) = de_status_code d"
  "exn_status (HTTPException s m) = s"
  "exn_status (ValueErr v) = 500" "exn_status IntegrityError = 500"
  "exn_status RedisError = 500" "exn_status (Unexpected u) = 500"
  by (simp_all add: exn_status_def handle_exn_def domain_error_handler_def http_exception_handler_def
      unhandled_exception_handler_def error_response_def)

lemma de_status_DomainError [simp]: "de_status_code (DomainError c m None) = class_status c"
  by (simp add: DomainError_def)

lemma DomainError_inject [simp]:
  "DomainError c m None = DomainError c' m' None \<longleftrightarrow> c = c' \<and> m = m'"
  by (simp add: DomainError_def) blast

text \<open>Internal faults leak nothing about themselves into the response.\<close>

lemma handle_exn_internal:
  "e \<in> {IntegrityError, RedisError} \<or> (\<exists>m. e = Unexpected m) \<or> (\<exists>m. e = ValueErr m) \<Longrightarrow>
   handle_exn e = unhandled_exception_handler"
  by (auto simp: handle_exn_def)

section \<open>Operations on a state\<close>

type_synonym ('w, 'a) action = "'w \<Rightarrow> (exn, 'a) result \<times> 'w"

definition ret :: "'a \<Rightarrow> ('w, 'a) action" where
  "ret x w = (Inr x, w)"

definition raise :: "exn \<Rightarrow> ('w, 'a) action" where
  "raise e w = (Inl e, w)"

definition reads :: "('w \<Rightarrow> 'a) \<Rightarrow> ('w, 'a) action" where
  "reads f w = (Inr (f w), w)"

definition run_then :: "('w, 'a) action \<Rightarrow> ('a \<Rightarrow> ('w, 'b) action) \<Rightarrow> ('w, 'b) action" where
  "run_then m f w = (case m w of (Inl e, w') \<Rightarrow> (Inl e, w') | (Inr x, w') \<Rightarrow> f x w')"

definition lift_result :: "(exn, 'a) result \<Rightarrow> ('w, 'a) action" where
  "lift_result x w = (x, w)"

definition ensures :: "bool \<Rightarrow> exn \<Rightarrow> ('w, unit) action" where
  "ensures p e w = (if p then (Inr (), w) else (Inl e, w))"

definition noop :: "('w, unit) action" where
  "noop w = (Inr (), w)"

text \<open>\<open>try: m finally: f\<close>: an exception of \<open>f\<close> replaces the outcome of \<open>m\<close>.\<close>

definition finally_do :: "('w, 'a) action \<Rightarrow> ('w, unit) action \<Rightarrow> ('w, 'a) action" where
  "finally_do m f w = (case m w of (res, w1) \<Rightarrow> (case f w1 of (Inl e, w2) \<Rightarrow> (Inl e, w2) | (Inr _, w2) \<Rightarrow> (res, w2)))"

lemma run_then_simps [simp]:
  "m w = (Inl e, w') \<Longrightarrow> run_then m f w = (Inl e, w')"
  "m w = (Inr x, w') \<Longrightarrow> run_then m f w = f x w'"
  "run_then (ret x) f w = f x w" "run_then (raise e) f w = (Inl e, w)"
  "run_then (reads g) f w = f (g w) w"
  "run_then noop h w = h () w"
  "run_then (lift_result res) f w = (case res of Inl e \<Rightarrow> (Inl e, w) | Inr x \<Rightarrow> f x w)"
  "run_then (ensures p e) h w = (if p then h () w else (Inl e, w))"
  by (auto simp: run_then_def ret_def raise_def reads_def noop_def lift_result_def ensures_def
      split: sum.splits)

lemma action_simps [simp]:
  "ret x w = (Inr x, w)" "raise e w = (Inl e, w)" "reads g w = (Inr (g w), w)" "noop w = (Inr (), w)"
  "lift_result res w = (res, w)"
  "ensures p e w = (if p then (Inr (), w) else (Inl e, w))"
  by (simp_all add: ret_def raise_def reads_def noop_def lift_result_def ensures_def)

lemma run_then_Inr_iff:
  "run_then m f w = (Inr y, w'') \<longleftrightarrow> (\<exists>x w'. m w = (Inr x, w') \<and> f x w' = (Inr y, w''))"
  by (auto simp: run_then_def split: prod.splits sum.splits)

lemma run_then_Inl_iff:
  "run_then m f w = (Inl e, w'') \<longleftrightarrow>
     m w = (Inl e, w'') \<or> (\<exists>x w'. m w = (Inr x, w') \<and> f x w' = (Inl e, w''))"
  by (auto simp: run_then_def split: prod.splits sum.splits)

lemma run_then_assoc: "run_then (run_then m f) g = run_then m (\<lambda>x. run_then (f x) g)"
  by (rule ext) (auto simp: run_then_def split: prod.splits sum.splits)

lemma action_distrib:
  fixes m m' :: "('w, 'a) action" and g :: "'b \<Rightarrow> ('w, 'a) action"
  shows "(if c then m else m') w = (if c then m w else m' w)"
    "run_then (if c then m else m') f = (if c then run_then m f else run_then m' f)"
    "(case x of None \<Rightarrow> m | Some y \<Rightarrow> g y) w = (case x of None \<Rightarrow> m w | Some y \<Rightarrow> g y w)"
    "run_then (case x of None \<Rightarrow> m | Some y \<Rightarrow> g y) f
       = (case x of None \<Rightarrow> run_then m f | Some y \<Rightarrow> run_then (g y) f)"
  by (simp_all split: option.split)

lemma run_then_pure:
  "run_then noop h = h ()" "run_then (ret x) f = f x" "run_then (raise e) f' = raise e"
  "run_then (Pair (Inr x)) f = f x"
  by (auto simp: fun_eq_iff)

text \<open>An operation keeps a property of the state on every path, errors included.\<close>

definition keeps :: "('w \<Rightarrow> bool) \<Rightarrow> ('w, 'a) action \<Rightarrow> bool" where
  "keeps P m \<longleftrightarrow> (\<forall>w. P w \<longrightarrow> P (snd (m w)))"

lemma keeps_run_then [intro]:
  assumes "keeps P m" and "\<And>x. keeps P (f x)"
  shows "keeps P (run_then m f)"
  using assms unfolding keeps_def run_then_def
  by (auto split: prod.splits sum.splits)

lemma keeps_finally_do [intro]: "keeps P m \<Longrightarrow> keeps P f \<Longrightarrow> keeps P (finally_do m f)"
  unfolding keeps_def finally_do_def by (auto split: prod.splits sum.splits)

lemma keeps_basic [intro, simp]:
  "keeps P (ret x)" "keeps P (raise e)" "keeps P (reads g)" "keeps P noop" "keeps P (lift_result res)"
  "keeps P (ensures p e)"
  by (simp_all add: keeps_def)

lemma keeps_pair: "keeps P (Pair x)" "keeps P (\<lambda>a. (f a, a))"
  by (simp_all add: keeps_def)

lemma keepsD: "keeps P m \<Longrightarrow> P w \<Longrightarrow> m w = (res, w') \<Longrightarrow> P w'"
  unfolding keeps_def by (metis snd_conv)

lemma keeps_if [intro]: "keeps P a \<Longrightarrow> keeps P b \<Longrightarrow> keeps P (if c then a else b)"
  by simp

lemma keeps_case_option [intro]:
  "keeps P a \<Longrightarrow> (\<And>y. keeps P (b y)) \<Longrightarrow> keeps P (case x of None \<Rightarrow> a | Some y \<Rightarrow> b y)"
  by (cases x) simp_all

section \<open>Properties\<close>


end
