(* ===== verification/Models.thy ===== *)
theory Models
  imports Errors
begin

text \<open>
  The database schema (\<open>app/models\<close>) and the session over it (\<open>app/db/session.py\<close>). Every mapped class
  is a record of its columns, a table is the list of its rows, and \<open>schema_ok\<close> collects the declared
  primary keys, unique indexes and foreign keys.

  A session sees the rows of its transaction (\<open>tx\<close>), which become the stored rows at \<open>commit\<close>.
  \<open>flush\<close> sends pending changes to the database, which refuses a change that breaks a declared
  constraint with \<open>IntegrityError\<close> and aborts the transaction. \<open>with_session\<close> is the \<open>get_db\<close>
  dependency: closing the session drops what was not committed. Values handed out by database sequences
  and clocks are arguments of the operations.
\<close>

section \<open>Rows\<close>

record tenant =
  t_id :: int
  t_slug :: string
  t_name :: string
  t_is_active :: bool

record user =
  u_id :: int
  u_tenant_id :: int
  u_email :: string
  u_hashed_password :: string
  u_is_active :: bool
  u_role :: string
  u_token_version :: int

datatype audit_action =
    USER_UPDATED | USER_DEACTIVATED | USER_ACTIVATED | USER_DELETED
  | PASSWORD_RESET_REQUESTED | PASSWORD_RESET_CONFIRMED
  | TENANT_CREATED | TENANT_ACTIVATED | TENANT_DEACTIVATED

fun action_value :: "audit_action \<Rightarrow> string" where
  "action_value USER_UPDATED = ''user.updated''"
| "action_value USER_DEACTIVATED = ''user.deactivated''"
| "action_value USER_ACTIVATED = ''user.activated''"
| "action_value USER_DELETED = ''user.deleted''"
| "action_value PASSWORD_RESET_REQUESTED = ''password_reset.requested''"
| "action_value PASSWORD_RESET_CONFIRMED = ''password_reset.confirmed''"
| "action_value TENANT_CREATED = ''tenant.created''"
| "action_value TENANT_ACTIVATED = ''tenant.activated''"
| "action_value TENANT_DEACTIVATED = ''tenant.deactivated''"

lemma action_value_inj [simp]: "action_value a = action_value b \<longleftrightarrow> a = b"
  by (cases a; cases b) simp_all

record audit_log =
  a_id :: int
  a_tenant_id :: int
  a_admin_id :: "int option"
  a_action :: string
  a_target_user_id :: "int option"
  a_created_at :: time

datatype upload_verification_status = pending | verified

record uploaded_file =
  f_id :: int
  f_tenant_id :: int
  f_owner_id :: int
  f_object_key :: string
  f_filename :: string
  f_content_type :: string
  f_size_bytes :: int
  f_verification_status :: upload_verification_status
  f_created_at :: time

record idempotency_record =
  i_id :: int
  i_scope_key :: string
  i_status_code :: int
  i_response_body :: string
  i_created_at :: time
  i_expires_at :: time

record webhook_event =
  w_id :: int
  w_provider :: string
  w_event_id :: string
  w_payload_hash :: string
  w_received_at :: time

record password_reset_token =
  p_id :: int
  p_user_id :: int
  p_token_hash :: string
  p_expires_at :: time
  p_used_at :: "time option"
  p_created_at :: time

record password_reset_job_completion =
  c_id :: int
  c_job_id :: string
  c_completed_at :: time

record tables =
  tenants :: "tenant list"
  users :: "user list"
  audit_logs :: "audit_log list"
  uploaded_files :: "uploaded_file list"
  idempotency_records :: "idempotency_record list"
  webhook_events :: "webhook_event list"
  password_reset_tokens :: "password_reset_token list"
  job_completions :: "password_reset_job_completion list"

definition empty_tables :: tables where
  "empty_tables = \<lparr>tenants = [], users = [], audit_logs = [], uploaded_files = [],
     idempotency_records = [], webhook_events = [], password_reset_tokens = [], job_completions = []\<rparr>"

section \<open>Declared constraints\<close>

definition unique_by :: "('a \<Rightarrow> 'b) \<Rightarrow> 'a list \<Rightarrow> bool" where
  "unique_by f rows \<longleftrightarrow> distinct (map f rows)"

definition refers :: "int \<Rightarrow> int list \<Rightarrow> bool" where
  "refers i is \<longleftrightarrow> i \<in> set is"

text \<open>A nullable foreign key.\<close>

definition opt_refers :: "int option \<Rightarrow> int list \<Rightarrow> bool" where
  "opt_refers x is \<longleftrightarrow> (case x of None \<Rightarrow> True | Some i \<Rightarrow> refers i is)"

lemma opt_refers_simps [simp]: "opt_refers None is" "opt_refers (Some i) is \<longleftrightarrow> refers i is"
  by (simp_all add: opt_refers_def)

definition tenants_ok :: "tables \<Rightarrow> bool" where
  "tenants_ok t \<longleftrightarrow> unique_by t_id (tenants t) \<and> unique_by t_slug (tenants t)"

definition users_ok :: "tables \<Rightarrow> bool" where
  "users_ok t \<longleftrightarrow> unique_by u_id (users t) \<and> unique_by (\<lambda>u. (u_tenant_id u, u_email u)) (users t)
     \<and> list_all (\<lambda>u. refers (u_tenant_id u) (map t_id (tenants t))) (users t)"

definition audit_logs_ok :: "tables \<Rightarrow> bool" where
  "audit_logs_ok t \<longleftrightarrow> unique_by a_id (audit_logs t)
     \<and> list_all (\<lambda>a. refers (a_tenant_id a) (map t_id (tenants t))
          \<and> opt_refers (a_admin_id a) (map u_id (users t))) (audit_logs t)"

definition uploaded_files_ok :: "tables \<Rightarrow> bool" where
  "uploaded_files_ok t \<longleftrightarrow> unique_by f_id (uploaded_files t) \<and> unique_by f_object_key (uploaded_files t)
     \<and> list_all (\<lambda>f. refers (f_tenant_id f) (map t_id (tenants t))
          \<and> refers (f_owner_id f) (map u_id (users t))) (uploaded_files t)"

definition idempotency_ok :: "tables \<Rightarrow> bool" where
  "idempotency_ok t \<longleftrightarrow> unique_by i_id (idempotency_records t)
     \<and> unique_by i_scope_key (idempotency_records t)"

definition webhook_events_ok :: "tables \<Rightarrow> bool" where
  "webhook_events_ok t \<longleftrightarrow> unique_by w_id (webhook_events t)
     \<and> unique_by (\<lambda>e. (w_provider e, w_event_id e)) (webhook_events t)"

definition reset_tokens_ok :: "tables \<Rightarrow> bool" where
  "reset_tokens_ok t \<longleftrightarrow> unique_by p_id (password_reset_tokens t)
     \<and> unique_by p_token_hash (password_reset_tokens t)
     \<and> list_all (\<lambda>p. refers (p_user_id p) (map u_id (users t))) (password_reset_tokens t)"

definition job_completions_ok :: "tables \<Rightarrow> bool" where
  "job_completions_ok t \<longleftrightarrow> unique_by c_id (job_completions t) \<and> unique_by c_job_id (job_completions t)"

definition schema_ok :: "tables \<Rightarrow> bool" where
  "schema_ok t \<longleftrightarrow> tenants_ok t \<and> users_ok t \<and> audit_logs_ok t \<and> uploaded_files_ok t
     \<and> idempotency_ok t \<and> webhook_events_ok t \<and> reset_tokens_ok t \<and> job_completions_ok t"

lemmas table_oks = tenants_ok_def users_ok_def audit_logs_ok_def uploaded_files_ok_def
  idempotency_ok_def webhook_events_ok_def reset_tokens_ok_def job_completions_ok_def

lemma schema_ok_empty [simp]: "schema_ok empty_tables"
  by (simp add: schema_ok_def table_oks unique_by_def empty_tables_def)

section \<open>Sessions\<close>

text \<open>
  The state an operation works on: the database with an open session, the Redis server, and the
  tenant of the request (\<open>app/core/tenant_context.py\<close>).
\<close>

record 'r world =
  stored :: tables
  tx :: tables
  redis :: 'r
  tenant_id_var :: "int option"
  tenant_slug_var :: "string option"

definition flush :: "(tables \<Rightarrow> tables) \<Rightarrow> ('r world, unit) action" where
  "flush change w =
     (let t = change (tx w) in
      if schema_ok t then (Inr (), w\<lparr>tx := t\<rparr>) else (Inl IntegrityError, w\<lparr>tx := stored w\<rparr>))"

definition commit :: "('r world, unit) action" where
  "commit w = (Inr (), w\<lparr>stored := tx w\<rparr>)"

definition rollback :: "('r world, unit) action" where
  "rollback w = (Inr (), w\<lparr>tx := stored w\<rparr>)"

text \<open>\<open>db.commit()\<close> with pending changes flushes them first.\<close>

definition flush_commit :: "(tables \<Rightarrow> tables) \<Rightarrow> ('r world, unit) action" where
  "flush_commit change = run_then (flush change) (\<lambda>_. commit)"

text \<open>The \<open>commit\<close> argument many services take.\<close>

definition save :: "bool \<Rightarrow> (tables \<Rightarrow> tables) \<Rightarrow> ('r world, unit) action" where
  "save do_commit change = (if do_commit then flush_commit change else flush change)"

definition with_session :: "('r world, 'a) action \<Rightarrow> ('r world, 'a) action" where
  "with_session m w =
     (case m (w\<lparr>tx := stored w\<rparr>) of (res, w') \<Rightarrow> (res, w'\<lparr>tx := stored w'\<rparr>))"

lemma flush_cases:
  "flush change w = (if schema_ok (change (tx w)) then (Inr (), w\<lparr>tx := change (tx w)\<rparr>)
     else (Inl IntegrityError, w\<lparr>tx := stored w\<rparr>))"
  by (simp add: flush_def Let_def)

lemma flush_commit_cases:
  "flush_commit change w = (if schema_ok (change (tx w))
     then (Inr (), w\<lparr>tx := change (tx w), stored := change (tx w)\<rparr>)
     else (Inl IntegrityError, w\<lparr>tx := stored w\<rparr>))"
  by (simp add: flush_commit_def flush_cases commit_def run_then_def)

text \<open>
  The database invariant: the stored rows and the rows of the transaction satisfy the declared
  constraints.
\<close>

definition world_ok :: "'r world \<Rightarrow> bool" where
  "world_ok w \<longleftrightarrow> schema_ok (stored w) \<and> schema_ok (tx w)"

lemma keeps_world_ok [intro, simp]:
  "keeps world_ok (flush change)" "keeps world_ok commit" "keeps world_ok rollback"
  "keeps world_ok (flush_commit change)" "keeps world_ok (save b change)"
  by (auto simp: keeps_def world_ok_def flush_cases flush_commit_cases commit_def rollback_def save_def)

lemma keeps_with_session [intro]:
  assumes "keeps world_ok m"
  shows "keeps world_ok (with_session m)"
  unfolding keeps_def
proof (intro allI impI)
  fix w :: "'a world"
  assume "world_ok w"
  then have "world_ok (w\<lparr>tx := stored w\<rparr>)" by (simp add: world_ok_def)
  then have "world_ok (snd (m (w\<lparr>tx := stored w\<rparr>)))" using assms by (simp add: keeps_def)
  then show "world_ok (snd (with_session m w))"
    by (simp add: with_session_def world_ok_def split_beta)
qed

lemma with_session_res:
  "with_session m w = (res, w') \<longleftrightarrow> (\<exists>x. m (w\<lparr>tx := stored w\<rparr>) = (res, x) \<and> w' = x\<lparr>tx := stored x\<rparr>)"
  by (auto simp: with_session_def split: prod.splits)

text \<open>A failed request has no effect on the stored rows unless it committed before.\<close>

lemma with_session_flush_error:
  "with_session (flush change) w = (Inl e, w') \<Longrightarrow> stored w' = stored w"
  by (auto simp: with_session_def flush_cases split: if_splits)

text \<open>An operation on the world, run where the state has another part as well: the mails, the object store.\<close>

definition on_world :: "('r world, 'a) action \<Rightarrow> ('r world \<times> 's, 'a) action" where
  "on_world m s = (case m (fst s) of (res, w') \<Rightarrow> (res, (w', snd s)))"

lemma on_world_pair: "on_world m (w, s) = (fst (m w), (snd (m w), s))"
  by (simp add: on_world_def split_beta)

section \<open>Queries\<close>

definition first_tenant :: "(tenant \<Rightarrow> bool) \<Rightarrow> tables \<Rightarrow> tenant option" where
  "first_tenant p t = List.find p (tenants t)"

definition first_user :: "(user \<Rightarrow> bool) \<Rightarrow> tables \<Rightarrow> user option" where
  "first_user p t = List.find p (users t)"

text \<open>The \<open>tenant\<close> relationship of a user.\<close>

definition user_tenant :: "tables \<Rightarrow> user \<Rightarrow> tenant option" where
  "user_tenant t u = first_tenant (\<lambda>x. t_id x = u_tenant_id u) t"

definition set_user :: "int \<Rightarrow> (user \<Rightarrow> user) \<Rightarrow> tables \<Rightarrow> tables" where
  "set_user i f t = t\<lparr>users := map (\<lambda>u. if u_id u = i then f u else u) (users t)\<rparr>"

definition set_tenant :: "int \<Rightarrow> (tenant \<Rightarrow> tenant) \<Rightarrow> tables \<Rightarrow> tables" where
  "set_tenant i f t = t\<lparr>tenants := map (\<lambda>x. if t_id x = i then f x else x) (tenants t)\<rparr>"

text \<open>
  Deleting a user: the mapped relationship and the foreign keys of \<open>password_reset_tokens\<close> and
  \<open>uploaded_files\<close> cascade; the one of \<open>audit_logs\<close> does not.
\<close>

definition drop_user :: "int \<Rightarrow> tables \<Rightarrow> tables" where
  "drop_user i t = t\<lparr>users := filter (\<lambda>u. u_id u \<noteq> i) (users t),
     password_reset_tokens := filter (\<lambda>p. p_user_id p \<noteq> i) (password_reset_tokens t),
     uploaded_files := filter (\<lambda>f. f_owner_id f \<noteq> i) (uploaded_files t)\<rparr>"

lemma first_user_SomeD: "first_user p t = Some u \<Longrightarrow> p u \<and> u \<in> set (users t)"
  unfolding first_user_def by (rule find_SomeD)

lemma first_tenant_SomeD: "first_tenant p t = Some x \<Longrightarrow> p x \<and> x \<in> set (tenants t)"
  unfolding first_tenant_def by (rule find_SomeD)

lemma first_user_by_id:
  assumes "users_ok t" and "u \<in> set (users t)"
  shows "first_user (\<lambda>x. u_id x = u_id u) t = Some u"
  using assms unfolding first_user_def users_ok_def unique_by_def by (auto intro: find_unique)

lemma users_unique_id:
  assumes "users_ok t" and "u \<in> set (users t)" and "v \<in> set (users t)" and "u_id u = u_id v"
  shows "u = v"
  using assms unfolding users_ok_def unique_by_def by (metis (no_types) distinct_map inj_onD)

lemma users_unique_email:
  assumes "users_ok t" and "u \<in> set (users t)" and "v \<in> set (users t)"
    and "u_tenant_id u = u_tenant_id v" and "u_email u = u_email v"
  shows "u = v"
  using assms unfolding users_ok_def unique_by_def
  by (metis (mono_tags, lifting) distinct_map inj_onD)

text \<open>Every user of a well-formed database has a tenant row.\<close>

lemma user_tenant_exists:
  assumes "schema_ok t" and "u \<in> set (users t)"
  shows "\<exists>x. user_tenant t u = Some x \<and> t_id x = u_tenant_id u \<and> x \<in> set (tenants t)"
proof -
  have "u_tenant_id u \<in> t_id ` set (tenants t)"
    using assms by (auto simp: schema_ok_def users_ok_def list_all_iff refers_def)
  then obtain x where "user_tenant t u = Some x"
    unfolding user_tenant_def first_tenant_def
    by (cases "List.find (\<lambda>x. t_id x = u_tenant_id u) (tenants t)") (auto simp: find_None_iff')
  then show ?thesis using first_tenant_SomeD unfolding user_tenant_def by blast
qed

lemma map_update_key:
  assumes "\<And>x. k (f x) = k x"
  shows "map k (map (\<lambda>x. if c x then f x else x) xs) = map k xs"
  by (simp add: assms)

text \<open>
  An update of columns that carry no constraint keeps the schema, whatever rows it touches.
\<close>

lemma set_user_schema_ok:
  assumes "schema_ok t"
    and "\<And>u. u_id (f u) = u_id u" and "\<And>u. u_tenant_id (f u) = u_tenant_id u"
    and "\<And>u. u_email (f u) = u_email u"
  shows "schema_ok (set_user i f t)"
proof -
  have keys: "map u_id (users (set_user i f t)) = map u_id (users t)"
    "map (\<lambda>u. (u_tenant_id u, u_email u)) (users (set_user i f t))
      = map (\<lambda>u. (u_tenant_id u, u_email u)) (users t)"
    using assms(2-4) by (simp_all add: set_user_def)
  have same: "tenants (set_user i f t) = tenants t" "audit_logs (set_user i f t) = audit_logs t"
    "uploaded_files (set_user i f t) = uploaded_files t"
    "idempotency_records (set_user i f t) = idempotency_records t"
    "webhook_events (set_user i f t) = webhook_events t"
    "password_reset_tokens (set_user i f t) = password_reset_tokens t"
    "job_completions (set_user i f t) = job_completions t"
    by (simp_all add: set_user_def)
  have "list_all (\<lambda>u. refers (u_tenant_id u) (map t_id (tenants t))) (users (set_user i f t))"
    using assms by (auto simp: set_user_def schema_ok_def users_ok_def list_all_iff)
  then show ?thesis
    using assms(1) unfolding schema_ok_def table_oks unique_by_def keys same by simp
qed

lemma users_set_user: "users (set_user i f t) = map (\<lambda>u. if u_id u = i then f u else u) (users t)"
  by (simp add: set_user_def)

lemma first_user_set_user:
  assumes "\<And>u. p (f u) \<longleftrightarrow> p u"
  shows "first_user p (set_user i f t) = map_option (\<lambda>u. if u_id u = i then f u else u) (first_user p t)"
  unfolding first_user_def users_set_user by (rule find_map_other) (simp add: assms)

end
