(* ===== verification/Permissions.thy ===== *)
theory Permissions
  imports Models
begin

text \<open>
  Role-based access control: the permissions, the role tables (\<open>app/core/permissions.py\<close>) and the
  decisions over them (\<open>app/services/permission_service.py\<close>). Roles are free text in the database, so
  an unknown role has no permission and includes no role.
\<close>

datatype permission =
    USERS_LIST | USERS_READ | USERS_READ_SELF | USERS_UPDATE | USERS_UPDATE_SELF | USERS_DELETE
  | USERS_ACTIVATE | USERS_DEACTIVATE | ADMIN_ACCESS | AUDIT_LOGS_LIST | FILES_UPLOAD
  | FILES_DOWNLOAD | FILES_DOWNLOAD_SELF | FILES_DELETE | FILES_DELETE_SELF | TENANTS_LIST
  | TENANTS_PROVISION | TENANTS_MANAGE

fun permission_value :: "permission \<Rightarrow> string" where
  "permission_value USERS_LIST = ''users.list''"
| "permission_value USERS_READ = ''users.read''"
| "permission_value USERS_READ_SELF = ''users.read.self''"
| "permission_value USERS_UPDATE = ''users.update''"
| "permission_value USERS_UPDATE_SELF = ''users.update.self''"
| "permission_value USERS_DELETE = ''users.delete''"
| "permission_value USERS_ACTIVATE = ''users.activate''"
| "permission_value USERS_DEACTIVATE = ''users.deactivate''"
| "permission_value ADMIN_ACCESS = ''admin.access''"
| "permission_value AUDIT_LOGS_LIST = ''audit_logs.list''"
| "permission_value FILES_UPLOAD = ''files.upload''"
| "permission_value FILES_DOWNLOAD = ''files.download''"
| "permission_value FILES_DOWNLOAD_SELF = ''files.download.self''"
| "permission_value FILES_DELETE = ''files.delete''"
| "permission_value FILES_DELETE_SELF = ''files.delete.self''"
| "permission_value TENANTS_LIST = ''tenants.list''"
| "permission_value TENANTS_PROVISION = ''tenants.provision''"
| "permission_value TENANTS_MANAGE = ''tenants.manage''"

definition all_permissions :: "permission list" where
  "all_permissions = [USERS_LIST, USERS_READ, USERS_READ_SELF, USERS_UPDATE, USERS_UPDATE_SELF,
     USERS_DELETE, USERS_ACTIVATE, USERS_DEACTIVATE, ADMIN_ACCESS, AUDIT_LOGS_LIST, FILES_UPLOAD,
     FILES_DOWNLOAD, FILES_DOWNLOAD_SELF, FILES_DELETE, FILES_DELETE_SELF, TENANTS_LIST,
     TENANTS_PROVISION, TENANTS_MANAGE]"

lemma all_permissions_complete: "p \<in> set all_permissions"
  by (cases p) (simp_all add: all_permissions_def)

definition USER_PERMISSIONS :: "permission set" where
  "USER_PERMISSIONS =
     {USERS_READ_SELF, USERS_UPDATE_SELF, FILES_UPLOAD, FILES_DOWNLOAD_SELF, FILES_DELETE_SELF}"

definition TENANT_ADMIN_PERMISSIONS :: "permission set" where
  "TENANT_ADMIN_PERMISSIONS =
     set (filter (\<lambda>p. \<not> starts_with (permission_value p) ''tenants.'') all_permissions)"

definition PLATFORM_ADMIN_PERMISSIONS :: "permission set" where
  "PLATFORM_ADMIN_PERMISSIONS = set all_permissions"

definition ROLE_PERMISSIONS :: "string \<rightharpoonup> permission set" where
  "ROLE_PERMISSIONS = map_of [(''user'', USER_PERMISSIONS), (''admin'', TENANT_ADMIN_PERMISSIONS),
     (''platform_admin'', PLATFORM_ADMIN_PERMISSIONS)]"

definition ROLE_HIERARCHY :: "string \<rightharpoonup> string set" where
  "ROLE_HIERARCHY = map_of [(''platform_admin'', {''platform_admin'', ''admin'', ''user''}),
     (''admin'', {''admin'', ''user''}), (''user'', {''user''})]"

definition get_permissions_for_role :: "string \<Rightarrow> permission set" where
  "get_permissions_for_role role = (case ROLE_PERMISSIONS role of None \<Rightarrow> {} | Some ps \<Rightarrow> ps)"

definition role_includes :: "string \<Rightarrow> string \<Rightarrow> bool" where
  "role_includes actor_role required_role \<longleftrightarrow>
     required_role \<in> (case ROLE_HIERARCHY actor_role of None \<Rightarrow> {} | Some rs \<Rightarrow> rs)"

definition user_has_permission :: "user \<Rightarrow> permission \<Rightarrow> bool" where
  "user_has_permission u p \<longleftrightarrow> p \<in> get_permissions_for_role (u_role u)"

definition user_has_any_permission :: "user \<Rightarrow> permission list \<Rightarrow> bool" where
  "user_has_any_permission u ps \<longleftrightarrow> list_ex (\<lambda>p. p \<in> get_permissions_for_role (u_role u)) ps"

definition users_share_tenant :: "user \<Rightarrow> user \<Rightarrow> bool" where
  "users_share_tenant current_user target_user \<longleftrightarrow> u_tenant_id current_user = u_tenant_id target_user"

definition can_read_user :: "user \<Rightarrow> user \<Rightarrow> bool" where
  "can_read_user current_user target_user =
     (if \<not> users_share_tenant current_user target_user then False
      else if user_has_permission current_user USERS_READ then True
      else u_id current_user = u_id target_user \<and> user_has_permission current_user USERS_READ_SELF)"

definition can_update_user :: "user \<Rightarrow> user \<Rightarrow> bool" where
  "can_update_user current_user target_user =
     (if \<not> users_share_tenant current_user target_user then False
      else if user_has_permission current_user USERS_UPDATE then True
      else u_id current_user = u_id target_user \<and> user_has_permission current_user USERS_UPDATE_SELF)"

section \<open>Lemmas\<close>

text \<open>Which permissions are reserved for the platform.\<close>

lemma tenants_prefix:
  "starts_with (permission_value p) ''tenants.'' \<longleftrightarrow> p \<in> {TENANTS_LIST, TENANTS_PROVISION, TENANTS_MANAGE}"
  by (cases p) (simp_all add: starts_with_def)

lemma tenant_admin_iff:
  "p \<in> TENANT_ADMIN_PERMISSIONS \<longleftrightarrow> p \<notin> {TENANTS_LIST, TENANTS_PROVISION, TENANTS_MANAGE}"
  unfolding TENANT_ADMIN_PERMISSIONS_def set_filter tenants_prefix
  using all_permissions_complete by blast

lemma role_permissions:
  "get_permissions_for_role ''user'' = USER_PERMISSIONS"
  "get_permissions_for_role ''admin'' = TENANT_ADMIN_PERMISSIONS"
  "get_permissions_for_role ''platform_admin'' = UNIV"
  "r \<notin> {''user'', ''admin'', ''platform_admin''} \<Longrightarrow> get_permissions_for_role r = {}"
  using all_permissions_complete
  by (auto simp: get_permissions_for_role_def ROLE_PERMISSIONS_def PLATFORM_ADMIN_PERMISSIONS_def)

lemma role_cases:
  obtains "r = ''user''" | "r = ''admin''" | "r = ''platform_admin''"
    | "r \<notin> {''user'', ''admin'', ''platform_admin''}"
  by blast

lemma user_subset_admin: "USER_PERMISSIONS \<subseteq> TENANT_ADMIN_PERMISSIONS"
  by (auto simp: USER_PERMISSIONS_def tenant_admin_iff)

text \<open>A stronger role in the hierarchy never has fewer permissions.\<close>

lemma hierarchy_monotone:
  "role_includes r s \<Longrightarrow> get_permissions_for_role s \<subseteq> get_permissions_for_role r"
  using user_subset_admin
  by (cases r rule: role_cases)
     (auto simp: role_includes_def ROLE_HIERARCHY_def role_permissions)

lemma tenants_permission_role:
  assumes "p \<in> {TENANTS_LIST, TENANTS_PROVISION, TENANTS_MANAGE}"
  shows "p \<in> get_permissions_for_role r \<longleftrightarrow> r = ''platform_admin''"
  using assms
  by (cases r rule: role_cases) (auto simp: role_permissions tenant_admin_iff USER_PERMISSIONS_def)

lemma admin_permission_role:
  assumes "p \<in> {USERS_LIST, USERS_READ, USERS_UPDATE, USERS_DELETE, USERS_ACTIVATE, USERS_DEACTIVATE,
     ADMIN_ACCESS, AUDIT_LOGS_LIST, FILES_DOWNLOAD, FILES_DELETE}"
  shows "p \<in> get_permissions_for_role r \<longleftrightarrow> r \<in> {''admin'', ''platform_admin''}"
  using assms
  by (cases r rule: role_cases) (auto simp: role_permissions tenant_admin_iff USER_PERMISSIONS_def)

section \<open>Properties\<close>

text \<open>
  The role tables mean what their names say. The three roles form a chain in which a stronger role
  has every permission of a weaker one, the permissions on tenants belong to platform administrators
  alone, and a role outside the table has no permission.
\<close>

theorem role_permission_table:
  "get_permissions_for_role ''user'' \<subset> get_permissions_for_role ''admin''
   \<and> get_permissions_for_role ''admin'' \<subset> get_permissions_for_role ''platform_admin''
   \<and> get_permissions_for_role ''platform_admin'' - get_permissions_for_role ''admin''
       = {p. starts_with (permission_value p) ''tenants.''}
   \<and> {r. get_permissions_for_role r \<noteq> {}} = {''user'', ''admin'', ''platform_admin''}
   \<and> {(r, s). role_includes r s}
       = {(''user'', ''user''), (''admin'', ''user''), (''admin'', ''admin''),
          (''platform_admin'', ''user''), (''platform_admin'', ''admin''),
          (''platform_admin'', ''platform_admin'')}"
proof (intro conjI)
  have "USERS_LIST \<in> TENANT_ADMIN_PERMISSIONS" "USERS_LIST \<notin> USER_PERMISSIONS"
    by (simp_all add: tenant_admin_iff USER_PERMISSIONS_def)
  then show "get_permissions_for_role ''user'' \<subset> get_permissions_for_role ''admin''"
    using user_subset_admin by (auto simp: role_permissions)
  have "TENANTS_LIST \<notin> TENANT_ADMIN_PERMISSIONS" by (simp add: tenant_admin_iff)
  then show "get_permissions_for_role ''admin'' \<subset> get_permissions_for_role ''platform_admin''"
    unfolding role_permissions by blast
  show "get_permissions_for_role ''platform_admin'' - get_permissions_for_role ''admin''
       = {p. starts_with (permission_value p) ''tenants.''}"
    unfolding role_permissions tenants_prefix using tenant_admin_iff by blast
  have "USERS_READ_SELF \<in> USER_PERMISSIONS" "USERS_LIST \<in> TENANT_ADMIN_PERMISSIONS"
    by (simp_all add: USER_PERMISSIONS_def tenant_admin_iff)
  then have "get_permissions_for_role r \<noteq> {} \<longleftrightarrow> r \<in> {''user'', ''admin'', ''platform_admin''}" for r
    by (cases r rule: role_cases) (auto simp: role_permissions)
  then show "{r. get_permissions_for_role r \<noteq> {}} = {''user'', ''admin'', ''platform_admin''}" by blast
  show "{(r, s). role_includes r s}
       = {(''user'', ''user''), (''admin'', ''user''), (''admin'', ''admin''),
          (''platform_admin'', ''user''), (''platform_admin'', ''admin''),
          (''platform_admin'', ''platform_admin'')}"
    by (auto simp: role_includes_def ROLE_HIERARCHY_def split: if_splits)
qed

text \<open>
  C19: nobody reads or changes a user of another tenant, and within the tenant only administrators
  reach other users than themselves.
\<close>

theorem user_access_isolated:
  "(can_read_user a b \<longleftrightarrow> u_tenant_id a = u_tenant_id b \<and>
      (u_role a \<in> {''admin'', ''platform_admin''} \<or> u_role a = ''user'' \<and> u_id a = u_id b))
   \<and> (can_update_user a b \<longleftrightarrow> u_tenant_id a = u_tenant_id b \<and>
      (u_role a \<in> {''admin'', ''platform_admin''} \<or> u_role a = ''user'' \<and> u_id a = u_id b))"
proof -
  have self: "p \<in> get_permissions_for_role r \<longleftrightarrow> r \<in> {''user'', ''admin'', ''platform_admin''}"
    if "p \<in> {USERS_READ_SELF, USERS_UPDATE_SELF}" for p r
    using that
    by (cases r rule: role_cases) (auto simp: role_permissions tenant_admin_iff USER_PERMISSIONS_def)
  show ?thesis
    unfolding can_read_user_def can_update_user_def users_share_tenant_def user_has_permission_def
    by (auto simp: admin_permission_role self)
qed

end
