(* ===== verification/Tenancy.thy ===== *)
theory Tenancy
  imports Permissions Config Redis "HOL-Library.Product_Lexorder"
begin

text \<open>
  Audit log (\<open>app/services/audit_log_service.py\<close>), tenants (\<open>app/services/tenant_service.py\<close>,
  \<open>tenant_membership_service.py\<close>, \<open>tenant_seed_service.py\<close>), the tenant context of a request
  (\<open>app/core/tenant_context.py\<close>, \<open>app/api/dependencies/tenant.py\<close>) and the tenant schemas
  (\<open>app/schemas/tenant.py\<close>).

  The order of text columns is the collation of the database: a parameter \<open>collate\<close> into a linear
  order, which has to be injective where the code relies on it.
\<close>

section \<open>Audit log\<close>

definition add_audit_log :: "audit_log \<Rightarrow> tables \<Rightarrow> tables" where
  "add_audit_log a t = t\<lparr>audit_logs := audit_logs t @ [a]\<rparr>"

definition create_audit_log ::
  "int \<Rightarrow> time \<Rightarrow> int \<Rightarrow> int option \<Rightarrow> audit_action \<Rightarrow> int option \<Rightarrow> bool
     \<Rightarrow> ('r world, audit_log) action" where
  "create_audit_log new_id now tenant_id admin_id act target_user_id do_commit =
     (let row = \<lparr>a_id = new_id, a_tenant_id = tenant_id, a_admin_id = admin_id,
                 a_action = action_value act, a_target_user_id = target_user_id,
                 a_created_at = now\<rparr> in
      run_then (save do_commit (add_audit_log row)) (\<lambda>_. ret row))"

definition page_of :: "int \<Rightarrow> int \<Rightarrow> 'a list \<Rightarrow> 'a list" where
  "page_of skip limit rows = take (nat limit) (drop (nat skip) rows)"

definition audit_filter ::
  "int \<Rightarrow> audit_action option \<Rightarrow> int option \<Rightarrow> int option \<Rightarrow> audit_log \<Rightarrow> bool" where
  "audit_filter tenant_id act admin_id target_user_id a \<longleftrightarrow>
     a_tenant_id a = tenant_id
     \<and> (case act of None \<Rightarrow> True | Some x \<Rightarrow> a_action a = action_value x)
     \<and> (case admin_id of None \<Rightarrow> True | Some x \<Rightarrow> a_admin_id a = Some x)
     \<and> (case target_user_id of None \<Rightarrow> True | Some x \<Rightarrow> a_target_user_id a = Some x)"

definition get_audit_logs ::
  "tables \<Rightarrow> int \<Rightarrow> int \<Rightarrow> int \<Rightarrow> audit_action option \<Rightarrow> int option \<Rightarrow> int option \<Rightarrow> audit_log list" where
  "get_audit_logs t tenant_id skip limit act admin_id target_user_id =
     page_of skip limit
       (sort_key (\<lambda>a. (- a_created_at a, - a_id a))
         (filter (audit_filter tenant_id act admin_id target_user_id) (audit_logs t)))"

abbreviation day :: int where
  "day \<equiv> 24 * 60 * 60 * second"

definition cleanup_old_audit_logs :: "settings \<Rightarrow> time \<Rightarrow> ('r world, int) action" where
  "cleanup_old_audit_logs cfg now =
     (let cutoff = now - audit_log_retention_days cfg * day in
      run_then (reads (\<lambda>w. int (length (filter (\<lambda>a. a_created_at a < cutoff) (audit_logs (tx w))))))
      (\<lambda>deleted_count.
      run_then (flush_commit (\<lambda>t. t\<lparr>audit_logs := filter (\<lambda>a. \<not> a_created_at a < cutoff) (audit_logs t)\<rparr>))
      (\<lambda>_. ret deleted_count)))"

section \<open>Tenants\<close>

definition DEFAULT_TENANT_SLUG :: string where
  "DEFAULT_TENANT_SLUG = ''default''"

definition DEFAULT_TENANT_NAME :: string where
  "DEFAULT_TENANT_NAME = ''Default Tenant''"

definition get_tenant_by_slug :: "tables \<Rightarrow> string \<Rightarrow> tenant option" where
  "get_tenant_by_slug t slug = first_tenant (\<lambda>x. t_slug x = slug) t"

definition get_tenant_by_id :: "tables \<Rightarrow> int \<Rightarrow> tenant option" where
  "get_tenant_by_id t i = first_tenant (\<lambda>x. t_id x = i) t"

text \<open>The \<open>X-Tenant-Slug\<close> header, when the request has one.\<close>

definition resolve_tenant_slug :: "string option \<Rightarrow> string" where
  "resolve_tenant_slug header = (case header of None \<Rightarrow> DEFAULT_TENANT_SLUG | Some s \<Rightarrow> s)"

definition get_active_tenant_by_slug :: "string \<Rightarrow> ('r world, tenant) action" where
  "get_active_tenant_by_slug slug =
     run_then (reads (\<lambda>w. get_tenant_by_slug (tx w) slug)) (\<lambda>x. case x of
       None \<Rightarrow> raise (domain NotFoundError ''Tenant not found'')
     | Some tenant \<Rightarrow> if \<not> t_is_active tenant then raise (domain NotFoundError ''Tenant not found'')
                      else ret tenant)"

definition get_required_tenant_id :: "('r world, int) action" where
  "get_required_tenant_id =
     run_then (reads tenant_id_var) (\<lambda>x. case x of
       None \<Rightarrow> raise (domain BadRequestError ''Tenant context is required'')
     | Some i \<Rightarrow> ret i)"

definition build_tenant_cache_prefix :: "int \<Rightarrow> string" where
  "build_tenant_cache_prefix tenant_id = ''tenant:'' @ show_int tenant_id"

definition build_tenant_object_key_prefix :: "int \<Rightarrow> string" where
  "build_tenant_object_key_prefix tenant_id = ''tenants/'' @ show_int tenant_id"

definition add_tenant :: "tenant \<Rightarrow> tables \<Rightarrow> tables" where
  "add_tenant x t = t\<lparr>tenants := tenants t @ [x]\<rparr>"

definition create_tenant :: "int \<Rightarrow> string \<Rightarrow> string \<Rightarrow> ('r world, tenant) action" where
  "create_tenant new_id slug name =
     run_then (reads (\<lambda>w. get_tenant_by_slug (tx w) slug)) (\<lambda>existing.
       if existing \<noteq> None then raise (domain BadRequestError ''Tenant with this slug already exists'')
       else let tenant = \<lparr>t_id = new_id, t_slug = slug, t_name = name, t_is_active = True\<rparr> in
         run_then (flush_commit (add_tenant tenant)) (\<lambda>_. ret tenant))"

definition list_tenants ::
  "(string \<Rightarrow> 'k::linorder) \<Rightarrow> tables \<Rightarrow> int \<Rightarrow> int \<Rightarrow> bool \<Rightarrow> tenant list" where
  "list_tenants collate t skip limit include_inactive =
     page_of skip limit
       (sort_key (\<lambda>x. collate (t_slug x))
         (if include_inactive then tenants t else filter t_is_active (tenants t)))"

definition update_tenant ::
  "int \<Rightarrow> string option \<Rightarrow> bool option \<Rightarrow> ('r world, tenant option) action" where
  "update_tenant tenant_id name is_active =
     run_then (reads (\<lambda>w. get_tenant_by_id (tx w) tenant_id)) (\<lambda>x. case x of
       None \<Rightarrow> ret None
     | Some tenant \<Rightarrow>
         (let set_name = (\<lambda>y. case name of None \<Rightarrow> y | Some n \<Rightarrow> y\<lparr>t_name := n\<rparr>);
              set_active = (\<lambda>y. case is_active of None \<Rightarrow> y | Some b \<Rightarrow> y\<lparr>t_is_active := b\<rparr>) in
          run_then (flush_commit (set_tenant tenant_id (\<lambda>y. set_active (set_name y))))
            (\<lambda>_. ret (Some (set_active (set_name tenant))))))"

definition provision_tenant ::
  "int \<Rightarrow> int \<Rightarrow> time \<Rightarrow> string \<Rightarrow> string \<Rightarrow> int \<Rightarrow> int \<Rightarrow> ('r world, tenant) action" where
  "provision_tenant new_id audit_id now slug name admin_id admin_tenant_id =
     run_then (create_tenant new_id slug name) (\<lambda>tenant.
     run_then (create_audit_log audit_id now admin_tenant_id (Some admin_id) TENANT_CREATED None True)
       (\<lambda>_. ret tenant))"

definition set_tenant_active_state ::
  "int \<Rightarrow> time \<Rightarrow> int \<Rightarrow> bool \<Rightarrow> int \<Rightarrow> int \<Rightarrow> ('r world, tenant option) action" where
  "set_tenant_active_state audit_id now tenant_id is_active admin_id admin_tenant_id =
     run_then (update_tenant tenant_id None (Some is_active)) (\<lambda>x. case x of
       None \<Rightarrow> ret None
     | Some tenant \<Rightarrow>
         run_then (create_audit_log audit_id now admin_tenant_id (Some admin_id)
             (if is_active then TENANT_ACTIVATED else TENANT_DEACTIVATED) None True)
           (\<lambda>_. ret (Some tenant)))"

definition ensure_default_tenant :: "int \<Rightarrow> bool \<Rightarrow> ('r world, tenant) action" where
  "ensure_default_tenant new_id do_commit =
     run_then (reads (\<lambda>w. get_tenant_by_slug (tx w) DEFAULT_TENANT_SLUG)) (\<lambda>x. case x of
       Some tenant \<Rightarrow> ret tenant
     | None \<Rightarrow>
         (let tenant = \<lparr>t_id = new_id, t_slug = DEFAULT_TENANT_SLUG, t_name = DEFAULT_TENANT_NAME,
                        t_is_active = True\<rparr> in
          run_then (save do_commit (add_tenant tenant)) (\<lambda>_. ret tenant)))"

section \<open>Membership\<close>

definition user_belongs_to_tenant :: "user \<Rightarrow> int \<Rightarrow> bool" where
  "user_belongs_to_tenant u tenant_id \<longleftrightarrow> u_tenant_id u = tenant_id"

definition assert_user_belongs_to_tenant :: "user \<Rightarrow> int \<Rightarrow> ('r world, unit) action" where
  "assert_user_belongs_to_tenant u tenant_id =
     ensures (user_belongs_to_tenant u tenant_id) (domain ForbiddenError ''Tenant access denied'')"

definition assert_active_tenant_membership :: "user \<Rightarrow> ('r world, unit) action" where
  "assert_active_tenant_membership u =
     run_then (reads (\<lambda>w. user_tenant (tx w) u)) (\<lambda>x.
       ensures (case x of None \<Rightarrow> False | Some tenant \<Rightarrow> t_is_active tenant)
         (domain ForbiddenError ''Tenant access denied''))"

definition assert_request_tenant_matches_user :: "user \<Rightarrow> tenant \<Rightarrow> ('r world, unit) action" where
  "assert_request_tenant_matches_user u request_tenant =
     ensures (u_tenant_id u = t_id request_tenant) (domain ForbiddenError ''Tenant access denied'')"

section \<open>Tenant context of a request\<close>

definition set_tenant_context :: "int \<Rightarrow> string option \<Rightarrow> ('r world, unit) action" where
  "set_tenant_context i slug w =
     (Inr (), w\<lparr>tenant_id_var := Some i,
        tenant_slug_var := (case slug of None \<Rightarrow> tenant_slug_var w | Some s \<Rightarrow> Some s)\<rparr>)"

definition clear_tenant_context :: "('r world, unit) action" where
  "clear_tenant_context w = (Inr (), w\<lparr>tenant_id_var := None, tenant_slug_var := None\<rparr>)"

definition get_request_tenant :: "string option \<Rightarrow> ('r world, tenant) action" where
  "get_request_tenant header =
     run_then (get_active_tenant_by_slug (resolve_tenant_slug header)) (\<lambda>tenant.
     run_then (set_tenant_context (t_id tenant) (Some (t_slug tenant))) (\<lambda>_. ret tenant))"

section \<open>Schemas\<close>

definition slug_char :: "char \<Rightarrow> bool" where
  "slug_char c \<longleftrightarrow> is_digit c \<or> (97 \<le> (of_char c :: nat) \<and> (of_char c :: nat) \<le> 122)"

text \<open>\<open>[a-z0-9]+(?:-[a-z0-9]+)*\<close>: non-empty runs of letters and digits, separated by single hyphens.\<close>

definition matches_slug_pattern :: "string \<Rightarrow> bool" where
  "matches_slug_pattern s \<longleftrightarrow> list_all (\<lambda>p. p \<noteq> [] \<and> list_all slug_char p) (split_on (CHR ''-'') s)"

definition slug_message :: string where
  "slug_message = ''Slug must contain lowercase letters, numbers, and hyphens only''"

definition validate_slug :: "string \<Rightarrow> (exn, string) result" where
  "validate_slug value =
     (let normalized = lower (strip value) in
      if \<not> matches_slug_pattern normalized then Inl (ValueErr slug_message) else Inr normalized)"

text \<open>The length bounds are checked on the submitted text, before the validator strips it.\<close>

definition TenantCreate :: "string \<Rightarrow> string \<Rightarrow> (exn, string \<times> string) result" where
  "TenantCreate slug name =
     and_then (ensure (2 \<le> length slug \<and> length slug \<le> 63 \<and> 1 \<le> length name \<and> length name \<le> 255)
                (ValueErr ''length''))
       (\<lambda>_. and_then (validate_slug slug) (\<lambda>s. Inr (s, name)))"

section \<open>Lemmas\<close>

text \<open>A slug of one letter is accepted when blanks around it reach the minimum.\<close>

lemma stripped_slug_below_minimum: "TenantCreate ''a '' name = (if 1 \<le> length name \<and> length name \<le> 255
  then Inr (''a'', name) else Inl (ValueErr ''length''))"
proof -
  have "validate_slug ''a '' = Inr ''a''" by code_simp
  then show ?thesis by (simp add: TenantCreate_def and_then_def ensure_def)
qed

lemma refers_append: "refers i is \<Longrightarrow> refers i (is @ js)"
  by (simp add: refers_def)

lemma add_tenant_schema_ok:
  assumes "schema_ok t"
  shows "schema_ok (add_tenant x t) \<longleftrightarrow>
     t_id x \<notin> t_id ` set (tenants t) \<and> t_slug x \<notin> t_slug ` set (tenants t)"
  using assms
  by (auto simp: schema_ok_def table_oks unique_by_def add_tenant_def list_all_iff refers_append)

lemma add_audit_schema_ok:
  assumes "schema_ok t"
  shows "schema_ok (add_audit_log a t) \<longleftrightarrow>
     a_id a \<notin> a_id ` set (audit_logs t) \<and> a_tenant_id a \<in> t_id ` set (tenants t)
     \<and> opt_refers (a_admin_id a) (map u_id (users t))"
proof -
  have fst_part: "tenants_ok (add_audit_log a t) \<and> users_ok (add_audit_log a t)
      \<and> uploaded_files_ok (add_audit_log a t) \<and> idempotency_ok (add_audit_log a t)
      \<and> webhook_events_ok (add_audit_log a t) \<and> reset_tokens_ok (add_audit_log a t)
      \<and> job_completions_ok (add_audit_log a t)"
    using assms by (simp add: schema_ok_def table_oks add_audit_log_def)
  have "audit_logs_ok t" using assms by (simp add: schema_ok_def)
  then have "audit_logs_ok (add_audit_log a t) \<longleftrightarrow>
     a_id a \<notin> a_id ` set (audit_logs t) \<and> a_tenant_id a \<in> t_id ` set (tenants t)
     \<and> opt_refers (a_admin_id a) (map u_id (users t))"
    by (auto simp: audit_logs_ok_def unique_by_def add_audit_log_def refers_def)
  with fst_part show ?thesis by (simp add: schema_ok_def)
qed

text \<open>Removing audit rows never breaks a constraint.\<close>

lemma filter_audit_schema_ok:
  assumes "schema_ok t"
  shows "schema_ok (t\<lparr>audit_logs := filter p (audit_logs t)\<rparr>)"
  using assms by (auto simp: schema_ok_def table_oks unique_by_def list_all_iff distinct_map_filter)

lemma get_tenant_by_slug_None: "get_tenant_by_slug t s = None \<longleftrightarrow> s \<notin> t_slug ` set (tenants t)"
  by (auto simp: get_tenant_by_slug_def first_tenant_def find_None_iff')

lemma create_tenant_cases:
  assumes "schema_ok (tx w)" and "new_id \<notin> t_id ` set (tenants (tx w))"
  shows "create_tenant new_id slug name w =
     (case get_tenant_by_slug (tx w) slug of
        Some x \<Rightarrow> (Inl (domain BadRequestError ''Tenant with this slug already exists''), w)
      | None \<Rightarrow> let x = \<lparr>t_id = new_id, t_slug = slug, t_name = name, t_is_active = True\<rparr> in
          (Inr x, w\<lparr>tx := add_tenant x (tx w), stored := add_tenant x (tx w)\<rparr>))"
proof (cases "get_tenant_by_slug (tx w) slug")
  case None
  then have "slug \<notin> t_slug ` set (tenants (tx w))" by (simp add: get_tenant_by_slug_None)
  then show ?thesis
    using assms None
    by (simp add: create_tenant_def flush_commit_cases Let_def add_tenant_schema_ok run_then_def)
qed (simp add: create_tenant_def)

lemma create_audit_log_cases:
  assumes "schema_ok (tx w)" and "new_id \<notin> a_id ` set (audit_logs (tx w))"
  shows "create_audit_log new_id now tid admin act target True w =
     (let row = \<lparr>a_id = new_id, a_tenant_id = tid, a_admin_id = admin, a_action = action_value act,
                 a_target_user_id = target, a_created_at = now\<rparr> in
      if tid \<in> t_id ` set (tenants (tx w))
         \<and> opt_refers admin (map u_id (users (tx w)))
      then (Inr row, w\<lparr>tx := add_audit_log row (tx w), stored := add_audit_log row (tx w)\<rparr>)
      else (Inl IntegrityError, w\<lparr>tx := stored w\<rparr>))"
  using assms
  by (auto simp: create_audit_log_def save_def flush_commit_cases Let_def add_audit_schema_ok
      run_then_def)

lemma keeps_world_ok_tenancy [intro, simp]:
  "keeps world_ok (create_audit_log i now t a act u b)"
  "keeps world_ok (cleanup_old_audit_logs cfg now)"
  "keeps world_ok (get_active_tenant_by_slug slug)"
  "keeps world_ok (create_tenant i slug name)"
  "keeps world_ok (update_tenant i nm act')"
  "keeps world_ok (ensure_default_tenant i b)"
  "keeps world_ok (assert_active_tenant_membership u')"
  "keeps world_ok (assert_request_tenant_matches_user u' t')"
  by (auto simp: create_audit_log_def cleanup_old_audit_logs_def get_active_tenant_by_slug_def
      create_tenant_def update_tenant_def ensure_default_tenant_def assert_active_tenant_membership_def
      assert_request_tenant_matches_user_def Let_def
      intro!: keeps_run_then split: option.splits)

lemma keeps_world_ok_tenancy2 [intro, simp]:
  "keeps world_ok (provision_tenant i j now slug name a b)"
  "keeps world_ok (set_tenant_active_state j now i act a b)"
  by (auto simp: provision_tenant_def set_tenant_active_state_def intro!: keeps_run_then
      split: option.splits)

text \<open>Consecutive pages of a listing cover it without gap or overlap.\<close>

lemma pages_cover:
  assumes "0 \<le> sz"
  shows "concat (map (\<lambda>k. page_of (int k * sz) sz xs) [0..<n]) = take (n * nat sz) xs"
proof (induction n)
  case (Suc n)
  have "nat (int n * sz) = n * nat sz" using assms by (simp add: nat_mult_distrib)
  then have "page_of (int n * sz) sz xs = take (nat sz) (drop (n * nat sz) xs)"
    by (simp add: page_of_def)
  then show ?case
    using Suc by (simp add: take_add add.commute flip: take_add)
qed simp

section \<open>Properties\<close>

text \<open>
  C20: provisioning a tenant. A slug that is taken is refused and nothing changes. Otherwise the tenant
  is committed first and the audit row in a second transaction: if the acting administrator no longer
  exists, the request fails but the tenant stays, without an audit row.
\<close>

theorem provision_tenant_effect:
  assumes "world_ok w" and "new_id \<notin> t_id ` set (tenants (tx w))"
    and "audit_id \<notin> a_id ` set (audit_logs (tx w))"
  shows "provision_tenant new_id audit_id now slug name admin admin_tenant w =
    (let x = \<lparr>t_id = new_id, t_slug = slug, t_name = name, t_is_active = True\<rparr>;
         t1 = add_tenant x (tx w);
         row = \<lparr>a_id = audit_id, a_tenant_id = admin_tenant, a_admin_id = Some admin,
                a_action = ''tenant.created'', a_target_user_id = None, a_created_at = now\<rparr>;
         t2 = add_audit_log row t1 in
     if slug \<in> t_slug ` set (tenants (tx w))
     then (Inl (domain BadRequestError ''Tenant with this slug already exists''), w)
     else if admin_tenant \<in> insert new_id (t_id ` set (tenants (tx w))) \<and> admin \<in> u_id ` set (users (tx w))
     then (Inr x, w\<lparr>stored := t2, tx := t2\<rparr>)
     else (Inl IntegrityError, w\<lparr>stored := t1, tx := t1\<rparr>))"
proof -
  have ok: "schema_ok (tx w)" using assms(1) by (simp add: world_ok_def)
  note ct = create_tenant_cases [OF ok assms(2), of slug name]
  show ?thesis
  proof (cases "get_tenant_by_slug (tx w) slug")
    case None
    define x where "x = \<lparr>t_id = new_id, t_slug = slug, t_name = name, t_is_active = True\<rparr>"
    define w1 where "w1 = w\<lparr>tx := add_tenant x (tx w), stored := add_tenant x (tx w)\<rparr>"
    have new: "slug \<notin> t_slug ` set (tenants (tx w))" using None by (simp add: get_tenant_by_slug_None)
    have ok1: "schema_ok (tx w1)"
      using ok new assms(2) by (simp add: w1_def x_def add_tenant_schema_ok)
    have aid: "audit_id \<notin> a_id ` set (audit_logs (tx w1))"
      using assms(3) by (simp add: w1_def add_tenant_def)
    have "create_tenant new_id slug name w = (Inr x, w1)"
      using ct None by (simp add: Let_def x_def w1_def)
    then show ?thesis
      using new create_audit_log_cases [OF ok1 aid, of now admin_tenant "Some admin" TENANT_CREATED None]
      by (simp add: provision_tenant_def Let_def run_then_def)
         (auto simp: w1_def x_def add_tenant_def refers_def)
  next
    case (Some y)
    then have "slug \<in> t_slug ` set (tenants (tx w))"
      using get_tenant_by_slug_None [of "tx w" slug] by auto
    then show ?thesis using ct Some by (simp add: provision_tenant_def run_then_def)
  qed
qed

definition example_tenant :: tenant where
  "example_tenant = \<lparr>t_id = 1, t_slug = ''default'', t_name = ''Default Tenant'', t_is_active = True\<rparr>"

definition example_user :: "int \<Rightarrow> string \<Rightarrow> user" where
  "example_user i role = \<lparr>u_id = i, u_tenant_id = 1, u_email = ''u'' @ show_int i @ ''@corp.test'',
     u_hashed_password = ''h'', u_is_active = True, u_role = role, u_token_version = 0\<rparr>"

definition example_tables :: tables where
  "example_tables = empty_tables\<lparr>tenants := [example_tenant],
     users := [example_user 1 ''platform_admin'', example_user 2 ''admin'', example_user 3 ''user'']\<rparr>"

definition example_world :: "store world" where
  "example_world = \<lparr>stored = example_tables, tx = example_tables, redis = empty_store,
     tenant_id_var = None, tenant_slug_var = None\<rparr>"

lemma example_world_simps [simp]:
  "stored example_world = example_tables" "tx example_world = example_tables"
  "redis example_world = empty_store"
  by (simp_all add: example_world_def)

lemma example_world_ok: "world_ok example_world"
proof -
  have "schema_ok example_tables"
    by (simp add: schema_ok_def table_oks unique_by_def example_tables_def empty_tables_def
        example_tenant_def example_user_def refers_def)
  then show ?thesis by (simp add: world_ok_def example_world_def)
qed

theorem provision_tenant_effect_witness:
  "fst (provision_tenant 2 1 0 ''acme'' ''Acme'' 1 1 example_world)
     = Inr \<lparr>t_id = 2, t_slug = ''acme'', t_name = ''Acme'', t_is_active = True\<rparr>"
proof -
  have "2 \<notin> t_id ` set (tenants (tx example_world))" "1 \<notin> a_id ` set (audit_logs (tx example_world))"
    by (simp_all add: example_world_def example_tables_def empty_tables_def example_tenant_def)
  from provision_tenant_effect [OF example_world_ok this, of 0 "''acme''" "''Acme''" 1 1]
  show ?thesis
    by (simp add: Let_def example_world_def example_tables_def empty_tables_def example_tenant_def
        example_user_def)
qed

text \<open>
  Audit listings. The pages of an audit query, put together, are the matching rows of the
  administrator's tenant, newest first, without gap or overlap; no row of another tenant appears.
\<close>

theorem audit_pages_complete:
  assumes "0 \<le> sz"
  shows "let rows = concat (map (\<lambda>k. get_audit_logs t tid (int k * sz) sz act adm target) [0..<n]);
             matching = filter (audit_filter tid act adm target) (audit_logs t) in
    (\<forall>a \<in> set rows. a_tenant_id a = tid)
    \<and> sorted (map (\<lambda>a. (- a_created_at a, - a_id a)) rows)
    \<and> (length matching \<le> n * nat sz \<longrightarrow> mset rows = mset matching)"
proof -
  let ?ordered = "sort_key (\<lambda>a. (- a_created_at a, - a_id a))
    (filter (audit_filter tid act adm target) (audit_logs t))"
  have rows: "concat (map (\<lambda>k. get_audit_logs t tid (int k * sz) sz act adm target) [0..<n])
      = take (n * nat sz) ?ordered"
    unfolding get_audit_logs_def using pages_cover [OF assms] .
  have "sorted (map (\<lambda>a. (- a_created_at a, - a_id a)) (take (n * nat sz) ?ordered))"
    unfolding take_map [symmetric] by (intro sorted_wrt_take sorted_sort_key)
  moreover have "set (take (n * nat sz) ?ordered) \<subseteq> set ?ordered" by (rule set_take_subset)
  ultimately show ?thesis
    unfolding rows Let_def by (auto simp: audit_filter_def)
qed

theorem audit_pages_complete_witness:
  "let rows = concat (map (\<lambda>k. get_audit_logs
       (example_tables\<lparr>audit_logs := [\<lparr>a_id = 1, a_tenant_id = 1, a_admin_id = Some 1,
          a_action = ''user.updated'', a_target_user_id = Some 3, a_created_at = 5\<rparr>]\<rparr>)
       1 (int k * 10) 10 None None None) [0..<2]) in length rows = 1"
proof -
  let ?t = "example_tables\<lparr>audit_logs := [\<lparr>a_id = 1, a_tenant_id = 1, a_admin_id = Some 1,
          a_action = ''user.updated'', a_target_user_id = Some 3, a_created_at = 5\<rparr>]\<rparr>"
  have "mset (concat (map (\<lambda>k. get_audit_logs ?t 1 (int k * 10) 10 None None None) [0..<2]))
      = mset (filter (audit_filter 1 None None None) (audit_logs ?t))"
    using audit_pages_complete [of 10 ?t 1 None None None 2]
    by (simp add: Let_def audit_filter_def)
  then have "length (concat (map (\<lambda>k. get_audit_logs ?t 1 (int k * 10) 10 None None None) [0..<2]))
      = length (filter (audit_filter 1 None None None) (audit_logs ?t))" by (metis size_mset)
  then show ?thesis by (simp add: Let_def audit_filter_def)
qed

end
