(* ===== verification/Cache.thy ===== *)
theory Cache
  imports Tenancy
begin

text \<open>
  The JSON cache and its version counters (\<open>app/core/cache.py\<close>), the Redis connection parameters and the
  refresh-token revocation list (\<open>app/core/redis.py\<close>), and the invalidation of cached user lists
  (\<open>app/services/user_service.py\<close>). The cache swallows \<open>RedisError\<close>; the revocation list does not.
\<close>

section \<open>Cache\<close>

text \<open>The outer \<open>None\<close> is a document that does not decode, where \<open>json.loads\<close> raises.\<close>

definition get_json_cache ::
  "('r, 'm) redis_keys_scheme \<Rightarrow> time \<Rightarrow> string \<Rightarrow> ('r world, pyval option) action" where
  "get_json_cache K now key w =
     (case get_key K now key (redis w) of
        None \<Rightarrow> (Inr None, w)
      | Some None \<Rightarrow> (Inr None, w)
      | Some (Some cached_value) \<Rightarrow>
          (case loads cached_value of
             None \<Rightarrow> (Inl (ValueErr ''JSONDecodeError''), w)
           | Some v \<Rightarrow> (Inr (Some v), w)))"

definition set_json_cache ::
  "('r, 'm) redis_keys_scheme \<Rightarrow> time \<Rightarrow> string \<Rightarrow> pyval \<Rightarrow> int \<Rightarrow> ('r world, unit) action" where
  "set_json_cache K now key value ttl_seconds w =
     (case set_key K now key (dumps value) False ttl_seconds (redis w) of
        None \<Rightarrow> (Inr (), w)
      | Some (_, r') \<Rightarrow> (Inr (), w\<lparr>redis := r'\<rparr>))"

definition get_cache_version ::
  "('r, 'm) redis_keys_scheme \<Rightarrow> time \<Rightarrow> string \<Rightarrow> ('r world, int) action" where
  "get_cache_version K now version_key w =
     (case get_key K now version_key (redis w) of
        None \<Rightarrow> (Inr 0, w)
      | Some None \<Rightarrow> (Inr 0, w)
      | Some (Some v) \<Rightarrow>
          (case py_int v of None \<Rightarrow> (Inl (ValueErr ''int''), w) | Some n \<Rightarrow> (Inr n, w)))"

definition increment_cache_version ::
  "('r, 'm) redis_keys_scheme \<Rightarrow> time \<Rightarrow> string \<Rightarrow> ('r world, int option) action" where
  "increment_cache_version K now version_key w =
     (case incr_key K now version_key (redis w) of
        None \<Rightarrow> (Inr None, w)
      | Some (n, r') \<Rightarrow> (Inr (Some n), w\<lparr>redis := r'\<rparr>))"

definition delete_cache_pattern ::
  "('r, 'm) redis_keys_scheme \<Rightarrow> time \<Rightarrow> string \<Rightarrow> ('r world, int) action" where
  "delete_cache_pattern K now pattern w =
     (case scan_keys K now pattern (redis w) of
        None \<Rightarrow> (Inr 0, w)
      | Some ks \<Rightarrow>
          if ks = [] then (Inr 0, w)
          else (case delete_keys K now ks (redis w) of
                  None \<Rightarrow> (Inr 0, w)
                | Some (n, r') \<Rightarrow> (Inr n, w\<lparr>redis := r'\<rparr>)))"

section \<open>Redis connection\<close>

datatype kwarg = KStr string | KInt int | KBool bool | KSeconds rat | KCertReqs string

definition redis_kwargs :: "settings \<Rightarrow> (string \<times> kwarg) list" where
  "redis_kwargs s =
     [(''host'', KStr (redis_host s)), (''port'', KInt (redis_port s)), (''db'', KInt (redis_db s)),
      (''decode_responses'', KBool True),
      (''socket_timeout'', KSeconds (redis_socket_timeout_seconds s)),
      (''socket_connect_timeout'', KSeconds (redis_socket_connect_timeout_seconds s))]
     @ (if strip (redis_username s) \<noteq> [] then [(''username'', KStr (redis_username s))] else [])
     @ (if strip (redis_password s) \<noteq> [] then [(''password'', KStr (redis_password s))] else [])
     @ (if redis_ssl s
        then [(''ssl'', KBool True), (''ssl_cert_reqs'', KCertReqs (redis_ssl_cert_reqs s))] else [])"

section \<open>Revoked refresh tokens\<close>

definition revoked_key :: "string \<Rightarrow> string" where
  "revoked_key jti = ''revoked_refresh_token:'' @ jti"

definition revoke_refresh_token ::
  "('r, 'm) redis_keys_scheme \<Rightarrow> time \<Rightarrow> string \<Rightarrow> int \<Rightarrow> bool \<Rightarrow> ('r world, bool) action" where
  "revoke_refresh_token K now jti expires_at require_new w =
     (let ttl_seconds = expires_at - now div second in
      if ttl_seconds \<le> 0 then (Inr (\<not> require_new), w)
      else (case set_key K now (revoked_key jti) ''1'' require_new ttl_seconds (redis w) of
              None \<Rightarrow> (Inl RedisError, w)
            | Some (b, r') \<Rightarrow> (Inr (if require_new then b else True), w\<lparr>redis := r'\<rparr>)))"

definition is_refresh_token_revoked ::
  "('r, 'm) redis_keys_scheme \<Rightarrow> time \<Rightarrow> string \<Rightarrow> ('r world, bool) action" where
  "is_refresh_token_revoked K now jti w =
     (case exists_key K now (revoked_key jti) (redis w) of
        None \<Rightarrow> (Inl RedisError, w)
      | Some b \<Rightarrow> (Inr b, w))"

section \<open>User list cache keys\<close>

definition USERS_LIST_CACHE_NAMESPACE :: string where
  "USERS_LIST_CACHE_NAMESPACE = ''users:list:v1''"

definition USERS_LIST_CACHE_VERSION_SUFFIX :: string where
  "USERS_LIST_CACHE_VERSION_SUFFIX = ''users:list:version''"

definition build_users_list_cache_version_key :: "int \<Rightarrow> string" where
  "build_users_list_cache_version_key tenant_id =
     build_tenant_cache_prefix tenant_id @ '':'' @ USERS_LIST_CACHE_VERSION_SUFFIX"

definition invalidate_users_list_cache ::
  "('r, 'm) redis_keys_scheme \<Rightarrow> time \<Rightarrow> int \<Rightarrow> ('r world, unit) action" where
  "invalidate_users_list_cache K now tenant_id =
     run_then (increment_cache_version K now (build_users_list_cache_version_key tenant_id)) (\<lambda>_. noop)"

section \<open>Lemmas\<close>

text \<open>None of these operations touches the database or the tenant context.\<close>

definition same_db :: "'r world \<Rightarrow> 'r world \<Rightarrow> bool" where
  "same_db w w' \<longleftrightarrow> stored w' = stored w \<and> tx w' = tx w \<and> tenant_id_var w' = tenant_id_var w
     \<and> tenant_slug_var w' = tenant_slug_var w"

lemma same_db_redis [simp]: "same_db w (w\<lparr>redis := r\<rparr>)" "same_db w w"
  by (simp_all add: same_db_def)

lemma cache_same_db:
  "same_db w (snd (get_json_cache K now key w))"
  "same_db w (snd (set_json_cache K now key v ttl w))"
  "same_db w (snd (get_cache_version K now key w))"
  "same_db w (snd (increment_cache_version K now key w))"
  "same_db w (snd (invalidate_users_list_cache K now tid w))"
  "same_db w (snd (revoke_refresh_token K now jti e b w))"
  "same_db w (snd (is_refresh_token_revoked K now jti w))"
  by (auto simp: get_json_cache_def set_json_cache_def get_cache_version_def
      increment_cache_version_def invalidate_users_list_cache_def revoke_refresh_token_def
      is_refresh_token_revoked_def Let_def run_then_def split: option.splits prod.splits)

lemma invalidate_never_raises:
  "\<exists>r'. invalidate_users_list_cache K now tid w = (Inr (), w\<lparr>redis := r'\<rparr>)"
proof (cases "incr_key K now (build_users_list_cache_version_key tid) (redis w)")
  case None
  then have "invalidate_users_list_cache K now tid w = (Inr (), w\<lparr>redis := redis w\<rparr>)"
    by (simp add: invalidate_users_list_cache_def increment_cache_version_def run_then_def)
  then show ?thesis by blast
qed (auto simp: invalidate_users_list_cache_def increment_cache_version_def run_then_def)

lemma keeps_same_db: "(\<And>w. same_db w (snd (m w))) \<Longrightarrow> keeps world_ok m"
  by (simp add: keeps_def world_ok_def same_db_def)

lemma keeps_world_ok_cache [intro, simp]:
  "keeps world_ok (get_json_cache K now key)"
  "keeps world_ok (set_json_cache K now key v ttl)"
  "keeps world_ok (get_cache_version K now key)"
  "keeps world_ok (increment_cache_version K now key)"
  "keeps world_ok (invalidate_users_list_cache K now tid)"
  "keeps world_ok (revoke_refresh_token K now jti e b)"
  "keeps world_ok (is_refresh_token_revoked K now jti)"
  by (rule keeps_same_db, rule cache_same_db)+

lemma revoked_key_inj [simp]: "revoked_key a = revoked_key b \<longleftrightarrow> a = b"
  by (simp add: revoked_key_def)

text \<open>Cache keys of different tenants differ, whatever follows the tenant prefix.\<close>

lemma tenant_prefix_disjoint:
  assumes "build_tenant_cache_prefix i @ '':'' @ x = build_tenant_cache_prefix j @ '':'' @ y"
  shows "i = j"
proof -
  have eq: "show_int i @ CHR '':'' # x = show_int j @ CHR '':'' # y"
    using assms by (simp add: build_tenant_cache_prefix_def)
  have tw: "takeWhile (\<lambda>c. c \<noteq> CHR '':'') (show_int k @ CHR '':'' # z) = show_int k" for k z
    using show_int_no_colon [of k] by (subst takeWhile_append2) auto
  have "show_int i = show_int j" using arg_cong [OF eq, of "takeWhile (\<lambda>c. c \<noteq> CHR '':'')"] tw by simp
  then show ?thesis by simp
qed

lemma version_keys_disjoint [simp]:
  "build_users_list_cache_version_key i = build_users_list_cache_version_key j \<longleftrightarrow> i = j"
  using tenant_prefix_disjoint unfolding build_users_list_cache_version_key_def by blast

end
