(* ===== verification/Rate_Limit.thy ===== *)
theory Rate_Limit
  imports Cache
begin

text \<open>
  Request rate limits (\<open>app/api/dependencies/rate_limit.py\<close>) and the client address they are keyed by
  (\<open>app/core/client_ip.py\<close>). The counter of a key lives in Redis: the first request of a window creates
  it and sets its expiry in a second command. \<open>sha256\<close> is a parameter.
\<close>

section \<open>Client address\<close>

record request =
  x_forwarded_for :: "string option"
  x_real_ip :: "string option"
  x_tenant_slug :: "string option"
  client_host :: "string option"

definition get_client_ip :: "settings \<Rightarrow> request \<Rightarrow> string" where
  "get_client_ip cfg req =
     (let peer = (case client_host req of None \<Rightarrow> ''unknown'' | Some h \<Rightarrow> h) in
      if rate_limit_trust_forwarded_headers cfg then
        (case x_forwarded_for req of
           Some (c # s) \<Rightarrow> strip (hd (split_on (CHR '','') (c # s)))
         | _ \<Rightarrow> (case x_real_ip req of
             Some (c # s) \<Rightarrow> strip (c # s)
           | _ \<Rightarrow> peer))
      else peer)"

section \<open>Counters\<close>

definition REDIS_UNAVAILABLE_DETAIL :: string where
  "REDIS_UNAVAILABLE_DETAIL = ''Service temporarily unavailable''"

definition enforce_rate_limit_counter ::
  "('r, 'm) redis_keys_scheme \<Rightarrow> time \<Rightarrow> string \<Rightarrow> int \<Rightarrow> int \<Rightarrow> ('r world, unit) action" where
  "enforce_rate_limit_counter K now key limit window_seconds w =
     (case incr_key K now key (redis w) of
        None \<Rightarrow> (Inl (HTTPException 503 REDIS_UNAVAILABLE_DETAIL), w)
      | Some (current_count, r1) \<Rightarrow>
          (case (if current_count = 1 then expire_key K now key window_seconds r1 else Some r1) of
             None \<Rightarrow> (Inl (HTTPException 503 REDIS_UNAVAILABLE_DETAIL), w\<lparr>redis := r1\<rparr>)
           | Some r2 \<Rightarrow>
               if limit < current_count
               then (Inl (HTTPException 429 ''Too many requests''), w\<lparr>redis := r2\<rparr>)
               else (Inr (), w\<lparr>redis := r2\<rparr>)))"

text \<open>\<open>rate_limit(...)\<close> checks its arguments when the route is declared and returns the dependency.\<close>

definition rate_limit ::
  "('r, 'm) redis_keys_scheme \<Rightarrow> settings \<Rightarrow> int option \<Rightarrow> int option \<Rightarrow> string
     \<Rightarrow> (exn, time \<Rightarrow> request \<Rightarrow> ('r world, unit) action) result" where
  "rate_limit K cfg limit window_seconds key_prefix =
     (if (case limit of None \<Rightarrow> False | Some l \<Rightarrow> l \<le> 0)
      then Inl (ValueErr ''rate limit must be greater than 0'')
      else if (case window_seconds of None \<Rightarrow> False | Some s \<Rightarrow> s \<le> 0)
      then Inl (ValueErr ''rate limit window_seconds must be greater than 0'')
      else Inr (\<lambda>now req.
        enforce_rate_limit_counter K now (key_prefix @ '':'' @ get_client_ip cfg req)
          (case limit of None \<Rightarrow> rate_limit_default_limit cfg | Some l \<Rightarrow> l)
          (case window_seconds of None \<Rightarrow> rate_limit_default_window_seconds cfg | Some s \<Rightarrow> s)))"

definition auth_login_rate_limit where
  "auth_login_rate_limit K cfg = rate_limit K cfg (Some (auth_login_rate_limit_limit cfg))
     (Some (auth_login_rate_limit_window_seconds cfg)) ''rate_limit:auth_login''"

definition auth_register_rate_limit where
  "auth_register_rate_limit K cfg = rate_limit K cfg (Some (auth_register_rate_limit_limit cfg))
     (Some (auth_register_rate_limit_window_seconds cfg)) ''rate_limit:auth_register''"

definition auth_refresh_rate_limit where
  "auth_refresh_rate_limit K cfg = rate_limit K cfg (Some (auth_refresh_rate_limit_limit cfg))
     (Some (auth_refresh_rate_limit_window_seconds cfg)) ''rate_limit:auth_refresh''"

definition auth_logout_rate_limit where
  "auth_logout_rate_limit K cfg = rate_limit K cfg (Some (auth_logout_rate_limit_limit cfg))
     (Some (auth_logout_rate_limit_window_seconds cfg)) ''rate_limit:auth_logout''"

text \<open>The dependency a route declares: it exists because the settings were validated.\<close>

definition limited ::
  "(exn, time \<Rightarrow> request \<Rightarrow> ('r world, unit) action) result \<Rightarrow> time \<Rightarrow> request \<Rightarrow> ('r world, unit) action" where
  "limited dep now req = (case dep of Inl e \<Rightarrow> raise e | Inr d \<Rightarrow> d now req)"

text \<open>\<open>request.scope["_json"]\<close> is set by the route to the submitted address.\<close>

definition password_reset_rate_limit ::
  "('r, 'm) redis_keys_scheme \<Rightarrow> settings \<Rightarrow> (string \<Rightarrow> string) \<Rightarrow> time \<Rightarrow> request \<Rightarrow> string option
     \<Rightarrow> ('r world, unit) action" where
  "password_reset_rate_limit K cfg sha now req body_email =
     (let email = (case body_email of None \<Rightarrow> [] | Some e \<Rightarrow> lower e) in
      enforce_rate_limit_counter K now
        (''rate_limit:password_reset:'' @ get_client_ip cfg req @ '':'' @ sha (utf8_encode email))
        (password_reset_rate_limit_limit cfg) (password_reset_rate_limit_window_seconds cfg))"

definition webhook_ingress_rate_limit ::
  "('r, 'm) redis_keys_scheme \<Rightarrow> settings \<Rightarrow> time \<Rightarrow> request \<Rightarrow> ('r world, unit) action" where
  "webhook_ingress_rate_limit K cfg now req =
     enforce_rate_limit_counter K now (''rate_limit:webhook_ingress:'' @ get_client_ip cfg req)
       (webhook_ingress_rate_limit_limit cfg) (webhook_ingress_rate_limit_window_seconds cfg)"

definition enforce_webhook_provider_rate_limit ::
  "('r, 'm) redis_keys_scheme \<Rightarrow> settings \<Rightarrow> time \<Rightarrow> string \<Rightarrow> ('r world, unit) action" where
  "enforce_webhook_provider_rate_limit K cfg now provider =
     (let normalized_provider = lower (strip provider) in
      if normalized_provider = [] then noop
      else enforce_rate_limit_counter K now (''rate_limit:webhook_provider:'' @ normalized_provider)
             (webhook_provider_rate_limit_limit cfg) (webhook_provider_rate_limit_window_seconds cfg))"

section \<open>A window of requests\<close>

text \<open>The requests of one key at the instants \<open>ts\<close>, each keeping what the previous one left in Redis.\<close>

fun request_run ::
  "('r, 'm) redis_keys_scheme \<Rightarrow> string \<Rightarrow> int \<Rightarrow> int \<Rightarrow> time list \<Rightarrow> 'r world
     \<Rightarrow> (exn, unit) result list \<times> 'r world" where
  "request_run K key limit win [] w = ([], w)"
| "request_run K key limit win (t # ts) w =
     (case enforce_rate_limit_counter K t key limit win w of
        (res, w1) \<Rightarrow> (case request_run K key limit win ts w1 of (rs, w2) \<Rightarrow> (res # rs, w2)))"

lemma enforce_same_db: "same_db w (snd (enforce_rate_limit_counter K now key limit win w))"
  by (auto simp: enforce_rate_limit_counter_def split: option.splits prod.splits)

lemma keeps_world_ok_rate_limit [intro, simp]:
  "keeps world_ok (enforce_rate_limit_counter K now key limit win)"
  "keeps world_ok (webhook_ingress_rate_limit K cfg now req)"
  "keeps world_ok (enforce_webhook_provider_rate_limit K cfg now p)"
  "keeps world_ok (password_reset_rate_limit K cfg sha now req e)"
  by (auto simp: webhook_ingress_rate_limit_def enforce_webhook_provider_rate_limit_def
      password_reset_rate_limit_def Let_def intro!: keeps_same_db enforce_same_db)

context redis_strings
begin

text \<open>A counter in Redis: its value and when it expires.\<close>

definition counter :: "'r \<Rightarrow> time \<Rightarrow> string \<Rightarrow> int \<Rightarrow> time option \<Rightarrow> bool" where
  "counter r now key n d \<longleftrightarrow> alive (entry r) now key = Some (show_int n, d)"

lemma alive_upd: "alive (m(k := x)) now k = (case x of None \<Rightarrow> None | Some (v, None) \<Rightarrow> Some (v, None)
     | Some (v, Some d) \<Rightarrow> if now < d then Some (v, Some d) else None)"
  by (simp add: alive_def)

lemma enforce_first:
  assumes "alive (entry (redis w)) now key = None" and "1 \<le> limit" and "0 < win"
    and "enforce_rate_limit_counter K now key limit win w = (Inr (), w')"
  shows "entry (redis w') key = Some (show_int 1, Some (now + win * second))"
proof -
  obtain n r1 where r1: "incr_key K now key (redis w) = Some (n, r1)"
    using assms(4) by (auto simp: enforce_rate_limit_counter_def split: option.splits)
  have n: "n = 1" "entry r1 = (entry (redis w))(key := Some (show_int 1, None))"
    using incr_result [OF r1] assms(1) by auto
  obtain r2 where r2: "expire_key K now key win r1 = Some r2" "redis w' = r2"
    using assms(4) r1 n by (auto simp: enforce_rate_limit_counter_def split: option.splits if_splits)
  show ?thesis using expire_result [OF r2(1)] n r2(2) by (simp add: alive_upd)
qed

lemma enforce_next:
  assumes "entry (redis w) key = Some (show_int n, d)" and "d = None \<or> (\<exists>x. d = Some x \<and> now < x)"
    and "1 \<le> n"
    and "enforce_rate_limit_counter K now key limit win w = (res, w')"
    and "res \<noteq> Inl (HTTPException 503 REDIS_UNAVAILABLE_DETAIL)"
  shows "entry (redis w') key = Some (show_int (n + 1), d)"
    and "res = (if limit < n + 1 then Inl (HTTPException 429 ''Too many requests'') else Inr ())"
proof -
  obtain m r1 where r1: "incr_key K now key (redis w) = Some (m, r1)"
    using assms(4,5) by (auto simp: enforce_rate_limit_counter_def split: option.splits)
  have al: "alive (entry (redis w)) now key = Some (show_int n, d)"
    using assms(1,2) by (auto simp: alive_def)
  have m: "m = n + 1" "entry r1 = (entry (redis w))(key := Some (show_int m, d))"
    using incr_result [OF r1] al by (auto simp: py_int_show_int)
  have res: "res = (if limit < n + 1 then Inl (HTTPException 429 ''Too many requests'') else Inr ())
      \<and> redis w' = r1"
    using assms(3,4) r1 m(1) by (auto simp: enforce_rate_limit_counter_def split: if_splits)
  then show "entry (redis w') key = Some (show_int (n + 1), d)" using m by simp
  show "res = (if limit < n + 1 then Inl (HTTPException 429 ''Too many requests'') else Inr ())"
    using res by simp
qed

text \<open>
  From a counter \<open>n\<close> that stays alive, \<open>k\<close> more requests are admitted exactly while the limit is not
  reached.
\<close>

lemma request_run_alive:
  assumes "entry (redis w) key = Some (show_int n, d)" and "1 \<le> n"
    and "\<forall>t \<in> set ts. case d of None \<Rightarrow> True | Some x \<Rightarrow> t < x"
    and "request_run K key limit win ts w = (rs, w')"
    and "Inl (HTTPException 503 REDIS_UNAVAILABLE_DETAIL) \<notin> set rs"
  shows "rs = map (\<lambda>i. if limit < n + 1 + int i then Inl (HTTPException 429 ''Too many requests'')
                        else Inr ()) [0..<length ts]
    \<and> entry (redis w') key = Some (show_int (n + int (length ts)), d)"
  using assms
proof (induction ts arbitrary: w n rs)
  case (Cons t ts)
  obtain res w1 where e: "enforce_rate_limit_counter K t key limit win w = (res, w1)" by force
  obtain rs' where r: "request_run K key limit win ts w1 = (rs', w')" "rs = res # rs'"
    using Cons.prems(4) e by (auto split: prod.splits)
  have dd: "d = None \<or> (\<exists>x. d = Some x \<and> t < x)" using Cons.prems(3) by (auto split: option.splits)
  have ne: "res \<noteq> Inl (HTTPException 503 REDIS_UNAVAILABLE_DETAIL)" using Cons.prems(5) r(2) by auto
  note next' = enforce_next [OF Cons.prems(1) dd Cons.prems(2) e ne]
  have IH: "rs' = map (\<lambda>i. if limit < n + 1 + 1 + int i then Inl (HTTPException 429 ''Too many requests'')
        else Inr ()) [0..<length ts]"
    "entry (redis w') key = Some (show_int (n + 1 + int (length ts)), d)"
    using Cons.IH [OF next'(1) _ _ r(1)] Cons.prems r(2) by simp_all
  have "rs = map (\<lambda>i. if limit < n + 1 + int i then Inl (HTTPException 429 ''Too many requests'')
                        else Inr ()) [0..<length (t # ts)]"
    unfolding r(2) next'(2) IH(1) length_Cons upt_conv_Cons [OF zero_less_Suc] list.map
    by (simp add: map_Suc_upt [symmetric] o_def del: upt_Suc)
  then show ?case using IH(2) by (simp add: algebra_simps)
qed simp

lemma window_admits_limit:
  assumes "alive (entry (redis w)) t0 key = None" and "1 \<le> limit" and "0 < win"
    and "\<forall>t \<in> set ts. t < t0 + win * second"
    and "request_run K key limit win (t0 # ts) w = (rs, w')"
    and "Inl (HTTPException 503 REDIS_UNAVAILABLE_DETAIL) \<notin> set rs"
  shows "rs = map (\<lambda>i. if limit < 1 + int i then Inl (HTTPException 429 ''Too many requests'')
                        else Inr ()) [0..<Suc (length ts)]"
proof -
  obtain res w1 where e: "enforce_rate_limit_counter K t0 key limit win w = (res, w1)" by force
  obtain rs' where r: "request_run K key limit win ts w1 = (rs', w')" "rs = res # rs'"
    using assms(5) e by (auto split: prod.splits)
  have ne: "res \<noteq> Inl (HTTPException 503 REDIS_UNAVAILABLE_DETAIL)" using assms(6) r(2) by auto
  obtain n r1 where r1: "incr_key K t0 key (redis w) = Some (n, r1)"
    using e ne by (auto simp: enforce_rate_limit_counter_def split: option.splits)
  have n: "n = 1" using incr_result [OF r1] assms(1) by auto
  have res: "res = Inr ()"
    using e ne r1 n assms(2)
    by (auto simp: enforce_rate_limit_counter_def split: option.splits if_splits)
  have ent: "entry (redis w1) key = Some (show_int 1, Some (t0 + win * second))"
    using enforce_first [OF assms(1-3)] e res by simp
  have "rs' = map (\<lambda>i. if limit < 1 + 1 + int i then Inl (HTTPException 429 ''Too many requests'')
        else Inr ()) [0..<length ts]"
    using request_run_alive [OF ent _ _ r(1)] assms(4,6) r(2) by simp
  then show ?thesis
    unfolding r(2) res upt_conv_Cons [OF zero_less_Suc] list.map
    using assms(2) by (simp add: map_Suc_upt [symmetric] o_def del: upt_Suc)
qed

end

section \<open>Properties\<close>

text \<open>
  C21: in the window a first request opens, exactly the first \<open>limit\<close> requests are admitted and every
  later one is answered 429, as long as Redis answers.
\<close>

theorem rate_limit_window:
  assumes "redis_strings K entry" and "alive (entry (redis w)) t0 key = None"
    and "1 \<le> limit" and "0 < win" and "\<forall>t \<in> set ts. t < t0 + win * second"
    and "request_run K key limit win (t0 # ts) w = (rs, w')"
    and "Inl (HTTPException 503 REDIS_UNAVAILABLE_DETAIL) \<notin> set rs"
  shows "rs = map (\<lambda>i. if limit < 1 + int i then Inl (HTTPException 429 ''Too many requests'')
                        else Inr ()) [0..<Suc (length ts)]"
  by (rule redis_strings.window_admits_limit [OF assms])

theorem rate_limit_window_witness:
  "fst (request_run store_keys ''k'' 2 60 [0, 5, 9] example_world)
     = [Inr (), Inr (), Inl (HTTPException 429 ''Too many requests'')]"
proof -
  obtain rs w' where r: "request_run store_keys ''k'' 2 60 [0, 5, 9] example_world = (rs, w')" by force
  have "alive (st_entries (redis example_world)) 0 ''k'' = None"
    by (simp add: example_world_def empty_store_def alive_def)
  moreover have "Inl (HTTPException 503 REDIS_UNAVAILABLE_DETAIL) \<notin> set (fst (request_run store_keys ''k'' 2 60 [0, 5, 9] example_world))"
    by code_simp
  ultimately have "rs = map (\<lambda>i. if (2::int) < 1 + int i then Inl (HTTPException 429 ''Too many requests'')
        else Inr ()) [0..<Suc (length [5::int, 9])]"
    using r by (intro rate_limit_window [OF store_strings.redis_strings_axioms]) simp_all
  then show ?thesis using r by (simp add: upt_rec)
qed

text \<open>
  The counter and its expiry are two commands. When the second one fails, the request is answered
  503 and a counter without expiry stays behind: from then on only \<open>limit - 1\<close> more requests of that
  key are ever admitted, at whatever instants they come.
\<close>

theorem rate_limit_counter_stuck:
  assumes "redis_strings K entry" and "alive (entry (redis w)) t0 key = None"
    and "incr_key K t0 key (redis w) = Some (n, r1)" and "expire_key K t0 key win r1 = None"
    and "request_run K key limit win (t0 # ts) w = (rs, w')"
    and "Inl (HTTPException 503 REDIS_UNAVAILABLE_DETAIL) \<notin> set (tl rs)"
  shows "rs = Inl (HTTPException 503 REDIS_UNAVAILABLE_DETAIL)
      # map (\<lambda>i. if limit < 2 + int i then Inl (HTTPException 429 ''Too many requests'')
                  else Inr ()) [0..<length ts]"
proof -
  note laws = redis_strings.incr_result [OF assms(1,3)]
  have n: "n = 1" "entry r1 = (entry (redis w))(key := Some (show_int 1, None))"
    using laws assms(2) by auto
  have e: "enforce_rate_limit_counter K t0 key limit win w
      = (Inl (HTTPException 503 REDIS_UNAVAILABLE_DETAIL), w\<lparr>redis := r1\<rparr>)"
    using assms(3,4) n(1) by (simp add: enforce_rate_limit_counter_def)
  obtain rs' where r: "request_run K key limit win ts (w\<lparr>redis := r1\<rparr>) = (rs', w')"
    "rs = Inl (HTTPException 503 REDIS_UNAVAILABLE_DETAIL) # rs'"
    using assms(5) e by (auto split: prod.splits)
  have "entry (redis (w\<lparr>redis := r1\<rparr>)) key = Some (show_int 1, None)" using n(2) by simp
  from redis_strings.request_run_alive [OF assms(1) this _ _ r(1)] assms(6) r(2)
  show ?thesis by simp
qed

text \<open>A store whose \<open>EXPIRE\<close> fails at the instant 0.\<close>

definition flaky_keys :: "store redis_keys" where
  "flaky_keys = store_keys\<lparr>expire_key := (\<lambda>now k ex r. if now = 0 then None
     else expire_key store_keys now k ex r)\<rparr>"

interpretation flaky_strings: redis_strings flaky_keys st_entries
  by unfold_locales
    (auto simp: flaky_keys_def store_keys_def split: option.splits if_splits prod.splits)

theorem rate_limit_counter_stuck_witness:
  "fst (request_run flaky_keys ''k'' 2 60 [0, 10 ^ 12, 10 ^ 13] example_world)
     = [Inl (HTTPException 503 REDIS_UNAVAILABLE_DETAIL), Inr (),
        Inl (HTTPException 429 ''Too many requests'')]"
proof -
  obtain rs w' where r: "request_run flaky_keys ''k'' 2 60 [0, 10 ^ 12, 10 ^ 13] example_world = (rs, w')"
    by force
  have a: "alive (st_entries (redis example_world)) 0 ''k'' = None"
    by (simp add: example_world_def empty_store_def alive_def)
  then obtain r1 where i: "incr_key flaky_keys 0 ''k'' (redis example_world) = Some (1, r1)"
    by (simp add: flaky_keys_def store_keys_def)
  have x: "expire_key flaky_keys 0 ''k'' 60 r1 = None" by (simp add: flaky_keys_def)
  have "Inl (HTTPException 503 REDIS_UNAVAILABLE_DETAIL)
      \<notin> set (tl (fst (request_run flaky_keys ''k'' 2 60 [0, 10 ^ 12, 10 ^ 13] example_world)))"
    by code_simp
  then have "Inl (HTTPException 503 REDIS_UNAVAILABLE_DETAIL) \<notin> set (tl rs)" using r by simp
  from rate_limit_counter_stuck [OF flaky_strings.redis_strings_axioms a i x r this]
  show ?thesis using r by (simp add: upt_rec)
qed

text \<open>
  Unless the deployment says that forwarded headers can be trusted, a client cannot choose the key
  it is counted under: the address does not depend on any header.
\<close>

theorem client_ip_ignores_headers:
  assumes "\<not> rate_limit_trust_forwarded_headers cfg"
  shows "get_client_ip cfg (req\<lparr>x_forwarded_for := a, x_real_ip := b\<rparr>) = get_client_ip cfg req
    \<and> get_client_ip cfg req = (case client_host req of None \<Rightarrow> ''unknown'' | Some h \<Rightarrow> h)"
  using assms by (simp add: get_client_ip_def Let_def)

theorem client_ip_ignores_headers_witness:
  "get_client_ip (default_settings ''k'') \<lparr>x_forwarded_for = Some ''1.2.3.4'', x_real_ip = None,
     x_tenant_slug = None, client_host = Some ''10.0.0.9''\<rparr> = ''10.0.0.9''"
  using client_ip_ignores_headers [where cfg = "default_settings ''k''" and a = None and b = None
    and req = "\<lparr>x_forwarded_for = Some ''1.2.3.4'', x_real_ip = None, x_tenant_slug = None,
      client_host = Some ''10.0.0.9''\<rparr>"]
  by (simp add: default_settings_def)

end
