(* ===== verification/Auth.thy ===== *)
theory Auth
  imports Rate_Limit
begin

text \<open>
  Authentication: tokens and password hashes (\<open>app/core/security.py\<close>), registration, login, refresh
  rotation and logout (\<open>app/services/auth_service.py\<close>), the authentication and authorisation
  dependencies (\<open>app/api/dependencies/auth.py\<close>) and the routes over them (\<open>app/api/routes/auth.py\<close>,
  without the password reset, which is theory \<open>Password_Reset\<close>).

  The cryptographic packages are parameters, collected in the record \<open>crypto\<close>; the locale
  \<open>crypto_laws\<close> states what the code relies on. \<open>jwt_decode\<close> is \<open>None\<close> where \<open>jose\<close> raises \<open>JWTError\<close>.
  Random identifiers, the salt and the clock are arguments.

  A claim that is a floating-point number is outside the modelled numbers: \<open>int()\<close> of it counts as an
  unexpected error here. The tokens the code writes have none.
\<close>

section \<open>Cryptography\<close>

record crypto =
  pwd_hash :: "string \<Rightarrow> string \<Rightarrow> string"
  pwd_verify :: "string \<Rightarrow> string \<Rightarrow> bool"
  hmac_sha256 :: "string \<Rightarrow> string \<Rightarrow> string"
  sha256_hex :: "string \<Rightarrow> string"
  jwt_encode :: "pydict \<Rightarrow> string \<Rightarrow> string \<Rightarrow> string"
  jwt_decode :: "time \<Rightarrow> string \<Rightarrow> string \<Rightarrow> string \<Rightarrow> pydict option"

text \<open>
  \<open>pwd_hash\<close> takes the salt first. A token decodes, under the key it was encoded with, to its claims
  up to and including the second of its \<open>exp\<close> claim, no token decodes after that, and a token
  determines its claims.
\<close>

locale crypto_laws =
  fixes C :: "'m crypto_scheme"
  assumes verify_hash: "pwd_verify C p (pwd_hash C salt p)"
    and decode_encode: "json_value (PDict d) \<Longrightarrow> dict_get d ''exp'' = Some (PInt e) \<Longrightarrow>
      now div second \<le> e \<Longrightarrow> jwt_decode C now (jwt_encode C d k a) k a = Some d"
    and decode_stable: "jwt_decode C now tok k a = Some d \<Longrightarrow> jwt_decode C now' tok k a = Some d' \<Longrightarrow>
      d' = d"
    and decode_expired: "jwt_decode C now tok k a = Some d \<Longrightarrow> dict_get d ''exp'' = Some (PInt e) \<Longrightarrow>
      now div second \<le> e"

section \<open>Tokens and hashes\<close>

definition hash_password :: "'m crypto_scheme \<Rightarrow> string \<Rightarrow> string \<Rightarrow> string" where
  "hash_password C salt password = pwd_hash C salt password"

definition verify_password :: "'m crypto_scheme \<Rightarrow> string \<Rightarrow> string \<Rightarrow> bool" where
  "verify_password C plain_password hashed_password = pwd_verify C plain_password hashed_password"

definition hash_password_reset_token :: "'m crypto_scheme \<Rightarrow> settings \<Rightarrow> string \<Rightarrow> string" where
  "hash_password_reset_token C cfg token =
     hmac_sha256 C (utf8_encode (secret_key cfg)) (utf8_encode token)"

definition verify_password_reset_token :: "'m crypto_scheme \<Rightarrow> settings \<Rightarrow> string \<Rightarrow> string \<Rightarrow> bool" where
  "verify_password_reset_token C cfg token token_hash \<longleftrightarrow>
     hash_password_reset_token C cfg token = token_hash"

definition token_payload :: "string \<Rightarrow> string \<Rightarrow> int \<Rightarrow> int \<Rightarrow> time \<Rightarrow> string \<Rightarrow> pydict" where
  "token_payload kind subject tenant_id token_version expire jti =
     [(''sub'', PStr subject), (''tenant_id'', PInt tenant_id), (''token_version'', PInt token_version),
      (''exp'', PInt (expire div second)), (''type'', PStr kind), (''jti'', PStr jti)]"

definition create_access_token ::
  "'m crypto_scheme \<Rightarrow> settings \<Rightarrow> time \<Rightarrow> string \<Rightarrow> string \<Rightarrow> int \<Rightarrow> int \<Rightarrow> time option \<Rightarrow> string" where
  "create_access_token C cfg now jti subject tenant_id token_version expires_delta =
     (let expire = now + (case expires_delta of Some d \<Rightarrow> d
                          | None \<Rightarrow> access_token_expire_minutes cfg * 60 * second) in
      jwt_encode C (token_payload ''access'' subject tenant_id token_version expire jti)
        (secret_key cfg) (algorithm cfg))"

definition create_refresh_token ::
  "'m crypto_scheme \<Rightarrow> settings \<Rightarrow> time \<Rightarrow> string \<Rightarrow> string \<Rightarrow> int \<Rightarrow> int \<Rightarrow> time option \<Rightarrow> string" where
  "create_refresh_token C cfg now jti subject tenant_id token_version expires_delta =
     (let expire = now + (case expires_delta of Some d \<Rightarrow> d
                          | None \<Rightarrow> refresh_token_expire_days cfg * day) in
      jwt_encode C (token_payload ''refresh'' subject tenant_id token_version expire jti)
        (secret_key cfg) (algorithm cfg))"

definition decode_token :: "'m crypto_scheme \<Rightarrow> settings \<Rightarrow> time \<Rightarrow> string \<Rightarrow> pydict option" where
  "decode_token C cfg now token = jwt_decode C now token (secret_key cfg) (algorithm cfg)"

section \<open>Values of claims\<close>

text \<open>\<open>int(x)\<close>.\<close>

definition py_int_of :: "pyval \<Rightarrow> (exn, int) result" where
  "py_int_of v = (case v of
       PInt i \<Rightarrow> Inr i
     | PBool b \<Rightarrow> Inr (if b then 1 else 0)
     | PStr s \<Rightarrow> (case py_int s of None \<Rightarrow> Inl (ValueErr ''int'') | Some i \<Rightarrow> Inr i)
     | _ \<Rightarrow> Inl (Unexpected ''TypeError''))"

text \<open>Truth value of \<open>payload.get(k)\<close>.\<close>

definition truthy :: "pyval option \<Rightarrow> bool" where
  "truthy x = (case x of
       None \<Rightarrow> False
     | Some PNone \<Rightarrow> False
     | Some (PBool b) \<Rightarrow> b
     | Some (PInt i) \<Rightarrow> i \<noteq> 0
     | Some (PFloat l) \<Rightarrow> True
     | Some (PStr s) \<Rightarrow> s \<noteq> []
     | Some (PList xs) \<Rightarrow> xs \<noteq> []
     | Some (PDict d) \<Rightarrow> d \<noteq> [])"

definition is_none :: "pyval option \<Rightarrow> bool" where
  "is_none x \<longleftrightarrow> x = None \<or> x = Some PNone"

text \<open>\<open>x == n\<close> for a claim and an integer column.\<close>

definition equals_int :: "pyval option \<Rightarrow> int \<Rightarrow> bool" where
  "equals_int x n = (case x of
       Some (PInt i) \<Rightarrow> i = n
     | Some (PBool b) \<Rightarrow> (if b then 1 else 0) = n
     | _ \<Rightarrow> False)"

section \<open>Authentication services\<close>

definition get_user_by_email :: "tables \<Rightarrow> string \<Rightarrow> int \<Rightarrow> user option" where
  "get_user_by_email t email tenant_id =
     first_user (\<lambda>u. u_email u = email \<and> u_tenant_id u = tenant_id) t"

definition add_user :: "user \<Rightarrow> tables \<Rightarrow> tables" where
  "add_user u t = t\<lparr>users := users t @ [u]\<rparr>"

definition create_user ::
  "'m crypto_scheme \<Rightarrow> ('r, 'n) redis_keys_scheme \<Rightarrow> time \<Rightarrow> int \<Rightarrow> string \<Rightarrow> string \<Rightarrow> string \<Rightarrow> int
     \<Rightarrow> ('r world, user) action" where
  "create_user C K now new_id salt email password tenant_id =
     run_then (reads (\<lambda>w. get_user_by_email (tx w) email tenant_id)) (\<lambda>existing_user.
     run_then (ensures (existing_user = None) (domain BadRequestError ''User with this email already exists''))
     (\<lambda>_. let u = \<lparr>u_id = new_id, u_tenant_id = tenant_id, u_email = email,
                    u_hashed_password = hash_password C salt password, u_is_active = True,
                    u_role = ''user'', u_token_version = 0\<rparr> in
     run_then (flush_commit (add_user u)) (\<lambda>_.
     run_then (invalidate_users_list_cache K now tenant_id) (\<lambda>_. ret u))))"

definition authenticate_user ::
  "'m crypto_scheme \<Rightarrow> string \<Rightarrow> string \<Rightarrow> int \<Rightarrow> ('r world, user) action" where
  "authenticate_user C email password tenant_id =
     run_then (reads (\<lambda>w. get_user_by_email (tx w) email tenant_id)) (\<lambda>x. case x of
       None \<Rightarrow> raise (domain UnauthorizedError ''Invalid email or password'')
     | Some u \<Rightarrow>
         if \<not> verify_password C password (u_hashed_password u)
         then raise (domain UnauthorizedError ''Invalid email or password'')
         else if \<not> u_is_active u then raise (domain UnauthorizedError ''Inactive user'')
         else ret u)"

definition token_pair ::
  "'m crypto_scheme \<Rightarrow> settings \<Rightarrow> time \<Rightarrow> string \<Rightarrow> string \<Rightarrow> user \<Rightarrow> string \<times> string" where
  "token_pair C cfg now jti1 jti2 u =
     (create_access_token C cfg now jti1 (show_int (u_id u)) (u_tenant_id u) (u_token_version u) None,
      create_refresh_token C cfg now jti2 (show_int (u_id u)) (u_tenant_id u) (u_token_version u) None)"

definition login_user ::
  "'m crypto_scheme \<Rightarrow> settings \<Rightarrow> time \<Rightarrow> string \<Rightarrow> string \<Rightarrow> string \<Rightarrow> string \<Rightarrow> int
     \<Rightarrow> ('r world, string \<times> string) action" where
  "login_user C cfg now jti1 jti2 email password tenant_id =
     run_then (authenticate_user C email password tenant_id) (\<lambda>u. ret (token_pair C cfg now jti1 jti2 u))"

text \<open>
  \<open>jose\<close> refuses a token whose \<open>jti\<close> is not text, so the interpolated key is the claim itself.
\<close>

definition decode_refresh_token ::
  "'m crypto_scheme \<Rightarrow> settings \<Rightarrow> ('r, 'n) redis_keys_scheme \<Rightarrow> time \<Rightarrow> string \<Rightarrow> ('r world, pydict) action"
  where
  "decode_refresh_token C cfg K now refresh_token =
     (case decode_token C cfg now refresh_token of
        None \<Rightarrow> raise (domain UnauthorizedError ''Invalid refresh token'')
      | Some payload \<Rightarrow>
          run_then (ensures (dict_get payload ''type'' = Some (PStr ''refresh''))
            (domain UnauthorizedError ''Invalid token type'')) (\<lambda>_.
          run_then (ensures (truthy (dict_get payload ''jti'') \<and> truthy (dict_get payload ''exp'')
              \<and> \<not> is_none (dict_get payload ''tenant_id'') \<and> \<not> is_none (dict_get payload ''token_version''))
            (domain UnauthorizedError ''Invalid refresh token'')) (\<lambda>_.
          (case dict_get payload ''jti'' of
             Some (PStr jti) \<Rightarrow>
               run_then (is_refresh_token_revoked K now jti) (\<lambda>revoked.
                 if revoked then raise (domain UnauthorizedError ''Refresh token has been revoked'')
                 else ret payload)
           | _ \<Rightarrow> raise (Unexpected ''jti'')))))"

definition first_user_by_ids :: "int \<Rightarrow> int \<Rightarrow> tables \<Rightarrow> user option" where
  "first_user_by_ids user_id tenant_id t =
     first_user (\<lambda>u. u_id u = user_id \<and> u_tenant_id u = tenant_id) t"

definition on_value_error :: "exn \<Rightarrow> (exn, 'a) result \<Rightarrow> (exn, 'a) result" where
  "on_value_error e r = (case r of Inl (ValueErr m) \<Rightarrow> Inl e | _ \<Rightarrow> r)"

definition get_active_user_from_refresh_payload :: "pydict \<Rightarrow> ('r world, user) action" where
  "get_active_user_from_refresh_payload payload =
     (let invalid = domain UnauthorizedError ''Invalid refresh token'' in
      case (dict_get payload ''sub'', dict_get payload ''tenant_id'') of
        (Some sub, Some tid) \<Rightarrow>
          if sub = PNone \<or> tid = PNone then raise invalid
          else
            run_then (lift_result (on_value_error invalid
                (and_then (py_int_of sub) (\<lambda>i. and_then (py_int_of tid) (\<lambda>j. Inr (i, j)))))) (\<lambda>(i, j).
            run_then (reads (\<lambda>w. first_user_by_ids i j (tx w))) (\<lambda>x. case x of
              None \<Rightarrow> raise (domain UnauthorizedError ''User not found or inactive'')
            | Some u \<Rightarrow>
                if \<not> u_is_active u then raise (domain UnauthorizedError ''User not found or inactive'')
                else
                  run_then (assert_active_tenant_membership u) (\<lambda>_.
                    if \<not> equals_int (dict_get payload ''token_version'') (u_token_version u)
                    then raise (domain UnauthorizedError ''Refresh token has been revoked'')
                    else ret u)))
      | _ \<Rightarrow> raise invalid)"

text \<open>\<open>payload["exp"]\<close> is an integer in every token \<open>jose\<close> accepts.\<close>

definition revoke_payload ::
  "('r, 'n) redis_keys_scheme \<Rightarrow> time \<Rightarrow> pydict \<Rightarrow> bool \<Rightarrow> ('r world, bool) action" where
  "revoke_payload K now payload require_new =
     (case (dict_get payload ''jti'', dict_get payload ''exp'') of
        (Some (PStr jti), Some (PInt e)) \<Rightarrow> revoke_refresh_token K now jti e require_new
      | _ \<Rightarrow> raise (Unexpected ''TypeError''))"

definition rotate_refresh_token ::
  "'m crypto_scheme \<Rightarrow> settings \<Rightarrow> ('r, 'n) redis_keys_scheme \<Rightarrow> time \<Rightarrow> string \<Rightarrow> string \<Rightarrow> string
     \<Rightarrow> ('r world, string \<times> string) action" where
  "rotate_refresh_token C cfg K now jti1 jti2 refresh_token =
     run_then (decode_refresh_token C cfg K now refresh_token) (\<lambda>payload.
     run_then (get_active_user_from_refresh_payload payload) (\<lambda>u.
     run_then (revoke_payload K now payload True) (\<lambda>fresh.
       if \<not> fresh then raise (domain UnauthorizedError ''Refresh token has been revoked'')
       else ret (token_pair C cfg now jti1 jti2 u))))"

definition logout_user ::
  "'m crypto_scheme \<Rightarrow> settings \<Rightarrow> ('r, 'n) redis_keys_scheme \<Rightarrow> time \<Rightarrow> string \<Rightarrow> ('r world, unit) action"
  where
  "logout_user C cfg K now refresh_token =
     run_then (decode_refresh_token C cfg K now refresh_token) (\<lambda>payload.
     run_then (revoke_payload K now payload False) (\<lambda>_. noop))"

section \<open>Dependencies\<close>

definition credentials_exception :: exn where
  "credentials_exception = HTTPException 401 ''Could not validate credentials''"

definition token_identity ::
  "'m crypto_scheme \<Rightarrow> settings \<Rightarrow> time \<Rightarrow> string \<Rightarrow> (exn, int \<times> int \<times> int) result" where
  "token_identity C cfg now token =
     (case decode_token C cfg now token of
        None \<Rightarrow> Inl credentials_exception
      | Some payload \<Rightarrow>
          (case (dict_get payload ''sub'', dict_get payload ''tenant_id'', dict_get payload ''token_version'') of
             (Some sub, Some tid, Some ver) \<Rightarrow>
               if dict_get payload ''type'' \<noteq> Some (PStr ''access'') \<or> sub = PNone \<or> tid = PNone \<or> ver = PNone
               then Inl credentials_exception
               else on_value_error credentials_exception
                 (and_then (py_int_of sub) (\<lambda>i. and_then (py_int_of tid) (\<lambda>j.
                  and_then (py_int_of ver) (\<lambda>v. Inr (i, j, v)))))
           | _ \<Rightarrow> Inl credentials_exception))"

definition get_current_user ::
  "'m crypto_scheme \<Rightarrow> settings \<Rightarrow> time \<Rightarrow> string option \<Rightarrow> string \<Rightarrow> ('r world, user) action" where
  "get_current_user C cfg now slug_header token =
     run_then (lift_result (token_identity C cfg now token)) (\<lambda>(user_id, tenant_id, token_version).
     run_then (reads (\<lambda>w. first_user_by_ids user_id tenant_id (tx w))) (\<lambda>x. case x of
       None \<Rightarrow> raise credentials_exception
     | Some u \<Rightarrow>
         if \<not> u_is_active u then raise credentials_exception
         else if u_token_version u \<noteq> token_version then raise credentials_exception
         else
           run_then (assert_active_tenant_membership u) (\<lambda>_.
           run_then (case slug_header of
               None \<Rightarrow> noop
             | Some requested_slug \<Rightarrow>
                 run_then (get_active_tenant_by_slug requested_slug) (\<lambda>request_tenant.
                   assert_request_tenant_matches_user u request_tenant)) (\<lambda>_.
           run_then (reads (\<lambda>w. map_option t_slug (user_tenant (tx w) u))) (\<lambda>slug.
           run_then (set_tenant_context (u_tenant_id u) slug) (\<lambda>_. ret u))))))"

definition forbidden :: exn where
  "forbidden = HTTPException 403 ''Insufficient permissions''"

definition require_permission ::
  "('r world, user) action \<Rightarrow> permission list \<Rightarrow> ('r world, user) action" where
  "require_permission current ps =
     run_then current (\<lambda>current_user.
       if \<not> user_has_any_permission current_user ps then raise forbidden else ret current_user)"

definition require_role :: "('r world, user) action \<Rightarrow> string \<Rightarrow> ('r world, user) action" where
  "require_role current required_role =
     run_then current (\<lambda>current_user.
       if \<not> role_includes (u_role current_user) required_role then raise forbidden else ret current_user)"

section \<open>Routes\<close>

text \<open>
  Route dependencies run before the handler, the rate limit first. A handler runs in one database
  session, which is closed when the request ends.
\<close>

definition register ::
  "'m crypto_scheme \<Rightarrow> settings \<Rightarrow> ('r, 'n) redis_keys_scheme \<Rightarrow> time \<Rightarrow> int \<Rightarrow> string \<Rightarrow> request
     \<Rightarrow> string \<Rightarrow> string \<Rightarrow> ('r world, user) action" where
  "register C cfg K now new_id salt req email password = with_session
     (run_then (limited (auth_register_rate_limit K cfg) now req) (\<lambda>_.
      run_then (get_request_tenant (x_tenant_slug req)) (\<lambda>tenant.
      run_then (ensures (registration_enabled cfg) (HTTPException 403 ''Registration is disabled''))
        (\<lambda>_. create_user C K now new_id salt email password (t_id tenant)))))"

definition login ::
  "'m crypto_scheme \<Rightarrow> settings \<Rightarrow> ('r, 'n) redis_keys_scheme \<Rightarrow> time \<Rightarrow> string \<Rightarrow> string \<Rightarrow> request
     \<Rightarrow> string \<Rightarrow> string \<Rightarrow> ('r world, string \<times> string) action" where
  "login C cfg K now jti1 jti2 req email password = with_session
     (run_then (limited (auth_login_rate_limit K cfg) now req) (\<lambda>_.
      run_then (get_request_tenant (x_tenant_slug req)) (\<lambda>tenant.
        login_user C cfg now jti1 jti2 email password (t_id tenant))))"

definition me :: "('r world, user) action \<Rightarrow> ('r world, user) action" where
  "me current = with_session current"

definition refresh_token_route ::
  "'m crypto_scheme \<Rightarrow> settings \<Rightarrow> ('r, 'n) redis_keys_scheme \<Rightarrow> time \<Rightarrow> string \<Rightarrow> string \<Rightarrow> request
     \<Rightarrow> string \<Rightarrow> ('r world, string \<times> string) action" where
  "refresh_token_route C cfg K now jti1 jti2 req token = with_session
     (run_then (limited (auth_refresh_rate_limit K cfg) now req) (\<lambda>_.
        rotate_refresh_token C cfg K now jti1 jti2 token))"

definition logout ::
  "'m crypto_scheme \<Rightarrow> settings \<Rightarrow> ('r, 'n) redis_keys_scheme \<Rightarrow> time \<Rightarrow> request \<Rightarrow> string
     \<Rightarrow> ('r world, unit) action" where
  "logout C cfg K now req token =
     run_then (limited (auth_logout_rate_limit K cfg) now req) (\<lambda>_. logout_user C cfg K now token)"

section \<open>Lemmas\<close>

lemma keeps_world_ok_auth [intro, simp]:
  "keeps world_ok (create_user C K now i salt e p tid)"
  "keeps world_ok (authenticate_user C e p tid)"
  "keeps world_ok (login_user C cfg now j1 j2 e p tid)"
  "keeps world_ok (set_tenant_context i sl)"
  by (auto simp: create_user_def authenticate_user_def login_user_def Let_def
      set_tenant_context_def keeps_def [of _ "set_tenant_context i sl"] world_ok_def
      intro!: keeps_run_then split: option.splits)

lemma add_user_schema_ok:
  assumes "schema_ok t"
  shows "schema_ok (add_user u t) \<longleftrightarrow> u_id u \<notin> u_id ` set (users t)
     \<and> get_user_by_email t (u_email u) (u_tenant_id u) = None
     \<and> u_tenant_id u \<in> t_id ` set (tenants t)"
proof -
  have fresh: "get_user_by_email t (u_email u) (u_tenant_id u) = None \<longleftrightarrow>
      (u_tenant_id u, u_email u) \<notin> (\<lambda>u. (u_tenant_id u, u_email u)) ` set (users t)"
    by (auto simp: get_user_by_email_def first_user_def find_None_iff' image_iff)
  have us: "users_ok (add_user u t) \<longleftrightarrow> u_id u \<notin> u_id ` set (users t)
      \<and> (u_tenant_id u, u_email u) \<notin> (\<lambda>u. (u_tenant_id u, u_email u)) ` set (users t)
      \<and> u_tenant_id u \<in> t_id ` set (tenants t)"
    using assms by (auto simp: schema_ok_def users_ok_def unique_by_def add_user_def refers_def)
  have "opt_refers x (map u_id (users t)) \<Longrightarrow> opt_refers x (map u_id (users t) @ [u_id u])" for x
    by (cases x) (simp_all add: refers_append)
  then have "tenants_ok (add_user u t) \<and> audit_logs_ok (add_user u t) \<and> uploaded_files_ok (add_user u t)
      \<and> idempotency_ok (add_user u t) \<and> webhook_events_ok (add_user u t)
      \<and> reset_tokens_ok (add_user u t) \<and> job_completions_ok (add_user u t)"
    using assms by (auto simp: schema_ok_def table_oks add_user_def list_all_iff refers_append)
  then show ?thesis using us fresh by (simp add: schema_ok_def)
qed

lemma token_payload_lookup [simp]:
  "dict_get (token_payload k s t v e j) ''sub'' = Some (PStr s)"
  "dict_get (token_payload k s t v e j) ''tenant_id'' = Some (PInt t)"
  "dict_get (token_payload k s t v e j) ''token_version'' = Some (PInt v)"
  "dict_get (token_payload k s t v e j) ''exp'' = Some (PInt (e div second))"
  "dict_get (token_payload k s t v e j) ''type'' = Some (PStr k)"
  "dict_get (token_payload k s t v e j) ''jti'' = Some (PStr j)"
  "json_value (PDict (token_payload k s t v e j))"
  by (simp_all add: token_payload_def)

lemma py_int_of_simps [simp]:
  "py_int_of (PInt i) = Inr i" "py_int_of (PStr (show_int i)) = Inr i"
  by (simp_all add: py_int_of_def py_int_show_int)

lemma on_value_error_simps [simp]:
  "on_value_error e (Inr x) = Inr x" "on_value_error e (Inl (ValueErr m)) = Inl e"
  by (simp_all add: on_value_error_def)

lemma on_value_error_Inr: "on_value_error e r = Inr x \<longleftrightarrow> r = Inr x"
  by (auto simp: on_value_error_def split: sum.splits exn.splits)

lemma is_none_simps [simp]:
  "is_none None" "is_none (Some PNone)" "\<not> is_none (Some (PStr s))" "\<not> is_none (Some (PInt i))"
  by (simp_all add: is_none_def)

lemma first_user_by_ids_SomeD:
  "first_user_by_ids i j t = Some u \<Longrightarrow> u \<in> set (users t) \<and> u_id u = i \<and> u_tenant_id u = j"
  unfolding first_user_by_ids_def using first_user_SomeD by fastforce

lemma first_user_by_ids_mem:
  assumes "users_ok t" and "u \<in> set (users t)"
  shows "first_user_by_ids (u_id u) (u_tenant_id u) t = Some u"
proof -
  obtain v where v: "first_user_by_ids (u_id u) (u_tenant_id u) t = Some v"
    using assms(2) unfolding first_user_by_ids_def first_user_def
    by (cases "List.find (\<lambda>x. u_id x = u_id u \<and> u_tenant_id x = u_tenant_id u) (users t)")
       (auto simp: find_None_iff')
  then show ?thesis using first_user_by_ids_SomeD [OF v] users_unique_id [OF assms(1)] assms(2) by metis
qed

text \<open>The user's tenant admits requests.\<close>

definition tenant_active :: "tables \<Rightarrow> user \<Rightarrow> bool" where
  "tenant_active t u \<longleftrightarrow> (case user_tenant t u of None \<Rightarrow> False | Some x \<Rightarrow> t_is_active x)"

lemma assert_membership_cases:
  "assert_active_tenant_membership u w =
     (if tenant_active (tx w) u then (Inr (), w) else (Inl (domain ForbiddenError ''Tenant access denied''), w))"
  by (simp add: assert_active_tenant_membership_def tenant_active_def)

lemma get_active_tenant_cases:
  "get_active_tenant_by_slug slug w =
     (case get_tenant_by_slug (tx w) slug of
        Some x \<Rightarrow> if t_is_active x then (Inr x, w) else (Inl (domain NotFoundError ''Tenant not found''), w)
      | None \<Rightarrow> (Inl (domain NotFoundError ''Tenant not found''), w))"
  by (simp add: get_active_tenant_by_slug_def split: option.splits)

text \<open>A request that names a tenant has to name the tenant of the user, and an active one.\<close>

definition header_matches :: "tables \<Rightarrow> string option \<Rightarrow> user \<Rightarrow> bool" where
  "header_matches t header u \<longleftrightarrow> (case header of None \<Rightarrow> True
     | Some s \<Rightarrow> (case get_tenant_by_slug t s of
         None \<Rightarrow> False | Some x \<Rightarrow> t_is_active x \<and> t_id x = u_tenant_id u))"

lemma header_check:
  "fst ((case header of None \<Rightarrow> noop | Some slug \<Rightarrow>
      run_then (get_active_tenant_by_slug slug) (\<lambda>x. assert_request_tenant_matches_user u x)) w) = Inr ()
    \<longleftrightarrow> header_matches (tx w) header u"
  "snd ((case header of None \<Rightarrow> noop | Some slug \<Rightarrow>
      run_then (get_active_tenant_by_slug slug) (\<lambda>x. assert_request_tenant_matches_user u x)) w) = w"
  by (auto simp: header_matches_def run_then_def get_active_tenant_cases
      assert_request_tenant_matches_user_def split: option.splits)

definition in_tenant_context :: "user \<Rightarrow> 'r world \<Rightarrow> 'r world" where
  "in_tenant_context u w = snd (set_tenant_context (u_tenant_id u) (map_option t_slug (user_tenant (tx w) u)) w)"

text \<open>Exactly when a bearer token authenticates a user.\<close>

lemma get_current_user_iff:
  "get_current_user C cfg now header token w = (Inr u, w') \<longleftrightarrow>
     (\<exists>i j v. token_identity C cfg now token = Inr (i, j, v) \<and> first_user_by_ids i j (tx w) = Some u
        \<and> u_token_version u = v)
     \<and> u_is_active u \<and> tenant_active (tx w) u \<and> header_matches (tx w) header u
     \<and> w' = in_tenant_context u w"
proof (cases "token_identity C cfg now token")
  case (Inr ids)
  then obtain i j v where ids: "token_identity C cfg now token = Inr (i, j, v)" by (cases ids) auto
  show ?thesis
  proof (cases "first_user_by_ids i j (tx w)")
    case (Some x)
    obtain hres where hres: "((case header of None \<Rightarrow> noop | Some slug \<Rightarrow>
      run_then (get_active_tenant_by_slug slug) (\<lambda>y. assert_request_tenant_matches_user x y)) w) = (hres, w)"
      using header_check(2) [where header = header and u = x and w = w] by (metis prod.collapse)
    then have "hres = Inr () \<longleftrightarrow> header_matches (tx w) header x"
      using header_check(1) [where header = header and u = x and w = w] by simp
    then show ?thesis
      using ids Some hres
      by (cases hres) (auto simp: get_current_user_def run_then_def assert_membership_cases
          in_tenant_context_def set_tenant_context_def)
  qed (use ids in \<open>simp add: get_current_user_def\<close>)
qed (simp add: get_current_user_def)

lemma in_tenant_context_fields [simp]:
  "stored (in_tenant_context u w) = stored w" "tx (in_tenant_context u w) = tx w"
  "redis (in_tenant_context u w) = redis w" "tenant_id_var (in_tenant_context u w) = Some (u_tenant_id u)"
  by (simp_all add: in_tenant_context_def set_tenant_context_def)

text \<open>Authentication reads only; it changes nothing but the tenant context.\<close>

lemma get_current_user_state:
  assumes "get_current_user C cfg now header token w = (res, w')"
  shows "stored w' = stored w \<and> tx w' = tx w \<and> redis w' = redis w"
proof -
  let ?P = "\<lambda>x. stored x = stored w \<and> tx x = tx w \<and> redis x = redis w"
  have "keeps ?P (set_tenant_context i s)" for i s
    by (simp add: keeps_def set_tenant_context_def)
  then have "keeps ?P (get_current_user C cfg now header token)"
    unfolding get_current_user_def assert_active_tenant_membership_def get_active_tenant_by_slug_def
      assert_request_tenant_matches_user_def
    by (auto intro!: keeps_run_then split: option.splits)
  from keepsD [OF this _ assms] show ?thesis by simp
qed

section \<open>A refresh token is spent once\<close>

lemma decode_refresh_Inr:
  assumes "decode_refresh_token C cfg K now tok w = (Inr d, w')"
  shows "decode_token C cfg now tok = Some d \<and> dict_get d ''type'' = Some (PStr ''refresh'')
    \<and> (\<exists>j. dict_get d ''jti'' = Some (PStr j) \<and> exists_key K now (revoked_key j) (redis w) = Some False)
    \<and> w' = w"
  using assms
  by (auto simp: decode_refresh_token_def is_refresh_token_revoked_def run_then_def
      split: option.splits if_splits pyval.splits)

lemma refresh_user_state:
  "get_active_user_from_refresh_payload d w = (res, w') \<Longrightarrow> w' = w"
  by (auto simp: get_active_user_from_refresh_payload_def Let_def run_then_def assert_membership_cases
      split: option.splits if_splits sum.splits)

lemma rotate_Inr:
  assumes "rotate_refresh_token C cfg K now j1 j2 tok w = (Inr p, w')"
  obtains d u j e r' where "decode_refresh_token C cfg K now tok w = (Inr d, w)"
    "get_active_user_from_refresh_payload d w = (Inr u, w)"
    "dict_get d ''jti'' = Some (PStr j)" "dict_get d ''exp'' = Some (PInt e)"
    "0 < e - now div second"
    "set_key K now (revoked_key j) ''1'' True (e - now div second) (redis w) = Some (True, r')"
    "w' = w\<lparr>redis := r'\<rparr>" "p = token_pair C cfg now j1 j2 u"
proof -
  obtain d w1 where d: "decode_refresh_token C cfg K now tok w = (Inr d, w1)"
    using assms by (auto simp: rotate_refresh_token_def run_then_Inr_iff)
  have w1: "w1 = w" using decode_refresh_Inr [OF d] by simp
  obtain u w2 where u: "get_active_user_from_refresh_payload d w = (Inr u, w2)"
    using assms d w1 by (auto simp: rotate_refresh_token_def run_then_Inr_iff)
  have w2: "w2 = w" using refresh_user_state [OF u] .
  have rev: "revoke_payload K now d True w = (Inr True, w')" "p = token_pair C cfg now j1 j2 u"
    using assms d u w1 w2
    by (auto simp: rotate_refresh_token_def run_then_Inr_iff split: if_splits)
  then show ?thesis
    using d u w1 w2 that
    by (auto simp: revoke_payload_def revoke_refresh_token_def Let_def
        split: option.splits pyval.splits if_splits prod.splits)
qed

text \<open>
  A token whose revocation entry is visible, or whose last second has come, is refused.
\<close>

lemma spent_token_refused:
  assumes "redis_strings K entry" and "decode_token C cfg t tok = Some d"
    and "dict_get d ''jti'' = Some (PStr j)" and "dict_get d ''exp'' = Some (PInt e)"
    and "e - t div second \<le> 0 \<or> alive (entry (redis w)) t (revoked_key j) \<noteq> None"
  shows "fst (rotate_refresh_token C cfg K t j1 j2 tok w) \<noteq> Inr p"
proof
  assume "fst (rotate_refresh_token C cfg K t j1 j2 tok w) = Inr p"
  then obtain w' where "rotate_refresh_token C cfg K t j1 j2 tok w = (Inr p, w')"
    by (metis prod.collapse)
  then obtain d' u j' e' r' where r: "decode_refresh_token C cfg K t tok w = (Inr d', w)"
    "dict_get d' ''jti'' = Some (PStr j')" "dict_get d' ''exp'' = Some (PInt e')"
    "0 < e' - t div second" by (rule rotate_Inr)
  have d: "d' = d" "j' = j" "e' = e" using decode_refresh_Inr [OF r(1)] assms(2-4) r(2,3) by auto
  then have "alive (entry (redis w)) t (revoked_key j) \<noteq> None" using assms(5) r(4) by auto
  moreover have "exists_key K t (revoked_key j) (redis w) = Some False"
    using decode_refresh_Inr [OF r(1)] r(2) d(2) by auto
  ultimately show False using redis_strings.exists_result [OF assms(1)] by blast
qed

lemma deadline_covers:
  assumes "(now :: int) \<le> t" and "t div second < e"
  shows "t < now + (e - now div second) * second"
proof -
  have "t < e * second" using assms(2) by linarith
  moreover have "(now div second) * second \<le> now" by linarith
  ultimately show ?thesis by (simp add: algebra_simps)
qed

text \<open>What an accepted rotation or logout leaves in Redis spends the token.\<close>

lemma revocation_spends:
  assumes "crypto_laws C" and "redis_strings K entry"
    and "decode_token C cfg now tok = Some d" and "dict_get d ''jti'' = Some (PStr j)"
    and "dict_get d ''exp'' = Some (PInt e)"
    and "0 < e - now div second \<Longrightarrow>
      \<exists>v. entry (redis w2) (revoked_key j) = Some (v, Some (now + (e - now div second) * second))"
    and "now \<le> t"
  shows "fst (rotate_refresh_token C cfg K t j1 j2 tok w2) \<noteq> Inr p"
proof (cases "decode_token C cfg t tok")
  case None
  then show ?thesis by (simp add: rotate_refresh_token_def decode_refresh_token_def)
next
  case (Some d')
  have d': "d' = d"
    using crypto_laws.decode_stable [OF assms(1)] assms(3) Some unfolding decode_token_def by blast
  show ?thesis
  proof (rule spent_token_refused [OF assms(2) Some])
    show "dict_get d' ''jti'' = Some (PStr j)" "dict_get d' ''exp'' = Some (PInt e)"
      using d' assms(4,5) by simp_all
    show "e - t div second \<le> 0 \<or> alive (entry (redis w2)) t (revoked_key j) \<noteq> None"
    proof (cases "t div second < e")
      case True
      have "now div second \<le> t div second" using assms(7) by (intro zdiv_mono1) simp_all
      then have "0 < e - now div second" using True by simp
      then show ?thesis
        using assms(6) deadline_covers [OF assms(7) True] by (auto simp: alive_def)
    qed simp
  qed
qed

section \<open>A reference instance of the cryptographic parameters\<close>

definition ref_crypto :: crypto where
  "ref_crypto = \<lparr>pwd_hash = (\<lambda>salt p. p), pwd_verify = (\<lambda>p h. p = h), hmac_sha256 = (\<lambda>k m. k @ ''|'' @ m),
     sha256_hex = (\<lambda>s. s),
     jwt_encode = (\<lambda>d k a. dumps (PList [PStr k, PStr a, PDict d])),
     jwt_decode = (\<lambda>now tok k a. case loads tok of
         Some (PList [PStr k', PStr a', PDict d]) \<Rightarrow>
           if k' = k \<and> a' = a \<and> (case dict_get d ''exp'' of Some (PInt e) \<Rightarrow> now div second \<le> e | _ \<Rightarrow> True)
           then Some d else None
       | _ \<Rightarrow> None)\<rparr>"

interpretation ref_crypto: crypto_laws ref_crypto
proof
  fix d :: pydict and e now :: int and k a :: string
  assume "json_value (PDict d)" "dict_get d ''exp'' = Some (PInt e)" "now div second \<le> e"
  moreover from this have "loads (dumps (PList [PStr k, PStr a, PDict d])) = Some (PList [PStr k, PStr a, PDict d])"
    by (intro loads_dumps) simp
  ultimately show "jwt_decode ref_crypto now (jwt_encode ref_crypto d k a) k a = Some d"
    by (simp add: ref_crypto_def)
qed (auto simp: ref_crypto_def split: option.splits pyval.splits list.splits if_splits)

lemma token_identity_access:
  assumes "crypto_laws C"
    and "now' div second \<le> (now + access_token_expire_minutes cfg * 60 * second) div second"
  shows "token_identity C cfg now' (create_access_token C cfg now jti (show_int i) tid ver None)
    = Inr (i, tid, ver)"
proof -
  let ?p = "token_payload ''access'' (show_int i) tid ver
    (now + access_token_expire_minutes cfg * 60 * second) jti"
  have "jwt_decode C now' (jwt_encode C ?p (secret_key cfg) (algorithm cfg)) (secret_key cfg) (algorithm cfg)
      = Some ?p"
    using assms(2)
    by (intro crypto_laws.decode_encode [OF assms(1) token_payload_lookup(7) token_payload_lookup(4)]) simp
  then show ?thesis
    by (simp add: token_identity_def decode_token_def create_access_token_def)
qed

lemma login_user_Inr:
  "login_user C cfg now j1 j2 email password tid w = (Inr p, w') \<Longrightarrow>
     \<exists>u. get_user_by_email (tx w) email tid = Some u \<and> pwd_verify C password (u_hashed_password u)
       \<and> u_is_active u \<and> p = token_pair C cfg now j1 j2 u \<and> w' = w"
  by (auto simp: login_user_def authenticate_user_def run_then_def verify_password_def
      split: option.splits if_splits)

lemma limited_state:
  assumes "rate_limit K cfg l s k = dep" and "limited dep now req w = (res, w')"
  shows "same_db w w'"
proof -
  have "same_db w (snd (limited dep now req w))"
    using assms(1) enforce_same_db [of w K now]
    by (cases dep) (auto simp: rate_limit_def limited_def split: if_splits)
  then show ?thesis using assms(2) by simp
qed

lemma get_request_tenant_Inr:
  "get_request_tenant header w = (Inr x, w') \<longleftrightarrow>
     get_tenant_by_slug (tx w) (resolve_tenant_slug header) = Some x \<and> t_is_active x
     \<and> w' = w\<lparr>tenant_id_var := Some (t_id x), tenant_slug_var := Some (t_slug x)\<rparr>"
  by (auto simp: get_request_tenant_def run_then_def get_active_tenant_cases set_tenant_context_def
      split: option.splits if_splits)

section \<open>A small installation\<close>

abbreviation example_cfg :: settings where
  "example_cfg \<equiv> default_settings ''local-dev-key''"

definition example_token :: "int \<Rightarrow> string" where
  "example_token i = create_access_token ref_crypto example_cfg 0 ''jti'' (show_int i) 1 0 None"

lemma example_identity: "token_identity ref_crypto example_cfg 0 (example_token i) = Inr (i, 1, 0)"
  unfolding example_token_def
  by (rule token_identity_access [OF ref_crypto.crypto_laws_axioms]) (simp add: default_settings_def)

lemma example_authenticated:
  assumes "tx w = example_tables" and "u \<in> set (users example_tables)"
  shows "get_current_user ref_crypto example_cfg 0 None (example_token (u_id u)) w
    = (Inr u, in_tenant_context u w)"
proof -
  have "users_ok example_tables"
    using example_world_ok by (simp add: world_ok_def example_world_def schema_ok_def)
  from first_user_by_ids_mem [OF this assms(2)] assms
  show ?thesis
    unfolding get_current_user_iff
    by (auto simp: example_identity header_matches_def tenant_active_def user_tenant_def
        first_tenant_def example_tables_def example_user_def example_tenant_def empty_tables_def)
qed

definition example_request :: request where
  "example_request = \<lparr>x_forwarded_for = None, x_real_ip = None, x_tenant_slug = None,
     client_host = Some ''10.0.0.9''\<rparr>"

definition example_refresh_token :: string where
  "example_refresh_token = create_refresh_token ref_crypto example_cfg 0 ''r1'' (show_int 3) 1 0 None"

lemma example_refresh_decodes:
  assumes "t div second \<le> (7 * day) div second"
  shows "decode_token ref_crypto example_cfg t example_refresh_token
    = Some (token_payload ''refresh'' (show_int 3) 1 0 (7 * day) ''r1'')"
  unfolding example_refresh_token_def create_refresh_token_def decode_token_def Let_def
  using assms
  by (subst ref_crypto.decode_encode [OF token_payload_lookup(7) token_payload_lookup(4)])
     (simp_all add: default_settings_def)

lemma example_refresh_user:
  assumes "tx w = example_tables"
  shows "get_active_user_from_refresh_payload (token_payload ''refresh'' (show_int 3) 1 0 e ''r1'') w
    = (Inr (example_user 3 ''user''), w)"
  using assms
  by (simp add: get_active_user_from_refresh_payload_def Let_def first_user_by_ids_def first_user_def
      example_tables_def example_user_def example_tenant_def empty_tables_def assert_membership_cases
      tenant_active_def user_tenant_def first_tenant_def equals_int_def run_then_def)

lemma example_refresh_accepted:
  "decode_refresh_token ref_crypto example_cfg store_keys 5 example_refresh_token example_world
    = (Inr (token_payload ''refresh'' (show_int 3) 1 0 (7 * day) ''r1''), example_world)"
  by (simp add: decode_refresh_token_def example_refresh_decodes is_refresh_token_revoked_def
      example_world_def empty_store_def truthy_def run_then_def)

section \<open>Properties\<close>

text \<open>
  C4: whoever a bearer token authenticates is the user its claims name: an access token decoded under
  the service's key, an existing active user with that id in that tenant, the token version the user
  has now, an active tenant, and, when the request names a tenant, that very tenant. The tenant context
  of the request is the user's tenant, and nothing else changes.
\<close>

theorem bearer_authentication_sound:
  assumes "get_current_user C cfg now header token w = (Inr u, w')"
  shows "\<exists>payload sub tid ver. decode_token C cfg now token = Some payload
      \<and> dict_get payload ''type'' = Some (PStr ''access'')
      \<and> dict_get payload ''sub'' = Some sub \<and> py_int_of sub = Inr (u_id u)
      \<and> dict_get payload ''tenant_id'' = Some tid \<and> py_int_of tid = Inr (u_tenant_id u)
      \<and> dict_get payload ''token_version'' = Some ver \<and> py_int_of ver = Inr (u_token_version u)
    \<and> u \<in> set (users (tx w)) \<and> u_is_active u
    \<and> (\<exists>x \<in> set (tenants (tx w)). t_id x = u_tenant_id u \<and> t_is_active x)
    \<and> (\<forall>s. header = Some s \<longrightarrow> (\<exists>x \<in> set (tenants (tx w)). t_slug x = s \<and> t_id x = u_tenant_id u \<and> t_is_active x))
    \<and> tenant_id_var w' = Some (u_tenant_id u) \<and> stored w' = stored w \<and> tx w' = tx w \<and> redis w' = redis w"
proof -
  obtain i j v where ids: "token_identity C cfg now token = Inr (i, j, v)"
    "first_user_by_ids i j (tx w) = Some u" "u_token_version u = v" "u_is_active u"
    "tenant_active (tx w) u" "header_matches (tx w) header u" "w' = in_tenant_context u w"
    using assms unfolding get_current_user_iff by blast
  obtain payload sub tid ver where payload: "decode_token C cfg now token = Some payload"
    "dict_get payload ''type'' = Some (PStr ''access'')" "dict_get payload ''sub'' = Some sub"
    "dict_get payload ''tenant_id'' = Some tid" "dict_get payload ''token_version'' = Some ver"
    "py_int_of sub = Inr i" "py_int_of tid = Inr j" "py_int_of ver = Inr v"
    using ids(1) by (auto simp: token_identity_def credentials_exception_def on_value_error_Inr
        and_then_Inr_iff split: option.splits if_splits)
  have u: "u \<in> set (users (tx w))" "u_id u = i" "u_tenant_id u = j"
    using first_user_by_ids_SomeD [OF ids(2)] by auto
  have t: "\<exists>x \<in> set (tenants (tx w)). t_id x = u_tenant_id u \<and> t_is_active x"
    using ids(5) first_tenant_SomeD unfolding tenant_active_def user_tenant_def
    by (fastforce split: option.splits)
  have h: "\<exists>x \<in> set (tenants (tx w)). t_slug x = s \<and> t_id x = u_tenant_id u \<and> t_is_active x"
    if "header = Some s" for s
    using ids(6) that first_tenant_SomeD unfolding header_matches_def get_tenant_by_slug_def
    by (fastforce split: option.splits)
  show ?thesis
    using payload u t h ids by (intro exI [of _ payload] exI [of _ sub] exI [of _ tid] exI [of _ ver]) simp
qed

theorem bearer_authentication_sound_witness:
  "tenant_id_var (snd (get_current_user ref_crypto example_cfg 0 None (example_token 3) example_world)) = Some 1"
proof -
  have "get_current_user ref_crypto example_cfg 0 None (example_token (u_id (example_user 3 ''user''))) example_world
      = (Inr (example_user 3 ''user''), in_tenant_context (example_user 3 ''user'') example_world)"
    by (rule example_authenticated) (simp_all add: example_world_def example_tables_def)
  from bearer_authentication_sound [OF this] this show ?thesis
    by (simp add: example_user_def)
qed

text \<open>
  C22: logging in works. The access token a login returns authenticates the user the address names, at
  any later instant up to its expiry, as long as user and tenant stay as they are.
\<close>

theorem login_authenticates:
  assumes "crypto_laws C" and "world_ok w" and "login C cfg K now j1 j2 req email password w = (Inr (acc, rft), w1)"
    and "now' div second \<le> (now + access_token_expire_minutes cfg * 60 * second) div second"
  shows "\<exists>u x. get_user_by_email (stored w) email (t_id x) = Some u
    \<and> get_tenant_by_slug (stored w) (resolve_tenant_slug (x_tenant_slug req)) = Some x
    \<and> pwd_verify C password (u_hashed_password u)
    \<and> fst (me (get_current_user C cfg now' (x_tenant_slug req) acc) w1) = Inr u"
proof -
  let ?w0 = "w\<lparr>tx := stored w\<rparr>"
  obtain w4 where w4: "w1 = w4\<lparr>tx := stored w4\<rparr>" and run: "run_then (limited (auth_login_rate_limit K cfg) now req)
      (\<lambda>_. run_then (get_request_tenant (x_tenant_slug req)) (\<lambda>tenant.
        login_user C cfg now j1 j2 email password (t_id tenant))) ?w0 = (Inr (acc, rft), w4)"
    using assms(3) unfolding login_def with_session_res by blast
  obtain w2 x w3 where lim: "limited (auth_login_rate_limit K cfg) now req ?w0 = (Inr (), w2)"
    and rt: "get_request_tenant (x_tenant_slug req) w2 = (Inr x, w3)"
    and lg: "login_user C cfg now j1 j2 email password (t_id x) w3 = (Inr (acc, rft), w4)"
    using run unfolding run_then_Inr_iff by auto
  have w2: "same_db ?w0 w2" by (rule limited_state [OF auth_login_rate_limit_def [symmetric] lim])
  have x: "get_tenant_by_slug (stored w) (resolve_tenant_slug (x_tenant_slug req)) = Some x" "t_is_active x"
    and w3: "tx w3 = stored w" "stored w3 = stored w"
    using rt w2 by (auto simp: get_request_tenant_Inr same_db_def)
  obtain u where u: "get_user_by_email (stored w) email (t_id x) = Some u"
    "pwd_verify C password (u_hashed_password u)" "u_is_active u"
    "acc = fst (token_pair C cfg now j1 j2 u)" "stored w4 = stored w"
    using login_user_Inr [OF lg] w3 by (metis fst_conv)
  have ok: "schema_ok (stored w)" using assms(2) by (simp add: world_ok_def)
  have mem: "u \<in> set (users (stored w))" "u_tenant_id u = t_id x"
    using first_user_SomeD u(1) unfolding get_user_by_email_def by blast+
  have xm: "x \<in> set (tenants (stored w))" "t_slug x = resolve_tenant_slug (x_tenant_slug req)"
    using first_tenant_SomeD x(1) unfolding get_tenant_by_slug_def by blast+
  have "user_tenant (stored w) u = Some x"
    using ok xm(1) mem(2) find_unique [of t_id "tenants (stored w)" x]
    by (simp add: user_tenant_def first_tenant_def schema_ok_def tenants_ok_def unique_by_def)
  then have act: "tenant_active (stored w) u" using x(2) by (simp add: tenant_active_def)
  have hd: "header_matches (stored w) (x_tenant_slug req) u"
    using x mem(2) by (cases "x_tenant_slug req") (simp_all add: header_matches_def resolve_tenant_slug_def)
  have id: "token_identity C cfg now' acc = Inr (u_id u, u_tenant_id u, u_token_version u)"
    using token_identity_access [OF assms(1,4)] u(4) by (simp add: token_pair_def)
  have "first_user_by_ids (u_id u) (u_tenant_id u) (stored w) = Some u"
    using ok mem(1) by (intro first_user_by_ids_mem) (simp_all add: schema_ok_def)
  then have "get_current_user C cfg now' (x_tenant_slug req) acc (w1\<lparr>tx := stored w1\<rparr>)
      = (Inr u, in_tenant_context u (w1\<lparr>tx := stored w1\<rparr>))"
    unfolding get_current_user_iff using id u(3,5) w4 act hd by simp
  then have "fst (me (get_current_user C cfg now' (x_tenant_slug req) acc) w1) = Inr u"
    by (simp add: me_def with_session_def split_beta)
  then show ?thesis using u(1,2) x(1) by blast
qed

theorem login_authenticates_witness:
  "\<exists>acc rft w1 u. login ref_crypto example_cfg store_keys 0 ''a'' ''b'' example_request (u_email (example_user 3 ''user'')) ''h''
       example_world = (Inr (acc, rft), w1)
     \<and> fst (me (get_current_user ref_crypto example_cfg 60000000 None acc) w1) = Inr u"
proof -
  have "case fst (login ref_crypto example_cfg store_keys 0 ''a'' ''b'' example_request (u_email (example_user 3 ''user'')) ''h''
      example_world) of Inr p \<Rightarrow> True | Inl e \<Rightarrow> False"
    by (simp add: login_def with_session_def run_then_def limited_def auth_login_rate_limit_def
        rate_limit_def default_settings_def enforce_rate_limit_counter_def
        example_world_def empty_store_def alive_def example_request_def get_request_tenant_def
        resolve_tenant_slug_def get_active_tenant_cases get_tenant_by_slug_def first_tenant_def
        example_tables_def example_tenant_def empty_tables_def DEFAULT_TENANT_SLUG_def
        set_tenant_context_def login_user_def authenticate_user_def get_user_by_email_def
        first_user_def example_user_def verify_password_def ref_crypto_def get_client_ip_def)
  then obtain acc rft w1 where l: "login ref_crypto example_cfg store_keys 0 ''a'' ''b'' example_request
      (u_email (example_user 3 ''user'')) ''h'' example_world = (Inr (acc, rft), w1)"
    by (cases "login ref_crypto example_cfg store_keys 0 ''a'' ''b'' example_request (u_email (example_user 3 ''user'')) ''h''
      example_world") (auto split: sum.splits)
  have "(60000000 :: int) div second \<le> (0 + access_token_expire_minutes example_cfg * 60 * second) div second"
    by (simp add: default_settings_def)
  from login_authenticates [OF ref_crypto.crypto_laws_axioms example_world_ok l this] l
  show ?thesis by (auto simp: example_request_def)
qed

text \<open>
  C23: a refresh token is good for one rotation. Once it has been exchanged, every later exchange of the
  same token fails, at whatever instant up to and beyond its expiry, while nothing else rewrites its
  revocation entry.
\<close>

theorem refresh_token_single_use:
  assumes "crypto_laws C" and "redis_strings K entry"
    and "rotate_refresh_token C cfg K now j1 j2 tok w = (Inr p, w1)" and "now \<le> t"
    and "\<forall>j. entry (redis w2) (revoked_key j) = entry (redis w1) (revoked_key j)"
  shows "\<exists>e. fst (rotate_refresh_token C cfg K t j3 j4 tok w2) = Inl e"
proof -
  obtain d u j e r' where r: "decode_refresh_token C cfg K now tok w = (Inr d, w)"
    "dict_get d ''jti'' = Some (PStr j)" "dict_get d ''exp'' = Some (PInt e)"
    "set_key K now (revoked_key j) ''1'' True (e - now div second) (redis w) = Some (True, r')"
    "w1 = w\<lparr>redis := r'\<rparr>"
    using assms(3) by (rule rotate_Inr)
  have dec: "decode_token C cfg now tok = Some d" using decode_refresh_Inr [OF r(1)] by simp
  have "entry (redis w2) (revoked_key j) = Some (''1'', Some (now + (e - now div second) * second))"
    using redis_strings.set_nx [OF assms(2) r(4)] assms(5) r(5) by (auto split: if_splits)
  then have "fst (rotate_refresh_token C cfg K t j3 j4 tok w2) \<noteq> Inr q" for q
    by (intro revocation_spends [OF assms(1,2) dec r(2,3) _ assms(4)]) blast
  then show ?thesis by (cases "fst (rotate_refresh_token C cfg K t j3 j4 tok w2)") auto
qed

theorem refresh_token_single_use_witness:
  "\<exists>p w1 e. rotate_refresh_token ref_crypto example_cfg store_keys 5 ''a'' ''b'' example_refresh_token
       example_world = (Inr p, w1)
     \<and> fst (rotate_refresh_token ref_crypto example_cfg store_keys 9 ''c'' ''d'' example_refresh_token w1) = Inl e"
proof -
  have "case fst (rotate_refresh_token ref_crypto example_cfg store_keys 5 ''a'' ''b'' example_refresh_token
      example_world) of Inr p \<Rightarrow> True | Inl e \<Rightarrow> False"
    by (simp add: rotate_refresh_token_def run_then_def example_refresh_accepted example_refresh_user
        revoke_payload_def revoke_refresh_token_def Let_def)
  then obtain p w1 where r: "rotate_refresh_token ref_crypto example_cfg store_keys 5 ''a'' ''b''
      example_refresh_token example_world = (Inr p, w1)"
    by (cases "rotate_refresh_token ref_crypto example_cfg store_keys 5 ''a'' ''b'' example_refresh_token
      example_world") (auto split: sum.splits)
  from refresh_token_single_use [OF ref_crypto.crypto_laws_axioms store_strings.redis_strings_axioms r, of 9 w1]
  show ?thesis using r by auto
qed

text \<open>
  Logging out ends a session. After a logout the refresh token cannot be exchanged any more.
\<close>

theorem logout_revokes:
  assumes "crypto_laws C" and "redis_strings K entry"
    and "logout_user C cfg K now tok w = (Inr (), w1)" and "now \<le> t"
    and "\<forall>j. entry (redis w2) (revoked_key j) = entry (redis w1) (revoked_key j)"
  shows "\<exists>e. fst (rotate_refresh_token C cfg K t j1 j2 tok w2) = Inl e"
proof -
  obtain d w' where d: "decode_refresh_token C cfg K now tok w = (Inr d, w')"
    using assms(3) by (auto simp: logout_user_def run_then_Inr_iff)
  have w': "w' = w" using decode_refresh_Inr [OF d] by simp
  have dec: "decode_token C cfg now tok = Some d" using decode_refresh_Inr [OF d] by simp
  obtain b where rp: "revoke_payload K now d False w = (Inr b, w1)"
    using assms(3) d w' by (auto simp: logout_user_def run_then_Inr_iff)
  then obtain j e where je: "dict_get d ''jti'' = Some (PStr j)" "dict_get d ''exp'' = Some (PInt e)"
    by (auto simp: revoke_payload_def split: option.splits pyval.splits)
  have "\<exists>v. entry (redis w2) (revoked_key j) = Some (v, Some (now + (e - now div second) * second))"
    if pos: "0 < e - now div second"
  proof -
    obtain b' r' where "set_key K now (revoked_key j) ''1'' False (e - now div second) (redis w) = Some (b', r')"
      "w1 = w\<lparr>redis := r'\<rparr>"
      using rp pos je by (auto simp: revoke_payload_def revoke_refresh_token_def Let_def split: option.splits)
    then show ?thesis using redis_strings.set_plain [OF assms(2)] assms(5) by fastforce
  qed
  then have "fst (rotate_refresh_token C cfg K t j1 j2 tok w2) \<noteq> Inr q" for q
    by (rule revocation_spends [OF assms(1,2) dec je _ assms(4)])
  then show ?thesis by (cases "fst (rotate_refresh_token C cfg K t j1 j2 tok w2)") auto
qed

theorem logout_revokes_witness:
  "\<exists>w1 e. logout_user ref_crypto example_cfg store_keys 5 example_refresh_token example_world = (Inr (), w1)
     \<and> fst (rotate_refresh_token ref_crypto example_cfg store_keys 9 ''c'' ''d'' example_refresh_token w1) = Inl e"
proof -
  have "case fst (logout_user ref_crypto example_cfg store_keys 5 example_refresh_token example_world) of
      Inr p \<Rightarrow> True | Inl e \<Rightarrow> False"
    by (simp add: logout_user_def run_then_def example_refresh_accepted
        revoke_payload_def revoke_refresh_token_def Let_def)
  then obtain w1 where r: "logout_user ref_crypto example_cfg store_keys 5 example_refresh_token example_world
      = (Inr (), w1)"
    by (cases "logout_user ref_crypto example_cfg store_keys 5 example_refresh_token example_world")
       (auto split: sum.splits)
  from logout_revokes [OF ref_crypto.crypto_laws_axioms store_strings.redis_strings_axioms r, of 9 w1]
  show ?thesis using r by auto
qed

end
