(* ===== verification/Keyset.thy ===== *)
theory Keyset
  imports Json "HOL-Library.List_Lexorder" "HOL-Library.Char_ord" "HOL-Library.Word"
begin

text \<open>
  Opaque page cursors (\<open>app/core/keyset_pagination.py\<close>) with the part of Python's \<open>base64\<close> module they
  use. \<open>a2b\<close> is the decoder of the standard library in its default mode: characters outside the alphabet
  are skipped, a complete padding ends the input, and a rest that is not a whole group is an error.

  Decoded bytes are read as UTF-8 up to code point 255; longer sequences, and the detection of UTF-16 and
  UTF-32 input, are outside the modelled alphabet and count as invalid.
\<close>

section \<open>Base 64\<close>

definition b64_char :: "nat \<Rightarrow> char" where
  "b64_char n = (if n < 26 then char_of (65 + n) else if n < 52 then char_of (71 + n)
     else if n < 62 then char_of (n - 4) else if n = 62 then char_of (45 :: nat) else char_of (95 :: nat))"

text \<open>The two characters after the letters and digits are \<open>-\<close> and \<open>_\<close>.\<close>

text \<open>\<open>urlsafe_b64decode\<close> maps \<open>-\<close> and \<open>_\<close> to the characters of the standard alphabet, which stay valid.\<close>

definition b64_val :: "char \<Rightarrow> nat option" where
  "b64_val c = (let n = of_char c in
     if 65 \<le> n \<and> n \<le> 90 then Some (n - 65) else if 97 \<le> n \<and> n \<le> 122 then Some (n - 71)
     else if 48 \<le> n \<and> n \<le> 57 then Some (n + 4)
     else if n = 45 \<or> n = 43 then Some 62
     else if n = 95 \<or> n = 47 then Some 63 else None)"

fun b64encode :: "string \<Rightarrow> string" where
  "b64encode [] = []"
| "b64encode [a] = (let x = of_char a in
     [b64_char (x div 4), b64_char (x mod 4 * 16), CHR ''='', CHR ''=''])"
| "b64encode [a, b] = (let x = of_char a; y = of_char b in
     [b64_char (x div 4), b64_char (x mod 4 * 16 + y div 16), b64_char (y mod 16 * 4), CHR ''=''])"
| "b64encode (a # b # c # s) = (let x = of_char a; y = of_char b; z = of_char c in
     b64_char (x div 4) # b64_char (x mod 4 * 16 + y div 16) # b64_char (y mod 16 * 4 + z div 64)
     # b64_char (z mod 64) # b64encode s)"

text \<open>The arguments are the position in the group, the bits left over and the padding seen.\<close>

fun a2b :: "nat \<Rightarrow> nat \<Rightarrow> nat \<Rightarrow> string \<Rightarrow> string option" where
  "a2b q l p [] = (if q = 0 then Some [] else None)"
| "a2b q l p (c # s) =
     (if c = CHR ''='' then
        if 2 \<le> q then if 4 \<le> q + p + 1 then Some [] else a2b q l (p + 1) s
        else a2b q l p s
      else (case b64_val c of
          None \<Rightarrow> a2b q l p s
        | Some v \<Rightarrow>
            if q = 0 then a2b 1 v 0 s
            else if q = 1 then map_option (Cons (char_of (l * 4 + v div 16))) (a2b 2 (v mod 16) 0 s)
            else if q = 2 then map_option (Cons (char_of (l * 16 + v div 4))) (a2b 3 (v mod 4) 0 s)
            else map_option (Cons (char_of (l * 64 + v))) (a2b 0 0 0 s)))"

definition b64decode :: "string \<Rightarrow> string option" where
  "b64decode s = a2b 0 0 0 s"

fun utf8_decode :: "string \<Rightarrow> string option" where
  "utf8_decode [] = Some []"
| "utf8_decode (a # s) = (let x = of_char a :: nat in
     if x < 128 then map_option (Cons a) (utf8_decode s)
     else if x = 194 \<or> x = 195 then
       (case s of [] \<Rightarrow> None
        | b # s' \<Rightarrow> (let y = of_char b :: nat in
            if 128 \<le> y \<and> y < 192 then map_option (Cons (char_of (x mod 4 * 64 + y mod 64))) (utf8_decode s')
            else None))
     else None)"

section \<open>Cursors\<close>

text \<open>\<open>sort_keys=True\<close> on a flat dictionary.\<close>

definition sort_keys :: "pydict \<Rightarrow> pydict" where
  "sort_keys d = sort_key fst d"

definition encode_cursor :: "pydict \<Rightarrow> string" where
  "encode_cursor payload = b64encode (dumps_with '','' '':'' (PDict (sort_keys payload)))"

text \<open>\<open>None\<close> is \<open>ValueError("invalid cursor")\<close>.\<close>

definition decode_cursor :: "string \<Rightarrow> pydict option" where
  "decode_cursor cursor =
     (case b64decode cursor of
        None \<Rightarrow> None
      | Some raw \<Rightarrow> (case utf8_decode raw of
          None \<Rightarrow> None
        | Some text \<Rightarrow> (case loads text of Some (PDict payload) \<Rightarrow> Some payload | _ \<Rightarrow> None)))"

section \<open>Round trip\<close>

lemma b64_val_char: "n < 64 \<Longrightarrow> b64_val (b64_char n) = Some n"
  by (auto simp: b64_char_def b64_val_def Let_def)

lemma b64_char_not_pad: "n < 64 \<Longrightarrow> b64_char n \<noteq> CHR ''=''"
proof
  assume "n < 64" and "b64_char n = CHR ''=''"
  then have "b64_val (CHR ''='') = Some n" using b64_val_char by metis
  then show False by (simp add: b64_val_def Let_def split: if_splits)
qed

text \<open>Splitting bytes into groups of six bits and joining them again.\<close>

lemma six_bits:
  fixes x y z :: nat
  shows "x < 256 \<Longrightarrow> x div 4 < 64" and "x mod 4 * 16 < 64" and "y mod 16 * 4 < 64" and "z mod 64 < 64"
  by simp_all

lemma six_bits_sum:
  fixes x y z :: nat
  shows "y < 256 \<Longrightarrow> x mod 4 * 16 + y div 16 < 64" and "z < 256 \<Longrightarrow> y mod 16 * 4 + z div 64 < 64"
proof -
  have "y < 256 \<Longrightarrow> y div 16 < 16" and "x mod 4 < 4" by simp_all
  then show "y < 256 \<Longrightarrow> x mod 4 * 16 + y div 16 < 64" by linarith
  have "z < 256 \<Longrightarrow> z div 64 < 4" and "y mod 16 < 16" by simp_all
  then show "z < 256 \<Longrightarrow> y mod 16 * 4 + z div 64 < 64" by linarith
qed

lemma regroup:
  fixes a y z :: nat
  shows "y < 256 \<Longrightarrow> (a * 16 + y div 16) div 16 = a" and "y < 256 \<Longrightarrow> (a * 16 + y div 16) mod 16 = y div 16"
    and "(y mod 16 * 4) div 4 = y mod 16" and "z < 256 \<Longrightarrow> (a * 4 + z div 64) div 4 = a"
    and "z < 256 \<Longrightarrow> (a * 4 + z div 64) mod 4 = z div 64"
    and "y < 256 \<Longrightarrow> y div 16 mod 16 = y div 16" and "z < 256 \<Longrightarrow> z div 64 mod 4 = z div 64"
  by simp_all

lemma b64decode_encode: "b64decode (b64encode s) = Some s"
proof -
  have lt: "(of_char c :: nat) < 256" for c :: char by simp
  note bits = six_bits(1) [OF lt] six_bits(2-4) six_bits_sum(1) [OF lt] six_bits_sum(2) [OF lt]
  note groups = regroup(1,2) [OF lt] regroup(3) regroup(4-7) [OF lt]
  have "a2b 0 0 0 (b64encode s) = Some s"
  proof (induction s rule: b64encode.induct)
    case (2 a)
    show ?case by (simp add: Let_def b64_val_char b64_char_not_pad bits groups)
  next
    case (3 a b)
    show ?case by (simp add: Let_def b64_val_char b64_char_not_pad bits groups)
  next
    case (4 a b c s)
    then show ?case by (simp add: Let_def b64_val_char b64_char_not_pad bits groups)
  qed simp
  then show ?thesis by (simp add: b64decode_def)
qed

definition ascii :: "string \<Rightarrow> bool" where
  "ascii s \<longleftrightarrow> list_all (\<lambda>c. (of_char c :: nat) < 128) s"

lemma ascii_simps [simp]:
  "ascii []" "ascii (c # s) \<longleftrightarrow> (of_char c :: nat) < 128 \<and> ascii s" "ascii (s @ t) \<longleftrightarrow> ascii s \<and> ascii t"
  by (simp_all add: ascii_def)

lemma utf8_decode_ascii: "ascii s \<Longrightarrow> utf8_decode s = Some s"
  by (induction s) (simp_all add: Let_def)

lemma ascii_show_nat: "ascii (show_nat n)"
  using show_nat_digits [of n] by (auto simp: ascii_def list_all_iff is_digit_def Let_def)

lemma ascii_show_int: "ascii (show_int i)"
  by (simp add: show_int_def ascii_show_nat)

lemma ascii_hex: "n < 16 \<Longrightarrow> (of_char (hex_char n) :: nat) < 128"
  by (auto simp: hex_char_def)

lemma ascii_escape: "ascii (escape_char c)"
proof -
  have "n < 256 \<Longrightarrow> n div 16 < 16" for n :: nat by simp
  from this [of "of_char c"] have "(of_char c :: nat) div 16 < 16" by simp
  then show ?thesis
    by (auto simp: escape_char_def Let_def quote_char_def backslash_def ascii_hex)
qed

lemma ascii_concat: "list_all ascii xs \<Longrightarrow> ascii (concat xs)"
  by (induction xs) simp_all

lemma ascii_quoted: "ascii (quoted s)"
  by (simp add: quoted_def quote_char_def ascii_concat list_all_iff ascii_escape)

lemma ascii_join: "ascii sep \<Longrightarrow> list_all ascii xs \<Longrightarrow> ascii (join sep xs)"
  by (induction sep xs rule: join.induct) simp_all

lemma ascii_dumps:
  assumes "ascii isep" and "ascii ksep"
  shows "json_value v \<Longrightarrow> ascii (dumps_with isep ksep v)"
proof (induction v)
  case (PList vs)
  then show ?case using assms by (auto simp: list_all_iff intro!: ascii_join)
next
  case (PDict kvs)
  then show ?case using assms by (force simp: list_all_iff ascii_quoted intro!: ascii_join)
qed (simp_all add: ascii_show_int ascii_quoted)

lemma sort_keys_lookup:
  assumes "distinct (map fst d)"
  shows "dict_get (sort_keys d) k = dict_get d k"
proof (cases "dict_get d k")
  case None
  then have "k \<notin> fst ` set (sort_keys d)" by (simp add: sort_keys_def map_of_eq_None_iff)
  then have "dict_get (sort_keys d) k = None" by (simp only: map_of_eq_None_iff not_False_eq_True)
  then show ?thesis using None by simp
next
  case (Some v)
  have "distinct (map fst (sort_keys d))"
    using assms unfolding sort_keys_def by (metis distinct_map distinct_sort set_sort)
  moreover have "(k, v) \<in> set (sort_keys d)"
    using map_of_SomeD [OF Some] by (simp add: sort_keys_def)
  ultimately show ?thesis using Some by simp
qed

lemma json_value_sort_keys:
  assumes "json_value (PDict d)"
  shows "json_value (PDict (sort_keys d))"
proof -
  have "distinct (map fst (sort_keys d))"
    using assms unfolding sort_keys_def by (metis distinct_map distinct_sort json_value.simps(3) set_sort)
  then show ?thesis using assms by (simp add: sort_keys_def list_all_iff)
qed

theorem cursor_roundtrip:
  assumes "json_value (PDict d)"
  shows "\<exists>d'. decode_cursor (encode_cursor d) = Some d' \<and> (\<forall>k. dict_get d' k = dict_get d k)"
proof -
  note j = json_value_sort_keys [OF assms]
  have "ascii (dumps_with '','' '':'' (PDict (sort_keys d)))"
    by (rule ascii_dumps [OF _ _ j]) simp_all
  then have "decode_cursor (encode_cursor d) = Some (sort_keys d)"
    using loads_dumps_with [OF seps_ok_used(2) j]
    by (simp add: decode_cursor_def encode_cursor_def b64decode_encode utf8_decode_ascii)
  then show ?thesis using sort_keys_lookup assms by auto
qed

end
