(* ===== verification/Users.thy ===== *)
theory Users
  imports Auth Keyset
begin

text \<open>
  Users: listing with filters, search, keyset pages and a cache, and the mutations, from
  \<open>app/services/user_service.py\<close>, \<open>app/schemas/user.py\<close> and \<open>app/api/routes/users.py\<close>.

  SQL is read as its standard says: \<open>like_matches\<close> is \<open>LIKE\<close> with the escape character the sources name.
  How the database orders the values of a column, and whether it accepts a value to compare a column
  with, is the parameter \<open>ordv\<close>: the position of a value in the order of the column, or \<open>None\<close> where
  the database refuses the comparison. The locale \<open>column_order\<close> states what pagination relies on.
\<close>

section \<open>Schemas\<close>

datatype user_sort_by = sort_id | sort_email | sort_role | sort_is_active
datatype sort_order = sort_asc | sort_desc
datatype search_mode = search_prefix | search_contains
datatype user_role = role_user | role_admin | role_platform_admin

fun sort_by_value :: "user_sort_by \<Rightarrow> string" where
  "sort_by_value sort_id = ''id''" | "sort_by_value sort_email = ''email''"
| "sort_by_value sort_role = ''role''" | "sort_by_value sort_is_active = ''is_active''"

fun sort_order_value :: "sort_order \<Rightarrow> string" where
  "sort_order_value sort_asc = ''asc''" | "sort_order_value sort_desc = ''desc''"

fun search_mode_value :: "search_mode \<Rightarrow> string" where
  "search_mode_value search_prefix = ''prefix''" | "search_mode_value search_contains = ''contains''"

fun role_value :: "user_role \<Rightarrow> string" where
  "role_value role_user = ''user''" | "role_value role_admin = ''admin''"
| "role_value role_platform_admin = ''platform_admin''"

record user_read =
  ur_id :: int
  ur_email :: string
  ur_is_active :: bool
  ur_role :: string

definition read_user :: "user \<Rightarrow> user_read" where
  "read_user u = \<lparr>ur_id = u_id u, ur_email = u_email u, ur_is_active = u_is_active u, ur_role = u_role u\<rparr>"

definition serialize_user :: "user \<Rightarrow> pyval" where
  "serialize_user u = PDict [(''id'', PInt (u_id u)), (''email'', PStr (u_email u)),
     (''is_active'', PBool (u_is_active u)), (''role'', PStr (u_role u))]"

text \<open>\<open>UserRead.model_validate\<close> of a cached item; \<open>None\<close> is its \<open>ValidationError\<close>.\<close>

definition read_user_dict :: "pyval \<Rightarrow> user_read option" where
  "read_user_dict v = (case v of
       PDict d \<Rightarrow> (case (dict_get d ''id'', dict_get d ''email'', dict_get d ''is_active'', dict_get d ''role'') of
           (Some (PInt i), Some (PStr e), Some (PBool b), Some (PStr r)) \<Rightarrow>
             Some \<lparr>ur_id = i, ur_email = e, ur_is_active = b, ur_role = r\<rparr>
         | _ \<Rightarrow> None)
     | _ \<Rightarrow> None)"

text \<open>
  A partial update: the outer option is whether the field is present in the body, the inner one whether
  it is \<open>null\<close>.
\<close>

record user_update =
  upd_email :: "string option option"
  upd_is_active :: "bool option option"
  upd_role :: "user_role option option"

text \<open>\<open>UserSelfUpdate\<close> ignores the fields it does not declare.\<close>

definition self_update :: "user_update \<Rightarrow> user_update" where
  "self_update upd = upd\<lparr>upd_is_active := None, upd_role := None\<rparr>"

section \<open>Filters\<close>

record list_params =
  lp_sort_by :: user_sort_by
  lp_sort_order :: sort_order
  lp_role :: "string option"
  lp_is_active :: "bool option"
  lp_search :: "string option"
  lp_search_mode :: search_mode

definition escape_like_pattern :: "string \<Rightarrow> string" where
  "escape_like_pattern value =
     replace_char (CHR ''_'') [backslash, CHR ''_'']
       (replace_char (CHR ''%'') [backslash, CHR ''%'']
         (replace_char backslash [backslash, backslash] value))"

function like_matches :: "string \<Rightarrow> string \<Rightarrow> bool" where
  "like_matches [] s = (s = [])"
| "like_matches (p # ps) s =
     (if p = CHR ''%'' then
        like_matches ps s \<or> (case s of [] \<Rightarrow> False | c # s' \<Rightarrow> like_matches (p # ps) s')
      else if p = backslash then
        (case ps of [] \<Rightarrow> False
         | q # qs \<Rightarrow> (case s of [] \<Rightarrow> False | c # s' \<Rightarrow> c = q \<and> like_matches qs s'))
      else (case s of [] \<Rightarrow> False | c # s' \<Rightarrow> (p = CHR ''_'' \<or> p = c) \<and> like_matches ps s'))"
  by pat_completeness auto
termination by (relation "measure (\<lambda>(p, s). length p + length s)") auto

definition ilike :: "string \<Rightarrow> string \<Rightarrow> bool" where
  "ilike column_value pat = like_matches (lower pat) (lower column_value)"

definition apply_email_search_filter :: "string \<Rightarrow> search_mode \<Rightarrow> user \<Rightarrow> bool" where
  "apply_email_search_filter search mode u =
     (let escaped_search = escape_like_pattern search in
      if mode = search_contains then ilike (u_email u) (''%'' @ escaped_search @ ''%'')
      else ilike (u_email u) (escaped_search @ ''%''))"

definition user_matches :: "int \<Rightarrow> list_params \<Rightarrow> user \<Rightarrow> bool" where
  "user_matches tenant_id f u \<longleftrightarrow>
     u_tenant_id u = tenant_id
     \<and> (case lp_role f of None \<Rightarrow> True | Some r \<Rightarrow> u_role u = r)
     \<and> (case lp_is_active f of None \<Rightarrow> u_is_active u | Some b \<Rightarrow> u_is_active u = b)
     \<and> (case lp_search f of None \<Rightarrow> True | Some s \<Rightarrow> apply_email_search_filter s (lp_search_mode f) u)"

section \<open>Keyset pages\<close>

fun col_value :: "user_sort_by \<Rightarrow> user \<Rightarrow> pyval" where
  "col_value sort_id u = PInt (u_id u)"
| "col_value sort_email u = PStr (u_email u)"
| "col_value sort_role u = PStr (u_role u)"
| "col_value sort_is_active u = PBool (u_is_active u)"

definition row_key :: "(user_sort_by \<Rightarrow> pyval \<Rightarrow> 'k::linorder option) \<Rightarrow> user_sort_by \<Rightarrow> user \<Rightarrow> 'k \<times> int" where
  "row_key ordv sb u = (the (ordv sb (col_value sb u)), u_id u)"

definition order_users ::
  "(user_sort_by \<Rightarrow> pyval \<Rightarrow> 'k::linorder option) \<Rightarrow> user_sort_by \<Rightarrow> sort_order \<Rightarrow> user list \<Rightarrow> user list" where
  "order_users ordv sb so rows =
     (if so = sort_desc then rev (sort_key (row_key ordv sb) rows) else sort_key (row_key ordv sb) rows)"

definition apply_keyset_filter ::
  "(user_sort_by \<Rightarrow> pyval \<Rightarrow> 'k::linorder option) \<Rightarrow> user_sort_by \<Rightarrow> sort_order \<Rightarrow> int \<Rightarrow> 'k \<Rightarrow> user \<Rightarrow> bool" where
  "apply_keyset_filter ordv sb so cursor_id c u =
     (let v = the (ordv sb (col_value sb u)) in
      if so = sort_desc then v < c \<or> v = c \<and> u_id u < cursor_id
      else c < v \<or> v = c \<and> cursor_id < u_id u)"

definition opt_str :: "string option \<Rightarrow> pyval" where
  "opt_str x = (case x of None \<Rightarrow> PNone | Some s \<Rightarrow> PStr s)"

definition opt_bool :: "bool option \<Rightarrow> pyval" where
  "opt_bool x = (case x of None \<Rightarrow> PNone | Some b \<Rightarrow> PBool b)"

definition cursor_payload :: "list_params \<Rightarrow> user \<Rightarrow> pydict" where
  "cursor_payload f u =
     [(''id'', PInt (u_id u)), (''sort_by'', PStr (sort_by_value (lp_sort_by f))),
      (''sort_order'', PStr (sort_order_value (lp_sort_order f))),
      (''sort_value'', col_value (lp_sort_by f) u), (''role'', opt_str (lp_role f)),
      (''is_active'', opt_bool (lp_is_active f)), (''search'', opt_str (lp_search f)),
      (''search_mode'', PStr (search_mode_value (lp_search_mode f)))]"

definition build_next_cursor :: "list_params \<Rightarrow> int \<Rightarrow> user list \<Rightarrow> (exn, string option) result" where
  "build_next_cursor f limit rows =
     (if int (length rows) < limit then Inr None
      else if rows = [] then Inl (Unexpected ''IndexError'')
      else Inr (Some (encode_cursor (cursor_payload f (last rows)))))"

text \<open>
  \<open>payload.get(k) != x\<close> for a text and for a truth value, which Python also compares with numbers.
\<close>

definition same_str :: "pyval option \<Rightarrow> string option \<Rightarrow> bool" where
  "same_str v x = (case x of None \<Rightarrow> is_none v | Some s \<Rightarrow> v = Some (PStr s))"

definition same_bool :: "pyval option \<Rightarrow> bool option \<Rightarrow> bool" where
  "same_bool v x = (case x of
       None \<Rightarrow> is_none v
     | Some b \<Rightarrow> v = Some (PBool b) \<or> v = Some (PInt (if b then 1 else 0)))"

definition validate_cursor_filters :: "list_params \<Rightarrow> pydict \<Rightarrow> (exn, int \<times> pyval) result" where
  "validate_cursor_filters f p =
     (if \<not> same_str (dict_get p ''sort_by'') (Some (sort_by_value (lp_sort_by f)))
      then Inl (ValueErr ''cursor sort_by mismatch'')
      else if \<not> same_str (dict_get p ''sort_order'') (Some (sort_order_value (lp_sort_order f)))
      then Inl (ValueErr ''cursor sort_order mismatch'')
      else if \<not> same_str (dict_get p ''role'') (lp_role f) then Inl (ValueErr ''cursor role mismatch'')
      else if \<not> same_bool (dict_get p ''is_active'') (lp_is_active f)
      then Inl (ValueErr ''cursor is_active mismatch'')
      else if \<not> same_str (dict_get p ''search'') (lp_search f) then Inl (ValueErr ''cursor search mismatch'')
      else if \<not> same_str (dict_get p ''search_mode'') (Some (search_mode_value (lp_search_mode f)))
      then Inl (ValueErr ''cursor search_mode mismatch'')
      else (case (dict_get p ''id'', dict_get p ''sort_value'') of
          (Some (PInt i), Some v) \<Rightarrow> if v = PNone then Inl (ValueErr ''invalid cursor payload'') else Inr (i, v)
        | (Some (PBool b), Some v) \<Rightarrow>
            if v = PNone then Inl (ValueErr ''invalid cursor payload'') else Inr (if b then 1 else 0, v)
        | _ \<Rightarrow> Inl (ValueErr ''invalid cursor payload'')))"

text \<open>The query part of \<open>get_users\<close>: one page of rows and the next cursor.\<close>

definition users_page ::
  "(user_sort_by \<Rightarrow> pyval \<Rightarrow> 'k::linorder option) \<Rightarrow> tables \<Rightarrow> int \<Rightarrow> int \<Rightarrow> list_params \<Rightarrow> string option
     \<Rightarrow> int option \<Rightarrow> (exn, user list \<times> string option) result" where
  "users_page ordv t tenant_id limit f cursor skip =
     (let rows = filter (user_matches tenant_id f) (users t); sb = lp_sort_by f; so = lp_sort_order f in
      case skip of
        Some n \<Rightarrow> Inr (page_of n limit (order_users ordv sb so rows), None)
      | None \<Rightarrow>
          and_then (case cursor of
              None \<Rightarrow> Inr rows
            | Some s \<Rightarrow> (case decode_cursor s of
                None \<Rightarrow> Inl (ValueErr ''invalid cursor'')
              | Some p \<Rightarrow> and_then (validate_cursor_filters f p) (\<lambda>(cursor_id, v).
                  (case ordv sb v of
                     None \<Rightarrow> Inl (Unexpected ''DataError'')
                   | Some c \<Rightarrow> Inr (filter (apply_keyset_filter ordv sb so cursor_id c) rows)))))
            (\<lambda>selected.
              (let page_rows = page_of 0 limit (order_users ordv sb so selected) in
               and_then (build_next_cursor f limit page_rows) (\<lambda>next. Inr (page_rows, next)))))"

section \<open>The cached listing\<close>

definition cache_params :: "int \<Rightarrow> list_params \<Rightarrow> string option \<Rightarrow> int option \<Rightarrow> pydict" where
  "cache_params limit f cursor skip =
     [(''limit'', PInt limit), (''sort_by'', PStr (sort_by_value (lp_sort_by f))),
      (''sort_order'', PStr (sort_order_value (lp_sort_order f))), (''role'', opt_str (lp_role f)),
      (''is_active'', opt_bool (lp_is_active f)), (''search'', opt_str (lp_search f)),
      (''search_mode'', PStr (search_mode_value (lp_search_mode f))), (''cursor'', opt_str cursor),
      (''skip'', (case skip of None \<Rightarrow> PNone | Some n \<Rightarrow> PInt n))]"

definition users_list_cache_key ::
  "'m crypto_scheme \<Rightarrow> int \<Rightarrow> int \<Rightarrow> list_params \<Rightarrow> string option \<Rightarrow> int option \<Rightarrow> int \<Rightarrow> string" where
  "users_list_cache_key C tenant_id limit f cursor skip version =
     build_tenant_cache_prefix tenant_id @ '':'' @ USERS_LIST_CACHE_NAMESPACE @ '':v'' @ show_int version @ '':''
       @ sha256_hex C (utf8_encode (dumps (PDict (sort_keys (cache_params limit f cursor skip)))))"

definition build_users_list_cache_key ::
  "'m crypto_scheme \<Rightarrow> ('r, 'n) redis_keys_scheme \<Rightarrow> time \<Rightarrow> int \<Rightarrow> int \<Rightarrow> list_params \<Rightarrow> string option
     \<Rightarrow> int option \<Rightarrow> ('r world, string) action" where
  "build_users_list_cache_key C K now tenant_id limit f cursor skip =
     run_then (get_cache_version K now (build_users_list_cache_version_key tenant_id)) (\<lambda>version.
       ret (users_list_cache_key C tenant_id limit f cursor skip version))"

datatype list_items = Rows "user list" | Cached "pyval list"

definition cached_result :: "pyval \<Rightarrow> (exn, list_items \<times> string option) result" where
  "cached_result v = (case v of
       PDict d \<Rightarrow> (case dict_get d ''items'' of
           Some (PList xs) \<Rightarrow> (case dict_get d ''next_cursor'' of
               None \<Rightarrow> Inr (Cached xs, None)
             | Some PNone \<Rightarrow> Inr (Cached xs, None)
             | Some (PStr s) \<Rightarrow> Inr (Cached xs, Some s)
             | _ \<Rightarrow> Inl (Unexpected ''ValidationError''))
         | None \<Rightarrow> Inl (Unexpected ''KeyError'')
         | _ \<Rightarrow> Inl (Unexpected ''TypeError''))
     | _ \<Rightarrow> Inl (Unexpected ''TypeError''))"

definition get_users ::
  "'m crypto_scheme \<Rightarrow> ('r, 'n) redis_keys_scheme \<Rightarrow> settings \<Rightarrow> (user_sort_by \<Rightarrow> pyval \<Rightarrow> 'k::linorder option)
     \<Rightarrow> time \<Rightarrow> int \<Rightarrow> int \<Rightarrow> list_params \<Rightarrow> string option \<Rightarrow> int option
     \<Rightarrow> ('r world, list_items \<times> string option) action" where
  "get_users C K cfg ordv now tenant_id limit f cursor skip =
     (let eff_skip = (case skip of None \<Rightarrow> None | Some n \<Rightarrow> if 0 < n then Some n else None) in
      run_then (build_users_list_cache_key C K now tenant_id limit f cursor eff_skip) (\<lambda>cache_key.
      run_then (if users_cache_enabled cfg then get_json_cache K now cache_key else ret None) (\<lambda>cached.
      (case cached of
         Some v \<Rightarrow> lift_result (cached_result v)
       | None \<Rightarrow>
           run_then (reads tx) (\<lambda>t.
           run_then (lift_result (users_page ordv t tenant_id limit f cursor eff_skip)) (\<lambda>(rows, next).
           run_then (if users_cache_enabled cfg
               then set_json_cache K now cache_key
                 (PDict [(''items'', PList (map serialize_user rows)), (''next_cursor'', opt_str next)])
                 (users_cache_ttl_seconds cfg)
               else noop)
             (\<lambda>_. ret (Rows rows, next))))))))"

section \<open>Mutations\<close>

definition increment_user_token_version ::
  "('r, 'n) redis_keys_scheme \<Rightarrow> time \<Rightarrow> user \<Rightarrow> ('r world, user) action" where
  "increment_user_token_version K now u =
     (let u' = u\<lparr>u_token_version := u_token_version u + 1\<rparr> in
      run_then (flush_commit (set_user (u_id u) (\<lambda>_. u'))) (\<lambda>_.
      run_then (invalidate_users_list_cache K now (u_tenant_id u)) (\<lambda>_. ret u')))"

definition get_user_by_id :: "tables \<Rightarrow> int \<Rightarrow> int \<Rightarrow> user option" where
  "get_user_by_id t user_id tenant_id = first_user_by_ids user_id tenant_id t"

definition has_null :: "user_update \<Rightarrow> bool" where
  "has_null upd \<longleftrightarrow> upd_email upd = Some None \<or> upd_is_active upd = Some None \<or> upd_role upd = Some None"

definition apply_update :: "user_update \<Rightarrow> user \<Rightarrow> user" where
  "apply_update upd u =
     (let should_invalidate_tokens =
        (case upd_role upd of Some (Some r) \<Rightarrow> role_value r \<noteq> u_role u | _ \<Rightarrow> False) in
      u\<lparr>u_email := (case upd_email upd of Some (Some e) \<Rightarrow> e | _ \<Rightarrow> u_email u),
        u_is_active := (case upd_is_active upd of Some (Some b) \<Rightarrow> b | _ \<Rightarrow> u_is_active u),
        u_role := (case upd_role upd of Some (Some r) \<Rightarrow> role_value r | _ \<Rightarrow> u_role u),
        u_token_version := u_token_version u + (if should_invalidate_tokens then 1 else 0)\<rparr>)"

text \<open>The mapped columns are not nullable, so an explicit \<open>null\<close> fails when it is flushed.\<close>

definition update_user ::
  "('r, 'n) redis_keys_scheme \<Rightarrow> time \<Rightarrow> user \<Rightarrow> user_update \<Rightarrow> bool \<Rightarrow> ('r world, user) action" where
  "update_user K now u upd do_commit =
     (if has_null upd then run_then rollback (\<lambda>_. raise IntegrityError)
      else
        run_then (save do_commit (set_user (u_id u) (\<lambda>_. apply_update upd u))) (\<lambda>_.
        run_then (if do_commit then invalidate_users_list_cache K now (u_tenant_id u) else noop)
          (\<lambda>_. ret (apply_update upd u))))"

definition delete_user ::
  "('r, 'n) redis_keys_scheme \<Rightarrow> time \<Rightarrow> user \<Rightarrow> bool \<Rightarrow> ('r world, unit) action" where
  "delete_user K now u do_commit =
     run_then (save do_commit (drop_user (u_id u))) (\<lambda>_.
       if do_commit then invalidate_users_list_cache K now (u_tenant_id u) else noop)"

definition set_active_state ::
  "(user \<Rightarrow> user) \<Rightarrow> ('r, 'n) redis_keys_scheme \<Rightarrow> time \<Rightarrow> int \<Rightarrow> int \<Rightarrow> bool \<Rightarrow> ('r world, user option) action"
  where
  "set_active_state g K now user_id tenant_id do_commit =
     run_then (reads (\<lambda>w. get_user_by_id (tx w) user_id tenant_id)) (\<lambda>x. case x of
       None \<Rightarrow> ret None
     | Some u \<Rightarrow>
         run_then (save do_commit (set_user (u_id u) (\<lambda>_. g u))) (\<lambda>_.
         run_then (if do_commit then invalidate_users_list_cache K now tenant_id else noop)
           (\<lambda>_. ret (Some (g u)))))"

definition deactivated :: "user \<Rightarrow> user" where
  "deactivated u = u\<lparr>u_is_active := False, u_token_version := u_token_version u + 1\<rparr>"

definition activated :: "user \<Rightarrow> user" where
  "activated u = u\<lparr>u_is_active := True\<rparr>"

definition deactivate_user ::
  "('r, 'n) redis_keys_scheme \<Rightarrow> time \<Rightarrow> int \<Rightarrow> int \<Rightarrow> bool \<Rightarrow> ('r world, user option) action" where
  "deactivate_user = set_active_state deactivated"

definition activate_user ::
  "('r, 'n) redis_keys_scheme \<Rightarrow> time \<Rightarrow> int \<Rightarrow> int \<Rightarrow> bool \<Rightarrow> ('r world, user option) action" where
  "activate_user = set_active_state activated"

section \<open>Routes\<close>

definition unprocessable :: "string \<Rightarrow> exn" where
  "unprocessable m = HTTPException 422 m"

definition user_list_items :: "list_items \<Rightarrow> (exn, user_read list) result" where
  "user_list_items items = (case items of
       Rows rows \<Rightarrow> Inr (map read_user rows)
     | Cached vs \<Rightarrow> if list_all (\<lambda>v. read_user_dict v \<noteq> None) vs then Inr (map (the \<circ> read_user_dict) vs)
                    else Inl (Unexpected ''ValidationError''))"

definition catch_value_error :: "('w, 'a) action \<Rightarrow> ('w, 'a) action" where
  "catch_value_error m w = (case m w of
       (Inl (ValueErr msg), w') \<Rightarrow> (Inl (unprocessable msg), w') | r \<Rightarrow> r)"

definition list_users ::
  "'m crypto_scheme \<Rightarrow> ('r, 'n) redis_keys_scheme \<Rightarrow> settings \<Rightarrow> (user_sort_by \<Rightarrow> pyval \<Rightarrow> 'k::linorder option)
     \<Rightarrow> time \<Rightarrow> ('r world, user) action \<Rightarrow> int \<Rightarrow> int \<Rightarrow> string option \<Rightarrow> list_params
     \<Rightarrow> ('r world, user_read list \<times> string option) action" where
  "list_users C K cfg ordv now current pg sz cursor f = with_session
     (run_then (require_permission current [USERS_LIST]) (\<lambda>current_user.
      if cursor \<noteq> None \<and> pg \<noteq> 1 then raise (unprocessable ''cursor cannot be combined with page > 1'')
      else
        run_then (catch_value_error (get_users C K cfg ordv now (u_tenant_id current_user) sz f cursor
            (if 1 < pg \<and> cursor = None then Some ((pg - 1) * sz) else None))) (\<lambda>(items, next).
        run_then (lift_result (user_list_items items)) (\<lambda>us. ret (us, next)))))"

definition user_not_found :: exn where
  "user_not_found = HTTPException 404 ''User not found''"

definition get_user_route ::
  "('r world, user) action \<Rightarrow> int \<Rightarrow> ('r world, user_read) action" where
  "get_user_route current user_id = with_session
     (run_then current (\<lambda>current_user.
      run_then (reads (\<lambda>w. get_user_by_id (tx w) user_id (u_tenant_id current_user))) (\<lambda>x. case x of
        None \<Rightarrow> raise user_not_found
      | Some u \<Rightarrow> if \<not> can_read_user current_user u then raise forbidden else ret (read_user u))))"

definition commit_user_mutation_with_audit ::
  "('r, 'n) redis_keys_scheme \<Rightarrow> time \<Rightarrow> int \<Rightarrow> int \<Rightarrow> int \<Rightarrow> audit_action \<Rightarrow> int \<Rightarrow> ('r world, unit) action" where
  "commit_user_mutation_with_audit K now audit_id tenant_id admin_id act target_user_id =
     run_then (create_audit_log audit_id now tenant_id (Some admin_id) act (Some target_user_id) False) (\<lambda>_.
     run_then commit (\<lambda>_. invalidate_users_list_cache K now tenant_id))"

definition patch_user ::
  "('r, 'n) redis_keys_scheme \<Rightarrow> time \<Rightarrow> int \<Rightarrow> ('r world, user) action \<Rightarrow> int \<Rightarrow> user_update
     \<Rightarrow> ('r world, user_read) action" where
  "patch_user K now audit_id current user_id upd = with_session
     (run_then current (\<lambda>current_user.
      run_then (reads (\<lambda>w. get_user_by_id (tx w) user_id (u_tenant_id current_user))) (\<lambda>x. case x of
        None \<Rightarrow> raise user_not_found
      | Some u \<Rightarrow>
          if \<not> can_update_user current_user u then raise forbidden
          else if user_has_permission current_user USERS_UPDATE then
            run_then (update_user K now u upd False) (\<lambda>updated.
            run_then (commit_user_mutation_with_audit K now audit_id (u_tenant_id current_user)
                (u_id current_user) USER_UPDATED user_id) (\<lambda>_. ret (read_user updated)))
          else
            run_then (update_user K now u (self_update upd) True) (\<lambda>updated. ret (read_user updated)))))"

definition active_state_route ::
  "(('r, 'n) redis_keys_scheme \<Rightarrow> time \<Rightarrow> int \<Rightarrow> int \<Rightarrow> bool \<Rightarrow> ('r world, user option) action) \<Rightarrow> permission
     \<Rightarrow> audit_action \<Rightarrow> ('r, 'n) redis_keys_scheme \<Rightarrow> time \<Rightarrow> int \<Rightarrow> ('r world, user) action \<Rightarrow> int
     \<Rightarrow> ('r world, user_read) action" where
  "active_state_route op perm act K now audit_id current user_id = with_session
     (run_then (require_permission current [perm]) (\<lambda>current_user.
      run_then (op K now user_id (u_tenant_id current_user) False) (\<lambda>x. case x of
        None \<Rightarrow> raise user_not_found
      | Some u \<Rightarrow>
          run_then (commit_user_mutation_with_audit K now audit_id (u_tenant_id current_user)
              (u_id current_user) act user_id) (\<lambda>_. ret (read_user u)))))"

definition deactivate_user_endpoint ::
  "('r, 'n) redis_keys_scheme \<Rightarrow> time \<Rightarrow> int \<Rightarrow> ('r world, user) action \<Rightarrow> int \<Rightarrow> ('r world, user_read) action" where
  "deactivate_user_endpoint = active_state_route deactivate_user USERS_DEACTIVATE USER_DEACTIVATED"

definition activate_user_endpoint ::
  "('r, 'n) redis_keys_scheme \<Rightarrow> time \<Rightarrow> int \<Rightarrow> ('r world, user) action \<Rightarrow> int \<Rightarrow> ('r world, user_read) action" where
  "activate_user_endpoint = active_state_route activate_user USERS_ACTIVATE USER_ACTIVATED"

definition remove_user ::
  "('r, 'n) redis_keys_scheme \<Rightarrow> time \<Rightarrow> int \<Rightarrow> ('r world, user) action \<Rightarrow> int \<Rightarrow> ('r world, unit) action" where
  "remove_user K now audit_id current user_id = with_session
     (run_then (require_permission current [USERS_DELETE]) (\<lambda>current_user.
      run_then (reads (\<lambda>w. get_user_by_id (tx w) user_id (u_tenant_id current_user))) (\<lambda>x. case x of
        None \<Rightarrow> raise user_not_found
      | Some u \<Rightarrow>
          run_then (delete_user K now u False) (\<lambda>_.
            commit_user_mutation_with_audit K now audit_id (u_tenant_id current_user)
              (u_id current_user) USER_DELETED user_id))))"


section \<open>Search\<close>

definition escape_one :: "char \<Rightarrow> string" where
  "escape_one c = (if c = backslash \<or> c = CHR ''%'' \<or> c = CHR ''_'' then [backslash, c] else [c])"

lemma escape_like_pattern_concat: "escape_like_pattern v = concat (map escape_one v)"
  by (induction v) (auto simp: escape_like_pattern_def escape_one_def replace_char_def backslash_def)

lemma lower_char_special:
  "lower_char c = backslash \<longleftrightarrow> c = backslash" "lower_char c = CHR ''%'' \<longleftrightarrow> c = CHR ''%''"
  "lower_char c = CHR ''_'' \<longleftrightarrow> c = CHR ''_''"
proof -
  have k: "lower_char c = d \<longleftrightarrow> c = d" if "of_char d \<in> {92, 37, 95 :: nat}" for d
  proof (cases "65 \<le> (of_char c :: nat) \<and> of_char c \<le> (90 :: nat)
      \<or> 192 \<le> (of_char c :: nat) \<and> of_char c \<le> (222 :: nat) \<and> of_char c \<noteq> (215 :: nat)")
    case True
    then have "(of_char (lower_char c) :: nat) = of_char c + 32" by (auto simp: lower_char_def Let_def)
    then have "of_char (lower_char c) \<notin> {92, 37, 95 :: nat}" "of_char c \<notin> {92, 37, 95 :: nat}"
      using True by auto
    then show ?thesis using that by metis
  next
    case False
    then have "lower_char c = c" by (auto simp: lower_char_def Let_def)
    then show ?thesis by simp
  qed
  show "lower_char c = backslash \<longleftrightarrow> c = backslash" "lower_char c = CHR ''%'' \<longleftrightarrow> c = CHR ''%''"
    "lower_char c = CHR ''_'' \<longleftrightarrow> c = CHR ''_''"
    by (rule k; simp add: backslash_def)+
qed

lemma lower_escape: "lower (escape_like_pattern v) = escape_like_pattern (lower v)"
  unfolding escape_like_pattern_concat lower_def
  by (induction v) (auto simp: escape_one_def lower_char_special)

lemma like_rest: "like_matches ''%'' s"
  by (induction s) simp_all

lemma like_escaped:
  "like_matches (escape_like_pattern v @ ps) s \<longleftrightarrow> (\<exists>r. s = v @ r \<and> like_matches ps r)"
  unfolding escape_like_pattern_concat
proof (induction v arbitrary: s)
  case (Cons c v)
  have "like_matches (escape_one c @ q) s \<longleftrightarrow> (\<exists>r. s = c # r \<and> like_matches q r)" for q s
    by (cases s) (auto simp: escape_one_def backslash_def)
  then show ?case using Cons.IH by auto
qed simp

lemma like_percent: "like_matches (CHR ''%'' # p) s \<longleftrightarrow> (\<exists>a b. s = a @ b \<and> like_matches p b)"
proof (induction s)
  case (Cons c s)
  have "like_matches (CHR ''%'' # p) (c # s) \<longleftrightarrow> like_matches p (c # s) \<or> (\<exists>a b. s = a @ b \<and> like_matches p b)"
    using Cons.IH by simp
  also have "\<dots> \<longleftrightarrow> (\<exists>a b. c # s = a @ b \<and> like_matches p b)"
    by (metis append_Cons append_Nil list.exhaust list.inject)
  finally show ?case .
qed simp

lemma lower_append: "lower (a @ b) = lower a @ lower b"
  by (simp add: lower_def)

lemma lower_percent: "lower ''%'' = ''%''"
  by (simp add: lower_def lower_char_special)

lemma ilike_prefix: "ilike e (escape_like_pattern v @ ''%'') \<longleftrightarrow> starts_with (lower e) (lower v)"
  unfolding ilike_def lower_append lower_escape lower_percent like_escaped starts_with_iff
  using like_rest by blast

lemma ilike_contains:
  "ilike e (''%'' @ escape_like_pattern v @ ''%'') \<longleftrightarrow> contains (lower e) (lower v)"
proof -
  have "ilike e (''%'' @ escape_like_pattern v @ ''%'')
      \<longleftrightarrow> like_matches (CHR ''%'' # (escape_like_pattern (lower v) @ ''%'')) (lower e)"
    unfolding ilike_def lower_append lower_escape lower_percent by (simp only: append_Cons append_Nil)
  then show ?thesis
    unfolding like_percent [of "escape_like_pattern (lower v) @ ''%''"] like_escaped contains_iff
    by (auto simp only: like_rest simp_thms)
qed

lemma search_literal:
  "apply_email_search_filter s search_prefix u \<longleftrightarrow> starts_with (lower (u_email u)) (lower s)"
  "apply_email_search_filter s search_contains u \<longleftrightarrow> contains (lower (u_email u)) (lower s)"
  by (simp_all add: apply_email_search_filter_def Let_def ilike_prefix ilike_contains
      del: append.simps)

section \<open>Pagination\<close>

text \<open>The database can compare a column with the values stored in it.\<close>

locale column_order =
  fixes ordv :: "user_sort_by \<Rightarrow> pyval \<Rightarrow> 'k::linorder option"
  assumes comparable: "ordv sb (col_value sb u) \<noteq> None"

definition follows :: "sort_order \<Rightarrow> 'a::linorder \<Rightarrow> 'a \<Rightarrow> bool" where
  "follows so a b = (if so = sort_desc then b < a else a < b)"

lemma validate_own_cursor:
  assumes "\<And>k. dict_get p k = dict_get (cursor_payload f u) k"
  shows "validate_cursor_filters f p = Inr (u_id u, col_value (lp_sort_by f) u)"
proof -
  have c: "col_value sb u \<noteq> PNone" for sb by (cases sb) simp_all
  have o: "is_none (Some (opt_str None))" "opt_str (Some s) = PStr s" "is_none (Some (opt_bool None))"
    "opt_bool (Some b) = PBool b" for s b
    by (simp_all add: opt_str_def opt_bool_def)
  show ?thesis
    unfolding validate_cursor_filters_def assms
    using c o by (auto simp: cursor_payload_def same_str_def same_bool_def split: option.splits)
qed

lemma json_value_cursor_payload: "json_value (PDict (cursor_payload f u))"
  by (cases "lp_sort_by f")
     (simp_all add: cursor_payload_def opt_str_def opt_bool_def split: option.splits)

lemma order_users_filter: "order_users ordv sb so (filter p rows) = filter p (order_users ordv sb so rows)"
  by (simp add: order_users_def filter_sort rev_filter [symmetric])

lemma set_order_users [simp]: "set (order_users ordv sb so rows) = set rows"
  by (simp add: order_users_def)

lemma mset_order_users [simp]: "mset (order_users ordv sb so rows) = mset rows"
  by (simp add: order_users_def)

lemma distinct_order_users: "distinct rows \<Longrightarrow> distinct (order_users ordv sb so rows)"
  by (metis mset_eq_imp_distinct_iff mset_order_users)

lemma order_users_sorted:
  assumes "distinct (map u_id rows)"
  shows "sorted_wrt (\<lambda>a b. follows so (row_key ordv sb a) (row_key ordv sb b)) (order_users ordv sb so rows)"
proof -
  let ?s = "sort_key (row_key ordv sb) rows"
  have "distinct (map u_id ?s)" using assms by (metis distinct_map distinct_sort set_sort)
  then have "distinct (map (row_key ordv sb) ?s)"
    by (auto simp: distinct_map inj_on_def row_key_def)
  moreover have "sorted (map (row_key ordv sb) ?s)" by simp
  ultimately have "sorted_wrt (<) (map (row_key ordv sb) ?s)"
    by (simp only: strict_sorted_iff)
  then have "sorted_wrt (\<lambda>a b. row_key ordv sb a < row_key ordv sb b) ?s" by (simp add: sorted_wrt_map)
  then show ?thesis by (simp add: order_users_def follows_def sorted_wrt_rev)
qed

lemma filter_after:
  assumes "sorted_wrt (\<lambda>a b. follows so (k a) (k b)) (pre @ x # post)"
  shows "filter (\<lambda>u. follows so (k x) (k u)) (pre @ x # post) = post"
proof -
  have "filter (\<lambda>u. follows so (k x) (k u)) pre = []"
    using assms by (auto simp: sorted_wrt_append filter_empty_conv follows_def split: if_splits)
  moreover have "filter (\<lambda>u. follows so (k x) (k u)) post = post"
    using assms by (auto simp: sorted_wrt_append filter_id_conv)
  ultimately show ?thesis by (simp add: follows_def)
qed

context column_order
begin

lemma keyset_follows:
  assumes "ordv sb (col_value sb x) = Some c"
  shows "apply_keyset_filter ordv sb so (u_id x) c u = follows so (row_key ordv sb x) (row_key ordv sb u)"
  using assms by (auto simp: apply_keyset_filter_def follows_def row_key_def less_prod_def')

lemma page_step:
  assumes "users_ok t" and "1 \<le> limit"
    and "order_users ordv (lp_sort_by f) (lp_sort_order f) (filter (user_matches tid f) (users t)) = pre @ post"
    and "cursor = (if pre = [] then None else Some (encode_cursor (cursor_payload f (last pre))))"
  shows "users_page ordv t tid limit f cursor None =
    Inr (take (nat limit) post,
      if length post < nat limit then None
      else Some (encode_cursor (cursor_payload f (last (take (nat limit) post)))))"
proof -
  let ?sb = "lp_sort_by f" and ?so = "lp_sort_order f"
  let ?rows = "filter (user_matches tid f) (users t)"
  have dist: "distinct (map u_id ?rows)"
    using assms(1) by (auto simp: users_ok_def unique_by_def distinct_map_filter)
  note srt = order_users_sorted [OF dist, of ?so ordv ?sb]
  have page: "page_of 0 limit xs = take (nat limit) xs" for xs :: "user list" by (simp add: page_of_def)
  have build: "build_next_cursor f limit (take (nat limit) post) = Inr (if length post < nat limit then None
      else Some (encode_cursor (cursor_payload f (last (take (nat limit) post)))))"
    using assms(2) by (auto simp: build_next_cursor_def)
  show ?thesis
  proof (cases "pre = []")
    case True
    then show ?thesis using assms(3,4) build by (simp add: users_page_def Let_def page)
  next
    case False
    define x where "x = last pre"
    obtain pre' where pre: "pre = pre' @ [x]" using False by (metis append_butlast_last_id x_def)
    obtain p where p: "decode_cursor (encode_cursor (cursor_payload f x)) = Some p"
      "\<And>k. dict_get p k = dict_get (cursor_payload f x) k"
      using cursor_roundtrip [OF json_value_cursor_payload] by blast
    obtain c where c: "ordv ?sb (col_value ?sb x) = Some c" using comparable by blast
    have whole: "order_users ordv ?sb ?so ?rows = pre' @ x # post" using assms(3) pre by simp
    have "order_users ordv ?sb ?so (filter (apply_keyset_filter ordv ?sb ?so (u_id x) c) ?rows)
        = filter (\<lambda>u. follows ?so (row_key ordv ?sb x) (row_key ordv ?sb u)) (order_users ordv ?sb ?so ?rows)"
      unfolding keyset_follows [OF c] by (rule order_users_filter)
    also have "\<dots> = post" unfolding whole by (rule filter_after) (use srt whole in simp)
    finally have "order_users ordv ?sb ?so (filter (apply_keyset_filter ordv ?sb ?so (u_id x) c) ?rows) = post" .
    then show ?thesis
      using False assms(4) p(1) validate_own_cursor [OF p(2)] c build
      by (simp add: users_page_def Let_def page x_def)
  qed
qed

end

text \<open>A client that follows the cursors, for at most \<open>fuel\<close> pages.\<close>

fun page_walk ::
  "(user_sort_by \<Rightarrow> pyval \<Rightarrow> 'k::linorder option) \<Rightarrow> nat \<Rightarrow> tables \<Rightarrow> int \<Rightarrow> int \<Rightarrow> list_params
     \<Rightarrow> string option \<Rightarrow> (exn, user list list) result option" where
  "page_walk ordv 0 t tid limit f cursor = None"
| "page_walk ordv (Suc fuel) t tid limit f cursor =
     (case users_page ordv t tid limit f cursor None of
        Inl e \<Rightarrow> Some (Inl e)
      | Inr (rows, None) \<Rightarrow> Some (Inr [rows])
      | Inr (rows, Some c) \<Rightarrow>
          map_option (\<lambda>r. and_then r (\<lambda>ps. Inr (rows # ps))) (page_walk ordv fuel t tid limit f (Some c)))"

context column_order
begin

lemma page_walk_from:
  assumes "users_ok t" and "1 \<le> limit"
    and "order_users ordv (lp_sort_by f) (lp_sort_order f) (filter (user_matches tid f) (users t)) = pre @ post"
    and "cursor = (if pre = [] then None else Some (encode_cursor (cursor_payload f (last pre))))"
    and "length post < fuel"
  shows "\<exists>ps. page_walk ordv fuel t tid limit f cursor = Some (Inr ps) \<and> concat ps = post"
  using assms(3-5)
proof (induction fuel arbitrary: pre post cursor)
  case (Suc fuel)
  let ?n = "nat limit"
  note step = page_step [OF assms(1,2) Suc.prems(1,2)]
  show ?case
  proof (cases "length post < ?n")
    case True
    then show ?thesis using step by simp
  next
    case False
    have n: "0 < ?n" using assms(2) by simp
    then have ne: "take ?n post \<noteq> []" using False by (cases post) auto
    have split: "order_users ordv (lp_sort_by f) (lp_sort_order f) (filter (user_matches tid f) (users t))
        = (pre @ take ?n post) @ drop ?n post" using Suc.prems(1) by simp
    have c: "Some (encode_cursor (cursor_payload f (last (take ?n post)))) =
        (if pre @ take ?n post = [] then None
         else Some (encode_cursor (cursor_payload f (last (pre @ take ?n post)))))"
      using ne by simp
    have "length (drop ?n post) < fuel" using Suc.prems(3) n False by simp
    from Suc.IH [OF split c this] obtain ps where
      "page_walk ordv fuel t tid limit f (Some (encode_cursor (cursor_payload f (last (take ?n post)))))
        = Some (Inr ps)" "concat ps = drop ?n post" by blast
    then show ?thesis using step False by simp
  qed
qed simp

end

section \<open>Mutations and their audit rows\<close>

text \<open>An authentication step only reads, apart from the tenant context.\<close>

definition read_only :: "('r world, 'a) action \<Rightarrow> bool" where
  "read_only m \<longleftrightarrow> (\<forall>w. stored (snd (m w)) = stored w \<and> tx (snd (m w)) = tx w \<and> redis (snd (m w)) = redis w)"

lemma read_only_current_user: "read_only (get_current_user C cfg now header token)"
  unfolding read_only_def using get_current_user_state by (metis prod.collapse)

lemma read_onlyD: "read_only m \<Longrightarrow> m w = (res, w') \<Longrightarrow> stored w' = stored w \<and> tx w' = tx w \<and> redis w' = redis w"
  unfolding read_only_def by (metis snd_conv)

definition audit_row :: "int \<Rightarrow> time \<Rightarrow> user \<Rightarrow> audit_action \<Rightarrow> int \<Rightarrow> audit_log" where
  "audit_row audit_id now admin act target =
     \<lparr>a_id = audit_id, a_tenant_id = u_tenant_id admin, a_admin_id = Some (u_id admin),
      a_action = action_value act, a_target_user_id = Some target, a_created_at = now\<rparr>"

text \<open>A flushed change and its audit row reach the database together or not at all.\<close>

lemma audited_change:
  "\<exists>r'. run_then (flush ch) (\<lambda>_.
      commit_user_mutation_with_audit K now audit_id (u_tenant_id a) (u_id a) act target) w =
    (let t = add_audit_log (audit_row audit_id now a act target) (ch (tx w)) in
     if schema_ok (ch (tx w)) \<and> schema_ok t then (Inr (), w\<lparr>tx := t, stored := t, redis := r'\<rparr>)
     else (Inl IntegrityError, w\<lparr>tx := stored w\<rparr>))"
proof -
  define t where "t = add_audit_log (audit_row audit_id now a act target) (ch (tx w))"
  obtain r' where inv: "invalidate_users_list_cache K now (u_tenant_id a) (w\<lparr>tx := t, stored := t\<rparr>)
      = (Inr (), w\<lparr>tx := t, stored := t, redis := r'\<rparr>)"
    using invalidate_never_raises [of K now "u_tenant_id a" "w\<lparr>tx := t, stored := t\<rparr>"] by auto
  show ?thesis
    by (rule exI [of _ r'])
      (use inv in \<open>simp add: run_then_def flush_cases commit_user_mutation_with_audit_def
        create_audit_log_def save_def commit_def Let_def audit_row_def t_def\<close>)
qed

lemma audited_change_cases:
  assumes "run_then (flush ch) (\<lambda>_.
      run_then (commit_user_mutation_with_audit K now audit_id (u_tenant_id a) (u_id a) act target) (\<lambda>_. ret x)) w
    = (res, w')"
  shows "res = Inr x \<and> stored w' = add_audit_log (audit_row audit_id now a act target) (ch (tx w))
      \<and> schema_ok (ch (tx w)) \<or> res = Inl IntegrityError \<and> stored w' = stored w"
proof -
  obtain r' where "run_then (flush ch) (\<lambda>_.
      commit_user_mutation_with_audit K now audit_id (u_tenant_id a) (u_id a) act target) w =
    (let t = add_audit_log (audit_row audit_id now a act target) (ch (tx w)) in
     if schema_ok (ch (tx w)) \<and> schema_ok t then (Inr (), w\<lparr>tx := t, stored := t, redis := r'\<rparr>)
     else (Inl IntegrityError, w\<lparr>tx := stored w\<rparr>))"
    using audited_change [where ch = ch and K = K and now = now and audit_id = audit_id and a = a
      and act = act and target = target and w = w] by blast
  then have "run_then (flush ch) (\<lambda>_.
      run_then (commit_user_mutation_with_audit K now audit_id (u_tenant_id a) (u_id a) act target) (\<lambda>_. ret x)) w =
    (let t = add_audit_log (audit_row audit_id now a act target) (ch (tx w)) in
     if schema_ok (ch (tx w)) \<and> schema_ok t then (Inr x, w\<lparr>tx := t, stored := t, redis := r'\<rparr>)
     else (Inl IntegrityError, w\<lparr>tx := stored w\<rparr>))"
    unfolding run_then_assoc [symmetric] by (simp add: run_then_def [of _ "\<lambda>_. ret x"] Let_def)
  then show ?thesis using assms by (auto simp: Let_def split: if_splits)
qed

lemma get_user_by_id_SomeD:
  "get_user_by_id t i tid = Some u \<Longrightarrow> u \<in> set (users t) \<and> u_id u = i \<and> u_tenant_id u = tid"
  unfolding get_user_by_id_def by (rule first_user_by_ids_SomeD)

text \<open>What a successful administrator mutation has done, and that a failed one has done nothing.\<close>

definition audited_effect ::
  "(user \<Rightarrow> tables \<Rightarrow> tables) \<Rightarrow> permission \<Rightarrow> audit_action \<Rightarrow> int \<Rightarrow> time \<Rightarrow> user \<Rightarrow> int \<Rightarrow> tables \<Rightarrow> tables \<Rightarrow> bool"
  where
  "audited_effect ch perm act audit_id now a i t t' \<longleftrightarrow>
     user_has_permission a perm \<and>
     (\<exists>u. get_user_by_id t i (u_tenant_id a) = Some u
        \<and> t' = add_audit_log (audit_row audit_id now a act i) (ch u t))"

lemma active_state_route_effect:
  assumes "active_state_route (set_active_state g) perm act K now audit_id current i w = (res, w')"
    and "read_only current"
  shows "(\<exists>a r. fst (current (w\<lparr>tx := stored w\<rparr>)) = Inr a \<and> res = Inr r \<and>
        audited_effect (\<lambda>u. set_user i (\<lambda>_. g u)) perm act audit_id now a i (stored w) (stored w'))
    \<or> (\<exists>e. res = Inl e \<and> stored w' = stored w)"
proof -
  let ?w0 = "w\<lparr>tx := stored w\<rparr>"
  obtain cres w1 where cur: "current ?w0 = (cres, w1)" by force
  have w1: "stored w1 = stored w" "tx w1 = stored w" using read_onlyD [OF assms(2) cur] by simp_all
  show ?thesis
  proof (cases cres)
    case (Inl e)
    then show ?thesis
      using assms(1) cur w1
      by (auto simp: active_state_route_def with_session_res require_permission_def run_then_def)
  next
    case (Inr a)
    show ?thesis
    proof (cases "user_has_permission a perm \<and> (\<exists>u. get_user_by_id (stored w) i (u_tenant_id a) = Some u)")
      case False
      then show ?thesis
        using assms(1) cur w1 Inr
        by (auto simp: active_state_route_def with_session_res require_permission_def run_then_def
            user_has_any_permission_def user_has_permission_def set_active_state_def action_distrib
            split: option.splits if_splits)
    next
      case True
      then obtain u where u: "get_user_by_id (stored w) i (u_tenant_id a) = Some u" by blast
      have i: "u_id u = i" using get_user_by_id_SomeD [OF u] by simp
      obtain w2 where w2: "run_then (flush (set_user i (\<lambda>_. g u))) (\<lambda>_.
          run_then (commit_user_mutation_with_audit K now audit_id (u_tenant_id a) (u_id a) act i)
            (\<lambda>_. ret (read_user (g u)))) w1 = (res, w2)" "stored w' = stored w2"
        using assms(1) cur w1 Inr True u i
        by (auto simp: active_state_route_def with_session_res require_permission_def
            user_has_any_permission_def user_has_permission_def set_active_state_def save_def
            run_then_assoc run_then_pure)
      from audited_change_cases [OF w2(1)] show ?thesis
        using w1 w2(2) True u cur Inr by (auto simp: audited_effect_def)
    qed
  qed
qed

lemma remove_user_effect:
  assumes "remove_user K now audit_id current i w = (res, w')" and "read_only current"
  shows "(\<exists>a. fst (current (w\<lparr>tx := stored w\<rparr>)) = Inr a \<and> res = Inr () \<and>
        audited_effect (\<lambda>u. drop_user i) USERS_DELETE USER_DELETED audit_id now a i (stored w) (stored w'))
    \<or> (\<exists>e. res = Inl e \<and> stored w' = stored w)"
proof -
  let ?w0 = "w\<lparr>tx := stored w\<rparr>"
  obtain cres w1 where cur: "current ?w0 = (cres, w1)" by force
  have w1: "stored w1 = stored w" "tx w1 = stored w" using read_onlyD [OF assms(2) cur] by simp_all
  show ?thesis
  proof (cases cres)
    case (Inl e)
    then show ?thesis
      using assms(1) cur w1
      by (auto simp: remove_user_def with_session_res require_permission_def run_then_def)
  next
    case (Inr a)
    show ?thesis
    proof (cases "user_has_permission a USERS_DELETE \<and> (\<exists>u. get_user_by_id (stored w) i (u_tenant_id a) = Some u)")
      case False
      then show ?thesis
        using assms(1) cur w1 Inr
        by (auto simp: remove_user_def with_session_res require_permission_def run_then_def
            user_has_any_permission_def user_has_permission_def action_distrib
            split: option.splits if_splits)
    next
      case True
      then obtain u where u: "get_user_by_id (stored w) i (u_tenant_id a) = Some u" by blast
      have i: "u_id u = i" using get_user_by_id_SomeD [OF u] by simp
      obtain w2 where w2: "run_then (flush (drop_user i)) (\<lambda>_.
          commit_user_mutation_with_audit K now audit_id (u_tenant_id a) (u_id a) USER_DELETED i) w1 = (res, w2)"
        "stored w' = stored w2"
        using assms(1) cur w1 Inr True u i
        by (auto simp: remove_user_def with_session_res require_permission_def delete_user_def
            user_has_any_permission_def user_has_permission_def save_def run_then_assoc run_then_pure)
      obtain r' where "run_then (flush (drop_user i)) (\<lambda>_.
          commit_user_mutation_with_audit K now audit_id (u_tenant_id a) (u_id a) USER_DELETED i) w1 =
        (let t = add_audit_log (audit_row audit_id now a USER_DELETED i) (drop_user i (tx w1)) in
         if schema_ok (drop_user i (tx w1)) \<and> schema_ok t then (Inr (), w1\<lparr>tx := t, stored := t, redis := r'\<rparr>)
         else (Inl IntegrityError, w1\<lparr>tx := stored w1\<rparr>))"
        using audited_change [where ch = "drop_user i" and K = K and now = now and audit_id = audit_id
          and a = a and act = USER_DELETED and target = i and w = w1] by blast
      then show ?thesis
        using w1 w2 True u cur Inr by (auto simp: audited_effect_def Let_def split: if_splits)
    qed
  qed
qed

lemma update_user_commits:
  assumes "update_user K now u upd True w = (res, w')"
  shows "res = Inr (apply_update upd u) \<and> stored w' = set_user (u_id u) (\<lambda>_. apply_update upd u) (tx w)
    \<or> res = Inl IntegrityError \<and> stored w' = stored w"
proof (cases "has_null upd \<or> \<not> schema_ok (set_user (u_id u) (\<lambda>_. apply_update upd u) (tx w))")
  case True
  then show ?thesis
    using assms by (auto simp: update_user_def rollback_def run_then_def save_def flush_commit_cases split: if_splits)
next
  case False
  let ?t = "set_user (u_id u) (\<lambda>_. apply_update upd u) (tx w)"
  obtain r' where "invalidate_users_list_cache K now (u_tenant_id u) (w\<lparr>tx := ?t, stored := ?t\<rparr>)
      = (Inr (), w\<lparr>tx := ?t, stored := ?t, redis := r'\<rparr>)"
    using invalidate_never_raises [of K now "u_tenant_id u" "w\<lparr>tx := ?t, stored := ?t\<rparr>"] by auto
  then show ?thesis
    using assms False by (auto simp: update_user_def run_then_def save_def flush_commit_cases)
qed

text \<open>An explicit \<open>null\<close>, or an address of another user of the tenant, fails at the database.\<close>

lemma update_refused_by_database:
  assumes "has_null upd
    \<or> (\<exists>e x. upd_email upd = Some (Some e) \<and> u \<in> set (users (tx w)) \<and> x \<in> set (users (tx w))
         \<and> u_id x \<noteq> u_id u \<and> u_tenant_id x = u_tenant_id u \<and> u_email x = e)"
  shows "fst (update_user K now u upd c w) = Inl IntegrityError"
proof (cases "has_null upd")
  case False
  then obtain e x where x: "upd_email upd = Some (Some e)" "u \<in> set (users (tx w))" "x \<in> set (users (tx w))"
    "u_id x \<noteq> u_id u" "u_tenant_id x = u_tenant_id u" "u_email x = e" using assms by blast
  have "\<not> users_ok (set_user (u_id u) (\<lambda>_. apply_update upd u) (tx w))"
  proof
    let ?us = "map (\<lambda>v. if u_id v = u_id u then apply_update upd u else v) (users (tx w))"
    assume "users_ok (set_user (u_id u) (\<lambda>_. apply_update upd u) (tx w))"
    then have "distinct (map (\<lambda>u. (u_tenant_id u, u_email u)) ?us)"
      unfolding users_ok_def unique_by_def set_user_def by simp
    then have inj: "inj_on (\<lambda>u. (u_tenant_id u, u_email u)) (set ?us)"
      by (simp only: distinct_map)
    have "apply_update upd u \<in> set ?us" "x \<in> set ?us" using x(2-4) by (auto simp: image_iff)
    with inj x have "apply_update upd u = x" by (auto simp: inj_on_def apply_update_def Let_def)
    then show False using x(4) by (auto simp: apply_update_def Let_def)
  qed
  then show ?thesis using False
    by (auto simp: update_user_def save_def flush_commit_cases flush_cases schema_ok_def run_then_def)
qed (simp add: update_user_def rollback_def run_then_def)

lemma patch_user_effect:
  assumes "patch_user K now audit_id current i upd w = (res, w')" and "read_only current"
  shows "(\<exists>a r. fst (current (w\<lparr>tx := stored w\<rparr>)) = Inr a \<and> res = Inr r \<and>
       (audited_effect (\<lambda>u. set_user i (\<lambda>_. apply_update upd u)) USERS_UPDATE USER_UPDATED audit_id now a i
           (stored w) (stored w')
        \<or> \<not> user_has_permission a USERS_UPDATE \<and> u_id a = i \<and>
          (\<exists>u. get_user_by_id (stored w) i (u_tenant_id a) = Some u
             \<and> stored w' = set_user i (\<lambda>_. apply_update (self_update upd) u) (stored w))))
    \<or> (\<exists>e. res = Inl e \<and> stored w' = stored w)"
proof -
  let ?w0 = "w\<lparr>tx := stored w\<rparr>"
  obtain cres w1 where cur: "current ?w0 = (cres, w1)" by force
  have w1: "stored w1 = stored w" "tx w1 = stored w" using read_onlyD [OF assms(2) cur] by simp_all
  show ?thesis
  proof (cases cres)
    case (Inl e)
    then show ?thesis
      using assms(1) cur w1 by (auto simp: patch_user_def with_session_res run_then_def)
  next
    case (Inr a)
    show ?thesis
    proof (cases "\<exists>u. get_user_by_id (stored w) i (u_tenant_id a) = Some u \<and> can_update_user a u")
      case False
      then show ?thesis
        using assms(1) cur w1 Inr
        by (auto simp: patch_user_def with_session_res run_then_def action_distrib
            split: option.splits if_splits)
    next
      case True
      then obtain u where u: "get_user_by_id (stored w) i (u_tenant_id a) = Some u" "can_update_user a u"
        by blast
      have i: "u_id u = i" using get_user_by_id_SomeD [OF u(1)] by simp
      show ?thesis
      proof (cases "user_has_permission a USERS_UPDATE")
        case admin: True
        show ?thesis
        proof (cases "has_null upd")
          case True
          then show ?thesis
            using assms(1) cur w1 Inr u admin
            by (auto simp: patch_user_def with_session_res update_user_def rollback_def run_then_def)
        next
          case False
          obtain w2 where w2: "run_then (flush (set_user i (\<lambda>_. apply_update upd u))) (\<lambda>_.
              run_then (commit_user_mutation_with_audit K now audit_id (u_tenant_id a) (u_id a) USER_UPDATED i)
                (\<lambda>_. ret (read_user (apply_update upd u)))) w1 = (res, w2)" "stored w' = stored w2"
            using assms(1) cur w1 Inr u i admin False
            by (auto simp: patch_user_def with_session_res update_user_def save_def run_then_assoc run_then_pure)
          from audited_change_cases [OF w2(1)] show ?thesis
            using w1 w2(2) admin u cur Inr by (auto simp: audited_effect_def)
        qed
      next
        case False
        have self: "u_id a = i"
          using False u(2) i by (auto simp: can_update_user_def split: if_splits)
        obtain ures w2 where uu: "update_user K now u (self_update upd) True w1 = (ures, w2)" by force
        have "stored w' = stored w2" "res = (case ures of Inl e \<Rightarrow> Inl e | Inr v \<Rightarrow> Inr (read_user v))"
          using assms(1) cur w1 Inr u False uu
          by (auto simp: patch_user_def with_session_res run_then_def split: sum.splits)
        then show ?thesis
          using update_user_commits [OF uu] False self u cur Inr w1 i by (auto simp: exI)
      qed
    qed
  qed
qed

text \<open>The four requests that change a user.\<close>

datatype user_mutation = Patch user_update | Deactivate | Activate | Remove

definition mutate ::
  "('r, 'n) redis_keys_scheme \<Rightarrow> time \<Rightarrow> int \<Rightarrow> ('r world, user) action \<Rightarrow> user_mutation \<Rightarrow> int
     \<Rightarrow> ('r world, unit) action" where
  "mutate K now audit_id current m i = (case m of
       Patch upd \<Rightarrow> run_then (patch_user K now audit_id current i upd) (\<lambda>_. noop)
     | Deactivate \<Rightarrow> run_then (deactivate_user_endpoint K now audit_id current i) (\<lambda>_. noop)
     | Activate \<Rightarrow> run_then (activate_user_endpoint K now audit_id current i) (\<lambda>_. noop)
     | Remove \<Rightarrow> remove_user K now audit_id current i)"

fun mutation_permission :: "user_mutation \<Rightarrow> permission" where
  "mutation_permission (Patch upd) = USERS_UPDATE"
| "mutation_permission Deactivate = USERS_DEACTIVATE"
| "mutation_permission Activate = USERS_ACTIVATE"
| "mutation_permission Remove = USERS_DELETE"

fun mutation_action :: "user_mutation \<Rightarrow> audit_action" where
  "mutation_action (Patch upd) = USER_UPDATED"
| "mutation_action Deactivate = USER_DEACTIVATED"
| "mutation_action Activate = USER_ACTIVATED"
| "mutation_action Remove = USER_DELETED"

fun mutation_change :: "user_mutation \<Rightarrow> int \<Rightarrow> user \<Rightarrow> tables \<Rightarrow> tables" where
  "mutation_change (Patch upd) i u = set_user i (\<lambda>_. apply_update upd u)"
| "mutation_change Deactivate i u = set_user i (\<lambda>_. deactivated u)"
| "mutation_change Activate i u = set_user i (\<lambda>_. activated u)"
| "mutation_change Remove i u = drop_user i"

lemma mutate_effect:
  assumes "mutate K now audit_id current m i w = (res, w')" and "read_only current"
  shows "(\<exists>a. fst (current (w\<lparr>tx := stored w\<rparr>)) = Inr a \<and> res = Inr () \<and>
       (audited_effect (mutation_change m i) (mutation_permission m) (mutation_action m) audit_id now a i
           (stored w) (stored w')
        \<or> \<not> user_has_permission a USERS_UPDATE \<and> u_id a = i \<and>
          (\<exists>u upd. m = Patch upd \<and> get_user_by_id (stored w) i (u_tenant_id a) = Some u
             \<and> stored w' = set_user i (\<lambda>_. apply_update (self_update upd) u) (stored w))))
    \<or> (\<exists>e. res = Inl e \<and> stored w' = stored w)"
proof (cases m)
  case (Patch upd)
  obtain pres where p: "patch_user K now audit_id current i upd w = (pres, w')"
    and r: "res = (case pres of Inl e \<Rightarrow> Inl e | Inr x \<Rightarrow> Inr ())"
    using assms(1) by (auto simp: Patch mutate_def run_then_def split: prod.splits sum.splits)
  have fn: "mutation_change (Patch upd) i = (\<lambda>u. set_user i (\<lambda>_. apply_update upd u))" by (simp add: fun_eq_iff)
  show ?thesis using patch_user_effect [OF p assms(2)] r unfolding Patch fn by auto
next
  case Deactivate
  obtain pres where p: "active_state_route (set_active_state deactivated) USERS_DEACTIVATE USER_DEACTIVATED
      K now audit_id current i w = (pres, w')"
    and r: "res = (case pres of Inl e \<Rightarrow> Inl e | Inr x \<Rightarrow> Inr ())"
    using assms(1) by (auto simp: Deactivate mutate_def run_then_def deactivate_user_endpoint_def
        deactivate_user_def split: prod.splits sum.splits)
  have fn: "mutation_change Deactivate i = (\<lambda>u. set_user i (\<lambda>_. deactivated u))" by (simp add: fun_eq_iff)
  show ?thesis using active_state_route_effect [OF p assms(2)] r unfolding Deactivate fn by auto
next
  case Activate
  obtain pres where p: "active_state_route (set_active_state activated) USERS_ACTIVATE USER_ACTIVATED
      K now audit_id current i w = (pres, w')"
    and r: "res = (case pres of Inl e \<Rightarrow> Inl e | Inr x \<Rightarrow> Inr ())"
    using assms(1) by (auto simp: Activate mutate_def run_then_def activate_user_endpoint_def
        activate_user_def split: prod.splits sum.splits)
  have fn: "mutation_change Activate i = (\<lambda>u. set_user i (\<lambda>_. activated u))" by (simp add: fun_eq_iff)
  show ?thesis using active_state_route_effect [OF p assms(2)] r unfolding Activate fn by auto
next
  case Remove
  then have p: "remove_user K now audit_id current i w = (res, w')" using assms(1) by (simp add: mutate_def)
  have fn: "mutation_change Remove i = (\<lambda>u. drop_user i)" by (simp add: fun_eq_iff)
  show ?thesis using remove_user_effect [OF p assms(2)] unfolding Remove fn by auto
qed

text \<open>The rows of the other tenants.\<close>

definition other_tenants :: "int \<Rightarrow> tables \<Rightarrow> user list" where
  "other_tenants tid t = filter (\<lambda>u. u_tenant_id u \<noteq> tid) (users t)"

lemma filter_map_replace:
  assumes "\<And>x. x \<in> set xs \<Longrightarrow> c x \<Longrightarrow> \<not> p x" and "\<not> p v"
  shows "filter p (map (\<lambda>x. if c x then v else x) xs) = filter p xs"
  using assms(1) by (induction xs) (auto simp: assms(2))

lemma other_tenants_set_user:
  assumes "users_ok t" and "u \<in> set (users t)" and "u_id u = i" and "u_tenant_id u = tid" and "u_tenant_id v = tid"
  shows "other_tenants tid (set_user i (\<lambda>_. v) t) = other_tenants tid t"
  unfolding other_tenants_def users_set_user
proof (rule filter_map_replace)
  show "\<not> u_tenant_id x \<noteq> tid" if "x \<in> set (users t)" "u_id x = i" for x
    using users_unique_id [OF assms(1) that(1) assms(2)] that(2) assms(3,4) by simp
qed (simp add: assms(5))

lemma other_tenants_drop_user:
  assumes "users_ok t" and "u \<in> set (users t)" and "u_id u = i" and "u_tenant_id u = tid"
  shows "other_tenants tid (drop_user i t) = other_tenants tid t"
proof -
  have "filter (\<lambda>x. u_tenant_id x \<noteq> tid) (filter (\<lambda>x. u_id x \<noteq> i) (users t))
      = filter (\<lambda>x. u_tenant_id x \<noteq> tid) (users t)"
    unfolding filter_filter
  proof (rule filter_cong [OF refl])
    show "u_id x \<noteq> i \<and> u_tenant_id x \<noteq> tid \<longleftrightarrow> u_tenant_id x \<noteq> tid" if "x \<in> set (users t)" for x
      using users_unique_id [OF assms(1) that assms(2)] assms(3,4) by auto
  qed
  then show ?thesis by (simp add: other_tenants_def drop_user_def)
qed

lemma other_tenants_audit [simp]: "other_tenants tid (add_audit_log a t) = other_tenants tid t"
  by (simp add: other_tenants_def add_audit_log_def)

lemma apply_update_ids [simp]:
  "u_id (apply_update upd u) = u_id u" "u_tenant_id (apply_update upd u) = u_tenant_id u"
  by (simp_all add: apply_update_def Let_def)

lemma active_state_ids [simp]:
  "u_id (deactivated u) = u_id u" "u_tenant_id (deactivated u) = u_tenant_id u"
  "u_id (activated u) = u_id u" "u_tenant_id (activated u) = u_tenant_id u"
  by (simp_all add: deactivated_def activated_def)

lemma mutation_change_isolated:
  assumes "users_ok t" and "get_user_by_id t i tid = Some u"
  shows "other_tenants tid (mutation_change m i u t) = other_tenants tid t"
  using assms get_user_by_id_SomeD [OF assms(2)]
  by (cases m) (auto intro!: other_tenants_set_user other_tenants_drop_user)

section \<open>Old tokens\<close>

lemma token_identity_stable:
  assumes "crypto_laws C" and "token_identity C cfg t0 tok = Inr ids"
  shows "token_identity C cfg t tok = Inr ids \<or> token_identity C cfg t tok = Inl credentials_exception"
proof (cases "decode_token C cfg t tok")
  case (Some d)
  obtain d0 where d0: "decode_token C cfg t0 tok = Some d0"
    using assms(2) by (cases "decode_token C cfg t0 tok") (simp_all add: token_identity_def)
  then have "d = d0"
    using crypto_laws.decode_stable [OF assms(1)] Some unfolding decode_token_def by blast
  then show ?thesis using assms(2) Some d0 by (simp add: token_identity_def)
qed (simp add: token_identity_def)

lemma outdated_token_refused:
  assumes "token_identity C cfg t tok = Inr (i, j, v) \<or> token_identity C cfg t tok = Inl credentials_exception"
    and "\<And>x. x \<in> set (users (tx w)) \<Longrightarrow> u_id x = i \<Longrightarrow> u_token_version x \<noteq> v"
  shows "get_current_user C cfg t h tok w = (Inl credentials_exception, w)"
proof (cases "token_identity C cfg t tok")
  case (Inr ids)
  then have ids: "token_identity C cfg t tok = Inr (i, j, v)" using assms(1) by auto
  then show ?thesis
    using assms(2) first_user_by_ids_SomeD
    by (fastforce simp: get_current_user_def split: option.splits)
qed (use assms(1) in \<open>simp add: get_current_user_def\<close>)

lemma set_user_rows:
  "x \<in> set (users (set_user i (\<lambda>_. v) t)) \<Longrightarrow> u_id x = i \<Longrightarrow> x = v"
  by (auto simp: users_set_user split: if_splits)

lemma users_audit [simp]: "users (add_audit_log a t) = users t"
  by (simp add: add_audit_log_def)

text \<open>What activation and deactivation leave of the user's row.\<close>

lemma active_state_rows:
  assumes "active_state_route (set_active_state g) perm act K now audit_id current i w = (Inr r, w')"
    and "read_only current" and "x \<in> set (users (stored w'))" and "u_id x = i"
  shows "\<exists>u \<in> set (users (stored w)). u_id u = i \<and> x = g u"
proof -
  obtain a where "audited_effect (\<lambda>u. set_user i (\<lambda>_. g u)) perm act audit_id now a i (stored w) (stored w')"
    using active_state_route_effect [OF assms(1,2)] by auto
  then obtain u where u: "get_user_by_id (stored w) i (u_tenant_id a) = Some u"
    and t: "users (stored w') = users (set_user i (\<lambda>_. g u) (stored w))"
    by (auto simp: audited_effect_def)
  have "x = g u" using set_user_rows assms(3,4) unfolding t by blast
  then show ?thesis using get_user_by_id_SomeD [OF u] by blast
qed

section \<open>Properties\<close>


definition ref_order :: "user_sort_by \<Rightarrow> pyval \<Rightarrow> int list option" where
  "ref_order sb v = (case v of
       PInt i \<Rightarrow> Some [i] | PBool b \<Rightarrow> Some [if b then 1 else 0]
     | PStr s \<Rightarrow> Some (map of_char s) | _ \<Rightarrow> None)"

interpretation ref_order: column_order ref_order
proof
  show "ref_order sb (col_value sb u) \<noteq> None" for sb u by (cases sb) (simp_all add: ref_order_def)
qed

lemma example_users_ok: "users_ok example_tables"
  using example_world_ok by (simp add: world_ok_def schema_ok_def)


text \<open>
  A search term is matched literally and without regard to case. No character of the term acts as
  a pattern: the prefix mode finds the addresses that start with it, the other mode those that contain
  it.
\<close>

theorem search_is_literal:
  "apply_email_search_filter s mode u \<longleftrightarrow>
     (case mode of search_prefix \<Rightarrow> starts_with (lower (u_email u)) (lower s)
      | search_contains \<Rightarrow> contains (lower (u_email u)) (lower s))"
  by (cases mode) (simp_all add: search_literal)

text \<open>
  C3: user administration is audited and atomic. A request that changes a user either fails and leaves
  the database as it was, or has changed exactly the addressed user, who belongs to the caller's
  tenant; an administrator's change is stored together with the audit row that names tenant,
  administrator, action and target, and everyone else can only edit their own address.
\<close>

theorem user_mutations_audited:
  assumes "mutate K now audit_id (get_current_user C cfg now header token) m i w = (res, w')"
  shows "case res of
      Inl e \<Rightarrow> stored w' = stored w
    | Inr _ \<Rightarrow> \<exists>a u. fst (get_current_user C cfg now header token (w\<lparr>tx := stored w\<rparr>)) = Inr a
        \<and> get_user_by_id (stored w) i (u_tenant_id a) = Some u
        \<and> (if user_has_permission a (mutation_permission m)
           then stored w' = add_audit_log (audit_row audit_id now a (mutation_action m) i)
                  (mutation_change m i u (stored w))
           else u_id a = i \<and> (\<exists>upd. m = Patch upd
                  \<and> stored w' = set_user i (\<lambda>_. apply_update (self_update upd) u) (stored w)))"
proof (cases res)
  case (Inr x)
  from mutate_effect [OF assms read_only_current_user] Inr obtain a where
    a: "fst (get_current_user C cfg now header token (w\<lparr>tx := stored w\<rparr>)) = Inr a" and
    d: "audited_effect (mutation_change m i) (mutation_permission m) (mutation_action m) audit_id now a i
           (stored w) (stored w')
        \<or> \<not> user_has_permission a USERS_UPDATE \<and> u_id a = i \<and>
          (\<exists>u upd. m = Patch upd \<and> get_user_by_id (stored w) i (u_tenant_id a) = Some u
             \<and> stored w' = set_user i (\<lambda>_. apply_update (self_update upd) u) (stored w))"
    by auto
  from d show ?thesis
  proof
    assume "audited_effect (mutation_change m i) (mutation_permission m) (mutation_action m) audit_id now a i
           (stored w) (stored w')"
    then show ?thesis using a Inr unfolding audited_effect_def by fastforce
  next
    assume e: "\<not> user_has_permission a USERS_UPDATE \<and> u_id a = i \<and>
          (\<exists>u upd. m = Patch upd \<and> get_user_by_id (stored w) i (u_tenant_id a) = Some u
             \<and> stored w' = set_user i (\<lambda>_. apply_update (self_update upd) u) (stored w))"
    then obtain u upd where "m = Patch upd" "get_user_by_id (stored w) i (u_tenant_id a) = Some u"
      "stored w' = set_user i (\<lambda>_. apply_update (self_update upd) u) (stored w)" by blast
    then show ?thesis using a e Inr by fastforce
  qed
next
  case (Inl e)
  then show ?thesis using mutate_effect [OF assms read_only_current_user] by auto
qed

text \<open>
  Tenants are isolated. Whatever a user of one tenant requests, and whatever role the user has, the
  user rows of all other tenants stay the same.
\<close>

theorem user_mutations_isolated:
  assumes "world_ok w" and "fst (get_current_user C cfg now header token (w\<lparr>tx := stored w\<rparr>)) = Inr a"
    and "mutate K now audit_id (get_current_user C cfg now header token) m i w = (res, w')"
  shows "other_tenants (u_tenant_id a) (stored w') = other_tenants (u_tenant_id a) (stored w)"
proof -
  have ok: "users_ok (stored w)" using assms(1) by (simp add: world_ok_def schema_ok_def)
  from mutate_effect [OF assms(3) read_only_current_user] assms(2)
  consider "stored w' = stored w"
    | "audited_effect (mutation_change m i) (mutation_permission m) (mutation_action m) audit_id now a i
         (stored w) (stored w')"
    | u upd where "get_user_by_id (stored w) i (u_tenant_id a) = Some u"
        "stored w' = set_user i (\<lambda>_. apply_update (self_update upd) u) (stored w)"
    by auto
  then show ?thesis
  proof cases
    case 2
    then show ?thesis using mutation_change_isolated [OF ok] by (auto simp: audited_effect_def)
  next
    case 3
    then show ?thesis
      using get_user_by_id_SomeD [OF 3(1)] other_tenants_set_user [OF ok] by auto
  qed simp
qed

text \<open>
  C24: deactivating a user ends every session. A token the user could use before is refused afterwards,
  and it stays refused when the user is activated again.
\<close>

theorem deactivation_revokes_tokens:
  assumes "crypto_laws C" and "world_ok w"
    and "get_current_user C cfg t0 h0 tok (w\<lparr>tx := stored w\<rparr>) = (Inr u, wx)"
    and "deactivate_user_endpoint K now audit_id (get_current_user C cfg now h admin_token) (u_id u) w = (Inr r, w1)"
  shows "fst (me (get_current_user C cfg t1 h1 tok) w1) = Inl credentials_exception
    \<and> (\<forall>now2 audit_id2 h2 admin_token2 r2 w2.
         activate_user_endpoint K now2 audit_id2 (get_current_user C cfg now2 h2 admin_token2) (u_id u) w1
           = (Inr r2, w2) \<longrightarrow>
         fst (me (get_current_user C cfg t1 h1 tok) w2) = Inl credentials_exception)"
proof -
  have ok: "users_ok (stored w)" using assms(2) by (simp add: world_ok_def schema_ok_def)
  obtain i j v where ids: "token_identity C cfg t0 tok = Inr (i, j, v)"
    "first_user_by_ids i j (stored w) = Some u" "u_token_version u = v"
    using assms(3) unfolding get_current_user_iff by auto
  have u: "u \<in> set (users (stored w))" "u_id u = i" using first_user_by_ids_SomeD [OF ids(2)] by auto
  note st = token_identity_stable [OF assms(1) ids(1), of t1]
  have r1: "x = deactivated u" if x: "x \<in> set (users (stored w1))" "u_id x = i" for x
    using active_state_rows [OF assms(4) [unfolded deactivate_user_endpoint_def deactivate_user_def]
        read_only_current_user] x u users_unique_id [OF ok _ u(1)] by metis
  then have new: "u_token_version x \<noteq> v" if "x \<in> set (users (stored w1))" "u_id x = i" for x
    using ids(3) unfolding r1 [OF that] by (simp add: deactivated_def)
  have refused: "fst (me (get_current_user C cfg t1 h1 tok) w') = Inl credentials_exception"
    if "\<And>x. x \<in> set (users (stored w')) \<Longrightarrow> u_id x = i \<Longrightarrow> u_token_version x \<noteq> v" for w'
    using outdated_token_refused [OF st, of "w'\<lparr>tx := stored w'\<rparr>" h1] that
    by (simp add: me_def with_session_def)
  have again: "u_token_version x \<noteq> v"
    if "activate_user_endpoint K now2 audit_id2 (get_current_user C cfg now2 h2 admin_token2) (u_id u) w1
          = (Inr r2, w2)" "x \<in> set (users (stored w2))" "u_id x = i" for now2 audit_id2 h2 admin_token2 r2 w2 x
  proof -
    have "u_id x = u_id u" using that(3) u(2) by simp
    from active_state_rows [OF that(1) [unfolded activate_user_endpoint_def activate_user_def]
        read_only_current_user that(2) this]
    obtain y where "y \<in> set (users (stored w1))" "u_id y = u_id u" "x = activated y" by blast
    then show ?thesis using new [of y] u(2) by (simp add: activated_def)
  qed
  show ?thesis
  proof (intro conjI allI impI)
    show "fst (me (get_current_user C cfg t1 h1 tok) w1) = Inl credentials_exception"
      by (rule refused) (rule new)
  next
    fix now2 audit_id2 h2 admin_token2 r2 w2
    assume a: "activate_user_endpoint K now2 audit_id2 (get_current_user C cfg now2 h2 admin_token2) (u_id u) w1
      = (Inr r2, w2)"
    show "fst (me (get_current_user C cfg t1 h1 tok) w2) = Inl credentials_exception"
      by (rule refused) (rule again [OF a])
  qed
qed

section \<open>Requests that succeed\<close>

lemma audit_row_schema_ok:
  assumes "schema_ok t" and "audit_id \<notin> a_id ` set (audit_logs t)" and "a \<in> set (users t)"
  shows "schema_ok (add_audit_log (audit_row audit_id now a act i) t)"
proof -
  have "u_tenant_id a \<in> t_id ` set (tenants t)"
    using assms(1,3) by (auto simp: schema_ok_def users_ok_def list_all_iff refers_def)
  then show ?thesis
    using assms by (simp add: add_audit_schema_ok audit_row_def refers_def)
qed

text \<open>An administrator's change goes through when the changed rows satisfy the schema.\<close>

lemma audited_change_succeeds:
  assumes "schema_ok (ch (tx w))" and "audit_id \<notin> a_id ` set (audit_logs (ch (tx w)))"
    and "b \<in> set (users (ch (tx w)))" and "u_id b = u_id a" and "u_tenant_id b = u_tenant_id a"
  shows "\<exists>r'. run_then (flush ch) (\<lambda>_. run_then (commit_user_mutation_with_audit K now audit_id (u_tenant_id a)
      (u_id a) act i) (\<lambda>_. ret x)) w
    = (Inr x, w\<lparr>tx := add_audit_log (audit_row audit_id now a act i) (ch (tx w)),
         stored := add_audit_log (audit_row audit_id now a act i) (ch (tx w)), redis := r'\<rparr>)"
proof -
  have row: "audit_row audit_id now b act i = audit_row audit_id now a act i"
    using assms(4,5) by (simp add: audit_row_def)
  have "schema_ok (add_audit_log (audit_row audit_id now a act i) (ch (tx w)))"
    using audit_row_schema_ok [OF assms(1-3), of now act i] by (simp only: row)
  moreover obtain r' where "run_then (flush ch) (\<lambda>_.
      commit_user_mutation_with_audit K now audit_id (u_tenant_id a) (u_id a) act i) w =
    (let t = add_audit_log (audit_row audit_id now a act i) (ch (tx w)) in
     if schema_ok (ch (tx w)) \<and> schema_ok t then (Inr (), w\<lparr>tx := t, stored := t, redis := r'\<rparr>)
     else (Inl IntegrityError, w\<lparr>tx := stored w\<rparr>))"
    using audited_change [where ch = ch and K = K and now = now and audit_id = audit_id and a = a
      and act = act and target = i and w = w] by blast
  ultimately show ?thesis
    using assms(1) unfolding run_then_assoc [symmetric] by (auto simp: run_then_def [of _ "\<lambda>_. ret x"] Let_def)
qed

lemma current_user_runs:
  assumes "get_current_user C cfg now header token (w\<lparr>tx := stored w\<rparr>) = (Inr a, w1)"
  shows "a \<in> set (users (stored w))" "stored w1 = stored w" "tx w1 = stored w"
    "get_user_by_id (stored w) (u_id a) (u_tenant_id a) = Some a"
proof -
  obtain i j where "first_user_by_ids i j (stored w) = Some a"
    using assms unfolding get_current_user_iff by auto
  then show "a \<in> set (users (stored w))" "get_user_by_id (stored w) (u_id a) (u_tenant_id a) = Some a"
    using first_user_by_ids_SomeD by (auto simp: get_user_by_id_def)
  show "stored w1 = stored w" "tx w1 = stored w"
    using read_onlyD [OF read_only_current_user assms] by simp_all
qed

lemma other_row_stays:
  assumes "a \<in> set (users t)" and "\<And>v. u_id (g v) = u_id v" and "\<And>v. u_tenant_id (g v) = u_tenant_id v"
  shows "\<exists>b \<in> set (users (set_user i g t)). u_id b = u_id a \<and> u_tenant_id b = u_tenant_id a"
  using assms by (intro bexI [of _ "if u_id a = i then g a else a"]) (auto simp: users_set_user)

lemma set_user_const:
  assumes "users_ok t" and "get_user_by_id t i tid = Some u"
  shows "set_user i (\<lambda>_. g u) t = set_user i g t"
proof -
  have u: "u \<in> set (users t)" "u_id u = i" using get_user_by_id_SomeD [OF assms(2)] by auto
  have "x = u" if "x \<in> set (users t)" "u_id x = i" for x
    using users_unique_id [OF assms(1) that(1) u(1)] that(2) u(2) by simp
  then show ?thesis by (auto simp: set_user_def)
qed

lemma set_user_audit_logs [simp]: "audit_logs (set_user i g t) = audit_logs t"
  by (simp add: set_user_def)

text \<open>Activation, deactivation and a change of role carry no constraint, so they always succeed.\<close>

lemma active_state_succeeds:
  assumes "world_ok w" and "get_current_user C cfg now header token (w\<lparr>tx := stored w\<rparr>) = (Inr a, w1)"
    and "user_has_permission a perm" and "get_user_by_id (stored w) i (u_tenant_id a) = Some u"
    and "audit_id \<notin> a_id ` set (audit_logs (stored w))"
    and g: "\<And>v. u_id (g v) = u_id v" "\<And>v. u_tenant_id (g v) = u_tenant_id v" "\<And>v. u_email (g v) = u_email v"
  shows "\<exists>w'. active_state_route (set_active_state g) perm act K now2 audit_id
      (get_current_user C cfg now header token) i w = (Inr (read_user (g u)), w')
    \<and> stored w' = add_audit_log (audit_row audit_id now2 a act i) (set_user i g (stored w))"
proof -
  have ok: "schema_ok (stored w)" using assms(1) by (simp add: world_ok_def)
  then have uok: "users_ok (stored w)" by (simp add: schema_ok_def)
  note cur = current_user_runs [OF assms(2)]
  have i: "u_id u = i" using get_user_by_id_SomeD [OF assms(4)] by simp
  have const: "set_user i (\<lambda>_. g u) (stored w) = set_user i g (stored w)"
    by (rule set_user_const [OF uok assms(4)])
  obtain b where b: "b \<in> set (users (set_user i g (stored w)))" "u_id b = u_id a" "u_tenant_id b = u_tenant_id a"
    using other_row_stays [OF cur(1) g(1,2)] by blast
  have c1: "schema_ok (set_user i (\<lambda>_. g u) (tx w1))"
    unfolding cur const by (rule set_user_schema_ok [OF ok g])
  have c2: "audit_id \<notin> a_id ` set (audit_logs (set_user i (\<lambda>_. g u) (tx w1)))"
    using assms(5) cur by simp
  have c3: "b \<in> set (users (set_user i (\<lambda>_. g u) (tx w1)))" unfolding cur const by (rule b(1))
  obtain r' where "run_then (flush (set_user i (\<lambda>_. g u))) (\<lambda>_.
      run_then (commit_user_mutation_with_audit K now2 audit_id (u_tenant_id a) (u_id a) act i)
        (\<lambda>_. ret (read_user (g u)))) w1
    = (Inr (read_user (g u)), w1\<lparr>tx := add_audit_log (audit_row audit_id now2 a act i) (set_user i (\<lambda>_. g u) (tx w1)),
         stored := add_audit_log (audit_row audit_id now2 a act i) (set_user i (\<lambda>_. g u) (tx w1)), redis := r'\<rparr>)"
    using audited_change_succeeds [where ch = "set_user i (\<lambda>_. g u)" and w = w1 and K = K and now = now2 and act = act and i = i
        and x = "read_user (g u)", OF c1 c2 c3 b(2,3)] by blast
  then show ?thesis
    using assms(2-4) cur i const
    by (auto simp: active_state_route_def with_session_res require_permission_def
        user_has_any_permission_def user_has_permission_def set_active_state_def save_def
        run_then_assoc run_then_pure)
qed

lemma apply_update_keys [simp]:
  "u_id (apply_update upd u) = u_id u" "u_tenant_id (apply_update upd u) = u_tenant_id u"
  "upd_email upd = None \<Longrightarrow> u_email (apply_update upd u) = u_email u"
  by (simp_all add: apply_update_def Let_def)

lemma patch_succeeds:
  assumes "schema_ok (stored w)" and "get_current_user C cfg now header token (w\<lparr>tx := stored w\<rparr>) = (Inr a, w1)"
    and "user_has_permission a USERS_UPDATE" and "get_user_by_id (stored w) i (u_tenant_id a) = Some u"
    and "audit_id \<notin> a_id ` set (audit_logs (stored w))" and "\<not> has_null upd" "upd_email upd = None"
  shows "\<exists>w'. patch_user K now2 audit_id (get_current_user C cfg now header token) i upd w
      = (Inr (read_user (apply_update upd u)), w')
    \<and> stored w' = add_audit_log (audit_row audit_id now2 a USER_UPDATED i) (set_user i (apply_update upd) (stored w))"
proof -
  let ?g = "apply_update upd"
  have uok: "users_ok (stored w)" using assms(1) by (simp add: schema_ok_def)
  note cur = current_user_runs [OF assms(2)]
  have i: "u_id u = i" using get_user_by_id_SomeD [OF assms(4)] by simp
  have const: "set_user i (\<lambda>_. ?g u) (stored w) = set_user i ?g (stored w)"
    by (rule set_user_const [OF uok assms(4)])
  obtain b where b: "b \<in> set (users (set_user i ?g (stored w)))" "u_id b = u_id a" "u_tenant_id b = u_tenant_id a"
    using other_row_stays [OF cur(1), of ?g] by auto
  have c1: "schema_ok (set_user i (\<lambda>_. ?g u) (tx w1))"
    unfolding cur const by (rule set_user_schema_ok [OF assms(1)]) (simp_all add: assms(7))
  have c2: "audit_id \<notin> a_id ` set (audit_logs (set_user i (\<lambda>_. ?g u) (tx w1)))"
    using assms(5) cur by simp
  have c3: "b \<in> set (users (set_user i (\<lambda>_. ?g u) (tx w1)))" unfolding cur const by (rule b(1))
  obtain r' where "run_then (flush (set_user i (\<lambda>_. ?g u))) (\<lambda>_.
      run_then (commit_user_mutation_with_audit K now2 audit_id (u_tenant_id a) (u_id a) USER_UPDATED i)
        (\<lambda>_. ret (read_user (?g u)))) w1
    = (Inr (read_user (?g u)),
       w1\<lparr>tx := add_audit_log (audit_row audit_id now2 a USER_UPDATED i) (set_user i (\<lambda>_. ?g u) (tx w1)),
         stored := add_audit_log (audit_row audit_id now2 a USER_UPDATED i) (set_user i (\<lambda>_. ?g u) (tx w1)), redis := r'\<rparr>)"
    using audited_change_succeeds [where ch = "set_user i (\<lambda>_. ?g u)" and w = w1 and K = K and now = now2
        and act = USER_UPDATED and i = i and x = "read_user (?g u)", OF c1 c2 c3 b(2,3)] by blast
  moreover have "can_update_user a u"
    using assms(3) get_user_by_id_SomeD [OF assms(4)] by (simp add: can_update_user_def users_share_tenant_def)
  ultimately show ?thesis
    using assms(2-4,6) cur i const
    by (auto simp: patch_user_def with_session_res update_user_def save_def run_then_assoc run_then_pure)
qed

definition role_change :: "user_role \<Rightarrow> user_update" where
  "role_change r = \<lparr>upd_email = None, upd_is_active = None, upd_role = Some (Some r)\<rparr>"

lemma role_change_simps [simp]:
  "u_role (apply_update (role_change r) u) = role_value r" "upd_email (role_change r) = None"
  "\<not> has_null (role_change r)"
  by (simp_all add: apply_update_def role_change_def Let_def has_null_def)

lemma role_change_succeeds:
  assumes "world_ok w" and "get_current_user C cfg now header token (w\<lparr>tx := stored w\<rparr>) = (Inr a, w1)"
    and "user_has_permission a USERS_UPDATE" and "get_user_by_id (stored w) i (u_tenant_id a) = Some u"
    and "audit_id \<notin> a_id ` set (audit_logs (stored w))"
  shows "\<exists>w'. patch_user K now2 audit_id (get_current_user C cfg now header token) i (role_change r) w
      = (Inr (read_user (apply_update (role_change r) u)), w')
    \<and> stored w' = add_audit_log (audit_row audit_id now2 a USER_UPDATED i)
        (set_user i (apply_update (role_change r)) (stored w))"
  using patch_succeeds [OF _ assms(2-5), of "role_change r" K now2] assms(1) by (simp add: world_ok_def)


section \<open>Removal\<close>

text \<open>
  A user whose id an audit row carries as its administrator cannot be removed, and the row of the
  removal itself carries the caller's.
\<close>

lemma drop_user_audited:
  assumes "schema_ok (drop_user i t)"
  shows "\<forall>x \<in> set (audit_logs t). a_admin_id x \<noteq> Some i"
  using assms
  by (fastforce simp: schema_ok_def audit_logs_ok_def drop_user_def list_all_iff refers_def opt_refers_def
      split: option.splits)

lemma remove_user_blocked:
  assumes "remove_user K now2 audit_id (get_current_user C cfg now header token) i w = (res, w')"
    and "fst (get_current_user C cfg now header token (w\<lparr>tx := stored w\<rparr>)) = Inr a"
    and "u_id a = i \<or> (\<exists>x \<in> set (audit_logs (stored w)). a_admin_id x = Some i)"
  shows "\<exists>e. res = Inl e \<and> stored w' = stored w"
proof -
  let ?g = "get_current_user C cfg now header token"
  obtain w1 where cur: "?g (w\<lparr>tx := stored w\<rparr>) = (Inr a, w1)"
    using assms(2) by (cases "?g (w\<lparr>tx := stored w\<rparr>)") auto
  note st = current_user_runs [OF cur]
  show ?thesis
  proof (cases "user_has_permission a USERS_DELETE \<and> (\<exists>u. get_user_by_id (stored w) i (u_tenant_id a) = Some u)")
    case False
    then show ?thesis
      using assms(1) cur st
      by (auto simp: remove_user_def with_session_res require_permission_def run_then_def
          user_has_any_permission_def user_has_permission_def action_distrib split: option.splits if_splits)
  next
    case True
    then obtain u where u: "get_user_by_id (stored w) i (u_tenant_id a) = Some u" by blast
    have i: "u_id u = i" using get_user_by_id_SomeD [OF u] by simp
    let ?t = "add_audit_log (audit_row audit_id now2 a USER_DELETED i) (drop_user i (stored w))"
    have bad: "\<not> (schema_ok (drop_user i (stored w)) \<and> schema_ok ?t)"
    proof
      assume ok: "schema_ok (drop_user i (stored w)) \<and> schema_ok ?t"
      have "u_id a \<noteq> i"
        using ok by (auto simp: add_audit_schema_ok audit_row_def refers_def drop_user_def)
      then show False using assms(3) drop_user_audited ok by blast
    qed
    obtain r' where "run_then (flush (drop_user i)) (\<lambda>_.
        commit_user_mutation_with_audit K now2 audit_id (u_tenant_id a) (u_id a) USER_DELETED i) w1 =
      (let t = add_audit_log (audit_row audit_id now2 a USER_DELETED i) (drop_user i (tx w1)) in
       if schema_ok (drop_user i (tx w1)) \<and> schema_ok t then (Inr (), w1\<lparr>tx := t, stored := t, redis := r'\<rparr>)
       else (Inl IntegrityError, w1\<lparr>tx := stored w1\<rparr>))"
      using audited_change [where ch = "drop_user i" and K = K and now = now2 and audit_id = audit_id
        and a = a and act = USER_DELETED and target = i and w = w1] by blast
    then show ?thesis
      using assms(1) cur st True u i bad
      by (auto simp: remove_user_def with_session_res require_permission_def delete_user_def Let_def
          user_has_any_permission_def user_has_permission_def save_def run_then_assoc run_then_pure
          split: if_splits)
  qed
qed

section \<open>Requests of the small installation\<close>

lemma example_current_user:
  assumes "i \<in> {1, 2, 3}"
  shows "get_current_user ref_crypto example_cfg 0 None (example_token i) (example_world\<lparr>tx := stored example_world\<rparr>)
    = (Inr (example_user i (if i = 1 then ''platform_admin'' else if i = 2 then ''admin'' else ''user'')),
       in_tenant_context (example_user i (if i = 1 then ''platform_admin'' else if i = 2 then ''admin'' else ''user''))
         (example_world\<lparr>tx := stored example_world\<rparr>))"
proof -
  have "example_user i (if i = 1 then ''platform_admin'' else if i = 2 then ''admin'' else ''user'')
      \<in> set (users example_tables)" using assms by (auto simp: example_tables_def)
  from example_authenticated [OF _ this, of "example_world\<lparr>tx := stored example_world\<rparr>"]
  show ?thesis by (simp add: example_user_def)
qed

lemma example_admin:
  "get_current_user ref_crypto example_cfg 0 None (example_token 2) (example_world\<lparr>tx := stored example_world\<rparr>)
    = (Inr (example_user 2 ''admin''),
       in_tenant_context (example_user 2 ''admin'') (example_world\<lparr>tx := stored example_world\<rparr>))"
  using example_current_user [of 2] by simp

lemma example_member:
  "get_current_user ref_crypto example_cfg 0 None (example_token 3) (example_world\<lparr>tx := stored example_world\<rparr>)
    = (Inr (example_user 3 ''user''),
       in_tenant_context (example_user 3 ''user'') (example_world\<lparr>tx := stored example_world\<rparr>))"
  using example_current_user [of 3] by simp

lemma example_user_found:
  assumes "i \<in> {1, 2, 3}"
  shows "get_user_by_id example_tables i 1
    = Some (example_user i (if i = 1 then ''platform_admin'' else if i = 2 then ''admin'' else ''user''))"
  using assms
  by (auto simp: get_user_by_id_def first_user_by_ids_def first_user_def example_tables_def example_user_def)

lemma example_user_simps [simp]:
  "u_id (example_user i r) = i" "u_tenant_id (example_user i r) = 1" "u_role (example_user i r) = r"
  "u_token_version (example_user i r) = 0" "u_is_active (example_user i r)"
  by (simp_all add: example_user_def)

lemma example_audit_logs [simp]: "audit_logs example_tables = []"
  by (simp add: example_tables_def empty_tables_def)

lemma example_deactivation:
  "\<exists>w1. deactivate_user_endpoint store_keys 0 7 (get_current_user ref_crypto example_cfg 0 None (example_token 2)) 3
      example_world = (Inr (read_user (deactivated (example_user 3 ''user''))), w1)
    \<and> stored w1 = add_audit_log (audit_row 7 0 (example_user 2 ''admin'') USER_DEACTIVATED 3)
        (set_user 3 deactivated example_tables)"
proof -
  have p: "user_has_permission (example_user 2 ''admin'') USERS_DEACTIVATE"
    by (simp add: user_has_permission_def role_permissions tenant_admin_iff)
  have g: "get_user_by_id (stored example_world) 3 (u_tenant_id (example_user 2 ''admin'')) = Some (example_user 3 ''user'')"
    using example_user_found [of 3] by simp
  have e: "u_email (deactivated v) = u_email v" for v by (simp add: deactivated_def)
  show ?thesis
    unfolding deactivate_user_endpoint_def deactivate_user_def
    using active_state_succeeds [OF example_world_ok example_admin p g, of 7 deactivated USER_DEACTIVATED store_keys 0]
    by (simp add: e)
qed


lemma example_activation:
  assumes "stored w = add_audit_log (audit_row 7 0 (example_user 2 ''admin'') USER_DEACTIVATED 3)
      (set_user 3 deactivated example_tables)"
    and "world_ok w"
  shows "get_user_by_id (stored w) 3 1 = Some (deactivated (example_user 3 ''user''))"
  using assms
  by (simp add: get_user_by_id_def first_user_by_ids_def first_user_def add_audit_log_def set_user_def
      example_tables_def)

text \<open>
  C25: a tenant administrator can become a platform administrator. The request that sets the own role to
  \<open>platform_admin\<close> always succeeds, and the stored user then holds every permission that
  \<open>TENANT_ADMIN_PERMISSIONS\<close> withholds.
\<close>

theorem tenant_admin_can_escalate:
  assumes "world_ok w"
    and "fst (get_current_user C cfg now header token (w\<lparr>tx := stored w\<rparr>)) = Inr a"
    and "u_role a = ''admin''" and "audit_id \<notin> a_id ` set (audit_logs (stored w))"
  shows "\<exists>r w' b. patch_user K now2 audit_id (get_current_user C cfg now header token) (u_id a)
      (role_change role_platform_admin) w = (Inr r, w')
    \<and> b \<in> set (users (stored w')) \<and> u_id b = u_id a
    \<and> user_has_permission b TENANTS_LIST \<and> user_has_permission b TENANTS_PROVISION
    \<and> user_has_permission b TENANTS_MANAGE \<and> \<not> user_has_permission a TENANTS_MANAGE"
proof -
  obtain w1 where cur: "get_current_user C cfg now header token (w\<lparr>tx := stored w\<rparr>) = (Inr a, w1)"
    using assms(2) by (cases "get_current_user C cfg now header token (w\<lparr>tx := stored w\<rparr>)") auto
  note st = current_user_runs [OF cur]
  have p: "user_has_permission a USERS_UPDATE" and n: "\<not> user_has_permission a TENANTS_MANAGE"
    using assms(3) by (simp_all add: user_has_permission_def role_permissions tenant_admin_iff)
  obtain w' where w': "patch_user K now2 audit_id (get_current_user C cfg now header token) (u_id a)
      (role_change role_platform_admin) w = (Inr (read_user (apply_update (role_change role_platform_admin) a)), w')"
    "stored w' = add_audit_log (audit_row audit_id now2 a USER_UPDATED (u_id a))
        (set_user (u_id a) (apply_update (role_change role_platform_admin)) (stored w))"
    using role_change_succeeds [OF assms(1) cur p st(4) assms(4)] by blast
  let ?b = "apply_update (role_change role_platform_admin) a"
  have "?b \<in> set (users (stored w'))" using st(1) w'(2) by (force simp: users_set_user)
  moreover have "u_role ?b = ''platform_admin''" by simp
  ultimately show ?thesis
    using w'(1) n by (intro exI [of _ "read_user ?b"] exI [of _ w'] exI [of _ ?b])
      (simp add: user_has_permission_def role_permissions)
qed

theorem tenant_admin_can_escalate_witness:
  "\<exists>r w'. patch_user store_keys 0 7 (get_current_user ref_crypto example_cfg 0 None (example_token 2)) 2
     (role_change role_platform_admin) example_world = (Inr r, w')"
proof -
  have a: "fst (get_current_user ref_crypto example_cfg 0 None (example_token 2)
      (example_world\<lparr>tx := stored example_world\<rparr>)) = Inr (example_user 2 ''admin'')"
    using example_admin by simp
  show ?thesis
    using tenant_admin_can_escalate [OF example_world_ok a, of 7 store_keys 0] by auto
qed

text \<open>
  Users named by the audit trail cannot be removed. A request to remove the caller, or a user whom an
  audit row names as its administrator, always fails and leaves the database as it was.
\<close>

theorem audited_admins_not_removable:
  assumes "fst (get_current_user C cfg now header token (w\<lparr>tx := stored w\<rparr>)) = Inr a"
    and "u_id a = i \<or> (\<exists>x \<in> set (audit_logs (stored w)). a_admin_id x = Some i)"
  shows "\<exists>e w'. remove_user K now2 audit_id (get_current_user C cfg now header token) i w = (Inl e, w')
    \<and> stored w' = stored w"
proof -
  obtain res w' where r: "remove_user K now2 audit_id (get_current_user C cfg now header token) i w = (res, w')"
    by force
  with remove_user_blocked [OF r assms] show ?thesis by blast
qed

theorem audited_admins_not_removable_witness:
  "\<exists>e w'. remove_user store_keys 0 7 (get_current_user ref_crypto example_cfg 0 None (example_token 2)) 2
     example_world = (Inl e, w') \<and> stored w' = example_tables"
proof -
  have a: "fst (get_current_user ref_crypto example_cfg 0 None (example_token 2)
      (example_world\<lparr>tx := stored example_world\<rparr>)) = Inr (example_user 2 ''admin'')"
    using example_admin by simp
  show ?thesis using audited_admins_not_removable [OF a, of 2 store_keys 0 7] by simp
qed

theorem user_mutations_audited_witness:
  "\<exists>w'. mutate store_keys 0 7 (get_current_user ref_crypto example_cfg 0 None (example_token 2)) Deactivate 3
     example_world = (Inr (), w')
   \<and> map a_action (audit_logs (stored w')) = [''user.deactivated'']"
proof -
  obtain w1 where "deactivate_user_endpoint store_keys 0 7
      (get_current_user ref_crypto example_cfg 0 None (example_token 2)) 3 example_world
    = (Inr (read_user (deactivated (example_user 3 ''user''))), w1)" using example_deactivation by blast
  then have m: "mutate store_keys 0 7 (get_current_user ref_crypto example_cfg 0 None (example_token 2)) Deactivate 3
      example_world = (Inr (), w1)"
    by (simp add: mutate_def run_then_def)
  have "user_has_permission (example_user 2 ''admin'') USERS_DEACTIVATE"
    by (simp add: user_has_permission_def role_permissions tenant_admin_iff)
  then show ?thesis
    using user_mutations_audited [OF m] m example_admin
    by (auto simp: audit_row_def add_audit_log_def)
qed

theorem user_mutations_isolated_witness:
  "\<exists>res w'. mutate store_keys 0 7 (get_current_user ref_crypto example_cfg 0 None (example_token 2)) Remove 3
     example_world = (res, w')
   \<and> other_tenants 1 (stored w') = []"
proof -
  have a: "fst (get_current_user ref_crypto example_cfg 0 None (example_token 2)
      (example_world\<lparr>tx := stored example_world\<rparr>)) = Inr (example_user 2 ''admin'')"
    using example_admin by simp
  have "other_tenants 1 example_tables = []" by (simp add: other_tenants_def example_tables_def)
  then show ?thesis
    using user_mutations_isolated [OF example_world_ok a prod.collapse [symmetric], of store_keys 7 Remove 3]
    by (intro exI [of _ "fst (mutate store_keys 0 7
        (get_current_user ref_crypto example_cfg 0 None (example_token 2)) Remove 3 example_world)"]
      exI [of _ "snd (mutate store_keys 0 7
        (get_current_user ref_crypto example_cfg 0 None (example_token 2)) Remove 3 example_world)"]) simp
qed

theorem deactivation_revokes_tokens_witness:
  "\<exists>r w1. deactivate_user_endpoint store_keys 0 7
      (get_current_user ref_crypto example_cfg 0 None (example_token 2)) 3 example_world = (Inr r, w1)
    \<and> fst (me (get_current_user ref_crypto example_cfg 0 None (example_token 3)) w1) = Inl credentials_exception"
proof -
  obtain w1 where d: "deactivate_user_endpoint store_keys 0 7
      (get_current_user ref_crypto example_cfg 0 None (example_token 2)) (u_id (example_user 3 ''user'')) example_world
    = (Inr (read_user (deactivated (example_user 3 ''user''))), w1)" using example_deactivation by auto
  show ?thesis
    using deactivation_revokes_tokens [OF ref_crypto.crypto_laws_axioms example_world_ok example_member d] d by auto
qed

section \<open>Deactivation by PATCH\<close>

text \<open>
  Deactivating by \<open>PATCH\<close> leaves the token version alone: once the user is activated again, the tokens from before the
  deactivation work as if nothing had happened.
\<close>

definition active_change :: "bool \<Rightarrow> user_update" where
  "active_change b = \<lparr>upd_email = None, upd_is_active = Some (Some b), upd_role = None\<rparr>"

lemma apply_active_change: "apply_update (active_change b) u = u\<lparr>u_is_active := b\<rparr>"
  by (simp add: apply_update_def active_change_def)

lemma patched_rows:
  assumes "patch_user K now audit_id current i upd w = (Inr r, w')" and "read_only current"
    and "fst (current (w\<lparr>tx := stored w\<rparr>)) = Inr a" and "user_has_permission a USERS_UPDATE"
    and "users_ok (stored w)" and "u \<in> set (users (stored w))" and "u_id u = i"
  shows "users (stored w') = map (\<lambda>x. if u_id x = i then apply_update upd u else x) (users (stored w))"
    and "tenants (stored w') = tenants (stored w)"
proof -
  have "audited_effect (\<lambda>u. set_user i (\<lambda>_. apply_update upd u)) USERS_UPDATE USER_UPDATED audit_id now a i
      (stored w) (stored w')"
    using patch_user_effect [OF assms(1,2)] assms(3,4) by auto
  then obtain v where v: "get_user_by_id (stored w) i (u_tenant_id a) = Some v"
    "stored w' = add_audit_log (audit_row audit_id now a USER_UPDATED i) (set_user i (\<lambda>_. apply_update upd v) (stored w))"
    unfolding audited_effect_def by blast
  then have "v = u" using get_user_by_id_SomeD [OF v(1)] users_unique_id [OF assms(5)] assms(6,7) by metis
  then show "users (stored w') = map (\<lambda>x. if u_id x = i then apply_update upd u else x) (users (stored w))"
    "tenants (stored w') = tenants (stored w)"
    using v(2) by (simp_all add: add_audit_log_def set_user_def)
qed

theorem patch_deactivation_keeps_tokens:
  assumes "users_ok (stored w)" "get_current_user C cfg t0 h0 tok (w\<lparr>tx := stored w\<rparr>) = (Inr u, wx)"
    and "patch_user K now a1 current (u_id u) (active_change False) w = (Inr r1, w1)" "read_only current"
      "fst (current (w\<lparr>tx := stored w\<rparr>)) = Inr adm" "user_has_permission adm USERS_UPDATE"
    and "patch_user K now' a2 current' (u_id u) (active_change True) w1 = (Inr r2, w2)" "read_only current'"
      "fst (current' (w1\<lparr>tx := stored w1\<rparr>)) = Inr adm'" "user_has_permission adm' USERS_UPDATE"
  shows "fst (me (get_current_user C cfg t0 h0 tok) w1) \<noteq> Inr u \<and> fst (me (get_current_user C cfg t0 h0 tok) w2) = Inr u"
proof -
  obtain i j v where ids: "token_identity C cfg t0 tok = Inr (i, j, v)" "first_user_by_ids i j (stored w) = Some u"
    "u_token_version u = v" "u_is_active u" "tenant_active (stored w) u" "header_matches (stored w) h0 u"
    using assms(2) unfolding get_current_user_iff by auto
  have u: "u \<in> set (users (stored w))" using first_user_by_ids_SomeD [OF ids(2)] by simp
  let ?d = "apply_update (active_change False) u"
  note r1 = patched_rows [OF assms(3-6,1) u refl]
  have same_id: "u_id ?d = u_id u" "u_tenant_id ?d = u_tenant_id u" "u_email ?d = u_email u"
    by (simp_all add: apply_active_change)
  have uniq: "x = u" if "x \<in> set (users (stored w))" "u_id x = u_id u" for x
    using users_unique_id [OF assms(1) that(1) u that(2)] .
  have ok1: "users_ok (stored w1)"
  proof -
    have *: "map (\<lambda>x. if u_id x = u_id u then ?d else x) (users (stored w))
        = map (\<lambda>x. x\<lparr>u_is_active := if u_id x = u_id u then False else u_is_active x\<rparr>) (users (stored w))"
      using uniq by (auto simp: apply_active_change)
    show ?thesis using assms(1) by (simp add: users_ok_def unique_by_def r1 * comp_def list.pred_map)
  qed
  have d: "?d \<in> set (users (stored w1))" using r1(1) u by (auto simp: image_iff)
  note r2 = patched_rows [OF assms(7-10) ok1 d same_id(1)]
  have same: "u\<lparr>u_is_active := True\<rparr> = u" using ids(4) by simp
  have rows2: "users (stored w2) = users (stored w)"
    unfolding r2(1) r1(1) using same
    by (auto simp: apply_active_change comp_def intro!: map_idI dest: uniq [symmetric])
  have t: "tenants (stored w2) = tenants (stored w)" using r1 r2 by simp
  have slug: "get_tenant_by_slug (stored w2) s = get_tenant_by_slug (stored w) s" for s
    using t by (simp add: get_tenant_by_slug_def first_tenant_def)
  have "first_user_by_ids i j (stored w2) = Some u" "tenant_active (stored w2) u" "header_matches (stored w2) h0 u"
    using ids slug rows2 t
    by (simp_all add: first_user_by_ids_def first_user_def tenant_active_def user_tenant_def header_matches_def
        first_tenant_def cong: option.case_cong)
  then have "get_current_user C cfg t0 h0 tok (w2\<lparr>tx := stored w2\<rparr>) = (Inr u, in_tenant_context u (w2\<lparr>tx := stored w2\<rparr>))"
    using ids by (simp add: get_current_user_iff)
  moreover have "fst (get_current_user C cfg t0 h0 tok (w1\<lparr>tx := stored w1\<rparr>)) \<noteq> Inr u"
  proof
    assume "fst (get_current_user C cfg t0 h0 tok (w1\<lparr>tx := stored w1\<rparr>)) = Inr u"
    then obtain wy where "get_current_user C cfg t0 h0 tok (w1\<lparr>tx := stored w1\<rparr>) = (Inr u, wy)" by (metis prod.collapse)
    then have "first_user_by_ids i j (stored w1) = Some u" using ids(1) unfolding get_current_user_iff by auto
    then have "u \<in> set (users (stored w1))" using first_user_by_ids_SomeD by blast
    moreover have "u\<lparr>u_is_active := False\<rparr> \<noteq> u"
    proof
      assume "u\<lparr>u_is_active := False\<rparr> = u"
      from arg_cong [OF this, of u_is_active] ids(4) show False by simp
    qed
    ultimately show False unfolding r1(1) by (auto simp: apply_active_change split: if_splits)
  qed
  moreover have "fst (with_session m w') = fst (m (w'\<lparr>tx := stored w'\<rparr>))" for m :: "('a world, user) action" and w'
    by (simp add: with_session_def split: prod.split)
  ultimately show ?thesis by (simp add: me_def)
qed

lemma patch_deactivation_keeps_tokens_witness:
  "\<exists>r1 w1 r2 w2. patch_user store_keys 0 7 (get_current_user ref_crypto example_cfg 0 None (example_token 2)) 3
      (active_change False) example_world = (Inr r1, w1)
    \<and> patch_user store_keys 0 8 (get_current_user ref_crypto example_cfg 0 None (example_token 2)) 3
      (active_change True) w1 = (Inr r2, w2)
    \<and> fst (me (get_current_user ref_crypto example_cfg 0 None (example_token 3)) w2) = Inr (example_user 3 ''user'')"
proof -
  let ?admin = "get_current_user ref_crypto example_cfg 0 None (example_token 2)"
  have p: "user_has_permission (example_user 2 ''admin'') USERS_UPDATE"
    by (simp add: user_has_permission_def role_permissions tenant_admin_iff)
  have nn: "\<not> has_null (active_change b)" "upd_email (active_change b) = None" for b
    by (simp_all add: has_null_def active_change_def)
  have ok: "schema_ok example_tables" using example_world_ok by (simp add: world_ok_def)
  obtain r1 w1 where p1: "patch_user store_keys 0 7 ?admin 3 (active_change False) example_world = (Inr r1, w1)"
    "stored w1 = add_audit_log (audit_row 7 0 (example_user 2 ''admin'') USER_UPDATED 3)
       (set_user 3 (apply_update (active_change False)) example_tables)"
    using patch_succeeds [OF _ example_admin p, of 3 "example_user 3 ''user''" 7 "active_change False" store_keys 0]
      example_user_found [of 3] ok nn by (auto simp: example_tables_def empty_tables_def)
  have ok1: "schema_ok (stored w1)" unfolding p1(2) by code_simp
  have admin1: "?admin (w1\<lparr>tx := stored w1\<rparr>)
      = (Inr (example_user 2 ''admin''), in_tenant_context (example_user 2 ''admin'') (w1\<lparr>tx := stored w1\<rparr>))"
    unfolding get_current_user_iff using example_identity [of 2]
    by (simp add: p1(2) first_user_by_ids_def first_user_def tenant_active_def user_tenant_def header_matches_def
        first_tenant_def add_audit_log_def set_user_def example_tables_def example_user_def example_tenant_def empty_tables_def)
  obtain r2 w2 where p2: "patch_user store_keys 0 8 ?admin 3 (active_change True) w1 = (Inr r2, w2)"
    using patch_succeeds [OF ok1 admin1 p, of 3 "apply_update (active_change False) (example_user 3 ''user'')" 8
        "active_change True" store_keys 0] nn
    by (auto simp: p1(2) get_user_by_id_def first_user_by_ids_def first_user_def add_audit_log_def set_user_def
        example_tables_def empty_tables_def audit_row_def)
  have "users_ok (stored example_world)" using ok by (simp add: schema_ok_def)
  moreover have "patch_user store_keys 0 7 ?admin (u_id (example_user 3 ''user'')) (active_change False) example_world
      = (Inr r1, w1)"
    and "patch_user store_keys 0 8 ?admin (u_id (example_user 3 ''user'')) (active_change True) w1 = (Inr r2, w2)"
    and "fst (?admin (example_world\<lparr>tx := stored example_world\<rparr>)) = Inr (example_user 2 ''admin'')"
    and "fst (?admin (w1\<lparr>tx := stored w1\<rparr>)) = Inr (example_user 2 ''admin'')"
    using p1(1) p2 by (simp_all only: example_admin admin1 fst_conv example_user_simps)
  ultimately have "fst (me (get_current_user ref_crypto example_cfg 0 None (example_token 3)) w2) = Inr (example_user 3 ''user'')"
    using patch_deactivation_keeps_tokens [OF _ example_member _ read_only_current_user _ p _ read_only_current_user _ p]
    by blast
  then show ?thesis using p1(1) p2 by blast
qed

end
