(* ===== verification/Email.thy ===== *)
theory Email
  imports Errors Config
begin

text \<open>
  Outgoing mail (\<open>app/services/email_service.py\<close>, \<open>app/services/email_templates.py\<close>). The SMTP server is
  the parameter \<open>smtp\<close>: host, port, credentials and message go in, and the answer is whether the server
  took the message (\<open>False\<close> stands for every \<open>OSError\<close> of \<open>smtplib\<close>). The standard library's
  \<open>urlencode\<close> is written out on UTF-8 bytes.
\<close>

section \<open>Templates\<close>

definition url_unreserved :: "char \<Rightarrow> bool" where
  "url_unreserved c \<longleftrightarrow> (let n = of_char c :: nat in
     65 \<le> n \<and> n \<le> 90 \<or> 97 \<le> n \<and> n \<le> 122 \<or> 48 \<le> n \<and> n \<le> 57 \<or> n \<in> {45, 46, 95, 126})"

definition percent_byte :: "char \<Rightarrow> string" where
  "percent_byte b = (let n = of_char b in
     [CHR ''%'', upper_char (hex_char (n div 16)), upper_char (hex_char (n mod 16))])"

definition quote_plus :: "string \<Rightarrow> string" where
  "quote_plus s = concat (map (\<lambda>c. if url_unreserved c then [c] else if c = CHR '' '' then ''+''
     else concat (map percent_byte (utf8_encode_char c))) s)"

definition build_password_reset_url :: "string \<Rightarrow> string \<Rightarrow> string" where
  "build_password_reset_url base_url token =
     (let separator = (if CHR ''?'' \<in> set base_url then ''&'' else ''?'') in
      base_url @ separator @ ''token='' @ quote_plus token)"

definition newline :: char where
  "newline = char_of (10 :: nat)"

definition render_password_reset_subject :: string where
  "render_password_reset_subject = ''Reset your password''"

definition render_password_reset_body :: "string \<Rightarrow> string" where
  "render_password_reset_body reset_url =
     ''A password reset was requested for your account.'' @ [newline, newline]
     @ ''Reset your password here: '' @ reset_url @ [newline, newline]
     @ ''If you did not request this change, you can ignore this email.''"

section \<open>Delivery\<close>

record mail =
  m_from :: string
  m_to :: string
  m_subject :: string
  m_body :: string

text \<open>\<open>EmailMessage\<close> refuses line breaks in header values with a \<open>ValueError\<close>.\<close>

datatype email_error = EmailDeliveryError string | HeaderError

type_synonym smtp_server = "string \<Rightarrow> int \<Rightarrow> (string \<times> string) option \<Rightarrow> mail \<Rightarrow> bool"

definition header_value_ok :: "string \<Rightarrow> bool" where
  "header_value_ok s \<longleftrightarrow> newline \<notin> set s \<and> char_of (13 :: nat) \<notin> set s"

definition send_email ::
  "settings \<Rightarrow> smtp_server \<Rightarrow> string \<Rightarrow> string \<Rightarrow> string \<Rightarrow> (email_error, mail) result" where
  "send_email cfg smtp recipient subject body =
     (if smtp_host cfg = [] then Inl (EmailDeliveryError ''SMTP_HOST is not configured'')
      else if \<not> header_value_ok (email_from cfg) \<or> \<not> header_value_ok recipient \<or> \<not> header_value_ok subject
      then Inl HeaderError
      else
        (let message = \<lparr>m_from = email_from cfg, m_to = recipient, m_subject = subject, m_body = body\<rparr>;
             credentials = (if smtp_username cfg \<noteq> [] then Some (smtp_username cfg, smtp_password cfg) else None) in
         if smtp (smtp_host cfg) (smtp_port cfg) credentials message then Inr message
         else Inl (EmailDeliveryError ''Failed to send email'')))"

definition send_password_reset_email ::
  "settings \<Rightarrow> smtp_server \<Rightarrow> string \<Rightarrow> string \<Rightarrow> (email_error, mail) result" where
  "send_password_reset_email cfg smtp recipient raw_token =
     send_email cfg smtp recipient render_password_reset_subject
       (render_password_reset_body (build_password_reset_url (password_reset_url cfg) raw_token))"

section \<open>Lemmas\<close>

text \<open>The tokens of \<open>secrets.token_urlsafe\<close> stand in the link as they are.\<close>

lemma quote_plus_id: "list_all url_unreserved s \<Longrightarrow> quote_plus s = s"
  unfolding quote_plus_def by (induction s) simp_all

lemma send_email_Inr:
  "send_email cfg smtp to subject body = Inr m \<Longrightarrow>
     smtp_host cfg \<noteq> [] \<and> m_to m = to \<and> m_subject m = subject \<and> m_body m = body \<and> m_from m = email_from cfg"
  by (auto simp: send_email_def Let_def split: if_splits)

lemma reset_mail_link:
  assumes "send_password_reset_email cfg smtp to tok = Inr m" and "list_all url_unreserved tok"
  shows "m_to m = to \<and> contains (m_body m) (''token='' @ tok)"
proof -
  have "m_body m = render_password_reset_body (build_password_reset_url (password_reset_url cfg) tok)" "m_to m = to"
    using send_email_Inr [OF assms(1) [unfolded send_password_reset_email_def]] by simp_all
  moreover have "contains (a @ (b @ s @ ''token='' @ tok) @ c) (''token='' @ tok)" for a b s c
    unfolding contains_iff by (intro exI [of _ "a @ b @ s"] exI [of _ c]) simp
  ultimately show ?thesis
    using quote_plus_id [OF assms(2)]
    by (simp only: render_password_reset_body_def build_password_reset_url_def Let_def append_assoc) (metis append_assoc)
qed

end
