(* ===== verification/Password_Reset.thy ===== *)
theory Password_Reset
  imports Users Job_Queue Email
begin

text \<open>
  Password reset (\<open>app/services/password_reset_service.py\<close>, the reset routes of
  \<open>app/api/routes/auth.py\<close>, \<open>app/password_reset_cleanup.py\<close>).

  The raw token, the identifiers of the new rows, the salt and the clock are arguments. Mail leaves
  through the SMTP server of theory \<open>Email\<close>; the state of an operation that sends mail is the world
  together with the mails that have left, so a mail stays sent when the transaction is rolled back.
  \<open>others\<close> is what other processes commit before this operation's own commit: the branch for a
  concurrent completion is about them. It is the identity where nobody interferes.
\<close>

section \<open>Requests\<close>

definition SEND_PASSWORD_RESET_EMAIL_JOB :: string where
  "SEND_PASSWORD_RESET_EMAIL_JOB = ''send_password_reset_email''"

definition PASSWORD_RESET_JOB_COMPLETED_PREFIX :: string where
  "PASSWORD_RESET_JOB_COMPLETED_PREFIX = ''password_reset_job_completed:''"

definition PASSWORD_RESET_RESPONSE_MESSAGE :: string where
  "PASSWORD_RESET_RESPONSE_MESSAGE =
     ''If an account exists for this email, password reset instructions were sent.''"

definition INVALID_RESET_TOKEN_MESSAGE :: string where
  "INVALID_RESET_TOKEN_MESSAGE = ''Invalid or expired password reset token''"

definition enqueue_password_reset_email_job ::
  "('r, 'm) redis_queues_scheme \<Rightarrow> settings \<Rightarrow> string \<Rightarrow> string option \<Rightarrow> int \<Rightarrow> ('r world, job) action" where
  "enqueue_password_reset_email_job R cfg new_id ctx_request_id user_id w =
     (case enqueue_job R (worker_queue_name cfg) new_id ctx_request_id SEND_PASSWORD_RESET_EMAIL_JOB
         [(''user_id'', PInt user_id)] (redis w) of
        (j, r') \<Rightarrow> (Inr j, w\<lparr>redis := r'\<rparr>))"

definition request_password_reset ::
  "('r, 'm) redis_queues_scheme \<Rightarrow> settings \<Rightarrow> time \<Rightarrow> string \<Rightarrow> string option \<Rightarrow> int \<Rightarrow> string \<Rightarrow> int
     \<Rightarrow> ('r world, string) action" where
  "request_password_reset R cfg now new_job_id ctx_request_id audit_id email tenant_id =
     run_then (reads (\<lambda>w. get_user_by_email (tx w) email tenant_id)) (\<lambda>x.
       case (case x of None \<Rightarrow> None | Some u \<Rightarrow> if \<not> u_is_active u then None else Some u) of
         None \<Rightarrow> ret PASSWORD_RESET_RESPONSE_MESSAGE
       | Some u \<Rightarrow>
           run_then (enqueue_password_reset_email_job R cfg new_job_id ctx_request_id (u_id u)) (\<lambda>_.
           run_then (create_audit_log audit_id now (u_tenant_id u) None PASSWORD_RESET_REQUESTED
               (Some (u_id u)) True)
             (\<lambda>_. ret PASSWORD_RESET_RESPONSE_MESSAGE)))"

section \<open>The email job\<close>

definition password_reset_job_completed_key :: "string \<Rightarrow> string" where
  "password_reset_job_completed_key jid = PASSWORD_RESET_JOB_COMPLETED_PREFIX @ jid"

definition is_password_reset_job_completed ::
  "('r, 'n) redis_keys_scheme \<Rightarrow> time \<Rightarrow> string \<Rightarrow> ('r world, bool) action" where
  "is_password_reset_job_completed K now jid w =
     (case exists_key K now (password_reset_job_completed_key jid) (redis w) of
        None \<Rightarrow> (Inl RedisError, w) | Some b \<Rightarrow> (Inr b, w))"

definition is_password_reset_job_completed_in_db :: "tables \<Rightarrow> string \<Rightarrow> bool" where
  "is_password_reset_job_completed_in_db t jid =
     (List.find (\<lambda>c. c_job_id c = jid) (job_completions t) \<noteq> None)"

definition is_password_reset_job_done ::
  "('r, 'n) redis_keys_scheme \<Rightarrow> time \<Rightarrow> string \<Rightarrow> ('r world, bool) action" where
  "is_password_reset_job_done K now jid =
     run_then (is_password_reset_job_completed K now jid) (\<lambda>b.
       if b then ret True else reads (\<lambda>w. is_password_reset_job_completed_in_db (tx w) jid))"

definition mark_password_reset_job_completed ::
  "('r, 'n) redis_keys_scheme \<Rightarrow> settings \<Rightarrow> time \<Rightarrow> string \<Rightarrow> ('r world, unit) action" where
  "mark_password_reset_job_completed K cfg now jid w =
     (case set_key K now (password_reset_job_completed_key jid) ''1'' False
         (password_reset_job_completion_ttl_seconds cfg) (redis w) of
        None \<Rightarrow> (Inl RedisError, w) | Some (b, r') \<Rightarrow> (Inr (), w\<lparr>redis := r'\<rparr>))"

type_synonym 'r mailing = "'r world \<times> mail list"

definition deliver :: "(email_error, mail) result \<Rightarrow> ('r mailing, email_error option) action" where
  "deliver res s = (case res of Inl e \<Rightarrow> (Inr (Some e), s) | Inr m \<Rightarrow> (Inr None, (fst s, snd s @ [m])))"

definition add_reset_token :: "password_reset_token \<Rightarrow> tables \<Rightarrow> tables" where
  "add_reset_token p t = t\<lparr>password_reset_tokens := password_reset_tokens t @ [p]\<rparr>"

definition add_completion :: "password_reset_job_completion \<Rightarrow> tables \<Rightarrow> tables" where
  "add_completion c t = t\<lparr>job_completions := job_completions t @ [c]\<rparr>"

text \<open>What other processes commit becomes visible to the next statement of this transaction.\<close>

definition interfere :: "(tables \<Rightarrow> tables) \<Rightarrow> ('r world, unit) action" where
  "interfere others w = (Inr (), w\<lparr>stored := others (stored w), tx := others (tx w)\<rparr>)"

text \<open>
  The last commit of the job. An integrity error is taken for a completion by another worker: the
  transaction is rolled back and the job ends normally.
\<close>

definition complete_reset_job ::
  "('r, 'n) redis_keys_scheme \<Rightarrow> settings \<Rightarrow> time \<Rightarrow> int \<Rightarrow> string option \<Rightarrow> ('r world, unit) action" where
  "complete_reset_job K cfg now completion_id jid w =
     (case flush_commit (case jid of None \<Rightarrow> (\<lambda>t. t)
          | Some j \<Rightarrow> add_completion \<lparr>c_id = completion_id, c_job_id = j, c_completed_at = now\<rparr>) w of
        (Inl IntegrityError, w1) \<Rightarrow> run_then rollback (\<lambda>_. noop) w1
      | (Inl e, w1) \<Rightarrow> (Inl e, w1)
      | (Inr _, w1) \<Rightarrow> (case jid of None \<Rightarrow> noop | Some j \<Rightarrow> mark_password_reset_job_completed K cfg now j) w1)"

definition send_reset_token ::
  "'m crypto_scheme \<Rightarrow> settings \<Rightarrow> ('r, 'n) redis_keys_scheme \<Rightarrow> smtp_server \<Rightarrow> (tables \<Rightarrow> tables) \<Rightarrow> time
     \<Rightarrow> string \<Rightarrow> int \<Rightarrow> int \<Rightarrow> user \<Rightarrow> string option \<Rightarrow> ('r mailing, unit) action" where
  "send_reset_token C cfg K smtp others now raw_token token_id completion_id u jid =
     (let reset_token = \<lparr>p_id = token_id, p_user_id = u_id u,
            p_token_hash = hash_password_reset_token C cfg raw_token,
            p_expires_at = now + password_reset_token_expire_minutes cfg * 60 * second,
            p_used_at = None, p_created_at = now\<rparr> in
      run_then (on_world (flush (add_reset_token reset_token))) (\<lambda>_.
      run_then (deliver (send_password_reset_email cfg smtp (u_email u) raw_token)) (\<lambda>x. case x of
        Some (EmailDeliveryError msg) \<Rightarrow> run_then (on_world rollback) (\<lambda>_. raise (Unexpected msg))
      | Some HeaderError \<Rightarrow> raise (ValueErr ''Header values may not contain linefeed or carriage return characters'')
      | None \<Rightarrow> on_world (run_then (interfere others) (\<lambda>_. complete_reset_job K cfg now completion_id jid)))))"

definition create_password_reset_token_and_send_email ::
  "'m crypto_scheme \<Rightarrow> settings \<Rightarrow> ('r, 'n) redis_keys_scheme \<Rightarrow> smtp_server \<Rightarrow> (tables \<Rightarrow> tables) \<Rightarrow> time
     \<Rightarrow> string \<Rightarrow> int \<Rightarrow> int \<Rightarrow> int \<Rightarrow> string option \<Rightarrow> ('r mailing, unit) action" where
  "create_password_reset_token_and_send_email C cfg K smtp others now raw_token token_id completion_id user_id jid =
     run_then (case jid of None \<Rightarrow> ret False | Some j \<Rightarrow> on_world (is_password_reset_job_done K now j)) (\<lambda>d.
       if d then
         on_world (case jid of None \<Rightarrow> noop
           | Some j \<Rightarrow> run_then (is_password_reset_job_completed K now j) (\<lambda>b.
               if \<not> b then mark_password_reset_job_completed K cfg now j else noop))
       else
         run_then (on_world (reads (\<lambda>w. first_user (\<lambda>u. u_id u = user_id) (tx w)))) (\<lambda>x.
           case (case x of None \<Rightarrow> None | Some u \<Rightarrow> if \<not> u_is_active u then None else Some u) of
             None \<Rightarrow> noop
           | Some u \<Rightarrow> send_reset_token C cfg K smtp others now raw_token token_id completion_id u jid))"

section \<open>Confirmation\<close>

definition invalid_reset_token :: exn where
  "invalid_reset_token = domain BadRequestError INVALID_RESET_TOKEN_MESSAGE"

definition first_reset_token :: "(password_reset_token \<Rightarrow> bool) \<Rightarrow> tables \<Rightarrow> password_reset_token option" where
  "first_reset_token p t = List.find p (password_reset_tokens t)"

definition use_reset_tokens :: "int \<Rightarrow> time \<Rightarrow> tables \<Rightarrow> tables" where
  "use_reset_tokens uid now t = t\<lparr>password_reset_tokens :=
     map (\<lambda>p. if p_user_id p = uid \<and> p_used_at p = None then p\<lparr>p_used_at := Some now\<rparr> else p)
       (password_reset_tokens t)\<rparr>"

definition confirm_password_reset ::
  "'m crypto_scheme \<Rightarrow> settings \<Rightarrow> ('r, 'n) redis_keys_scheme \<Rightarrow> time \<Rightarrow> int \<Rightarrow> string \<Rightarrow> string \<Rightarrow> string
     \<Rightarrow> ('r world, string) action" where
  "confirm_password_reset C cfg K now audit_id salt token new_password =
     (let token_hash = hash_password_reset_token C cfg token in
      run_then (reads (\<lambda>w. first_reset_token (\<lambda>p. p_token_hash p = token_hash) (tx w))) (\<lambda>x. case x of
        None \<Rightarrow> raise invalid_reset_token
      | Some reset_token \<Rightarrow>
          if p_used_at reset_token \<noteq> None then raise invalid_reset_token
          else if p_expires_at reset_token < now then raise invalid_reset_token
          else run_then (reads (\<lambda>w. first_user (\<lambda>u. u_id u = p_user_id reset_token) (tx w))) (\<lambda>y.
            case (case y of None \<Rightarrow> None | Some u \<Rightarrow> if \<not> u_is_active u then None else Some u) of
              None \<Rightarrow> raise invalid_reset_token
            | Some u \<Rightarrow>
                run_then (increment_user_token_version K now
                    (u\<lparr>u_hashed_password := hash_password C salt new_password\<rparr>)) (\<lambda>u'.
                run_then (flush_commit (use_reset_tokens (u_id u') now)) (\<lambda>_.
                run_then (create_audit_log audit_id now (u_tenant_id u') None PASSWORD_RESET_CONFIRMED
                    (Some (u_id u')) True)
                  (\<lambda>_. ret ''Password has been reset.''))))))"

definition cleanup_expired_password_reset_tokens :: "time \<Rightarrow> ('r world, int) action" where
  "cleanup_expired_password_reset_tokens now =
     run_then (reads (\<lambda>w. int (length (filter (\<lambda>p. p_expires_at p < now) (password_reset_tokens (tx w))))))
       (\<lambda>deleted_count.
     run_then (flush_commit (\<lambda>t. t\<lparr>password_reset_tokens :=
         filter (\<lambda>p. \<not> p_expires_at p < now) (password_reset_tokens t)\<rparr>))
       (\<lambda>_. ret deleted_count))"

section \<open>Routes\<close>

text \<open>The body has passed its schema: a token is not empty and a new password has eight characters.\<close>

definition request_reset_password ::
  "'m crypto_scheme \<Rightarrow> settings \<Rightarrow> ('r, 'n) redis_keys_scheme \<Rightarrow> ('r, 'q) redis_queues_scheme \<Rightarrow> time \<Rightarrow> string
     \<Rightarrow> string option \<Rightarrow> int \<Rightarrow> request \<Rightarrow> string \<Rightarrow> ('r world, string) action" where
  "request_reset_password C cfg K R now new_job_id ctx_request_id audit_id req email = with_session
     (run_then (get_request_tenant (x_tenant_slug req)) (\<lambda>tenant.
      run_then (password_reset_rate_limit K cfg (sha256_hex C) now req (Some email)) (\<lambda>_.
        request_password_reset R cfg now new_job_id ctx_request_id audit_id email (t_id tenant))))"

definition confirm_reset_password ::
  "'m crypto_scheme \<Rightarrow> settings \<Rightarrow> ('r, 'n) redis_keys_scheme \<Rightarrow> time \<Rightarrow> int \<Rightarrow> string \<Rightarrow> string \<Rightarrow> string
     \<Rightarrow> ('r world, string) action" where
  "confirm_reset_password C cfg K now audit_id salt token new_password =
     with_session (confirm_password_reset C cfg K now audit_id salt token new_password)"


section \<open>Lemmas\<close>

lemma keeps_interfere: "(\<And>t. schema_ok t \<Longrightarrow> schema_ok (others t)) \<Longrightarrow> keeps world_ok (interfere others)"
  by (simp add: keeps_def interfere_def world_ok_def)

lemma keeps_world_ok_confirm [intro, simp]:
  "keeps world_ok (confirm_password_reset C cfg K now audit_id salt token pw)"
  "keeps world_ok (cleanup_expired_password_reset_tokens now)"
  "keeps world_ok (increment_user_token_version K now u)"
  by (auto simp: confirm_password_reset_def cleanup_expired_password_reset_tokens_def
      increment_user_token_version_def Let_def intro!: keeps_run_then split: option.splits)

lemma use_reset_tokens_schema_ok: "schema_ok t \<Longrightarrow> schema_ok (use_reset_tokens uid now t)"
proof -
  have k: "map f (map (\<lambda>p. if p_user_id p = uid \<and> p_used_at p = None then p\<lparr>p_used_at := Some now\<rparr> else p) ps)
      = map f ps" if "\<And>p. f (p\<lparr>p_used_at := Some now\<rparr>) = f p" for f :: "password_reset_token \<Rightarrow> 'x" and ps
    using that by simp
  assume "schema_ok t"
  then show ?thesis
    unfolding schema_ok_def table_oks unique_by_def use_reset_tokens_def
    by (auto simp add: k list_all_iff simp del: map_map)
qed

lemma use_reset_tokens_fields [simp]:
  "users (use_reset_tokens uid now t) = users t" "audit_logs (use_reset_tokens uid now t) = audit_logs t"
  "tenants (use_reset_tokens uid now t) = tenants t"
  by (simp_all add: use_reset_tokens_def)

text \<open>The user a token hash stands for at an instant.\<close>

definition reset_user :: "tables \<Rightarrow> string \<Rightarrow> time \<Rightarrow> user option" where
  "reset_user t h now = (case first_reset_token (\<lambda>p. p_token_hash p = h) t of
       None \<Rightarrow> None
     | Some p \<Rightarrow> if p_used_at p \<noteq> None \<or> p_expires_at p < now then None
         else (case first_user (\<lambda>u. u_id u = p_user_id p) t of
             None \<Rightarrow> None | Some u \<Rightarrow> if u_is_active u then Some u else None))"

definition reset_row :: "'m crypto_scheme \<Rightarrow> string \<Rightarrow> string \<Rightarrow> user \<Rightarrow> user" where
  "reset_row C salt pw u = u\<lparr>u_hashed_password := hash_password C salt pw, u_token_version := u_token_version u + 1\<rparr>"

lemma reset_row_fields [simp]:
  "u_id (reset_row C salt pw u) = u_id u" "u_tenant_id (reset_row C salt pw u) = u_tenant_id u"
  "u_email (reset_row C salt pw u) = u_email u" "u_is_active (reset_row C salt pw u) = u_is_active u"
  "u_token_version (reset_row C salt pw u) = u_token_version u + 1"
  by (simp_all add: reset_row_def)

definition reset_audit :: "int \<Rightarrow> time \<Rightarrow> user \<Rightarrow> audit_action \<Rightarrow> audit_log" where
  "reset_audit audit_id now u act = \<lparr>a_id = audit_id, a_tenant_id = u_tenant_id u, a_admin_id = None,
     a_action = action_value act, a_target_user_id = Some (u_id u), a_created_at = now\<rparr>"

lemma reset_user_SomeD:
  "reset_user t h now = Some u \<Longrightarrow> u \<in> set (users t) \<and> u_is_active u"
  using first_user_SomeD by (fastforce simp: reset_user_def split: option.splits if_splits)

lemma set_user_same_row:
  assumes "users_ok t" and "u \<in> set (users t)" and "g u = v"
  shows "set_user (u_id u) (\<lambda>_. v) t = set_user (u_id u) g t"
proof -
  have "get_user_by_id t (u_id u) (u_tenant_id u) = Some u"
    using first_user_by_ids_mem [OF assms(1,2)] by (simp add: get_user_by_id_def)
  then show ?thesis using set_user_const [OF assms(1), of "u_id u" "u_tenant_id u" u g] assms(3) by simp
qed

lemma tenant_of_user:
  "schema_ok t \<Longrightarrow> u \<in> set (users t) \<Longrightarrow> u_tenant_id u \<in> t_id ` set (tenants t)"
  by (auto simp: schema_ok_def users_ok_def list_all_iff refers_def)

lemma set_user_tenants [simp]: "tenants (set_user i g t) = tenants t"
  by (simp add: set_user_def)

text \<open>Every outcome of a confirmation.\<close>

lemma confirm_cases:
  assumes "world_ok w" and "audit_id \<notin> a_id ` set (audit_logs (tx w))"
  shows "\<exists>r'. confirm_password_reset C cfg K now audit_id salt token pw w =
    (case reset_user (tx w) (hash_password_reset_token C cfg token) now of
       None \<Rightarrow> (Inl invalid_reset_token, w)
     | Some u \<Rightarrow> let t = add_audit_log (reset_audit audit_id now u PASSWORD_RESET_CONFIRMED)
           (use_reset_tokens (u_id u) now (set_user (u_id u) (reset_row C salt pw) (tx w))) in
         (Inr ''Password has been reset.'', w\<lparr>tx := t, stored := t, redis := r'\<rparr>))"
proof (cases "reset_user (tx w) (hash_password_reset_token C cfg token) now")
  case None
  then show ?thesis
    by (auto simp: confirm_password_reset_def reset_user_def Let_def split: option.splits if_splits)
next
  case (Some u)
  have ok: "schema_ok (tx w)" and uok: "users_ok (tx w)"
    using assms(1) by (simp_all add: world_ok_def schema_ok_def)
  have u: "u \<in> set (users (tx w))" using reset_user_SomeD [OF Some] by simp
  define t1 where "t1 = set_user (u_id u) (reset_row C salt pw) (tx w)"
  define t2 where "t2 = use_reset_tokens (u_id u) now t1"
  have row: "set_user (u_id u) (\<lambda>_. reset_row C salt pw u) (tx w) = t1"
    unfolding t1_def by (rule set_user_same_row [OF uok u refl])
  have ok1: "schema_ok t1" unfolding t1_def by (rule set_user_schema_ok [OF ok]) simp_all
  have ok2: "schema_ok t2" unfolding t2_def by (rule use_reset_tokens_schema_ok [OF ok1])
  obtain r' where inv: "invalidate_users_list_cache K now (u_tenant_id u) (w\<lparr>tx := t1, stored := t1\<rparr>)
      = (Inr (), w\<lparr>tx := t1, stored := t1, redis := r'\<rparr>)"
    using invalidate_never_raises [of K now "u_tenant_id u" "w\<lparr>tx := t1, stored := t1\<rparr>"] by auto
  have aud: "create_audit_log audit_id now (u_tenant_id u) None PASSWORD_RESET_CONFIRMED (Some (u_id u)) True
      (w\<lparr>tx := t2, stored := t2, redis := r'\<rparr>)
    = (Inr (reset_audit audit_id now u PASSWORD_RESET_CONFIRMED),
       w\<lparr>tx := add_audit_log (reset_audit audit_id now u PASSWORD_RESET_CONFIRMED) t2,
         stored := add_audit_log (reset_audit audit_id now u PASSWORD_RESET_CONFIRMED) t2, redis := r'\<rparr>)"
    using create_audit_log_cases [of "w\<lparr>tx := t2, stored := t2, redis := r'\<rparr>" audit_id now "u_tenant_id u" None
        PASSWORD_RESET_CONFIRMED "Some (u_id u)"] ok2 assms(2) tenant_of_user [OF ok u]
    by (simp add: t2_def t1_def reset_audit_def Let_def)
  have inc: "increment_user_token_version K now (u\<lparr>u_hashed_password := hash_password C salt pw\<rparr>) w
    = (Inr (reset_row C salt pw u), w\<lparr>tx := t1, stored := t1, redis := r'\<rparr>)"
    using ok1 inv row
    by (simp add: increment_user_token_version_def Let_def run_then_def flush_commit_cases reset_row_def)
  have use: "flush_commit (use_reset_tokens (u_id u) now) (w\<lparr>tx := t1, stored := t1, redis := r'\<rparr>)
    = (Inr (), w\<lparr>tx := t2, stored := t2, redis := r'\<rparr>)"
    using ok2 by (simp add: flush_commit_cases t2_def)
  obtain p where p: "first_reset_token (\<lambda>p. p_token_hash p = hash_password_reset_token C cfg token) (tx w) = Some p"
    "p_used_at p = None" "\<not> p_expires_at p < now" "first_user (\<lambda>u. u_id u = p_user_id p) (tx w) = Some u"
    "u_is_active u"
    using Some by (auto simp: reset_user_def split: option.splits if_splits)
  show ?thesis
    by (rule exI [of _ r'])
      (use Some p inc use aud in \<open>simp add: confirm_password_reset_def Let_def run_then_def t1_def [symmetric]
        t2_def [symmetric]\<close>)
qed

text \<open>A confirmed reset uses up every token of the user.\<close>

lemma used_up:
  assumes "p \<in> set (password_reset_tokens (use_reset_tokens uid now t))" and "p_user_id p = uid"
  shows "p_used_at p \<noteq> None"
proof -
  obtain q where q: "q \<in> set (password_reset_tokens t)"
    "p = (if p_user_id q = uid \<and> p_used_at q = None then q\<lparr>p_used_at := Some now\<rparr> else q)"
    using assms(1) by (auto simp: use_reset_tokens_def)
  then show ?thesis using assms(2) by (cases "p_user_id q = uid \<and> p_used_at q = None") auto
qed

lemma use_reset_token_owner:
  assumes "p \<in> set (password_reset_tokens (use_reset_tokens uid now t))"
  shows "\<exists>q \<in> set (password_reset_tokens t). p_user_id q = p_user_id p \<and> p_token_hash q = p_token_hash p"
proof -
  obtain q where q: "q \<in> set (password_reset_tokens t)"
    "p = (if p_user_id q = uid \<and> p_used_at q = None then q\<lparr>p_used_at := Some now\<rparr> else q)"
    using assms by (auto simp: use_reset_tokens_def)
  then show ?thesis by (cases "p_user_id q = uid \<and> p_used_at q = None") auto
qed

lemma set_user_tokens [simp]: "password_reset_tokens (set_user i g t) = password_reset_tokens t"
  by (simp add: set_user_def)

lemma audit_tokens [simp]: "password_reset_tokens (add_audit_log a t) = password_reset_tokens t"
  by (simp add: add_audit_log_def)

text \<open>The token that confirmed a reset belongs to the user and is used afterwards.\<close>

lemma confirmed_token_used:
  assumes "schema_ok t" and "reset_user t h now = Some u"
    and "t' = add_audit_log a (use_reset_tokens (u_id u) now (set_user (u_id u) g t))"
  shows "reset_user t' h now2 = None"
proof (rule ccontr)
  assume "reset_user t' h now2 \<noteq> None"
  then obtain p where p: "first_reset_token (\<lambda>p. p_token_hash p = h) t' = Some p" "p_used_at p = None"
    by (auto simp: reset_user_def split: option.splits if_splits)
  obtain q where q: "first_reset_token (\<lambda>p. p_token_hash p = h) t = Some q"
    "first_user (\<lambda>u. u_id u = p_user_id q) t = Some u"
    using assms(2) by (auto simp: reset_user_def split: option.splits if_splits)
  have p': "p \<in> set (password_reset_tokens (use_reset_tokens (u_id u) now (set_user (u_id u) g t)))"
    "p_token_hash p = h"
    using find_SomeD [OF p(1) [unfolded first_reset_token_def]] assms(3) by auto
  obtain q' where q': "q' \<in> set (password_reset_tokens t)" "p_user_id q' = p_user_id p" "p_token_hash q' = h"
    using use_reset_token_owner [OF p'(1)] p'(2) by auto
  have "q \<in> set (password_reset_tokens t)" "p_token_hash q = h"
    using find_SomeD [OF q(1) [unfolded first_reset_token_def]] by auto
  then have "q' = q"
    using assms(1) q' unfolding schema_ok_def reset_tokens_ok_def unique_by_def
    by (metis (no_types) distinct_map inj_onD)
  then have "p_user_id p = u_id u" using q' first_user_SomeD [OF q(2)] by simp
  then show False using used_up [OF p'(1)] p(2) by simp
qed


lemma reset_row_found:
  assumes "users_ok t" and "u \<in> set (users t)"
  shows "get_user_by_email (use_reset_tokens uid now (set_user (u_id u) (reset_row C salt pw) t)) (u_email u)
      (u_tenant_id u) = Some (reset_row C salt pw u)"
proof -
  let ?p = "\<lambda>v. u_email v = u_email u \<and> u_tenant_id v = u_tenant_id u"
  have one: "v = u" if "v \<in> set (users t)" "?p v" for v
    using users_unique_email [OF assms(1) that(1) assms(2)] that(2) by simp
  have "first_user ?p t = Some u"
  proof (cases "first_user ?p t")
    case None
    then have "\<not> ?p u" using assms(2) unfolding first_user_def find_None_iff' by blast
    then show ?thesis by simp
  next
    case (Some v)
    then show ?thesis using first_user_SomeD [OF Some] one by blast
  qed
  then have "first_user ?p (set_user (u_id u) (reset_row C salt pw) t) = Some (reset_row C salt pw u)"
    by (subst first_user_set_user) simp_all
  then show ?thesis by (simp add: get_user_by_email_def first_user_def)
qed

text \<open>The first run of the email job, undisturbed: who gets a mail, and what is stored when one has left.\<close>

lemma add_reset_token_fields [simp]:
  "users (add_reset_token p t) = users t" "job_completions (add_reset_token p t) = job_completions t"
  "password_reset_tokens (add_reset_token p t) = password_reset_tokens t @ [p]"
  by (simp_all add: add_reset_token_def)

lemma add_completion_schema_ok:
  assumes "schema_ok t"
  shows "schema_ok (add_completion c t) \<longleftrightarrow>
    c_id c \<notin> c_id ` set (job_completions t) \<and> c_job_id c \<notin> c_job_id ` set (job_completions t)"
  using assms by (auto simp: schema_ok_def table_oks unique_by_def add_completion_def)

lemma completed_in_db_iff:
  "is_password_reset_job_completed_in_db t j \<longleftrightarrow> j \<in> c_job_id ` set (job_completions t)"
  by (auto simp: is_password_reset_job_completed_in_db_def find_None_iff')

lemma job_done_cases:
  "is_password_reset_job_done K now j w = (r, w') \<Longrightarrow> w' = w \<and>
     (r = Inr False \<longrightarrow> j \<notin> c_job_id ` set (job_completions (tx w)))"
  by (auto simp: is_password_reset_job_done_def is_password_reset_job_completed_def run_then_def
      completed_in_db_iff split: option.splits if_splits)

lemma mark_completed_state:
  "mark_password_reset_job_completed K cfg now j w = (r, w') \<Longrightarrow> stored w' = stored w \<and> tx w' = tx w"
  by (auto simp: mark_password_reset_job_completed_def split: option.splits)

text \<open>A job that is recorded as completed sends nothing and stores nothing.\<close>

lemma completed_job_idle:
  assumes "j \<in> c_job_id ` set (job_completions (tx w))"
    and "create_password_reset_token_and_send_email C cfg K smtp others now raw tok_id comp_id uid (Some j) (w, ms)
      = (res, (w', ms'))"
  shows "ms' = ms \<and> stored w' = stored w \<and> tx w' = tx w"
proof -
  obtain r where "is_password_reset_job_done K now j w = (r, w)" "r \<noteq> Inr False"
    using job_done_cases [of K now j w] assms(1) by (metis prod.collapse)
  then show ?thesis
    using assms(2)
    by (auto simp: create_password_reset_token_and_send_email_def run_then_def on_world_def
        is_password_reset_job_completed_def dest: mark_completed_state
        split: sum.splits prod.splits option.splits if_splits)
qed

lemma sent_mail_recorded:
  assumes "world_ok w" and "comp_id \<notin> c_id ` set (job_completions (tx w))"
    and "create_password_reset_token_and_send_email C cfg K smtp (\<lambda>t. t) now raw tok_id comp_id uid (Some j) (w, ms)
      = (res, (w', ms'))" and "ms' \<noteq> ms"
  obtains u m where "first_user (\<lambda>u. u_id u = uid) (tx w) = Some u" "u_is_active u"
    "send_password_reset_email cfg smtp (u_email u) raw = Inr m" "ms' = ms @ [m]"
    "stored w' = add_completion \<lparr>c_id = comp_id, c_job_id = j, c_completed_at = now\<rparr>
       (add_reset_token \<lparr>p_id = tok_id, p_user_id = u_id u, p_token_hash = hash_password_reset_token C cfg raw,
          p_expires_at = now + password_reset_token_expire_minutes cfg * 60 * second, p_used_at = None,
          p_created_at = now\<rparr> (tx w))" "schema_ok (stored w')"
proof -
  obtain r where r: "is_password_reset_job_done K now j w = (r, w)"
    using job_done_cases [of K now j w] by (metis prod.collapse)
  have nd: "r = Inr False"
  proof (rule ccontr)
    assume "r \<noteq> Inr False"
    then have "ms' = ms"
      using r assms(3) mark_completed_state
      by (auto simp: create_password_reset_token_and_send_email_def run_then_def on_world_def
          is_password_reset_job_completed_def split: sum.splits prod.splits option.splits if_splits)
    then show False using assms(4) by simp
  qed
  then have fresh: "j \<notin> c_job_id ` set (job_completions (tx w))" using job_done_cases [OF r] by simp
  obtain u where u: "first_user (\<lambda>u. u_id u = uid) (tx w) = Some u" "u_is_active u"
    using r nd assms(3,4)
    by (auto simp: create_password_reset_token_and_send_email_def on_world_def run_then_def
        split: option.splits if_splits)
  let ?p = "\<lparr>p_id = tok_id, p_user_id = u_id u, p_token_hash = hash_password_reset_token C cfg raw,
          p_expires_at = now + password_reset_token_expire_minutes cfg * 60 * second, p_used_at = None,
          p_created_at = now\<rparr>"
  let ?t = "add_reset_token ?p (tx w)" and ?w1 = "w\<lparr>tx := add_reset_token ?p (tx w)\<rparr>"
  let ?c = "\<lparr>c_id = comp_id, c_job_id = j, c_completed_at = now\<rparr>"
  have send: "send_reset_token C cfg K smtp (\<lambda>t. t) now raw tok_id comp_id u (Some j) (w, ms) = (res, (w', ms'))"
    using r nd assms(3) u
    by (simp add: create_password_reset_token_and_send_email_def on_world_def run_then_def)
  have ok: "schema_ok ?t"
    using send assms(4) by (auto simp: send_reset_token_def Let_def on_world_def run_then_def flush_cases split: if_splits)
  obtain m where m: "send_password_reset_email cfg smtp (u_email u) raw = Inr m"
    using send assms(4) ok
    by (cases "send_password_reset_email cfg smtp (u_email u) raw")
      (auto simp: send_reset_token_def Let_def on_world_def run_then_def flush_cases deliver_def rollback_def
        split: if_splits email_error.splits)
  have okc: "schema_ok (add_completion ?c ?t)"
    using ok fresh assms(2) by (simp add: add_completion_schema_ok)
  have same: "?w1\<lparr>stored := stored w, tx := ?t\<rparr> = ?w1" by simp
  have "stored w' = add_completion ?c ?t \<and> ms' = ms @ [m]"
    using send ok m okc
    by (auto simp: send_reset_token_def Let_def on_world_def run_then_def flush_cases deliver_def
        interfere_def complete_reset_job_def flush_commit_cases dest: mark_completed_state
        split: prod.splits if_splits)
  then show ?thesis using that u m okc by simp
qed

lemma new_token_found:
  assumes "schema_ok (add_reset_token p t)"
  shows "first_reset_token (\<lambda>q. p_token_hash q = p_token_hash p) (add_reset_token p t) = Some p"
proof -
  have "p_token_hash p \<notin> p_token_hash ` set (password_reset_tokens t)"
    using assms by (simp add: schema_ok_def reset_tokens_ok_def unique_by_def)
  then have "List.find (\<lambda>q. p_token_hash q = p_token_hash p) (password_reset_tokens t) = None"
    unfolding find_None_iff' by (metis imageI)
  then show ?thesis by (simp add: first_reset_token_def find_append)
qed

lemma add_completion_queries [simp]:
  "first_reset_token q (add_completion c t) = first_reset_token q t" "first_user p (add_completion c t) = first_user p t"
  by (simp_all add: first_reset_token_def first_user_def add_completion_def)

lemma completion_reset_user [simp]: "reset_user (add_completion c t) h now = reset_user t h now"
  by (simp add: reset_user_def cong: option.case_cong if_cong)

text \<open>
  When another worker completes the same job meanwhile, the transaction is rolled back after the mail
  has left: the job ends normally and the link in the mail was never valid.
\<close>

lemma concurrent_completion_loses_token:
  assumes "tx w = stored w" and "c_job_id c = j"
    and "hash_password_reset_token C cfg raw \<notin> p_token_hash ` set (password_reset_tokens (stored w))"
    and "create_password_reset_token_and_send_email C cfg K smtp (add_completion c) now raw tok_id comp_id uid (Some j)
        (w, ms) = (res, (w', ms'))" and "ms' \<noteq> ms"
  shows "res = Inr () \<and> reset_user (stored w') (hash_password_reset_token C cfg raw) t = None"
proof -
  obtain r where r: "is_password_reset_job_done K now j w = (r, w)"
    using job_done_cases [of K now j w] by (metis prod.collapse)
  have nd: "r = Inr False"
  proof (rule ccontr)
    assume "r \<noteq> Inr False"
    then have "ms' = ms"
      using r assms(4)
      by (auto simp: create_password_reset_token_and_send_email_def run_then_def on_world_def
          is_password_reset_job_completed_def split: sum.splits prod.splits option.splits if_splits)
    then show False using assms(5) by simp
  qed
  obtain u where u: "first_user (\<lambda>u. u_id u = uid) (tx w) = Some u" "u_is_active u"
    using r nd assms(4,5)
    by (auto simp: create_password_reset_token_and_send_email_def on_world_def run_then_def
        split: option.splits if_splits)
  have send: "send_reset_token C cfg K smtp (add_completion c) now raw tok_id comp_id u (Some j) (w, ms) = (res, (w', ms'))"
    using r nd assms(4) u
    by (simp add: create_password_reset_token_and_send_email_def on_world_def run_then_def)
  have bad: "\<not> schema_ok (add_completion d (add_completion c x))" if "c_job_id d = j" for d x
    using that assms(2) by (auto simp: schema_ok_def job_completions_ok_def unique_by_def add_completion_def)
  have none: "reset_user (add_completion c (stored w)) (hash_password_reset_token C cfg raw) t = None"
  proof -
    have "first_reset_token (\<lambda>p. p_token_hash p = hash_password_reset_token C cfg raw) (stored w) = None"
      using assms(3) unfolding first_reset_token_def find_None_iff' by (metis imageI)
    then show ?thesis by (simp add: reset_user_def)
  qed
  show ?thesis
    using send bad assms(5) none
    by (auto simp: send_reset_token_def Let_def on_world_def run_then_def flush_cases deliver_def rollback_def
        interfere_def complete_reset_job_def flush_commit_cases
        split: prod.splits if_splits sum.splits email_error.splits)
qed

section \<open>Properties\<close>

text \<open>
  C27: asking for a reset reveals nothing. The answer is the same for every address, whether a user has it,
  whether that user is active, and which tenant is asked; only for an active user of the tenant one email
  job is put on the queue and the request is audited, and in every other case nothing happens at all.
\<close>

theorem reset_request_uniform:
  assumes "world_ok w" and "audit_id \<notin> a_id ` set (audit_logs (tx w))"
  shows "request_password_reset R cfg now jid ctx audit_id email tid w =
    (Inr PASSWORD_RESET_RESPONSE_MESSAGE,
     case get_user_by_email (tx w) email tid of
       None \<Rightarrow> w
     | Some u \<Rightarrow> if u_is_active u
         then w\<lparr>redis := snd (enqueue_job R (worker_queue_name cfg) jid ctx SEND_PASSWORD_RESET_EMAIL_JOB
                  [(''user_id'', PInt (u_id u))] (redis w)),
                tx := add_audit_log (reset_audit audit_id now u PASSWORD_RESET_REQUESTED) (tx w),
                stored := add_audit_log (reset_audit audit_id now u PASSWORD_RESET_REQUESTED) (tx w)\<rparr>
         else w)"
proof (cases "get_user_by_email (tx w) email tid")
  case (Some u)
  have ok: "schema_ok (tx w)" using assms(1) by (simp add: world_ok_def)
  have "u \<in> set (users (tx w))" using first_user_SomeD Some unfolding get_user_by_email_def by blast
  then have t: "u_tenant_id u \<in> t_id ` set (tenants (tx w))" by (rule tenant_of_user [OF ok])
  show ?thesis
  proof (cases "u_is_active u")
    case True
    obtain j r' where j: "enqueue_job R (worker_queue_name cfg) jid ctx SEND_PASSWORD_RESET_EMAIL_JOB
        [(''user_id'', PInt (u_id u))] (redis w) = (j, r')" by force
    have "create_audit_log audit_id now (u_tenant_id u) None PASSWORD_RESET_REQUESTED (Some (u_id u)) True
        (w\<lparr>redis := r'\<rparr>) = (Inr (reset_audit audit_id now u PASSWORD_RESET_REQUESTED),
          w\<lparr>redis := r', tx := add_audit_log (reset_audit audit_id now u PASSWORD_RESET_REQUESTED) (tx w),
            stored := add_audit_log (reset_audit audit_id now u PASSWORD_RESET_REQUESTED) (tx w)\<rparr>)"
      using create_audit_log_cases [of "w\<lparr>redis := r'\<rparr>" audit_id now "u_tenant_id u" None
          PASSWORD_RESET_REQUESTED "Some (u_id u)"] ok assms(2) t
      by (simp add: reset_audit_def Let_def)
    then show ?thesis
      using Some True j
      by (simp add: request_password_reset_def enqueue_password_reset_email_job_def run_then_def)
  qed (use Some in \<open>simp add: request_password_reset_def\<close>)
qed (simp add: request_password_reset_def)

theorem reset_request_uniform_witness:
  "fst (request_password_reset store_queues example_cfg 0 ''j'' None 7 ''nobody@corp.test'' 1 example_world)
    = fst (request_password_reset store_queues example_cfg 0 ''j'' None 7 (u_email (example_user 3 ''user'')) 1 example_world)"
proof -
  have "7 \<notin> a_id ` set (audit_logs (tx example_world))" by simp
  show ?thesis
    by (simp only: reset_request_uniform [OF example_world_ok \<open>7 \<notin> a_id ` set (audit_logs (tx example_world))\<close>] fst_conv)
qed

text \<open>
  C28: a confirmed reset takes effect at once and only once. Afterwards the token is refused at any
  time, no unused token of the user is left, the new password authenticates the user, and every access
  token the user could use before is refused.
\<close>

theorem reset_confirm_effective:
  assumes "crypto_laws C" and "world_ok w" and "audit_id \<notin> a_id ` set (audit_logs (tx w))"
    and "confirm_password_reset C cfg K now audit_id salt token new_password w = (Inr m, w')"
  shows "\<exists>u. u \<in> set (users (tx w)) \<and> u_is_active u
    \<and> reset_user (tx w) (hash_password_reset_token C cfg token) now = Some u
    \<and> confirm_password_reset C cfg K now2 audit_id2 salt2 token other_password w' = (Inl invalid_reset_token, w')
    \<and> (\<forall>p \<in> set (password_reset_tokens (tx w')). p_user_id p = u_id u \<longrightarrow> p_used_at p \<noteq> None)
    \<and> authenticate_user C (u_email u) new_password (u_tenant_id u) w' = (Inr (reset_row C salt new_password u), w')
    \<and> (\<forall>t0 h0 tok wx. get_current_user C cfg t0 h0 tok w = (Inr u, wx) \<longrightarrow>
         (\<forall>t1 h1. get_current_user C cfg t1 h1 tok w' = (Inl credentials_exception, w')))"
proof -
  let ?h = "hash_password_reset_token C cfg token"
  have ok: "schema_ok (tx w)" and uok: "users_ok (tx w)"
    using assms(2) by (simp_all add: world_ok_def schema_ok_def)
  note cases = confirm_cases [OF assms(2,3), of C cfg K now salt token new_password]
  obtain u where u: "reset_user (tx w) ?h now = Some u"
    using cases assms(4) by (cases "reset_user (tx w) ?h now") auto
  have mem: "u \<in> set (users (tx w))" "u_is_active u" using reset_user_SomeD [OF u] by auto
  define t where "t = add_audit_log (reset_audit audit_id now u PASSWORD_RESET_CONFIRMED)
           (use_reset_tokens (u_id u) now (set_user (u_id u) (reset_row C salt new_password) (tx w)))"
  obtain r' where w': "w' = w\<lparr>tx := t, stored := t, redis := r'\<rparr>"
    using cases assms(4) u by (auto simp: Let_def t_def)
  have "reset_user t ?h now2 = None" using confirmed_token_used [OF ok u t_def] .
  then have again: "confirm_password_reset C cfg K now2 audit_id2 salt2 token other_password w' = (Inl invalid_reset_token, w')"
    using w' by (auto simp: confirm_password_reset_def reset_user_def Let_def split: option.splits if_splits)
  have used: "p_used_at p \<noteq> None" if "p \<in> set (password_reset_tokens (tx w'))" "p_user_id p = u_id u" for p
  proof (rule used_up)
    show "p \<in> set (password_reset_tokens (use_reset_tokens (u_id u) now
        (set_user (u_id u) (reset_row C salt new_password) (tx w))))" using that(1) w' by (simp add: t_def)
  qed (rule that(2))
  have "get_user_by_email t (u_email u) (u_tenant_id u) = Some (reset_row C salt new_password u)"
    using reset_row_found [OF uok mem(1)] by (simp add: t_def get_user_by_email_def first_user_def)
  then have auth: "authenticate_user C (u_email u) new_password (u_tenant_id u) w'
      = (Inr (reset_row C salt new_password u), w')"
    using mem(2) w' crypto_laws.verify_hash [OF assms(1)]
    by (simp add: authenticate_user_def verify_password_def hash_password_def reset_row_def)
  have old: "get_current_user C cfg t1 h1 tok w' = (Inl credentials_exception, w')"
    if seen: "get_current_user C cfg t0 h0 tok w = (Inr u, wx)" for t0 h0 tok wx t1 h1
  proof -
    obtain i j v where ids: "token_identity C cfg t0 tok = Inr (i, j, v)" "first_user_by_ids i j (tx w) = Some u"
      "u_token_version u = v" using seen unfolding get_current_user_iff by blast
    have i: "u_id u = i" using first_user_by_ids_SomeD [OF ids(2)] by simp
    show ?thesis
    proof (rule outdated_token_refused [OF token_identity_stable [OF assms(1) ids(1)]])
      fix x assume x: "x \<in> set (users (tx w'))" "u_id x = i"
      then obtain y where y: "y \<in> set (users (tx w))" "x = (if u_id y = u_id u then reset_row C salt new_password y else y)"
        using w' by (auto simp: t_def users_set_user)
      then have "y = u" using x(2) i users_unique_id [OF uok y(1) mem(1)] by (auto split: if_splits)
      then show "u_token_version x \<noteq> v" using y(2) ids(3) by simp
    qed
  qed
  show ?thesis using u mem again used auth old by blast
qed



section \<open>A reset in the small installation\<close>

definition example_reset_token :: password_reset_token where
  "example_reset_token = \<lparr>p_id = 1, p_user_id = 3,
     p_token_hash = hash_password_reset_token ref_crypto example_cfg ''tok'', p_expires_at = 100, p_used_at = None,
     p_created_at = 0\<rparr>"

definition example_reset_world :: "store world" where
  "example_reset_world = example_world\<lparr>stored := add_reset_token example_reset_token example_tables,
     tx := add_reset_token example_reset_token example_tables\<rparr>"

lemma example_reset_world_ok: "world_ok example_reset_world"
proof -
  have "schema_ok (add_reset_token example_reset_token example_tables)"
    by (simp add: schema_ok_def table_oks unique_by_def add_reset_token_def example_tables_def empty_tables_def
        example_tenant_def example_user_def refers_def example_reset_token_def)
  then show ?thesis by (simp add: world_ok_def example_reset_world_def)
qed

lemma example_reset_user:
  "reset_user (tx example_reset_world) (hash_password_reset_token ref_crypto example_cfg ''tok'') 5
    = Some (example_user 3 ''user'')"
  by (simp add: reset_user_def first_reset_token_def example_reset_world_def example_tables_def empty_tables_def
      example_reset_token_def first_user_def add_reset_token_def)

lemma example_reset_audit_free: "7 \<notin> a_id ` set (audit_logs (tx example_reset_world))"
  by (simp add: example_reset_world_def add_reset_token_def example_tables_def empty_tables_def)

theorem reset_confirm_effective_witness:
  "\<exists>m w'. confirm_password_reset ref_crypto example_cfg store_keys 5 7 ''s'' ''tok'' ''new-password'' example_reset_world
      = (Inr m, w')
    \<and> confirm_password_reset ref_crypto example_cfg store_keys 6 8 ''s'' ''tok'' ''other-password'' w'
      = (Inl invalid_reset_token, w')"
proof -
  obtain m w' where c: "confirm_password_reset ref_crypto example_cfg store_keys 5 7 ''s'' ''tok'' ''new-password''
      example_reset_world = (Inr m, w')"
    using confirm_cases [OF example_reset_world_ok example_reset_audit_free, of ref_crypto example_cfg store_keys 5
        "''s''" "''tok''" "''new-password''"] example_reset_user
    by (auto simp: Let_def)
  show ?thesis
    using reset_confirm_effective [OF ref_crypto.crypto_laws_axioms example_reset_world_ok example_reset_audit_free c] c
    by blast
qed


abbreviation example_mail_cfg :: settings where
  "example_mail_cfg \<equiv> example_cfg\<lparr>smtp_host := ''mail''\<rparr>"

definition example_run :: "store mailing \<Rightarrow> (exn, unit) result \<times> store mailing" where
  "example_run = create_password_reset_token_and_send_email ref_crypto example_mail_cfg store_keys
     (\<lambda>host port login m. True) (\<lambda>t. t) 0 ''tok'' 1 1 3 (Some ''j'')"

lemma newline_literals: "newline = CHR 0x0A" "char_of (13 :: nat) = CHR 0x0D"
  unfolding newline_def by code_simp+

lemma example_run_sends: "snd (snd (example_run (example_world, []))) \<noteq> []"
proof -
  have show3: "show_int 3 = ''3''" by code_simp
  let ?p = "\<lparr>p_id = 1, p_user_id = 3, p_token_hash = hash_password_reset_token ref_crypto example_mail_cfg ''tok'',
     p_expires_at = 0 + password_reset_token_expire_minutes example_mail_cfg * 60 * second, p_used_at = None, p_created_at = 0\<rparr>"
  have ok: "schema_ok (add_reset_token ?p example_tables)"
    by (simp add: schema_ok_def table_oks unique_by_def add_reset_token_def example_tables_def empty_tables_def
        example_tenant_def example_user_def refers_def)
  have okc: "schema_ok (add_completion \<lparr>c_id = 1, c_job_id = ''j'', c_completed_at = 0\<rparr> (add_reset_token ?p example_tables))"
    using ok by (simp add: add_completion_schema_ok example_tables_def empty_tables_def)
  have u: "first_user (\<lambda>u. u_id u = 3) example_tables = Some (example_user 3 ''user'')"
    by (simp add: first_user_def example_tables_def)
  have c: "\<not> is_password_reset_job_completed_in_db example_tables ''j''"
    by (simp add: completed_in_db_iff example_tables_def empty_tables_def)
  obtain m where m: "send_password_reset_email example_mail_cfg (\<lambda>host port login m. True)
      (u_email (example_user 3 ''user'')) ''tok'' = Inr m"
    by (simp add: send_password_reset_email_def send_email_def default_settings_def example_user_def
        header_value_ok_def newline_literals show3 render_password_reset_subject_def Let_def)
  show ?thesis
    using ok okc u c m
    by (simp add: example_run_def create_password_reset_token_and_send_email_def on_world_def run_then_def
        is_password_reset_job_done_def is_password_reset_job_completed_def send_reset_token_def Let_def flush_cases
        deliver_def interfere_def complete_reset_job_def flush_commit_cases mark_password_reset_job_completed_def)
qed


end
