(* ===== verification/Idempotency.thy ===== *)
theory Idempotency
  imports Password_Reset
begin

text \<open>
  Idempotent requests (\<open>app/services/idempotency_service.py\<close>, \<open>app/api/dependencies/idempotency.py\<close>): a
  response is stored under the key of its request and replayed while it has not expired; a lock in Redis
  keeps two requests with one key from being processed at the same time.

  \<open>others\<close> is what other processes commit between the moment a response is computed and the moment it is
  stored; it is the identity where nobody interferes.
\<close>

section \<open>Keys and locks\<close>

definition get_idempotency_key :: "string option \<Rightarrow> (exn, string) result" where
  "get_idempotency_key header =
     (let normalized_key = (case header of None \<Rightarrow> [] | Some k \<Rightarrow> strip k) in
      if normalized_key = [] then Inl (HTTPException 400 ''Idempotency-Key header is required'')
      else Inr normalized_key)"

definition IDEMPOTENCY_LOCK_PREFIX :: string where
  "IDEMPOTENCY_LOCK_PREFIX = ''idempotency:processing:''"

definition build_scope_key :: "'m crypto_scheme \<Rightarrow> string \<Rightarrow> string \<Rightarrow> (exn, string) result" where
  "build_scope_key C scope idempotency_key =
     (let normalized_key = strip idempotency_key in
      if normalized_key = [] then Inl (domain BadRequestError ''Idempotency-Key header is required'')
      else Inr (scope @ '':'' @ sha256_hex C (utf8_encode (scope @ '':'' @ normalized_key))))"

definition idempotency_lock_key :: "string \<Rightarrow> string" where
  "idempotency_lock_key scope_key = IDEMPOTENCY_LOCK_PREFIX @ scope_key"

definition try_acquire_idempotency_lock ::
  "('r, 'n) redis_keys_scheme \<Rightarrow> settings \<Rightarrow> time \<Rightarrow> string \<Rightarrow> ('r world, bool) action" where
  "try_acquire_idempotency_lock K cfg now scope_key w =
     (case set_key K now (idempotency_lock_key scope_key) ''1'' True
         (idempotency_processing_lock_ttl_seconds cfg) (redis w) of
        None \<Rightarrow> (Inl RedisError, w) | Some (b, r') \<Rightarrow> (Inr b, w\<lparr>redis := r'\<rparr>))"

definition release_idempotency_lock ::
  "('r, 'n) redis_keys_scheme \<Rightarrow> time \<Rightarrow> string \<Rightarrow> ('r world, unit) action" where
  "release_idempotency_lock K now scope_key w =
     (case delete_key K now (idempotency_lock_key scope_key) (redis w) of
        None \<Rightarrow> (Inl RedisError, w) | Some r' \<Rightarrow> (Inr (), w\<lparr>redis := r'\<rparr>))"

section \<open>Stored responses\<close>

definition get_cached_response :: "tables \<Rightarrow> time \<Rightarrow> string \<Rightarrow> idempotency_record option" where
  "get_cached_response t now scope_key =
     List.find (\<lambda>r. i_scope_key r = scope_key \<and> i_expires_at r > now) (idempotency_records t)"

definition add_record :: "idempotency_record \<Rightarrow> tables \<Rightarrow> tables" where
  "add_record r t = t\<lparr>idempotency_records := idempotency_records t @ [r]\<rparr>"

definition store_response ::
  "settings \<Rightarrow> (tables \<Rightarrow> tables) \<Rightarrow> time \<Rightarrow> int \<Rightarrow> string \<Rightarrow> int \<Rightarrow> pyval
     \<Rightarrow> ('r world, idempotency_record) action" where
  "store_response cfg others now record_id scope_key status_code response_body w =
     (let record = \<lparr>i_id = record_id, i_scope_key = scope_key, i_status_code = status_code,
            i_response_body = dumps response_body, i_created_at = now,
            i_expires_at = now + idempotency_ttl_seconds cfg * second\<rparr> in
      case run_then (interfere others) (\<lambda>_. flush_commit (add_record record)) w of
        (Inl IntegrityError, w1) \<Rightarrow>
          run_then rollback (\<lambda>_. run_then (reads (\<lambda>w. get_cached_response (tx w) now scope_key)) (\<lambda>x. case x of
            None \<Rightarrow> raise IntegrityError | Some existing_record \<Rightarrow> ret existing_record)) w1
      | (Inl e, w1) \<Rightarrow> (Inl e, w1)
      | (Inr _, w1) \<Rightarrow> (Inr record, w1))"

text \<open>\<open>None\<close> is the \<open>JSONDecodeError\<close> of a stored text that is not JSON.\<close>

definition parse_cached_response_body :: "idempotency_record \<Rightarrow> (exn, pyval) result" where
  "parse_cached_response_body record = (case loads (i_response_body record) of
       None \<Rightarrow> Inl (ValueErr ''JSONDecodeError'') | Some v \<Rightarrow> Inr v)"

definition cached_json_response :: "idempotency_record \<Rightarrow> (exn, int \<times> pyval) result" where
  "cached_json_response record =
     and_then (parse_cached_response_body record) (\<lambda>v. Inr (i_status_code record, v))"

definition begin_idempotent_request ::
  "('r, 'n) redis_keys_scheme \<Rightarrow> settings \<Rightarrow> time \<Rightarrow> string \<Rightarrow> ('r world, idempotency_record option \<times> bool) action"
  where
  "begin_idempotent_request K cfg now scope_key =
     run_then (reads (\<lambda>w. get_cached_response (tx w) now scope_key)) (\<lambda>x. case x of
       Some cached_record \<Rightarrow> ret (Some cached_record, False)
     | None \<Rightarrow>
         run_then (try_acquire_idempotency_lock K cfg now scope_key) (\<lambda>acquired.
           if \<not> acquired then
             run_then (reads (\<lambda>w. get_cached_response (tx w) now scope_key)) (\<lambda>y. case y of
               Some cached_record \<Rightarrow> ret (Some cached_record, False)
             | None \<Rightarrow> raise (domain ConflictError ''Duplicate request is already in progress''))
           else ret (None, True)))"

definition cleanup_expired_idempotency_records :: "time \<Rightarrow> ('r world, int) action" where
  "cleanup_expired_idempotency_records now =
     run_then (reads (\<lambda>w. int (length (filter (\<lambda>r. i_expires_at r < now) (idempotency_records (tx w))))))
       (\<lambda>deleted_count.
     run_then (flush_commit (\<lambda>t. t\<lparr>idempotency_records :=
         filter (\<lambda>r. \<not> i_expires_at r < now) (idempotency_records t)\<rparr>))
       (\<lambda>_. ret deleted_count))"

section \<open>Lemmas\<close>

lemma keeps_world_ok_idempotency [intro, simp]:
  "keeps world_ok (try_acquire_idempotency_lock K cfg now key)"
  "keeps world_ok (release_idempotency_lock K now key)"
  "keeps world_ok (begin_idempotent_request K cfg now key)"
  "keeps world_ok (cleanup_expired_idempotency_records now)"
proof -
  show l: "keeps world_ok (try_acquire_idempotency_lock K cfg now key)" for K :: "('r, 'n) redis_keys_scheme"
    by (auto simp: keeps_def try_acquire_idempotency_lock_def world_ok_def split: option.splits)
  show "keeps world_ok (release_idempotency_lock K now key)"
    by (auto simp: keeps_def release_idempotency_lock_def world_ok_def split: option.splits)
  show "keeps world_ok (begin_idempotent_request K cfg now key)"
    unfolding begin_idempotent_request_def using l by (auto intro!: keeps_run_then split: option.splits)
qed (auto simp: cleanup_expired_idempotency_records_def intro!: keeps_run_then)

lemma get_cached_response_SomeD:
  "get_cached_response t now key = Some r \<Longrightarrow>
     r \<in> set (idempotency_records t) \<and> i_scope_key r = key \<and> now < i_expires_at r"
  unfolding get_cached_response_def by (auto dest: find_SomeD)

text \<open>The stored response is the only one of its key, so it is the one that is found until it expires.\<close>

lemma cached_response_unique:
  assumes "schema_ok t" and "r \<in> set (idempotency_records t)" and "now < i_expires_at r"
  shows "get_cached_response t now (i_scope_key r) = Some r"
proof (cases "get_cached_response t now (i_scope_key r)")
  case None
  then show ?thesis using assms(2,3) by (auto simp: get_cached_response_def find_None_iff')
next
  case (Some q)
  then have "q = r"
    using get_cached_response_SomeD [OF Some] assms(1,2)
    unfolding schema_ok_def idempotency_ok_def unique_by_def by (metis (no_types) distinct_map inj_onD)
  then show ?thesis using Some by simp
qed

lemma add_record_schema_ok:
  assumes "schema_ok t"
  shows "schema_ok (add_record r t) \<longleftrightarrow> i_id r \<notin> i_id ` set (idempotency_records t)
    \<and> i_scope_key r \<notin> i_scope_key ` set (idempotency_records t)"
  using assms by (auto simp: schema_ok_def table_oks unique_by_def add_record_def)

text \<open>
  The outcomes of storing a response when nobody interferes: it is stored, or a record of the key that
  has not expired is answered, or an expired one that was not cleaned up yet is in the way.
\<close>

lemma store_response_cases:
  assumes "schema_ok (tx w)" and "tx w = stored w" and "record_id \<notin> i_id ` set (idempotency_records (tx w))"
  shows "store_response cfg (\<lambda>t. t) now record_id key status body w =
    (let record = \<lparr>i_id = record_id, i_scope_key = key, i_status_code = status,
            i_response_body = dumps body, i_created_at = now,
            i_expires_at = now + idempotency_ttl_seconds cfg * second\<rparr> in
     if key \<notin> i_scope_key ` set (idempotency_records (tx w))
     then (Inr record, w\<lparr>tx := add_record record (tx w), stored := add_record record (tx w)\<rparr>)
     else (case get_cached_response (tx w) now key of
         None \<Rightarrow> (Inl IntegrityError, w) | Some r \<Rightarrow> (Inr r, w)))"
  using assms add_record_schema_ok [OF assms(1)]
  by (simp add: store_response_def interfere_def flush_commit_cases run_then_def rollback_def Let_def
      split: option.split)

lemma begin_cases:
  "begin_idempotent_request K cfg now key w =
     (case get_cached_response (tx w) now key of
        Some r \<Rightarrow> (Inr (Some r, False), w)
      | None \<Rightarrow> (case set_key K now (idempotency_lock_key key) ''1'' True
            (idempotency_processing_lock_ttl_seconds cfg) (redis w) of
          None \<Rightarrow> (Inl RedisError, w)
        | Some (b, r') \<Rightarrow> if b then (Inr (None, True), w\<lparr>redis := r'\<rparr>)
            else (Inl (domain ConflictError ''Duplicate request is already in progress''), w\<lparr>redis := r'\<rparr>)))"
  by (simp add: begin_idempotent_request_def run_then_def try_acquire_idempotency_lock_def split: option.split prod.split)

text \<open>
  An expired record that has not been cleaned up yet is not replayed, but it blocks its key: the response
  of the new request cannot be stored.
\<close>

lemma expired_record_blocks:
  assumes "schema_ok (tx w)" and "tx w = stored w" and "record_id \<notin> i_id ` set (idempotency_records (tx w))"
    and "r \<in> set (idempotency_records (tx w))" and "i_expires_at r \<le> now"
  shows "get_cached_response (tx w) now (i_scope_key r) = None"
    and "store_response cfg (\<lambda>t. t) now record_id (i_scope_key r) status body w = (Inl IntegrityError, w)"
proof -
  show n: "get_cached_response (tx w) now (i_scope_key r) = None"
  proof (rule ccontr)
    assume "get_cached_response (tx w) now (i_scope_key r) \<noteq> None"
    then obtain q where q: "get_cached_response (tx w) now (i_scope_key r) = Some q" by blast
    then have "q = r"
      using get_cached_response_SomeD [OF q] assms(1,4)
      unfolding schema_ok_def idempotency_ok_def unique_by_def by (metis (no_types) distinct_map inj_onD)
    then show False using get_cached_response_SomeD [OF q] assms(5) by simp
  qed
  show "store_response cfg (\<lambda>t. t) now record_id (i_scope_key r) status body w = (Inl IntegrityError, w)"
    using assms(4) n by (auto simp: store_response_cases [OF assms(1-3)] Let_def)
qed

text \<open>
  The lock carries no owner: a request that outlives its lock releases the one another request has taken since, and
  a third is admitted while the second is still at work.
\<close>

lemma late_release_admits_another:
  assumes "get_cached_response (tx w) t0 key = None" "alive (st_entries (redis w)) t0 (idempotency_lock_key key) = None"
    and "t0 + idempotency_processing_lock_ttl_seconds cfg * second \<le> t1" "t0 \<le> t1" "t1 \<le> t2"
  shows "\<exists>w1 w2 w3 w4. begin_idempotent_request store_keys cfg t0 key w = (Inr (None, True), w1)
    \<and> begin_idempotent_request store_keys cfg t1 key w1 = (Inr (None, True), w2)
    \<and> release_idempotency_lock store_keys t1 key w2 = (Inr (), w3)
    \<and> begin_idempotent_request store_keys cfg t2 key w3 = (Inr (None, True), w4)"
proof -
  have none: "get_cached_response (tx w) t key = None" if "t0 \<le> t" for t
    using assms(1) that by (auto simp: get_cached_response_def find_None_iff)
  show ?thesis
    using assms none [of t0] none [of t1] none [of t2]
    by (auto simp: begin_cases release_idempotency_lock_def alive_def split: option.splits)
qed

section \<open>Properties\<close>

text \<open>
  C29: one key, one request at a time. After a request has been admitted with a key, every other request
  with that key is refused with a conflict, or answered from a stored response, until the lock of the first
  expires or is released; it is never admitted as well.
\<close>

theorem idempotent_requests_exclude:
  assumes "redis_strings K entry"
    and "begin_idempotent_request K cfg now key w = (Inr (None, True), w1)"
    and "entry (redis w2) (idempotency_lock_key key) = entry (redis w1) (idempotency_lock_key key)"
    and "t < now + idempotency_processing_lock_ttl_seconds cfg * second"
  shows "case fst (begin_idempotent_request K cfg t key w2) of
      Inr (cached, acquired) \<Rightarrow> \<not> acquired \<and> cached = get_cached_response (tx w2) t key \<and> cached \<noteq> None
    | Inl e \<Rightarrow> e = domain ConflictError ''Duplicate request is already in progress'' \<or> e = RedisError"
proof -
  obtain r' where r': "set_key K now (idempotency_lock_key key) ''1'' True
      (idempotency_processing_lock_ttl_seconds cfg) (redis w) = Some (True, r')" "w1 = w\<lparr>redis := r'\<rparr>"
    using assms(2) by (auto simp: begin_cases split: option.splits if_splits)
  have "entry r' (idempotency_lock_key key)
      = Some (''1'', Some (now + idempotency_processing_lock_ttl_seconds cfg * second))"
    using redis_strings.set_nx [OF assms(1) r'(1)] by (auto split: if_splits)
  then have "alive (entry (redis w2)) t (idempotency_lock_key key) \<noteq> None"
    using assms(3,4) r'(2) by (simp add: alive_def)
  then have "\<not> b" if "set_key K t (idempotency_lock_key key) ''1'' True
      (idempotency_processing_lock_ttl_seconds cfg) (redis w2) = Some (b, r2)" for b r2
    using redis_strings.set_nx [OF assms(1) that] by (auto split: if_splits)
  then show ?thesis by (auto simp: begin_cases split: option.splits)
qed

theorem idempotent_requests_exclude_witness:
  "\<exists>w1. begin_idempotent_request store_keys example_cfg 0 ''k'' example_world = (Inr (None, True), w1)
    \<and> (case fst (begin_idempotent_request store_keys example_cfg 1 ''k'' w1) of
         Inr (cached, acquired) \<Rightarrow> \<not> acquired | Inl e \<Rightarrow> True)"
proof -
  obtain w1 where b: "begin_idempotent_request store_keys example_cfg 0 ''k'' example_world = (Inr (None, True), w1)"
    by (simp add: begin_cases get_cached_response_def example_tables_def empty_tables_def)
  have "1 < 0 + idempotency_processing_lock_ttl_seconds example_cfg * second" by (simp add: default_settings_def)
  from idempotent_requests_exclude [OF store_strings.redis_strings_axioms b refl this] b show ?thesis
    by (auto split: sum.splits)
qed

end
