(* ===== verification/Webhooks.thy ===== *)
theory Webhooks
  imports Idempotency
begin

text \<open>
  Inbound webhooks: signatures (\<open>app/core/webhook_security.py\<close>), the event store
  (\<open>app/services/webhook_service.py\<close>) and the route (\<open>app/api/routes/webhooks.py\<close>,
  \<open>app/schemas/webhook.py\<close>).

  A body is a byte string. HMAC and SHA-256 are the cryptographic parameters over bytes. Reading the body
  into the request schema is pydantic's: the parameter \<open>parse_inbound\<close>, \<open>None\<close> being its
  \<open>ValidationError\<close>. \<open>hmac.compare_digest\<close> raises a \<open>TypeError\<close> on texts that are not ASCII.
\<close>

section \<open>Signatures\<close>

datatype webhook_error = WebhookSignatureError string | CompareTypeError

definition hash_payload :: "'m crypto_scheme \<Rightarrow> string \<Rightarrow> string" where
  "hash_payload C payload = sha256_hex C payload"

definition build_timestamped_signing_message :: "int \<Rightarrow> string \<Rightarrow> string" where
  "build_timestamped_signing_message timestamp payload = utf8_encode (show_int timestamp @ ''.'') @ payload"

definition compute_hmac_signature :: "'m crypto_scheme \<Rightarrow> string \<Rightarrow> string \<Rightarrow> string" where
  "compute_hmac_signature C payload secret = hmac_sha256 C (utf8_encode secret) payload"

definition compute_timestamped_hmac_signature :: "'m crypto_scheme \<Rightarrow> int \<Rightarrow> string \<Rightarrow> string \<Rightarrow> string" where
  "compute_timestamped_hmac_signature C timestamp payload secret =
     (let signing_message = build_timestamped_signing_message timestamp payload in
      compute_hmac_signature C signing_message secret)"

text \<open>
  \<open>t=(\d+)(?:,v1=([a-f0-9]+))?\<close>, ignoring case, against the whole text: the timestamp and the signature
  when it is there.
\<close>

definition stripe_match :: "string \<Rightarrow> (int \<times> string option) option" where
  "stripe_match s = (case s of
       t # e # rest \<Rightarrow>
         if lower_char t = CHR ''t'' \<and> e = CHR ''='' then
           (let digits = takeWhile is_digit rest; tail = dropWhile is_digit rest in
            if digits = [] then None
            else if tail = [] then Some (int (read_nat digits), None)
            else if lower (take 4 tail) = '',v1='' \<and> drop 4 tail \<noteq> []
                    \<and> list_all (\<lambda>c. hex_val c \<noteq> None) (drop 4 tail)
            then Some (int (read_nat digits), Some (drop 4 tail)) else None)
         else None
     | _ \<Rightarrow> None)"

definition parse_webhook_signature_header :: "string \<Rightarrow> (webhook_error, int option \<times> string) result" where
  "parse_webhook_signature_header signature =
     (let normalized_signature = strip signature in
      case stripe_match normalized_signature of
        Some (timestamp, parsed_signature) \<Rightarrow> (case parsed_signature of
            None \<Rightarrow> Inl (WebhookSignatureError ''Webhook signature version is required'')
          | Some p \<Rightarrow> Inr (Some timestamp, lower p))
      | None \<Rightarrow> Inr (None, lower normalized_signature))"

definition compare_digest :: "string \<Rightarrow> string \<Rightarrow> (webhook_error, bool) result" where
  "compare_digest a b = (if \<not> is_ascii a \<or> \<not> is_ascii b then Inl CompareTypeError else Inr (a = b))"

definition verify_hmac_signature ::
  "'m crypto_scheme \<Rightarrow> string \<Rightarrow> string \<Rightarrow> string \<Rightarrow> (webhook_error, unit) result" where
  "verify_hmac_signature C payload signature secret =
     (if secret = [] then Inl (WebhookSignatureError ''Webhook signature secret is not configured'')
      else
        (let expected_signature = compute_hmac_signature C payload secret in
         and_then (compare_digest expected_signature (lower signature)) (\<lambda>same.
           if \<not> same then Inl (WebhookSignatureError ''Invalid webhook signature'') else Inr ())))"

text \<open>\<open>now\<close> is the clock in seconds.\<close>

definition verify_timestamped_hmac_signature ::
  "'m crypto_scheme \<Rightarrow> string \<Rightarrow> string \<Rightarrow> int option \<Rightarrow> string \<Rightarrow> int \<Rightarrow> int \<Rightarrow> (webhook_error, int) result" where
  "verify_timestamped_hmac_signature C payload signature timestamp secret tolerance_seconds now =
     (if secret = [] then Inl (WebhookSignatureError ''Webhook signature secret is not configured'')
      else
        and_then (parse_webhook_signature_header signature) (\<lambda>(header_timestamp, parsed_signature).
          case (case timestamp of None \<Rightarrow> header_timestamp | Some t \<Rightarrow> Some t) of
            None \<Rightarrow> Inl (WebhookSignatureError ''Webhook timestamp is required'')
          | Some effective_timestamp \<Rightarrow>
              (let age_seconds = \<bar>now - effective_timestamp\<bar> in
               if age_seconds > tolerance_seconds
               then Inl (WebhookSignatureError ''Webhook timestamp is outside the replay window'')
               else
                 (let signing_message = build_timestamped_signing_message effective_timestamp payload;
                      expected_signature = compute_hmac_signature C signing_message secret in
                  and_then (compare_digest expected_signature parsed_signature) (\<lambda>same.
                    if \<not> same then Inl (WebhookSignatureError ''Invalid webhook signature'')
                    else Inr effective_timestamp)))))"

section \<open>Events\<close>

definition enforce_webhook_body_size :: "settings \<Rightarrow> string \<Rightarrow> ('w, unit) action" where
  "enforce_webhook_body_size cfg raw_body =
     ensures (\<not> int (length raw_body) > webhook_max_body_bytes cfg)
       (domain PayloadTooLargeError ''Webhook payload too large'')"

definition add_webhook_event :: "webhook_event \<Rightarrow> tables \<Rightarrow> tables" where
  "add_webhook_event e t = t\<lparr>webhook_events := webhook_events t @ [e]\<rparr>"

definition persist_webhook_event ::
  "'m crypto_scheme \<Rightarrow> time \<Rightarrow> int \<Rightarrow> string \<Rightarrow> string \<Rightarrow> string \<Rightarrow> ('r world, webhook_event) action" where
  "persist_webhook_event C now new_id provider event_id payload w =
     (let event = \<lparr>w_id = new_id, w_provider = provider, w_event_id = event_id,
            w_payload_hash = hash_payload C payload, w_received_at = now\<rparr> in
      case flush_commit (add_webhook_event event) w of
        (Inl IntegrityError, w1) \<Rightarrow>
          run_then rollback (\<lambda>_. raise (domain ConflictError ''Webhook event already processed'')) w1
      | (Inl e, w1) \<Rightarrow> (Inl e, w1)
      | (Inr _, w1) \<Rightarrow> (Inr event, w1))"

definition cleanup_old_webhook_events :: "settings \<Rightarrow> time \<Rightarrow> ('r world, int) action" where
  "cleanup_old_webhook_events cfg now =
     (let cutoff = now - webhook_event_retention_days cfg * day in
      run_then (reads (\<lambda>w. int (length (filter (\<lambda>e. w_received_at e < cutoff) (webhook_events (tx w))))))
      (\<lambda>deleted_count.
      run_then (flush_commit (\<lambda>t. t\<lparr>webhook_events := filter (\<lambda>e. \<not> w_received_at e < cutoff) (webhook_events t)\<rparr>))
      (\<lambda>_. ret deleted_count)))"

definition verify_inbound_webhook_signature ::
  "'m crypto_scheme \<Rightarrow> time \<Rightarrow> string \<Rightarrow> string option \<Rightarrow> string option \<Rightarrow> string \<Rightarrow> int \<Rightarrow> (exn, unit) result" where
  "verify_inbound_webhook_signature C now payload signature timestamp secret tolerance_seconds =
     (case signature of
        None \<Rightarrow> Inl (domain UnauthorizedError ''Webhook signature header is required'')
      | Some sig \<Rightarrow>
          and_then (case timestamp of
              None \<Rightarrow> Inr None
            | Some t \<Rightarrow> (case py_int (strip t) of
                None \<Rightarrow> Inl (domain UnauthorizedError ''Webhook timestamp must be a Unix timestamp'')
              | Some i \<Rightarrow> Inr (Some i)))
            (\<lambda>parsed_timestamp.
              (case verify_timestamped_hmac_signature C payload sig parsed_timestamp secret tolerance_seconds
                  (now div second) of
                 Inl (WebhookSignatureError msg) \<Rightarrow> Inl (domain UnauthorizedError msg)
               | Inl CompareTypeError \<Rightarrow> Inl (Unexpected ''TypeError'')
               | Inr _ \<Rightarrow> Inr ())))"

section \<open>Route\<close>

record webhook_inbound =
  wi_provider :: string
  wi_event_id :: string
  wi_event_type :: string
  wi_payload :: pydict

definition inbound_body :: "string \<Rightarrow> webhook_inbound \<Rightarrow> pyval" where
  "inbound_body status p = PDict [(''status'', PStr status), (''provider'', PStr (wi_provider p)),
     (''event_id'', PStr (wi_event_id p))]"

text \<open>\<open>response_model=WebhookInboundResponse\<close> on a returned body.\<close>

definition inbound_response :: "pyval \<Rightarrow> (exn, pyval) result" where
  "inbound_response v = (case v of
       PDict d \<Rightarrow> (case (dict_get d ''status'', dict_get d ''provider'', dict_get d ''event_id'') of
           (Some (PStr a), Some (PStr b), Some (PStr c)) \<Rightarrow>
             Inr (PDict [(''status'', PStr a), (''provider'', PStr b), (''event_id'', PStr c)])
         | _ \<Rightarrow> Inl (Unexpected ''ResponseValidationError''))
     | _ \<Rightarrow> Inl (Unexpected ''ResponseValidationError''))"

record webhook_request =
  wr_request :: request
  wr_idempotency_key :: "string option"
  wr_signature :: "string option"
  wr_timestamp :: "string option"
  wr_body :: string

text \<open>The part of the handler under the lock.\<close>

definition process_webhook ::
  "'m crypto_scheme \<Rightarrow> settings \<Rightarrow> ('r, 'n) redis_keys_scheme \<Rightarrow> (string \<Rightarrow> webhook_inbound option)
     \<Rightarrow> (tables \<Rightarrow> tables) \<Rightarrow> time \<Rightarrow> int \<Rightarrow> int \<Rightarrow> webhook_request \<Rightarrow> string \<Rightarrow> ('r world, int \<times> pyval) action" where
  "process_webhook C cfg K parse_inbound others now new_id record_id rq scope_key =
     run_then (lift_result (verify_inbound_webhook_signature C now (wr_body rq) (wr_signature rq) (wr_timestamp rq)
         (webhook_signature_secret cfg) (webhook_signature_tolerance_seconds cfg))) (\<lambda>_.
     run_then (case parse_inbound (wr_body rq) of None \<Rightarrow> raise (Unexpected ''ValidationError'') | Some p \<Rightarrow> ret p)
       (\<lambda>payload.
     run_then (enforce_webhook_provider_rate_limit K cfg now (wi_provider payload)) (\<lambda>_.
     (\<lambda>w. case persist_webhook_event C now new_id (wi_provider payload) (wi_event_id payload) (wr_body rq) w of
         (Inl e, w1) \<Rightarrow>
           if (case e of Domain d \<Rightarrow> de_class d = ConflictError | _ \<Rightarrow> False) then
             run_then (store_response cfg others now record_id scope_key 409 (inbound_body ''duplicate'' payload))
               (\<lambda>stored_record. lift_result (cached_json_response stored_record)) w1
           else (Inl e, w1)
       | (Inr _, w1) \<Rightarrow>
           run_then (store_response cfg others now record_id scope_key 200 (inbound_body ''accepted'' payload))
             (\<lambda>stored_record. lift_result (and_then (parse_cached_response_body stored_record) (\<lambda>v.
                and_then (inbound_response v) (\<lambda>body. Inr (200, body))))) w1))))"

definition inbound_webhook ::
  "'m crypto_scheme \<Rightarrow> settings \<Rightarrow> ('r, 'n) redis_keys_scheme \<Rightarrow> (string \<Rightarrow> webhook_inbound option)
     \<Rightarrow> (tables \<Rightarrow> tables) \<Rightarrow> time \<Rightarrow> int \<Rightarrow> int \<Rightarrow> webhook_request \<Rightarrow> ('r world, int \<times> pyval) action" where
  "inbound_webhook C cfg K parse_inbound others now new_id record_id rq = with_session
     (run_then (lift_result (get_idempotency_key (wr_idempotency_key rq))) (\<lambda>idempotency_key.
      run_then (webhook_ingress_rate_limit K cfg now (wr_request rq)) (\<lambda>_.
      run_then (enforce_webhook_body_size cfg (wr_body rq)) (\<lambda>_.
      run_then (lift_result (build_scope_key C ''webhooks:inbound'' idempotency_key)) (\<lambda>scope_key.
      run_then (begin_idempotent_request K cfg now scope_key) (\<lambda>(cached_record, lock_acquired).
      case cached_record of
        Some r \<Rightarrow> lift_result (cached_json_response r)
      | None \<Rightarrow>
          finally_do (process_webhook C cfg K parse_inbound others now new_id record_id rq scope_key)
            (if lock_acquired then release_idempotency_lock K now scope_key else noop)))))))"


section \<open>Lemmas\<close>

text \<open>What an accepted signature means: the sender knew the secret, and signed this body for this time.\<close>

definition authentic :: "'m crypto_scheme \<Rightarrow> settings \<Rightarrow> time \<Rightarrow> webhook_request \<Rightarrow> bool" where
  "authentic C cfg now rq \<longleftrightarrow> webhook_signature_secret cfg \<noteq> [] \<and>
     (\<exists>sig h ts. wr_signature rq = Some sig
        \<and> parse_webhook_signature_header sig
            = Inr (h, compute_timestamped_hmac_signature C ts (wr_body rq) (webhook_signature_secret cfg))
        \<and> (case wr_timestamp rq of None \<Rightarrow> h = Some ts | Some t \<Rightarrow> py_int (strip t) = Some ts)
        \<and> \<bar>now div second - ts\<bar> \<le> webhook_signature_tolerance_seconds cfg)"

lemma compare_digest_Inr: "compare_digest a b = Inr True \<longleftrightarrow> a = b \<and> is_ascii a"
  by (auto simp: compare_digest_def)

lemma verify_timestamped_Inr:
  assumes "verify_timestamped_hmac_signature C payload sig timestamp secret tol now = Inr ts"
  shows "secret \<noteq> [] \<and> (\<exists>h. parse_webhook_signature_header sig
      = Inr (h, compute_timestamped_hmac_signature C ts payload secret)
    \<and> (case timestamp of None \<Rightarrow> h = Some ts | Some t \<Rightarrow> t = ts)) \<and> \<bar>now - ts\<bar> \<le> tol"
  using assms
  by (auto simp: verify_timestamped_hmac_signature_def and_then_Inr_iff compute_timestamped_hmac_signature_def
      compare_digest_def Let_def split: option.splits if_splits)

lemma verify_inbound_authentic:
  assumes "verify_inbound_webhook_signature C now (wr_body rq) (wr_signature rq) (wr_timestamp rq)
      (webhook_signature_secret cfg) (webhook_signature_tolerance_seconds cfg) = Inr ()"
  shows "authentic C cfg now rq"
proof -
  obtain sig where sig: "wr_signature rq = Some sig"
    using assms by (auto simp: verify_inbound_webhook_signature_def split: option.splits)
  obtain pt ts where "verify_timestamped_hmac_signature C (wr_body rq) sig pt (webhook_signature_secret cfg)
      (webhook_signature_tolerance_seconds cfg) (now div second) = Inr ts"
    "(case wr_timestamp rq of None \<Rightarrow> pt = None | Some t \<Rightarrow> pt = py_int (strip t) \<and> pt \<noteq> None)"
    using assms sig
    by (auto simp: verify_inbound_webhook_signature_def and_then_Inr_iff
        split: option.splits sum.splits webhook_error.splits)
  note v = this
  obtain h where h: "webhook_signature_secret cfg \<noteq> []"
    "parse_webhook_signature_header sig
      = Inr (h, compute_timestamped_hmac_signature C ts (wr_body rq) (webhook_signature_secret cfg))"
    "case pt of None \<Rightarrow> h = Some ts | Some t \<Rightarrow> t = ts"
    "\<bar>now div second - ts\<bar> \<le> webhook_signature_tolerance_seconds cfg"
    using verify_timestamped_Inr [OF v(1)] by blast
  have "case wr_timestamp rq of None \<Rightarrow> h = Some ts | Some t \<Rightarrow> py_int (strip t) = Some ts"
    using v(2) h(3) by (cases "wr_timestamp rq") auto
  then show ?thesis using sig h unfolding authentic_def by blast
qed

lemma add_webhook_event_schema_ok:
  assumes "schema_ok t"
  shows "schema_ok (add_webhook_event e t) \<longleftrightarrow> w_id e \<notin> w_id ` set (webhook_events t)
    \<and> (w_provider e, w_event_id e) \<notin> (\<lambda>e. (w_provider e, w_event_id e)) ` set (webhook_events t)"
  using assms by (auto simp: schema_ok_def table_oks unique_by_def add_webhook_event_def)

lemma provider_limit_same_db: "same_db w (snd (enforce_webhook_provider_rate_limit K cfg now p w))"
  by (simp add: enforce_webhook_provider_rate_limit_def Let_def enforce_same_db)

lemma provider_limit_state:
  "enforce_webhook_provider_rate_limit K cfg now p w = (res, w') \<Longrightarrow> stored w' = stored w \<and> tx w' = tx w"
  using provider_limit_same_db [of w K cfg now p] by (simp add: same_db_def)

lemma ingress_limit_state:
  "webhook_ingress_rate_limit K cfg now req w = (res, w') \<Longrightarrow> stored w' = stored w \<and> tx w' = tx w"
  using enforce_same_db [of w K now] by (simp add: webhook_ingress_rate_limit_def same_db_def) (metis snd_conv)

lemma add_record_events [simp]: "webhook_events (add_record r t) = webhook_events t"
  by (simp add: add_record_def)

lemma store_response_events:
  assumes "\<And>t. webhook_events (others t) = webhook_events t"
    and "store_response cfg others now rid key status body w = (res, w')" and "tx w = stored w"
  shows "webhook_events (stored w') = webhook_events (stored w)"
  using assms
  by (auto simp: store_response_def interfere_def flush_commit_cases run_then_def rollback_def Let_def
      split: if_splits option.splits)

lemma persist_cases:
  assumes "schema_ok (tx w)" and "tx w = stored w"
  shows "\<exists>e. w_id e = new_id \<and> w_provider e = provider \<and> w_event_id e = event_id
    \<and> w_payload_hash e = hash_payload C payload \<and> w_received_at e = now
    \<and> persist_webhook_event C now new_id provider event_id payload w =
      (if new_id \<notin> w_id ` set (webhook_events (tx w))
          \<and> (provider, event_id) \<notin> (\<lambda>e. (w_provider e, w_event_id e)) ` set (webhook_events (tx w))
       then (Inr e, w\<lparr>tx := add_webhook_event e (tx w), stored := add_webhook_event e (tx w)\<rparr>)
       else (Inl (domain ConflictError ''Webhook event already processed''), w))"
  using add_webhook_event_schema_ok [OF assms(1)] assms(2)
  by (intro exI [of _ "\<lparr>w_id = new_id, w_provider = provider, w_event_id = event_id,
      w_payload_hash = hash_payload C payload, w_received_at = now\<rparr>"])
    (simp add: persist_webhook_event_def flush_commit_cases run_then_def rollback_def Let_def)


text \<open>What a request may do to the stored events.\<close>

definition records_event :: "'m crypto_scheme \<Rightarrow> settings \<Rightarrow> (string \<Rightarrow> webhook_inbound option) \<Rightarrow> time
    \<Rightarrow> webhook_request \<Rightarrow> tables \<Rightarrow> tables \<Rightarrow> bool" where
  "records_event C cfg parse_inbound now rq t t' \<longleftrightarrow> authentic C cfg now rq \<and>
     (\<exists>p e. parse_inbound (wr_body rq) = Some p \<and> webhook_events t' = webhook_events t @ [e]
        \<and> w_provider e = wi_provider p \<and> w_event_id e = wi_event_id p
        \<and> w_payload_hash e = hash_payload C (wr_body rq) \<and> w_received_at e = now
        \<and> (wi_provider p, wi_event_id p) \<notin> (\<lambda>e. (w_provider e, w_event_id e)) ` set (webhook_events t))"

lemma process_webhook_events:
  assumes "schema_ok (stored w)" and "tx w = stored w" and o: "\<And>t. webhook_events (others t) = webhook_events t"
    and "process_webhook C cfg K parse_inbound others now new_id record_id rq key w = (res, w')"
  shows "webhook_events (stored w') = webhook_events (stored w)
    \<or> records_event C cfg parse_inbound now rq (stored w) (stored w')"
proof (cases "verify_inbound_webhook_signature C now (wr_body rq) (wr_signature rq) (wr_timestamp rq)
      (webhook_signature_secret cfg) (webhook_signature_tolerance_seconds cfg)")
  case (Inl e)
  then show ?thesis using assms(4) by (simp add: process_webhook_def)
next
  case (Inr u)
  note sig = this and auth = verify_inbound_authentic [of C now rq cfg]
  show ?thesis
  proof (cases "parse_inbound (wr_body rq)")
    case None
    then show ?thesis using assms(4) sig by (simp add: process_webhook_def)
  next
    case (Some p)
    obtain lres w1 where lim: "enforce_webhook_provider_rate_limit K cfg now (wi_provider p) w = (lres, w1)" by force
    have w1: "stored w1 = stored w" "tx w1 = stored w"
      using provider_limit_state [OF lim] assms(2) by simp_all
    show ?thesis
    proof (cases lres)
      case (Inl e)
      then show ?thesis using assms(4) sig Some lim w1 by (simp add: process_webhook_def)
    next
      case lim_ok: (Inr u')
      obtain e where e: "w_provider e = wi_provider p" "w_event_id e = wi_event_id p"
        "w_payload_hash e = hash_payload C (wr_body rq)" "w_received_at e = now"
        "persist_webhook_event C now new_id (wi_provider p) (wi_event_id p) (wr_body rq) w1 =
          (if new_id \<notin> w_id ` set (webhook_events (tx w1))
              \<and> (wi_provider p, wi_event_id p) \<notin> (\<lambda>e. (w_provider e, w_event_id e)) ` set (webhook_events (tx w1))
           then (Inr e, w1\<lparr>tx := add_webhook_event e (tx w1), stored := add_webhook_event e (tx w1)\<rparr>)
           else (Inl (domain ConflictError ''Webhook event already processed''), w1))"
        using persist_cases [where w = w1 and new_id = new_id and provider = "wi_provider p"
            and event_id = "wi_event_id p" and C = C and payload = "wr_body rq" and now = now]
          assms(1) w1 by auto
      show ?thesis
      proof (cases "new_id \<notin> w_id ` set (webhook_events (tx w1))
          \<and> (wi_provider p, wi_event_id p) \<notin> (\<lambda>e. (w_provider e, w_event_id e)) ` set (webhook_events (tx w1))")
        case True
        let ?w2 = "w1\<lparr>tx := add_webhook_event e (tx w1), stored := add_webhook_event e (tx w1)\<rparr>"
        obtain sres w3 where st: "store_response cfg others now record_id key 200 (inbound_body ''accepted'' p) ?w2
            = (sres, w3)" by force
        have "stored w' = stored w3"
          using assms(4) sig Some lim lim_ok e(5) True st
          by (cases sres) (auto simp: process_webhook_def run_then_def)
        moreover have "webhook_events (stored w3) = webhook_events (stored w) @ [e]"
          using store_response_events [OF o st] w1 by (simp add: add_webhook_event_def)
        ultimately show ?thesis
          using auth sig Some e True w1 unfolding records_event_def by auto
      next
        case False
        obtain sres w3 where st: "store_response cfg others now record_id key 409 (inbound_body ''duplicate'' p) w1
            = (sres, w3)" by force
        have "stored w' = stored w3"
          using assms(4) sig Some lim lim_ok e(5) False st
          by (cases sres) (auto simp: process_webhook_def run_then_def DomainError_def)
        then show ?thesis using store_response_events [OF o st] w1 by simp
      qed
    qed
  qed
qed

text \<open>The steps before and after do not touch the database.\<close>

lemma begin_state:
  "begin_idempotent_request K cfg now key w = (res, w') \<Longrightarrow> stored w' = stored w \<and> tx w' = tx w"
  by (auto simp: begin_cases split: option.splits if_splits)

lemma release_state:
  "release_idempotency_lock K now key w = (res, w') \<Longrightarrow> stored w' = stored w \<and> tx w' = tx w"
  by (auto simp: release_idempotency_lock_def split: option.splits)

text \<open>The part under the lock: an error, a replay or the admission of the request.\<close>

lemma locked_part:
  assumes "run_then (begin_idempotent_request K cfg now key) (\<lambda>(cached_record, lock_acquired).
      case cached_record of
        Some r \<Rightarrow> lift_result (cached_json_response r)
      | None \<Rightarrow>
          finally_do (process_webhook C cfg K parse_inbound others now new_id record_id rq key)
            (if lock_acquired then release_idempotency_lock K now key else noop)) w1 = (res, x)"
    and "stored w1 = t" "tx w1 = t"
  obtains (refused) e where "res = Inl e" "stored x = t"
    | (replayed) r where "get_cached_response t now key = Some r" "res = cached_json_response r" "stored x = t"
    | (admitted) w2 w3 pres where "stored w2 = t" "tx w2 = t" "get_cached_response t now key = None"
        "process_webhook C cfg K parse_inbound others now new_id record_id rq key w2 = (pres, w3)"
        "stored x = stored w3" "res = pres \<or> res = Inl RedisError"
proof -
  obtain bres w2 where b: "begin_idempotent_request K cfg now key w1 = (bres, w2)" by force
  have w2: "stored w2 = t" "tx w2 = t" using begin_state [OF b] assms(2,3) by simp_all
  consider (err) e where "bres = Inl e" | (hit) r a where "bres = Inr (Some r, a)" | (miss) a where "bres = Inr (None, a)"
    by (cases bres) (auto, metis not_Some_eq)
  then show ?thesis
  proof cases
    case err
    then show ?thesis using assms(1) b w2 refused by auto
  next
    case hit
    then have "get_cached_response t now key = Some r"
      using b assms(3) by (auto simp: begin_cases split: option.splits if_splits)
    then show ?thesis using assms(1) b w2 hit replayed by auto
  next
    case miss
    have none: "get_cached_response t now key = None"
      using b miss assms(3) by (auto simp: begin_cases split: option.splits if_splits)
    obtain pres w3 where p: "process_webhook C cfg K parse_inbound others now new_id record_id rq key w2 = (pres, w3)"
      by force
    have f: "finally_do (process_webhook C cfg K parse_inbound others now new_id record_id rq key)
        (if a then release_idempotency_lock K now key else noop) w2 = (res, x)"
      using assms(1) b miss by simp
    obtain rres w4 where rel: "release_idempotency_lock K now key w3 = (rres, w4)" by force
    have "(res = pres \<or> res = Inl RedisError) \<and> stored x = stored w3"
      using f p rel release_state [OF rel]
      by (auto simp: finally_do_def release_idempotency_lock_def split: option.splits if_splits)
    then show ?thesis using admitted [OF w2 none p] by simp
  qed
qed

text \<open>How a request gets to the part under the lock, or why it does not.\<close>

lemma inbound_webhook_route:
  assumes "inbound_webhook C cfg K parse_inbound others now new_id record_id rq w = (res, w')"
  obtains (refused) e where "res = Inl e" "stored w' = stored w"
    | (replayed) k key r where "get_idempotency_key (wr_idempotency_key rq) = Inr k"
        "build_scope_key C ''webhooks:inbound'' k = Inr key" "get_cached_response (stored w) now key = Some r"
        "res = cached_json_response r" "stored w' = stored w"
    | (admitted) k key w1 w2 pres where "get_idempotency_key (wr_idempotency_key rq) = Inr k"
        "build_scope_key C ''webhooks:inbound'' k = Inr key" "stored w1 = stored w" "tx w1 = stored w"
        "get_cached_response (stored w) now key = None"
        "process_webhook C cfg K parse_inbound others now new_id record_id rq key w1 = (pres, w2)"
        "stored w' = stored w2" "res = pres \<or> res = Inl RedisError"
proof -
  let ?w0 = "w\<lparr>tx := stored w\<rparr>"
  let ?locked = "\<lambda>key. run_then (begin_idempotent_request K cfg now key) (\<lambda>(cached_record, lock_acquired).
      case cached_record of
        Some r \<Rightarrow> lift_result (cached_json_response r)
      | None \<Rightarrow>
          finally_do (process_webhook C cfg K parse_inbound others now new_id record_id rq key)
            (if lock_acquired then release_idempotency_lock K now key else noop))"
  obtain x where x: "run_then (lift_result (get_idempotency_key (wr_idempotency_key rq))) (\<lambda>idempotency_key.
      run_then (webhook_ingress_rate_limit K cfg now (wr_request rq)) (\<lambda>_.
      run_then (enforce_webhook_body_size cfg (wr_body rq)) (\<lambda>_.
      run_then (lift_result (build_scope_key C ''webhooks:inbound'' idempotency_key)) ?locked))) ?w0 = (res, x)"
    "stored w' = stored x"
    using assms unfolding inbound_webhook_def with_session_res by auto
  show ?thesis
  proof (cases "get_idempotency_key (wr_idempotency_key rq)")
    case (Inl e)
    then show ?thesis using x refused by auto
  next
    case k: (Inr k)
    obtain lres w1 where lim: "webhook_ingress_rate_limit K cfg now (wr_request rq) ?w0 = (lres, w1)" by force
    have w1: "stored w1 = stored w" "tx w1 = stored w" using ingress_limit_state [OF lim] by simp_all
    show ?thesis
    proof (cases "lres = Inr () \<and> (\<exists>key. build_scope_key C ''webhooks:inbound'' k = Inr key)
        \<and> \<not> int (length (wr_body rq)) > webhook_max_body_bytes cfg")
      case False
      then show ?thesis
        using x k lim w1 refused
        by (cases lres; cases "build_scope_key C ''webhooks:inbound'' k")
          (auto simp: enforce_webhook_body_size_def run_then_def split: if_splits)
    next
      case True
      then obtain key where key: "build_scope_key C ''webhooks:inbound'' k = Inr key" by blast
      have "?locked key w1 = (res, x)"
        using x(1) k lim True key by (simp add: enforce_webhook_body_size_def)
      from locked_part [OF this w1] show ?thesis
        using k key x(2) refused replayed admitted by cases metis+
    qed
  qed
qed

lemma loads_inbound [simp]: "loads (dumps (inbound_body status p)) = Some (inbound_body status p)"
  by (intro loads_dumps) (simp add: inbound_body_def)

lemma inbound_response_body [simp]: "inbound_response (inbound_body status p) = Inr (inbound_body status p)"
  by (simp add: inbound_response_def inbound_body_def)

text \<open>A processed request leaves the record of the answer it gives.\<close>

lemma process_webhook_stores:
  assumes "schema_ok (stored w)" and "tx w = stored w" and "rid \<notin> i_id ` set (idempotency_records (stored w))"
    and "get_cached_response (stored w) now key = None"
    and "process_webhook C cfg K parse_inbound (\<lambda>t. t) now new_id rid rq key w = (Inr (status, body), w')"
  shows "\<exists>r \<in> set (idempotency_records (stored w')). i_scope_key r = key
    \<and> i_expires_at r = now + idempotency_ttl_seconds cfg * second
    \<and> cached_json_response r = Inr (status, body)"
proof -
  obtain p lu w1 where p: "parse_inbound (wr_body rq) = Some p"
    and lim: "enforce_webhook_provider_rate_limit K cfg now (wi_provider p) w = (Inr lu, w1)"
    and rest: "(case persist_webhook_event C now new_id (wi_provider p) (wi_event_id p) (wr_body rq) w1 of
         (Inl e, w1) \<Rightarrow>
           if (case e of Domain d \<Rightarrow> de_class d = ConflictError | _ \<Rightarrow> False) then
             run_then (store_response cfg (\<lambda>t. t) now rid key 409 (inbound_body ''duplicate'' p))
               (\<lambda>stored_record. lift_result (cached_json_response stored_record)) w1
           else (Inl e, w1)
       | (Inr _, w1) \<Rightarrow>
           run_then (store_response cfg (\<lambda>t. t) now rid key 200 (inbound_body ''accepted'' p))
             (\<lambda>stored_record. lift_result (and_then (parse_cached_response_body stored_record) (\<lambda>v.
                and_then (inbound_response v) (\<lambda>body. Inr (200, body))))) w1) = (Inr (status, body), w')"
    using assms(5) by (auto simp: process_webhook_def run_then_Inr_iff split: option.splits sum.splits)
  have w1: "stored w1 = stored w" "tx w1 = stored w" using provider_limit_state [OF lim] assms(2) by simp_all
  obtain e where e: "persist_webhook_event C now new_id (wi_provider p) (wi_event_id p) (wr_body rq) w1 =
      (if new_id \<notin> w_id ` set (webhook_events (tx w1))
          \<and> (wi_provider p, wi_event_id p) \<notin> (\<lambda>e. (w_provider e, w_event_id e)) ` set (webhook_events (tx w1))
       then (Inr e, w1\<lparr>tx := add_webhook_event e (tx w1), stored := add_webhook_event e (tx w1)\<rparr>)
       else (Inl (domain ConflictError ''Webhook event already processed''), w1))"
    "w_id e = new_id" "w_provider e = wi_provider p" "w_event_id e = wi_event_id p"
    using persist_cases [where w = w1 and new_id = new_id and provider = "wi_provider p"
        and event_id = "wi_event_id p" and C = C and payload = "wr_body rq" and now = now] assms(1) w1 by auto
  let ?rec = "\<lambda>st b. \<lparr>i_id = rid, i_scope_key = key, i_status_code = st, i_response_body = dumps b,
     i_created_at = now, i_expires_at = now + idempotency_ttl_seconds cfg * second\<rparr>"
  have store: "store_response cfg (\<lambda>t. t) now rid key st b w2 = (Inr r, w3) \<Longrightarrow>
      r = ?rec st b \<and> r \<in> set (idempotency_records (stored w3))"
    if "schema_ok (tx w2)" "tx w2 = stored w2" "idempotency_records (tx w2) = idempotency_records (stored w)"
    for st b w2 r w3
  proof -
    assume s: "store_response cfg (\<lambda>t. t) now rid key st b w2 = (Inr r, w3)"
    have n: "get_cached_response (tx w2) now key = None" using assms(4) that(3) by (simp add: get_cached_response_def)
    show ?thesis
      using s store_response_cases [OF that(1,2)] assms(3) that(3) n
      by (auto simp: Let_def add_record_def split: if_splits)
  qed
  show ?thesis
  proof (cases "new_id \<notin> w_id ` set (webhook_events (tx w1))
      \<and> (wi_provider p, wi_event_id p) \<notin> (\<lambda>e. (w_provider e, w_event_id e)) ` set (webhook_events (tx w1))")
    case True
    let ?w2 = "w1\<lparr>tx := add_webhook_event e (tx w1), stored := add_webhook_event e (tx w1)\<rparr>"
    obtain r w3 where r: "store_response cfg (\<lambda>t. t) now rid key 200 (inbound_body ''accepted'' p) ?w2 = (Inr r, w3)"
      and fin: "and_then (parse_cached_response_body r) (\<lambda>v. and_then (inbound_response v) (\<lambda>body. Inr (200, body)))
        = Inr (status, body)" "w' = w3"
      using rest e(1) True by (auto simp: run_then_Inr_iff)
    have "schema_ok (add_webhook_event e (tx w1))"
      using add_webhook_event_schema_ok assms(1) w1 e(2-4) True by simp
    then have "r = ?rec 200 (inbound_body ''accepted'' p) \<and> r \<in> set (idempotency_records (stored w3))"
      using store [OF _ _ _ r] w1 by (auto simp: add_webhook_event_def)
    then show ?thesis using fin
      by (intro bexI [of _ r]) (auto simp: cached_json_response_def parse_cached_response_body_def)
  next
    case False
    obtain r w3 where r: "store_response cfg (\<lambda>t. t) now rid key 409 (inbound_body ''duplicate'' p) w1 = (Inr r, w3)"
      and fin: "cached_json_response r = Inr (status, body)" "w' = w3"
      using rest e(1) False by (auto simp: run_then_Inr_iff DomainError_def split: if_splits)
    have "r = ?rec 409 (inbound_body ''duplicate'' p) \<and> r \<in> set (idempotency_records (stored w3))"
      using store [OF _ _ _ r] w1 assms(1) by auto
    then show ?thesis using fin by (intro bexI [of _ r]) auto
  qed
qed

lemma keeps_inbound_webhook:
  fixes K :: "('r, 'n) redis_keys_scheme"
  assumes "\<And>t. schema_ok t \<Longrightarrow> schema_ok (others t)"
  shows "keeps world_ok (inbound_webhook C cfg K parse_inbound others now new_id record_id rq)"
proof -
  have s: "keeps world_ok (store_response cfg others now rid key st b :: ('r world, idempotency_record) action)"
    for key rid st b
    unfolding keeps_def
  proof (intro allI impI)
    fix w :: "'r world"
    assume w: "world_ok w"
    define rc where "rc = \<lparr>i_id = rid, i_scope_key = key, i_status_code = st, i_response_body = dumps b,
      i_created_at = now, i_expires_at = now + idempotency_ttl_seconds cfg * second\<rparr>"
    have k: "keeps world_ok (run_then (interfere others) (\<lambda>_. flush_commit (add_record rc)) :: ('r world, unit) action)"
      by (rule keeps_run_then [OF keeps_interfere]) (simp_all add: assms)
    obtain r w1 where m: "run_then (interfere others) (\<lambda>_. flush_commit (add_record rc)) w = (r, w1)" by force
    have "world_ok w1" by (rule keepsD [OF k w m])
    then have w1: "world_ok w1" "world_ok (w1\<lparr>tx := stored w1\<rparr>)" by (simp_all add: world_ok_def)
    have e: "store_response cfg others now rid key st b w = (case (r, w1) of
        (Inl IntegrityError, w1) \<Rightarrow>
          run_then rollback (\<lambda>_. run_then (reads (\<lambda>w. get_cached_response (tx w) now key)) (\<lambda>x. case x of
            None \<Rightarrow> raise IntegrityError | Some existing_record \<Rightarrow> ret existing_record)) w1
      | (Inl e, w1) \<Rightarrow> (Inl e, w1)
      | (Inr _, w1) \<Rightarrow> (Inr rc, w1))"
      unfolding store_response_def rc_def [symmetric] Let_def m ..
    show "world_ok (snd (store_response cfg others now rid key st b w))"
      unfolding e using w1 by (cases r) (auto simp: run_then_def rollback_def split: exn.split option.split)
  qed
  have p: "keeps world_ok (persist_webhook_event C now new_id pr ev body :: ('r world, webhook_event) action)"
    for pr ev body
    by (auto simp: keeps_def persist_webhook_event_def Let_def run_then_def rollback_def flush_commit_cases world_ok_def)
  have c: "keeps world_ok (\<lambda>w. case persist_webhook_event C now new_id pr ev body w of
      (Inl e, w1) \<Rightarrow> if q e then m w1 else (Inl e, w1) | (Inr u, w1) \<Rightarrow> m' w1)"
    if "keeps world_ok m" "keeps world_ok m'" for pr ev body q and m m' :: "('r world, int \<times> pyval) action"
    using p that unfolding keeps_def by (auto split: prod.splits sum.splits) (metis snd_conv)+
  have "keeps world_ok (process_webhook C cfg K parse_inbound others now new_id record_id rq key)" for key
    unfolding process_webhook_def by (intro keeps_run_then c s) (auto split: option.splits)
  then show ?thesis
    unfolding inbound_webhook_def enforce_webhook_body_size_def
    by (auto intro!: keeps_with_session keeps_run_then keeps_finally_do split: option.splits prod.splits)
qed

text \<open>
  Two faults of the sender that end in an internal error: a signature with a character outside ASCII, and
  a correctly signed body that is not the expected JSON.
\<close>

lemma non_ascii_signature_crashes:
  assumes "secret \<noteq> []" and "parse_webhook_signature_header sig = Inr (h, s)" and "\<not> is_ascii s"
    and "\<bar>now div second - ts\<bar> \<le> tol" and "py_int (strip t) = Some ts"
  shows "verify_inbound_webhook_signature C now body (Some sig) (Some t) secret tol = Inl (Unexpected ''TypeError'')"
  using assms
  by (simp add: verify_inbound_webhook_signature_def verify_timestamped_hmac_signature_def compare_digest_def Let_def)

lemma malformed_body_crashes:
  assumes "verify_inbound_webhook_signature C now (wr_body rq) (wr_signature rq) (wr_timestamp rq)
      (webhook_signature_secret cfg) (webhook_signature_tolerance_seconds cfg) = Inr ()"
    and "parse_inbound (wr_body rq) = None"
  shows "exn_status (projl (fst (process_webhook C cfg K parse_inbound others now new_id rid rq key w))) = 500"
  using assms by (simp add: process_webhook_def)

section \<open>Properties\<close>

text \<open>
  C5: only authentic webhooks are recorded, and each event once. A request leaves the stored events as
  they are, or its signature is the HMAC of its timestamp and body under the configured secret, the
  timestamp lies in the replay window, and exactly the event it names was added, which had not been stored
  before.
\<close>

theorem webhook_events_authentic:
  assumes "world_ok w" and "\<And>t. webhook_events (others t) = webhook_events t"
    and "inbound_webhook C cfg K parse_inbound others now new_id record_id rq w = (res, w')"
  shows "webhook_events (stored w') = webhook_events (stored w)
    \<or> records_event C cfg parse_inbound now rq (stored w) (stored w')"
  using assms(3)
proof (cases rule: inbound_webhook_route)
  case (admitted k key w1 w2 pres)
  have "schema_ok (stored w1)" "tx w1 = stored w1" using admitted assms(1) by (simp_all add: world_ok_def)
  from process_webhook_events [OF this assms(2) admitted(6)] show ?thesis using admitted by simp
qed simp_all

text \<open>A stored answer is handed out before any signature is looked at.\<close>

lemma replay_without_signature:
  assumes "get_idempotency_key (wr_idempotency_key rq) = Inr k" "build_scope_key C ''webhooks:inbound'' k = Inr key"
    and "get_cached_response (stored w) now key = Some r" "int (length (wr_body rq)) \<le> webhook_max_body_bytes cfg"
    and "fst (webhook_ingress_rate_limit K cfg now (wr_request rq) (w\<lparr>tx := stored w\<rparr>)) = Inr ()"
  shows "fst (inbound_webhook C cfg K parse_inbound others now new_id record_id (rq\<lparr>wr_signature := sig\<rparr>) w)
    = cached_json_response r"
proof -
  obtain w1 where lim: "webhook_ingress_rate_limit K cfg now (wr_request rq) (w\<lparr>tx := stored w\<rparr>) = (Inr (), w1)"
    using assms(5) by (metis prod.collapse)
  have "stored w1 = stored w" "tx w1 = stored w" using ingress_limit_state [OF lim] by simp_all
  then show ?thesis
    using assms(1-4) lim
    by (simp add: inbound_webhook_def with_session_def enforce_webhook_body_size_def begin_cases split: prod.split)
qed



section \<open>A webhook in the small installation\<close>

abbreviation webhook_cfg :: settings where
  "webhook_cfg \<equiv> example_cfg\<lparr>webhook_signature_secret := ''k''\<rparr>"

definition example_inbound :: webhook_inbound where
  "example_inbound = \<lparr>wi_provider = ''payments'', wi_event_id = ''evt_1'', wi_event_type = ''paid'', wi_payload = []\<rparr>"

definition example_webhook :: webhook_request where
  "example_webhook = \<lparr>wr_request = example_request, wr_idempotency_key = Some ''key'',
     wr_signature = Some ''k|0.body'', wr_timestamp = Some ''0'', wr_body = ''body''\<rparr>"

definition example_receive :: "time \<Rightarrow> int \<Rightarrow> store world \<Rightarrow> (exn, int \<times> pyval) result \<times> store world" where
  "example_receive t i = inbound_webhook ref_crypto webhook_cfg store_keys (\<lambda>body. Some example_inbound) (\<lambda>t. t)
     t i i example_webhook"

lemma example_signature:
  "verify_inbound_webhook_signature ref_crypto 0 ''body'' (Some ''k|0.body'') (Some ''0'') ''k'' 300 = Inr ()"
  by code_simp

lemma store_counter_first:
  assumes "st_entries (redis w) key = None" and "1 \<le> limit"
  shows "enforce_rate_limit_counter store_keys now key limit win w
    = (Inr (), w\<lparr>redis := put_entry key (Some (show_int 1, Some (now + win * second)))
        (put_entry key (Some (show_int 1, None)) (redis w))\<rparr>)"
  using assms by (simp add: enforce_rate_limit_counter_def alive_def)

lemma example_webhook_accepted:
  "\<exists>w1. example_receive 0 1 example_world = (Inr (200, inbound_body ''accepted'' example_inbound), w1)
    \<and> webhook_events (stored w1) \<noteq> [] \<and> idempotency_records (stored w1) \<noteq> []"
proof -
  have k: "get_idempotency_key (Some ''key'') = Inr ''key''" by code_simp
  obtain key where key: "build_scope_key ref_crypto ''webhooks:inbound'' ''key'' = Inr key"
  proof -
    have "strip ''key'' \<noteq> []" by code_simp
    then show ?thesis using that by (simp add: build_scope_key_def Let_def)
  qed
  let ?ik = "''rate_limit:webhook_ingress:'' @ get_client_ip webhook_cfg example_request"
  let ?pk = "''rate_limit:webhook_provider:'' @ ''payments''"
  have prov: "lower (strip ''payments'') = ''payments''" by code_simp
  define r1 where "r1 = put_entry ?ik (Some (show_int 1, Some (60 * second))) (put_entry ?ik (Some (show_int 1, None)) empty_store)"
  define r2 where "r2 = put_entry (idempotency_lock_key key) (Some (''1'', Some (60 * second))) r1"
  have lim: "webhook_ingress_rate_limit store_keys webhook_cfg 0 example_request
      (example_world\<lparr>tx := example_tables\<rparr>) = (Inr (), example_world\<lparr>tx := example_tables, redis := r1\<rparr>)"
    unfolding webhook_ingress_rate_limit_def by (subst store_counter_first) (simp_all add: default_settings_def r1_def)
  have e1: "st_entries r1 (idempotency_lock_key key) = None"
    by (simp add: r1_def idempotency_lock_key_def IDEMPOTENCY_LOCK_PREFIX_def)
  have b: "begin_idempotent_request store_keys webhook_cfg 0 key (example_world\<lparr>tx := example_tables, redis := r1\<rparr>)
      = (Inr (None, True), example_world\<lparr>tx := example_tables, redis := r2\<rparr>)"
    using e1 by (simp add: begin_cases get_cached_response_def example_tables_def empty_tables_def alive_def
        default_settings_def r2_def)
  have e2: "st_entries r2 ?pk = None"
    by (simp add: r2_def r1_def idempotency_lock_key_def IDEMPOTENCY_LOCK_PREFIX_def)
  define w2 where "w2 = example_world\<lparr>tx := example_tables, redis := r2\<rparr>"
  obtain r3 where p: "enforce_webhook_provider_rate_limit store_keys webhook_cfg 0 ''payments'' w2
      = (Inr (), w2\<lparr>redis := r3\<rparr>)"
    unfolding enforce_webhook_provider_rate_limit_def prov Let_def
    using store_counter_first [of w2 ?pk "webhook_provider_rate_limit_limit webhook_cfg"] e2
    by (simp add: w2_def default_settings_def)
  have ok: "schema_ok example_tables" using example_world_ok by (simp add: world_ok_def)
  obtain e where e: "persist_webhook_event ref_crypto 0 1 ''payments'' ''evt_1'' ''body'' (w2\<lparr>redis := r3\<rparr>)
      = (Inr e, w2\<lparr>redis := r3, tx := add_webhook_event e example_tables, stored := add_webhook_event e example_tables\<rparr>)"
    "w_id e = 1"
    using persist_cases [of "w2\<lparr>redis := r3\<rparr>" 1 "''payments''" "''evt_1''" ref_crypto "''body''" 0] ok
    by (auto simp: w2_def example_tables_def empty_tables_def)
  define w4 where "w4 = w2\<lparr>redis := r3, tx := add_webhook_event e example_tables, stored := add_webhook_event e example_tables\<rparr>"
  have ok4: "schema_ok (tx w4)"
    using ok e(2) by (simp add: w4_def add_webhook_event_schema_ok example_tables_def empty_tables_def)
  obtain r where r: "store_response webhook_cfg (\<lambda>t. t) 0 1 key 200 (inbound_body ''accepted'' example_inbound) w4
      = (Inr r, w4\<lparr>tx := add_record r (tx w4), stored := add_record r (tx w4)\<rparr>)"
    "i_response_body r = dumps (inbound_body ''accepted'' example_inbound)"
    using store_response_cases [OF ok4, of 1 webhook_cfg 0 key 200 "inbound_body ''accepted'' example_inbound"]
    by (simp add: w4_def add_webhook_event_def example_tables_def empty_tables_def Let_def)
  have sig: "verify_inbound_webhook_signature ref_crypto 0 ''body'' (Some ''k|0.body'') (Some ''0'')
      (webhook_signature_secret webhook_cfg) (webhook_signature_tolerance_seconds webhook_cfg) = Inr ()"
    using example_signature by (simp add: default_settings_def)
  have proc: "process_webhook ref_crypto webhook_cfg store_keys (\<lambda>body. Some example_inbound) (\<lambda>t. t) 0 1 1
      example_webhook key w2 = (Inr (200, inbound_body ''accepted'' example_inbound),
        w4\<lparr>tx := add_record r (tx w4), stored := add_record r (tx w4)\<rparr>)"
    using sig p e(1) r
    by (simp add: process_webhook_def example_webhook_def example_inbound_def w4_def parse_cached_response_body_def)
  have size: "\<not> int (length ''body'') > webhook_max_body_bytes webhook_cfg" by (simp add: default_settings_def)
  show ?thesis
    using k key lim b proc size
    by (simp add: example_receive_def inbound_webhook_def with_session_def example_webhook_def w2_def
        enforce_webhook_body_size_def finally_do_def release_idempotency_lock_def w4_def add_webhook_event_def
        add_record_def)
qed

theorem webhook_events_authentic_witness:
  "\<exists>w1. example_receive 0 1 example_world = (Inr (200, inbound_body ''accepted'' example_inbound), w1)
    \<and> records_event ref_crypto webhook_cfg (\<lambda>body. Some example_inbound) 0 example_webhook example_tables (stored w1)"
proof -
  obtain w1 where w1: "example_receive 0 1 example_world = (Inr (200, inbound_body ''accepted'' example_inbound), w1)"
    "webhook_events (stored w1) \<noteq> []" using example_webhook_accepted by blast
  have "webhook_events (stored w1) \<noteq> webhook_events (stored example_world)"
    using w1(2) by (simp add: example_tables_def empty_tables_def)
  then show ?thesis
    using webhook_events_authentic [OF example_world_ok refl w1(1) [unfolded example_receive_def]] w1(1) by auto
qed


end
