(* ===== verification/Upload_Checks.thy ===== *)
theory Upload_Checks
  imports Errors Config Keyset
begin

text \<open>
  What an upload is checked against before it is accepted: file names and content types
  (\<open>app/core/upload_metadata.py\<close>), content signatures (\<open>app/core/file_validation.py\<close>) and malware scanners
  (\<open>app/services/malware_scanner.py\<close>, \<open>app/core/malware_scan.py\<close>).

  Bodies are byte strings. The HTTP exchange with an external scanner is the parameter \<open>http\<close>: URL, body
  and file name go in; \<open>None\<close> is an exchange that raised \<open>URLError\<close> or timed out, otherwise status and
  body come back.
\<close>

section \<open>File names and content types\<close>

definition MAX_UPLOAD_FILENAME_LENGTH :: nat where
  "MAX_UPLOAD_FILENAME_LENGTH = 255"

definition validate_upload_filename :: "string \<Rightarrow> (exn, string) result" where
  "validate_upload_filename filename =
     (let normalized_filename = strip filename in
      if normalized_filename = [] then Inl (domain BadRequestError ''Filename is required'')
      else if length normalized_filename > MAX_UPLOAD_FILENAME_LENGTH
      then Inl (domain BadRequestError ''Filename is too long'')
      else if list_ex (contains normalized_filename) [[char_of (0 :: nat)], ''/'', [backslash], ''..'']
      then Inl (domain BadRequestError ''Invalid filename'')
      else Inr normalized_filename)"

definition content_type_char :: "char \<Rightarrow> bool" where
  "content_type_char c \<longleftrightarrow> (let n = of_char c :: nat in
     97 \<le> n \<and> n \<le> 122 \<or> 65 \<le> n \<and> n \<le> 90 \<or> 48 \<le> n \<and> n \<le> 57 \<or> c \<in> set ''!#$&-^_.+'')"

text \<open>\<open>CONTENT_TYPE_PATTERN\<close>: two non-empty runs of these characters around one slash.\<close>

definition matches_content_type :: "string \<Rightarrow> bool" where
  "matches_content_type s = (case split_on (CHR ''/'') s of
       [a, b] \<Rightarrow> a \<noteq> [] \<and> b \<noteq> [] \<and> list_all content_type_char a \<and> list_all content_type_char b
     | _ \<Rightarrow> False)"

definition validate_content_type_format :: "string \<Rightarrow> (exn, string) result" where
  "validate_content_type_format content_type =
     (let normalized_content_type = lower (strip content_type) in
      if \<not> matches_content_type normalized_content_type
      then Inl (domain BadRequestError ''Invalid content type format'')
      else Inr normalized_content_type)"

definition allowed_content_types :: "settings \<Rightarrow> string list" where
  "allowed_content_types cfg =
     map (\<lambda>value. lower (strip value))
       (filter (\<lambda>value. strip value \<noteq> []) (split_on (CHR '','') (upload_allowed_content_types cfg)))"

definition validate_declared_content_type :: "settings \<Rightarrow> string option \<Rightarrow> (exn, string) result" where
  "validate_declared_content_type cfg content_type =
     (case content_type of
        None \<Rightarrow> Inl (domain BadRequestError ''Unsupported file type'')
      | Some ct \<Rightarrow> and_then (validate_content_type_format ct) (\<lambda>normalized_content_type.
          if normalized_content_type \<notin> set (allowed_content_types cfg)
          then Inl (domain BadRequestError ''Unsupported file type'')
          else Inr normalized_content_type))"

section \<open>Content signatures\<close>

definition bytes :: "nat list \<Rightarrow> string" where
  "bytes ns = map char_of ns"

definition CONTENT_SIGNATURES :: "(string \<times> string list) list" where
  "CONTENT_SIGNATURES =
     [(''application/pdf'', [''%PDF'']),
      (''image/png'', [bytes [137, 80, 78, 71, 13, 10, 26, 10]]),
      (''image/jpeg'', [bytes [255, 216, 255]])]"

definition sniff_content_type :: "string \<Rightarrow> string option" where
  "sniff_content_type body =
     map_option fst (List.find (\<lambda>(ct, signatures). list_ex (starts_with body) signatures) CONTENT_SIGNATURES)"

definition validate_content_sniff :: "string \<Rightarrow> string \<Rightarrow> (exn, unit) result" where
  "validate_content_sniff declared_content_type body =
     (if sniff_content_type body \<noteq> Some declared_content_type
      then Inl (domain BadRequestError ''File content does not match declared content type'')
      else Inr ())"

section \<open>Malware scanners\<close>

record malware_scan_result =
  clean :: bool
  detail :: string

definition ensure_malware_scan_is_clean :: "malware_scan_result \<Rightarrow> (exn, unit) result" where
  "ensure_malware_scan_is_clean scan_result =
     (if clean scan_result then Inr () else Inl (domain BadRequestError ''File failed malware scanning''))"

datatype malware_scanner =
    DisabledMalwareScanner
  | InfectedFilenameMalwareScanner
  | HttpMalwareScanner string rat

type_synonym scanner_http = "string \<Rightarrow> rat \<Rightarrow> string \<Rightarrow> string \<Rightarrow> (int \<times> string) option"

text \<open>
  \<open>http.client\<close> refuses a header value in which a line feed is not followed by a blank, or a carriage
  return is followed by neither a blank nor a line feed.
\<close>

fun illegal_header_value :: "string \<Rightarrow> bool" where
  "illegal_header_value [] = False"
| "illegal_header_value (c # s) =
     (of_char c = (10 :: nat) \<and> (s = [] \<or> of_char (hd s) \<notin> {9 :: nat, 32})
      \<or> of_char c = (13 :: nat) \<and> (s = [] \<or> of_char (hd s) \<notin> {9 :: nat, 10, 32})
      \<or> illegal_header_value s)"

fun scan :: "scanner_http \<Rightarrow> malware_scanner \<Rightarrow> string \<Rightarrow> string \<Rightarrow> (exn, malware_scan_result) result" where
  "scan http DisabledMalwareScanner body filename = Inr \<lparr>clean = True, detail = ''malware_scan_disabled''\<rparr>"
| "scan http InfectedFilenameMalwareScanner body filename =
     (if contains (lower filename) ''.infected.''
      then Inr \<lparr>clean = False, detail = ''infected_filename_detected''\<rparr>
      else Inr \<lparr>clean = True, detail = ''malware_scan_passed''\<rparr>)"
| "scan http (HttpMalwareScanner url timeout_seconds) body filename =
     (if illegal_header_value filename then Inl (ValueErr ''Invalid header value'')
      else (case http url timeout_seconds body filename of
          None \<Rightarrow> Inr \<lparr>clean = False, detail = ''malware_scanner_unavailable''\<rparr>
        | Some (status, answer) \<Rightarrow>
            (case (case utf8_decode answer of None \<Rightarrow> None | Some text \<Rightarrow> loads text) of
               None \<Rightarrow> Inr \<lparr>clean = False, detail = ''malware_scanner_unavailable''\<rparr>
             | Some payload \<Rightarrow>
                 if status \<noteq> 200
                 then Inr \<lparr>clean = False, detail = ''malware_scanner_status_'' @ show_int status\<rparr>
                 else (case payload of
                     PDict d \<Rightarrow>
                       if dict_get d ''clean'' = Some (PBool True)
                       then Inr \<lparr>clean = True, detail = ''malware_scan_passed''\<rparr>
                       else Inr \<lparr>clean = False, detail = ''malware_detected''\<rparr>
                   | _ \<Rightarrow> Inl (Unexpected ''AttributeError'')))))"

definition get_malware_scanner :: "settings \<Rightarrow> malware_scanner" where
  "get_malware_scanner cfg =
     (if \<not> upload_malware_scan_enabled cfg then DisabledMalwareScanner
      else
        (let scanner_url = strip (upload_malware_scanner_url cfg) in
         if scanner_url \<noteq> [] then HttpMalwareScanner scanner_url (upload_malware_scanner_timeout_seconds cfg)
         else InfectedFilenameMalwareScanner))"

definition run_malware_scan :: "settings \<Rightarrow> scanner_http \<Rightarrow> string \<Rightarrow> string \<Rightarrow> (exn, malware_scan_result) result" where
  "run_malware_scan cfg http body filename = scan http (get_malware_scanner cfg) body filename"

definition scan_uploaded_file :: "settings \<Rightarrow> scanner_http \<Rightarrow> string \<Rightarrow> string \<Rightarrow> (exn, malware_scan_result) result"
  where "scan_uploaded_file cfg http body filename = run_malware_scan cfg http body filename"

section \<open>Lemmas\<close>

text \<open>An accepted file name is a plain name: no separator, no parent reference, no terminator.\<close>

lemma validate_upload_filename_Inr:
  assumes "validate_upload_filename filename = Inr s"
  shows "s = strip filename \<and> s \<noteq> [] \<and> length s \<le> 255 \<and> CHR ''/'' \<notin> set s \<and> backslash \<notin> set s
    \<and> char_of (0 :: nat) \<notin> set s \<and> \<not> contains s ''..''"
  using assms
  by (auto simp: validate_upload_filename_def Let_def MAX_UPLOAD_FILENAME_LENGTH_def contains_single split: if_splits)

lemma validate_declared_Inr:
  "validate_declared_content_type cfg ct = Inr s \<Longrightarrow> s \<in> set (allowed_content_types cfg) \<and> lower s = s"
  by (auto simp: validate_declared_content_type_def validate_content_type_format_def and_then_Inr_iff Let_def
      split: option.splits if_splits)

lemma sniff_known: "sniff_content_type body = Some ct \<Longrightarrow> ct \<in> {''application/pdf'', ''image/png'', ''image/jpeg''}"
  by (auto simp: sniff_content_type_def CONTENT_SIGNATURES_def split: if_splits)

text \<open>A scanner in production never lets a body pass that its service has not called clean.\<close>

lemma http_scan_clean:
  assumes "scan http (HttpMalwareScanner url timeout) body filename = Inr r" and "clean r"
  shows "\<exists>answer text d. http url timeout body filename = Some (200, answer) \<and> utf8_decode answer = Some text
    \<and> loads text = Some (PDict d) \<and> dict_get d ''clean'' = Some (PBool True)"
  using assms by (auto split: if_splits option.splits pyval.splits)

end
