(* ===== verification/Storage.thy ===== *)
theory Storage
  imports Users Job_Queue Upload_Checks
begin

text \<open>
  Stored files (\<open>app/services/storage_service.py\<close>, \<open>app/services/upload_verification_service.py\<close>,
  \<open>app/api/routes/files.py\<close>, \<open>app/schemas/file.py\<close>).

  The object store is not part of the repository: the record \<open>s3_client\<close> holds the client calls the
  sources make, over an abstract store, and the locale \<open>object_store\<close> states what they promise when they
  succeed. A call that fails raises one of the two exception classes of \<open>botocore\<close> and may leave any
  object of that key behind. The state of an operation is the world together with the store.

  An uploaded file arrives as a stream, which is the list of its remaining bytes. The identifier that
  \<open>uuid7().hex\<close> puts into an object key is an argument.
\<close>

section \<open>The object store\<close>

datatype s3_fault = ClientError | BotoCoreError

record 's s3_client =
  put_object :: "string \<Rightarrow> string \<Rightarrow> string \<Rightarrow> string \<Rightarrow> 's \<Rightarrow> (s3_fault, unit) result \<times> 's"
  upload_fileobj_call :: "string \<Rightarrow> string \<Rightarrow> string \<Rightarrow> string \<Rightarrow> 's \<Rightarrow> (s3_fault, unit) result \<times> 's"
  delete_object_call :: "string \<Rightarrow> string \<Rightarrow> 's \<Rightarrow> (s3_fault, unit) result \<times> 's"
  head_object :: "string \<Rightarrow> string \<Rightarrow> 's \<Rightarrow> (s3_fault, string option \<times> int) result"
  get_object :: "string \<Rightarrow> string \<Rightarrow> 's \<Rightarrow> (s3_fault, string) result"
  generate_presigned_url :: "string \<Rightarrow> (string \<times> string) list \<Rightarrow> int \<Rightarrow> (s3_fault, string) result"
  head_bucket :: "string \<Rightarrow> 's \<Rightarrow> (s3_fault, unit) result"

text \<open>Arguments are bucket, key, body and content type; \<open>obj\<close> is the object stored at a key, with its type.\<close>

locale object_store =
  fixes S :: "('s, 'm) s3_client_scheme"
    and obj :: "'s \<Rightarrow> string \<Rightarrow> string \<Rightarrow> (string \<times> string) option"
  assumes upload_stores: "upload_fileobj_call S b k body ct s = (Inr (), s') \<Longrightarrow>
      obj s' = (obj s)(b := (obj s b)(k \<mapsto> (body, ct)))"
    and put_stores: "put_object S b k body ct s = (Inr (), s') \<Longrightarrow>
      obj s' = (obj s)(b := (obj s b)(k \<mapsto> (body, ct)))"
    and delete_removes: "delete_object_call S b k s = (Inr (), s') \<Longrightarrow>
      obj s' = (obj s)(b := (obj s b)(k := None))"
    and other_keys: "b' \<noteq> b \<or> k' \<noteq> k \<Longrightarrow> upload_fileobj_call S b k body ct s = (res, s') \<Longrightarrow>
      obj s' b' k' = obj s b' k'"
    and other_keys_delete: "b' \<noteq> b \<or> k' \<noteq> k \<Longrightarrow> delete_object_call S b k s = (res, s') \<Longrightarrow>
      obj s' b' k' = obj s b' k'"
    and head_found: "head_object S b k s = Inr (reported, n) \<Longrightarrow>
      \<exists>body t. obj s b k = Some (body, t) \<and> n = int (length body) \<and> reported = Some t"
    and get_found: "get_object S b k s = Inr body \<Longrightarrow> \<exists>t. obj s b k = Some (body, t)"

section \<open>Provider\<close>

record stored_object_metadata =
  md_size_bytes :: int
  md_content_type :: string

record presigned_url =
  pu_url :: string
  pu_expires_in_seconds :: int

definition provider_upload_file ::
  "settings \<Rightarrow> ('s, 'm) s3_client_scheme \<Rightarrow> string \<Rightarrow> string \<Rightarrow> string \<Rightarrow> 's \<Rightarrow> (s3_fault, unit) result \<times> 's" where
  "provider_upload_file cfg S object_key body content_type =
     put_object S (s3_bucket_name cfg) object_key body content_type"

definition provider_upload_fileobj ::
  "settings \<Rightarrow> ('s, 'm) s3_client_scheme \<Rightarrow> string \<Rightarrow> string \<Rightarrow> string \<Rightarrow> 's \<Rightarrow> (s3_fault, unit) result \<times> 's" where
  "provider_upload_fileobj cfg S object_key fileobj content_type =
     upload_fileobj_call S (s3_bucket_name cfg) object_key fileobj content_type"

definition provider_delete_object ::
  "settings \<Rightarrow> ('s, 'm) s3_client_scheme \<Rightarrow> string \<Rightarrow> 's \<Rightarrow> (s3_fault, unit) result \<times> 's" where
  "provider_delete_object cfg S object_key = delete_object_call S (s3_bucket_name cfg) object_key"

text \<open>An exception nobody catches.\<close>

definition storage_fault :: "s3_fault \<Rightarrow> exn" where
  "storage_fault f = Unexpected (case f of ClientError \<Rightarrow> ''ClientError'' | BotoCoreError \<Rightarrow> ''BotoCoreError'')"

definition object_exists :: "settings \<Rightarrow> ('s, 'm) s3_client_scheme \<Rightarrow> string \<Rightarrow> 's \<Rightarrow> (exn, bool) result" where
  "object_exists cfg S object_key s = (case head_object S (s3_bucket_name cfg) object_key s of
       Inl ClientError \<Rightarrow> Inr False | Inl f \<Rightarrow> Inl (storage_fault f) | Inr _ \<Rightarrow> Inr True)"

definition get_object_metadata ::
  "settings \<Rightarrow> ('s, 'm) s3_client_scheme \<Rightarrow> string \<Rightarrow> 's \<Rightarrow> (exn, stored_object_metadata) result" where
  "get_object_metadata cfg S object_key s =
     (case head_object S (s3_bucket_name cfg) object_key s of
        Inl ClientError \<Rightarrow> Inl (domain BadRequestError ''Uploaded object was not found in storage'')
      | Inl f \<Rightarrow> Inl (storage_fault f)
      | Inr (ct, n) \<Rightarrow>
          (let content_type = (case ct of None \<Rightarrow> ''application/octet-stream''
                 | Some c \<Rightarrow> if c = [] then ''application/octet-stream'' else c) in
           Inr \<lparr>md_size_bytes = n, md_content_type = lower (strip (hd (split_on (CHR '';'') content_type)))\<rparr>))"

definition download_object_body ::
  "settings \<Rightarrow> ('s, 'm) s3_client_scheme \<Rightarrow> string \<Rightarrow> int \<Rightarrow> 's \<Rightarrow> (exn, string) result" where
  "download_object_body cfg S object_key max_bytes s =
     (case get_object S (s3_bucket_name cfg) object_key s of
        Inl ClientError \<Rightarrow> Inl (domain BadRequestError ''Uploaded object could not be verified'')
      | Inl f \<Rightarrow> Inl (storage_fault f)
      | Inr content \<Rightarrow>
          (let body = take (nat (max_bytes + 1)) content in
           if int (length body) > max_bytes then Inl (domain PayloadTooLargeError ''File too large'')
           else Inr body))"

definition generate_presigned_download_url ::
  "settings \<Rightarrow> ('s, 'm) s3_client_scheme \<Rightarrow> string \<Rightarrow> (s3_fault, presigned_url) result" where
  "generate_presigned_download_url cfg S object_key =
     and_then (generate_presigned_url S ''get_object'' [(''Bucket'', s3_bucket_name cfg), (''Key'', object_key)]
         (upload_presigned_url_expire_seconds cfg))
       (\<lambda>url. Inr \<lparr>pu_url = url, pu_expires_in_seconds = upload_presigned_url_expire_seconds cfg\<rparr>)"

definition generate_presigned_upload_url ::
  "settings \<Rightarrow> ('s, 'm) s3_client_scheme \<Rightarrow> string \<Rightarrow> string \<Rightarrow> (s3_fault, presigned_url) result" where
  "generate_presigned_upload_url cfg S object_key content_type =
     and_then (generate_presigned_url S ''put_object'' [(''Bucket'', s3_bucket_name cfg), (''Key'', object_key),
         (''ContentType'', content_type)] (upload_presigned_url_expire_seconds cfg))
       (\<lambda>url. Inr \<lparr>pu_url = url, pu_expires_in_seconds = upload_presigned_url_expire_seconds cfg\<rparr>)"

definition verify_bucket_access :: "settings \<Rightarrow> ('s, 'm) s3_client_scheme \<Rightarrow> 's \<Rightarrow> (exn, unit) result" where
  "verify_bucket_access cfg S s = (case head_bucket S (s3_bucket_name cfg) s of
       Inl f \<Rightarrow> Inl (domain ServiceUnavailableError ''Object storage bucket is not reachable'')
     | Inr u \<Rightarrow> Inr ())"

section \<open>Checks of the service\<close>

definition get_uploaded_file :: "tables \<Rightarrow> int \<Rightarrow> int \<Rightarrow> uploaded_file option" where
  "get_uploaded_file t file_id tenant_id =
     List.find (\<lambda>f. f_id f = file_id \<and> f_tenant_id f = tenant_id) (uploaded_files t)"

definition can_access_uploaded_file :: "user \<Rightarrow> uploaded_file \<Rightarrow> bool" where
  "can_access_uploaded_file current_user f =
     (if u_tenant_id current_user \<noteq> f_tenant_id f then False
      else if user_has_permission current_user FILES_DOWNLOAD then True
      else f_owner_id f = u_id current_user \<and> user_has_permission current_user FILES_DOWNLOAD_SELF)"

definition can_delete_uploaded_file :: "user \<Rightarrow> uploaded_file \<Rightarrow> bool" where
  "can_delete_uploaded_file current_user f =
     (if u_tenant_id current_user \<noteq> f_tenant_id f then False
      else if user_has_permission current_user FILES_DELETE then True
      else f_owner_id f = u_id current_user \<and> user_has_permission current_user FILES_DELETE_SELF)"

definition ensure_upload_is_downloadable :: "uploaded_file \<Rightarrow> (exn, unit) result" where
  "ensure_upload_is_downloadable f =
     (if f_verification_status f = pending then Inl (domain ConflictError ''File verification is still in progress'')
      else if f_verification_status f \<noteq> verified then Inl (domain NotFoundError ''File not found'')
      else Inr ())"

definition validate_file_size :: "settings \<Rightarrow> int \<Rightarrow> (exn, unit) result" where
  "validate_file_size cfg size_bytes =
     (if size_bytes > upload_max_size_bytes cfg then Inl (domain PayloadTooLargeError ''File too large'') else Inr ())"

text \<open>\<open>read(n)\<close> on a stream: at most \<open>n\<close> bytes, everything for a negative \<open>n\<close>.\<close>

definition py_read :: "int \<Rightarrow> string \<Rightarrow> string \<times> string" where
  "py_read n stream = (if n < 0 then (stream, []) else (take (nat n) stream, drop (nat n) stream))"

function spool_loop :: "settings \<Rightarrow> string \<Rightarrow> int \<Rightarrow> string \<Rightarrow> (exn, string \<times> int) result" where
  "spool_loop cfg stream total_size spool =
     (case py_read (upload_stream_chunk_size_bytes cfg) stream of (chunk, rest) \<Rightarrow>
        if chunk = [] then Inr (spool, total_size)
        else
          (let total_size' = total_size + int (length chunk) in
           if total_size' > upload_max_size_bytes cfg then Inl (domain PayloadTooLargeError ''File too large'')
           else spool_loop cfg rest total_size' (spool @ chunk)))"
  by pat_completeness auto
termination
  by (relation "measure (\<lambda>(cfg, stream, total_size, spool). length stream)")
     (auto simp: py_read_def split: if_splits)

declare spool_loop.simps [simp del]

definition spool_upload_stream_limited :: "settings \<Rightarrow> string \<Rightarrow> (exn, string \<times> int) result" where
  "spool_upload_stream_limited cfg stream = spool_loop cfg stream 0 []"

definition read_upload_body_limited :: "settings \<Rightarrow> string \<Rightarrow> (exn, string) result" where
  "read_upload_body_limited cfg stream =
     and_then (spool_upload_stream_limited cfg stream) (\<lambda>(spool, total_size). Inr spool)"

definition assert_stored_metadata_matches :: "stored_object_metadata \<Rightarrow> string \<Rightarrow> int \<Rightarrow> (exn, unit) result" where
  "assert_stored_metadata_matches metadata declared_content_type declared_size_bytes =
     (if md_size_bytes metadata \<noteq> declared_size_bytes
      then Inl (domain BadRequestError ''Uploaded object size does not match declared size'')
      else if md_content_type metadata \<noteq> declared_content_type
      then Inl (domain BadRequestError ''Uploaded object content type does not match declared content type'')
      else Inr ())"

definition verify_stored_object_metadata ::
  "settings \<Rightarrow> ('s, 'm) s3_client_scheme \<Rightarrow> string \<Rightarrow> string \<Rightarrow> int \<Rightarrow> 's \<Rightarrow> (exn, stored_object_metadata) result" where
  "verify_stored_object_metadata cfg S object_key declared_content_type declared_size_bytes s =
     and_then (get_object_metadata cfg S object_key s) (\<lambda>metadata.
     and_then (assert_stored_metadata_matches metadata declared_content_type declared_size_bytes)
       (\<lambda>_. Inr metadata))"

definition verify_stored_object_content ::
  "settings \<Rightarrow> ('s, 'm) s3_client_scheme \<Rightarrow> scanner_http \<Rightarrow> string \<Rightarrow> string \<Rightarrow> int \<Rightarrow> string \<Rightarrow> 's
     \<Rightarrow> (exn, unit) result" where
  "verify_stored_object_content cfg S http object_key declared_content_type declared_size_bytes filename s =
     and_then (get_object_metadata cfg S object_key s) (\<lambda>metadata.
     and_then (assert_stored_metadata_matches metadata declared_content_type declared_size_bytes) (\<lambda>_.
     and_then (download_object_body cfg S object_key (md_size_bytes metadata) s) (\<lambda>body.
     if int (length body) \<noteq> md_size_bytes metadata
     then Inl (domain BadRequestError ''Uploaded object size could not be verified'')
     else and_then (validate_content_sniff declared_content_type body) (\<lambda>_.
       and_then (run_malware_scan cfg http body filename) ensure_malware_scan_is_clean))))"

definition verify_stored_object ::
  "settings \<Rightarrow> ('s, 'm) s3_client_scheme \<Rightarrow> scanner_http \<Rightarrow> string \<Rightarrow> string \<Rightarrow> int \<Rightarrow> string \<Rightarrow> 's
     \<Rightarrow> (exn, unit) result" where
  "verify_stored_object = verify_stored_object_content"

definition build_object_key :: "string \<Rightarrow> int \<Rightarrow> int \<Rightarrow> string \<Rightarrow> string" where
  "build_object_key uid_hex tenant_id owner_id filename =
     (let safe_filename = replace_char backslash ''_'' (replace_char (CHR ''/'') ''_'' filename);
          tenant_prefix = build_tenant_object_key_prefix tenant_id in
      tenant_prefix @ ''/uploads/'' @ show_int owner_id @ ''/'' @ uid_hex @ ''-'' @ safe_filename)"

definition owner_prefix :: "int \<Rightarrow> int \<Rightarrow> string" where
  "owner_prefix tenant_id owner_id =
     build_tenant_object_key_prefix tenant_id @ ''/uploads/'' @ show_int owner_id @ ''/''"

definition ensure_object_key_belongs_to_owner :: "string \<Rightarrow> user \<Rightarrow> (exn, unit) result" where
  "ensure_object_key_belongs_to_owner object_key owner =
     (if \<not> starts_with object_key (owner_prefix (u_tenant_id owner) (u_id owner))
      then Inl (domain BadRequestError ''Invalid object key for current user'') else Inr ())"

section \<open>The service\<close>

text \<open>An \<open>UploadFile\<close>: the name and type the client declared, and the stream.\<close>

record upload_file =
  uf_filename :: "string option"
  uf_content_type :: "string option"
  uf_stream :: string

definition s3_call :: "('s \<Rightarrow> (s3_fault, 'a) result \<times> 's) \<Rightarrow> exn \<Rightarrow> ('w \<times> 's, 'a) action" where
  "s3_call call e st = (case call (snd st) of
       (Inl f, s') \<Rightarrow> (Inl e, (fst st, s')) | (Inr x, s') \<Rightarrow> (Inr x, (fst st, s')))"

definition add_uploaded_file :: "uploaded_file \<Rightarrow> tables \<Rightarrow> tables" where
  "add_uploaded_file f t = t\<lparr>uploaded_files := uploaded_files t @ [f]\<rparr>"

definition drop_uploaded_file :: "int \<Rightarrow> tables \<Rightarrow> tables" where
  "drop_uploaded_file i t = t\<lparr>uploaded_files := filter (\<lambda>f. f_id f \<noteq> i) (uploaded_files t)\<rparr>"

definition mark_verified :: "int \<Rightarrow> tables \<Rightarrow> tables" where
  "mark_verified i t = t\<lparr>uploaded_files :=
     map (\<lambda>f. if f_id f = i then f\<lparr>f_verification_status := verified\<rparr> else f) (uploaded_files t)\<rparr>"

definition storage_upload ::
  "settings \<Rightarrow> ('s, 'm) s3_client_scheme \<Rightarrow> scanner_http \<Rightarrow> string \<Rightarrow> int \<Rightarrow> time \<Rightarrow> user \<Rightarrow> upload_file
     \<Rightarrow> ('r world \<times> 's, uploaded_file) action" where
  "storage_upload cfg S http uid_hex new_id now owner file =
     run_then (lift_result (validate_upload_filename (or_else (uf_filename file) ''upload''))) (\<lambda>filename.
     run_then (lift_result (validate_declared_content_type cfg
         (Some (or_else (uf_content_type file) ''application/octet-stream'')))) (\<lambda>content_type.
     run_then (lift_result (spool_upload_stream_limited cfg (uf_stream file))) (\<lambda>(spool, size_bytes).
     run_then (lift_result (validate_file_size cfg size_bytes)) (\<lambda>_.
     run_then (lift_result (validate_content_sniff content_type (take 512 spool))) (\<lambda>_.
     run_then (lift_result (and_then (run_malware_scan cfg http spool filename) ensure_malware_scan_is_clean)) (\<lambda>_.
     let object_key = build_object_key uid_hex (u_tenant_id owner) (u_id owner) filename in
     run_then (s3_call (provider_upload_fileobj cfg S object_key spool content_type)
         (domain ServiceUnavailableError ''Object storage upload failed'')) (\<lambda>_.
     let f = \<lparr>f_id = new_id, f_tenant_id = u_tenant_id owner, f_owner_id = u_id owner,
           f_object_key = object_key, f_filename = filename, f_content_type = content_type,
           f_size_bytes = size_bytes, f_verification_status = verified, f_created_at = now\<rparr> in
     run_then (on_world (flush_commit (add_uploaded_file f))) (\<lambda>_. ret f))))))))"

definition storage_create_presigned_upload ::
  "settings \<Rightarrow> ('s, 'm) s3_client_scheme \<Rightarrow> string \<Rightarrow> user \<Rightarrow> string \<Rightarrow> string
     \<Rightarrow> ('r world \<times> 's, string \<times> presigned_url) action" where
  "storage_create_presigned_upload cfg S uid_hex owner filename content_type =
     run_then (lift_result (validate_upload_filename filename)) (\<lambda>safe_filename.
     run_then (lift_result (validate_declared_content_type cfg (Some content_type))) (\<lambda>normalized_content_type.
     run_then (\<lambda>st. (verify_bucket_access cfg S (snd st), st)) (\<lambda>_.
     let object_key = build_object_key uid_hex (u_tenant_id owner) (u_id owner) safe_filename in
     (case generate_presigned_upload_url cfg S object_key normalized_content_type of
        Inl f \<Rightarrow> raise (storage_fault f) | Inr url \<Rightarrow> ret (object_key, url)))))"

definition VERIFY_PRESIGNED_UPLOAD_JOB :: string where
  "VERIFY_PRESIGNED_UPLOAD_JOB = ''verify_presigned_upload''"

definition enqueue_verify_presigned_upload_job ::
  "('r, 'm) redis_queues_scheme \<Rightarrow> settings \<Rightarrow> string \<Rightarrow> string option \<Rightarrow> int \<Rightarrow> ('r world, job) action" where
  "enqueue_verify_presigned_upload_job R cfg new_id ctx_request_id uploaded_file_id w =
     (case enqueue_job R (worker_queue_name cfg) new_id ctx_request_id VERIFY_PRESIGNED_UPLOAD_JOB
         [(''uploaded_file_id'', PInt uploaded_file_id)] (redis w) of
        (j, r') \<Rightarrow> (Inr j, w\<lparr>redis := r'\<rparr>))"

definition storage_complete_presigned_upload ::
  "('r, 'q) redis_queues_scheme \<Rightarrow> settings \<Rightarrow> ('s, 'm) s3_client_scheme \<Rightarrow> string \<Rightarrow> string option \<Rightarrow> int
     \<Rightarrow> time \<Rightarrow> user \<Rightarrow> string \<Rightarrow> string \<Rightarrow> string \<Rightarrow> int \<Rightarrow> ('r world \<times> 's, uploaded_file) action" where
  "storage_complete_presigned_upload R cfg S new_job_id ctx_request_id new_id now owner object_key filename
       content_type size_bytes =
     run_then (lift_result (validate_upload_filename filename)) (\<lambda>safe_filename.
     run_then (lift_result (validate_declared_content_type cfg (Some content_type))) (\<lambda>normalized_content_type.
     run_then (lift_result (validate_file_size cfg size_bytes)) (\<lambda>_.
     run_then (lift_result (ensure_object_key_belongs_to_owner object_key owner)) (\<lambda>_.
     run_then (\<lambda>st. (verify_stored_object_metadata cfg S object_key normalized_content_type size_bytes (snd st), st))
       (\<lambda>_.
     let f = \<lparr>f_id = new_id, f_tenant_id = u_tenant_id owner, f_owner_id = u_id owner,
           f_object_key = object_key, f_filename = safe_filename, f_content_type = normalized_content_type,
           f_size_bytes = size_bytes, f_verification_status = pending, f_created_at = now\<rparr> in
     run_then (on_world (flush_commit (add_uploaded_file f))) (\<lambda>_.
     run_then (on_world (enqueue_verify_presigned_upload_job R cfg new_job_id ctx_request_id new_id))
       (\<lambda>_. ret f)))))))"

definition storage_get_presigned_download_url ::
  "settings \<Rightarrow> ('s, 'm) s3_client_scheme \<Rightarrow> uploaded_file \<Rightarrow> user \<Rightarrow> (exn, presigned_url) result" where
  "storage_get_presigned_download_url cfg S f current_user =
     (if \<not> can_access_uploaded_file current_user f then Inl (domain ForbiddenError ''Insufficient permissions'')
      else and_then (ensure_upload_is_downloadable f) (\<lambda>_.
        case generate_presigned_download_url cfg S (f_object_key f) of
          Inl e \<Rightarrow> Inl (domain ServiceUnavailableError ''Object storage download URL generation failed'')
        | Inr url \<Rightarrow> Inr url))"

definition storage_delete_uploaded_file ::
  "settings \<Rightarrow> ('s, 'm) s3_client_scheme \<Rightarrow> uploaded_file \<Rightarrow> user \<Rightarrow> ('r world \<times> 's, unit) action" where
  "storage_delete_uploaded_file cfg S f current_user =
     run_then (ensures (can_delete_uploaded_file current_user f)
         (domain ForbiddenError ''Insufficient permissions'')) (\<lambda>_.
     run_then (s3_call (provider_delete_object cfg S (f_object_key f))
         (domain ServiceUnavailableError ''Object storage delete failed''))
       (\<lambda>_. on_world (flush_commit (drop_uploaded_file (f_id f)))))"

section \<open>The verification job\<close>

definition verify_presigned_upload_in_worker ::
  "settings \<Rightarrow> ('s, 'm) s3_client_scheme \<Rightarrow> scanner_http \<Rightarrow> int \<Rightarrow> ('r world \<times> 's, unit) action" where
  "verify_presigned_upload_in_worker cfg S http uploaded_file_id =
     run_then (reads (\<lambda>st. List.find (\<lambda>f. f_id f = uploaded_file_id) (uploaded_files (tx (fst st))))) (\<lambda>x. case x of
       None \<Rightarrow> noop
     | Some f \<Rightarrow>
         if f_verification_status f \<noteq> pending then noop
         else (\<lambda>st. case verify_stored_object_content cfg S http (f_object_key f) (f_content_type f)
                 (f_size_bytes f) (f_filename f) (snd st) of
             Inl (Domain e) \<Rightarrow>
               on_world (flush_commit (drop_uploaded_file (f_id f)))
                 (fst st, snd (provider_delete_object cfg S (f_object_key f) (snd st)))
           | Inl e \<Rightarrow> (Inl e, st)
           | Inr _ \<Rightarrow> on_world (flush_commit (mark_verified (f_id f))) st))"

section \<open>Routes\<close>

text \<open>The session of a request that also uses the object store.\<close>

definition with_storage_session :: "('r world \<times> 's, 'a) action \<Rightarrow> ('r world \<times> 's, 'a) action" where
  "with_storage_session m st =
     (case m ((fst st)\<lparr>tx := stored (fst st)\<rparr>, snd st) of
        (res, st') \<Rightarrow> (res, ((fst st')\<lparr>tx := stored (fst st')\<rparr>, snd st')))"

record uploaded_file_read =
  fr_id :: int
  fr_owner_id :: int
  fr_object_key :: string
  fr_filename :: string
  fr_content_type :: string
  fr_size_bytes :: int
  fr_verification_status :: string
  fr_created_at :: time

fun status_value :: "upload_verification_status \<Rightarrow> string" where
  "status_value pending = ''pending''"
| "status_value verified = ''verified''"

definition read_uploaded_file :: "uploaded_file \<Rightarrow> uploaded_file_read" where
  "read_uploaded_file f = \<lparr>fr_id = f_id f, fr_owner_id = f_owner_id f, fr_object_key = f_object_key f,
     fr_filename = f_filename f, fr_content_type = f_content_type f, fr_size_bytes = f_size_bytes f,
     fr_verification_status = status_value (f_verification_status f), fr_created_at = f_created_at f\<rparr>"

definition upload_file_route ::
  "settings \<Rightarrow> ('s, 'm) s3_client_scheme \<Rightarrow> scanner_http \<Rightarrow> string \<Rightarrow> int \<Rightarrow> time \<Rightarrow> ('r world, user) action
     \<Rightarrow> upload_file \<Rightarrow> ('r world \<times> 's, uploaded_file_read) action" where
  "upload_file_route cfg S http uid_hex new_id now current file = with_storage_session
     (run_then (on_world (require_permission current [FILES_UPLOAD])) (\<lambda>current_user.
      run_then (storage_upload cfg S http uid_hex new_id now current_user file)
        (\<lambda>f. ret (read_uploaded_file f))))"

record presigned_upload_response =
  pr_object_key :: string
  pr_upload_url :: string
  pr_expires_in_seconds :: int

definition create_presigned_upload ::
  "settings \<Rightarrow> ('s, 'm) s3_client_scheme \<Rightarrow> string \<Rightarrow> ('r world, user) action \<Rightarrow> string \<Rightarrow> string
     \<Rightarrow> ('r world \<times> 's, presigned_upload_response) action" where
  "create_presigned_upload cfg S uid_hex current filename content_type = with_storage_session
     (run_then (on_world (require_permission current [FILES_UPLOAD])) (\<lambda>current_user.
      run_then (storage_create_presigned_upload cfg S uid_hex current_user filename content_type)
        (\<lambda>(object_key, presigned_url). ret \<lparr>pr_object_key = object_key, pr_upload_url = pu_url presigned_url,
           pr_expires_in_seconds = pu_expires_in_seconds presigned_url\<rparr>)))"

text \<open>\<open>PresignedUploadCompleteRequest\<close> asks for a positive size; a body that breaks it never reaches the handler.\<close>

definition complete_presigned_upload ::
  "('r, 'q) redis_queues_scheme \<Rightarrow> settings \<Rightarrow> ('s, 'm) s3_client_scheme \<Rightarrow> string \<Rightarrow> string option \<Rightarrow> int
     \<Rightarrow> time \<Rightarrow> ('r world, user) action \<Rightarrow> string \<Rightarrow> string \<Rightarrow> string \<Rightarrow> int
     \<Rightarrow> ('r world \<times> 's, uploaded_file_read) action" where
  "complete_presigned_upload R cfg S new_job_id ctx_request_id new_id now current object_key filename
       content_type size_bytes = with_storage_session
     (run_then (on_world (require_permission current [FILES_UPLOAD])) (\<lambda>current_user.
      run_then (storage_complete_presigned_upload R cfg S new_job_id ctx_request_id new_id now current_user
          object_key filename content_type size_bytes)
        (\<lambda>f. ret (read_uploaded_file f))))"

definition file_not_found :: exn where
  "file_not_found = HTTPException 404 ''File not found''"

definition get_download_url ::
  "settings \<Rightarrow> ('s, 'm) s3_client_scheme \<Rightarrow> ('r world, user) action \<Rightarrow> int
     \<Rightarrow> ('r world \<times> 's, presigned_url) action" where
  "get_download_url cfg S current file_id = with_storage_session
     (run_then (on_world current) (\<lambda>current_user.
      run_then (on_world (reads (\<lambda>w. get_uploaded_file (tx w) file_id (u_tenant_id current_user)))) (\<lambda>x. case x of
        None \<Rightarrow> raise file_not_found
      | Some f \<Rightarrow> lift_result (storage_get_presigned_download_url cfg S f current_user))))"

definition delete_file ::
  "settings \<Rightarrow> ('s, 'm) s3_client_scheme \<Rightarrow> ('r world, user) action \<Rightarrow> int \<Rightarrow> ('r world \<times> 's, unit) action" where
  "delete_file cfg S current file_id = with_storage_session
     (run_then (on_world current) (\<lambda>current_user.
      run_then (on_world (reads (\<lambda>w. get_uploaded_file (tx w) file_id (u_tenant_id current_user)))) (\<lambda>x. case x of
        None \<Rightarrow> raise file_not_found
      | Some f \<Rightarrow> storage_delete_uploaded_file cfg S f current_user)))"

section \<open>Lemmas\<close>

lemma take_number:
  assumes "show_int i @ CHR ''/'' # x = show_int j @ CHR ''/'' # y"
  shows "i = j \<and> x = y"
proof -
  have tw: "takeWhile (\<lambda>c. c \<noteq> CHR ''/'') (show_int k @ CHR ''/'' # z) = show_int k" for k z
    using show_int_no_slash [of k] by (subst takeWhile_append2) auto
  have "show_int i = show_int j" using arg_cong [OF assms, of "takeWhile (\<lambda>c. c \<noteq> CHR ''/'')"] tw by simp
  then show ?thesis using assms show_int_inj by auto
qed

lemma build_object_key_prefix:
  "build_object_key uid_hex tenant_id owner_id filename = owner_prefix tenant_id owner_id @ uid_hex @ ''-''
     @ replace_char backslash ''_'' (replace_char (CHR ''/'') ''_'' filename)"
  by (simp add: build_object_key_def owner_prefix_def Let_def)

lemma owner_prefix_unique:
  assumes "starts_with (owner_prefix t i @ s) (owner_prefix t' i')"
  shows "t = t' \<and> i = i'"
proof -
  obtain s' where "owner_prefix t i @ s = owner_prefix t' i' @ s'"
    using assms starts_with_iff by blast
  then have eq: "show_int t @ CHR ''/'' # (''uploads/'' @ show_int i @ CHR ''/'' # s)
      = show_int t' @ CHR ''/'' # (''uploads/'' @ show_int i' @ CHR ''/'' # s')"
    by (simp add: owner_prefix_def build_tenant_object_key_prefix_def)
  from take_number [OF this] have "t = t'"
    and "show_int i @ CHR ''/'' # s = show_int i' @ CHR ''/'' # s'" by simp_all
  then show ?thesis using take_number by blast
qed

text \<open>The loop returns the whole stream with its length, unless that exceeds the limit.\<close>

lemma spool_loop_eq:
  assumes "0 < upload_stream_chunk_size_bytes cfg" and "n \<le> upload_max_size_bytes cfg"
  shows "spool_loop cfg stream n spool =
    (if n + int (length stream) > upload_max_size_bytes cfg
     then Inl (domain PayloadTooLargeError ''File too large'')
     else Inr (spool @ stream, n + int (length stream)))"
  using assms
proof (induction cfg stream n spool rule: spool_loop.induct)
  case (1 cfg stream n spool)
  let ?k = "nat (upload_stream_chunk_size_bytes cfg)"
  have k: "0 < ?k" using "1.prems"(1) by simp
  have rd: "py_read (upload_stream_chunk_size_bytes cfg) stream = (take ?k stream, drop ?k stream)"
    using "1.prems"(1) by (simp add: py_read_def)
  show ?case
  proof (cases "stream = []")
    case True
    then show ?thesis using "1.prems" rd by (simp add: spool_loop.simps)
  next
    case False
    then have ne: "take ?k stream \<noteq> []" using k by simp
    let ?n = "n + int (length (take ?k stream))"
    have len: "?n + int (length (drop ?k stream)) = n + int (length stream)" by simp
    show ?thesis
    proof (cases "?n > upload_max_size_bytes cfg")
      case True
      moreover from this len have "n + int (length stream) > upload_max_size_bytes cfg" by linarith
      ultimately show ?thesis using ne rd by (subst spool_loop.simps) (simp add: Let_def)
    next
      case le: False
      have "spool_loop cfg stream n spool = spool_loop cfg (drop ?k stream) ?n (spool @ take ?k stream)"
        using le ne rd by (subst spool_loop.simps) (simp add: Let_def)
      also have "\<dots> = (if ?n + int (length (drop ?k stream)) > upload_max_size_bytes cfg
         then Inl (domain PayloadTooLargeError ''File too large'')
         else Inr ((spool @ take ?k stream) @ drop ?k stream, ?n + int (length (drop ?k stream))))"
        using "1.IH" [OF rd [symmetric] ne refl le "1.prems"(1)] le by simp
      finally show ?thesis using len by simp
    qed
  qed
qed

lemma spool_upload_stream_limited_eq:
  assumes "0 < upload_stream_chunk_size_bytes cfg" and "0 \<le> upload_max_size_bytes cfg"
  shows "spool_upload_stream_limited cfg stream =
    (if int (length stream) > upload_max_size_bytes cfg
     then Inl (domain PayloadTooLargeError ''File too large'')
     else Inr (stream, int (length stream)))"
  using spool_loop_eq [OF assms] by (simp add: spool_upload_stream_limited_def)

lemma s3_call_cases:
  "s3_call call e st = (res, st') \<longleftrightarrow> fst st' = fst st
     \<and> (case fst (call (snd st)) of Inl f \<Rightarrow> res = Inl e | Inr x \<Rightarrow> res = Inr x) \<and> snd st' = snd (call (snd st))"
  by (cases "call (snd st)"; cases st'; cases "fst (call (snd st))") (auto simp: s3_call_def)

text \<open>What the checks before a stored object counts as verified establish.\<close>

definition scan_clean :: "settings \<Rightarrow> scanner_http \<Rightarrow> string \<Rightarrow> string \<Rightarrow> bool" where
  "scan_clean cfg http body filename \<longleftrightarrow>
     (case run_malware_scan cfg http body filename of Inl e \<Rightarrow> False | Inr r \<Rightarrow> clean r)"

lemma ensure_scan_Inr: "and_then (run_malware_scan cfg http body filename) ensure_malware_scan_is_clean = Inr u \<longleftrightarrow>
    scan_clean cfg http body filename"
  by (auto simp: and_then_Inr_iff ensure_malware_scan_is_clean_def scan_clean_def split: sum.splits if_splits)


lemma scan_cleanI:
  "run_malware_scan cfg http body filename = Inr r \<Longrightarrow> ensure_malware_scan_is_clean r = Inr () \<Longrightarrow>
   scan_clean cfg http body filename"
  using ensure_scan_Inr [of cfg http body filename "()"] by simp

context object_store
begin

text \<open>An object that passes verification has the declared size and type, and its content has been scanned.\<close>

lemma verify_content_Inr:
  assumes "verify_stored_object_content cfg S http k ct n filename s = Inr u"
  shows "\<exists>body t. obj s (s3_bucket_name cfg) k = Some (body, t) \<and> int (length body) = n
    \<and> sniff_content_type body = Some ct \<and> scan_clean cfg http body filename"
proof -
  obtain md body where md: "get_object_metadata cfg S k s = Inr md" "md_size_bytes md = n"
    and dl: "download_object_body cfg S k n s = Inr body" and len: "int (length body) = n"
    and sniff: "sniff_content_type body = Some ct" and sc: "scan_clean cfg http body filename"
    using assms by (auto simp: verify_stored_object_content_def and_then_Inr_iff assert_stored_metadata_matches_def
        validate_content_sniff_def intro: scan_cleanI split: if_splits)
  obtain t where hd: "head_object S (s3_bucket_name cfg) k s = Inr (t, n)"
    using md by (auto simp: get_object_metadata_def Let_def split: sum.splits s3_fault.splits prod.splits)
  obtain b t' where b: "obj s (s3_bucket_name cfg) k = Some (b, t')" "n = int (length b)"
    using head_found [OF hd] by blast
  obtain c where c: "get_object S (s3_bucket_name cfg) k s = Inr c" "body = take (nat (n + 1)) c"
    using dl by (auto simp: download_object_body_def Let_def split: sum.splits s3_fault.splits if_splits)
  have "c = b" using get_found [OF c(1)] b(1) by auto
  then have "body = b" using c(2) b(2) by simp
  then show ?thesis using b(1) len sniff sc by blast
qed

end

lemma sniff_take: "sniff_content_type (take 512 body) = sniff_content_type body"
proof -
  have "starts_with (take 512 body) p = starts_with body p" if "length p \<le> 512" for p
    using that by (simp add: starts_with_def min_def)
  then show ?thesis by (simp add: sniff_content_type_def CONTENT_SIGNATURES_def bytes_def)
qed

lemma drop_file_schema_ok: "schema_ok t \<Longrightarrow> schema_ok (drop_uploaded_file i t)"
  by (auto simp: schema_ok_def table_oks drop_uploaded_file_def unique_by_def distinct_map_filter list_all_iff)

lemma mark_verified_schema_ok:
  assumes "schema_ok t"
  shows "schema_ok (mark_verified i t)"
proof -
  have k: "map g (map (\<lambda>f. if f_id f = i then f\<lparr>f_verification_status := verified\<rparr> else f) fs) = map g fs"
    if "\<And>f. g (f\<lparr>f_verification_status := verified\<rparr>) = g f" for g :: "uploaded_file \<Rightarrow> 'x" and fs
    using that by simp
  show ?thesis
    using assms unfolding schema_ok_def table_oks unique_by_def mark_verified_def
    by (auto simp add: k list_all_iff simp del: map_map)
qed

lemma find_file_unique:
  assumes "schema_ok t" and "List.find (\<lambda>f. f_id f = i) (uploaded_files t) = Some f"
    and "g \<in> set (uploaded_files t)" and "f_id g = i"
  shows "g = f"
proof -
  have "f \<in> set (uploaded_files t)" "f_id f = i" using find_SomeD [OF assms(2)] by simp_all
  then show ?thesis using assms unfolding schema_ok_def uploaded_files_ok_def unique_by_def
    by (metis (no_types) distinct_map inj_onD)
qed

lemma find_after_drop: "List.find (\<lambda>f. f_id f = i) (uploaded_files (drop_uploaded_file i t)) = None"
  by (auto simp: drop_uploaded_file_def find_None_iff')

lemma find_after_mark:
  assumes "List.find (\<lambda>f. f_id f = i) (uploaded_files t) = Some f"
  shows "List.find (\<lambda>f. f_id f = i) (uploaded_files (mark_verified i t)) = Some (f\<lparr>f_verification_status := verified\<rparr>)"
  using assms find_SomeD [OF assms] unfolding mark_verified_def by (simp add: find_map_other)


section \<open>Uploads\<close>

lemma storage_upload_Inr:
  assumes "object_store S obj" and "0 < upload_stream_chunk_size_bytes cfg" and "0 \<le> upload_max_size_bytes cfg"
    and "storage_upload cfg S http uid_hex new_id now u file (w, s) = (Inr f, (w', s'))"
  shows "stored w' = add_uploaded_file f (tx w) \<and> f_tenant_id f = u_tenant_id u \<and> f_owner_id f = u_id u
    \<and> f_verification_status f = verified \<and> f_size_bytes f = int (length (uf_stream file))
    \<and> f_size_bytes f \<le> upload_max_size_bytes cfg
    \<and> obj s' (s3_bucket_name cfg) (f_object_key f) = Some (uf_stream file, f_content_type f)
    \<and> f_content_type f \<in> set (allowed_content_types cfg)
    \<and> sniff_content_type (uf_stream file) = Some (f_content_type f)
    \<and> scan_clean cfg http (uf_stream file) (f_filename f)
    \<and> starts_with (f_object_key f) (owner_prefix (u_tenant_id u) (u_id u))"
proof -
  let ?b = "s3_bucket_name cfg" and ?body = "uf_stream file"
  obtain fn ct n where fn: "validate_upload_filename (or_else (uf_filename file) ''upload'') = Inr fn"
    and ct: "validate_declared_content_type cfg (Some (or_else (uf_content_type file) ''application/octet-stream''))
      = Inr ct"
    and n: "n = int (length ?body)" "n \<le> upload_max_size_bytes cfg"
    and sn: "validate_content_sniff ct (take 512 ?body) = Inr ()"
    and sc: "and_then (run_malware_scan cfg http ?body fn) ensure_malware_scan_is_clean = Inr ()"
    and store: "run_then (s3_call (provider_upload_fileobj cfg S
          (build_object_key uid_hex (u_tenant_id u) (u_id u) fn) ?body ct)
         (domain ServiceUnavailableError ''Object storage upload failed'')) (\<lambda>_.
       let f = \<lparr>f_id = new_id, f_tenant_id = u_tenant_id u, f_owner_id = u_id u,
           f_object_key = build_object_key uid_hex (u_tenant_id u) (u_id u) fn, f_filename = fn,
           f_content_type = ct, f_size_bytes = n, f_verification_status = verified, f_created_at = now\<rparr> in
       run_then (on_world (flush_commit (add_uploaded_file f))) (\<lambda>_. ret f)) (w, s) = (Inr f, (w', s'))"
    using assms(4)
    unfolding storage_upload_def Let_def [of "build_object_key _ _ _ _"] run_then_simps
      spool_upload_stream_limited_eq [OF assms(2,3)]
    by (clarsimp split: sum.splits if_splits)
  obtain s1 where up: "upload_fileobj_call S ?b (build_object_key uid_hex (u_tenant_id u) (u_id u) fn) ?body ct s
      = (Inr (), s1)"
    and f: "f = \<lparr>f_id = new_id, f_tenant_id = u_tenant_id u, f_owner_id = u_id u,
           f_object_key = build_object_key uid_hex (u_tenant_id u) (u_id u) fn, f_filename = fn,
           f_content_type = ct, f_size_bytes = n, f_verification_status = verified, f_created_at = now\<rparr>"
    and st: "s' = s1" "stored w' = add_uploaded_file f (tx w)"
    using store
    by (auto simp: run_then_def s3_call_def provider_upload_fileobj_def on_world_def flush_commit_cases Let_def
        split: prod.splits sum.splits if_splits)
  have "scan_clean cfg http ?body fn" using sc ensure_scan_Inr by blast
  moreover have "sniff_content_type ?body = Some ct" using sn by (simp add: validate_content_sniff_def sniff_take split: if_splits)
  moreover have "obj s1 ?b (f_object_key f) = Some (?body, ct)"
    using object_store.upload_stores [OF assms(1) up] f by simp
  ultimately show ?thesis
    using f st n validate_declared_Inr [OF ct] by (simp add: build_object_key_prefix)
qed

lemma storage_upload_Inl:
  assumes "storage_upload cfg S http uid_hex new_id now u file (w, s) = (Inl e, (w', s'))"
  shows "stored w' = stored w"
  using assms
  by (auto simp: storage_upload_def run_then_Inl_iff Let_def s3_call_cases on_world_def flush_commit_cases
      split: if_splits prod.splits sum.splits)


text \<open>A route behind a permission, with the object store beside the world.\<close>

lemma permitted_storage:
  assumes "read_only current"
    and "with_storage_session (run_then (on_world (require_permission current ps)) f) (w, s) = (res, (w', s'))"
  shows "(\<exists>e. res = Inl e \<and> stored w' = stored w \<and> s' = s)
    \<or> (\<exists>u w1 w2. fst (current (w\<lparr>tx := stored w\<rparr>)) = Inr u \<and> user_has_any_permission u ps
        \<and> tx w1 = stored w \<and> stored w1 = stored w \<and> f u (w1, s) = (res, (w2, s')) \<and> stored w' = stored w2)"
proof -
  obtain cres w1 where cur: "current (w\<lparr>tx := stored w\<rparr>) = (cres, w1)" by force
  have "stored w1 = stored w" "tx w1 = stored w" using read_onlyD [OF assms(1) cur] by simp_all
  then show ?thesis
    using assms(2) cur
    by (cases cres) (auto simp: with_storage_session_def on_world_def require_permission_def run_then_def action_distrib
        split: if_splits prod.splits)
qed

lemma with_current_storage:
  assumes "read_only current"
    and "with_storage_session (run_then (on_world current) f) (w, s) = (res, (w', s'))"
  shows "(\<exists>e. fst (current (w\<lparr>tx := stored w\<rparr>)) = Inl e \<and> res = Inl e \<and> stored w' = stored w \<and> s' = s)
    \<or> (\<exists>u w1 w2. fst (current (w\<lparr>tx := stored w\<rparr>)) = Inr u
        \<and> tx w1 = stored w \<and> stored w1 = stored w \<and> f u (w1, s) = (res, (w2, s')) \<and> stored w' = stored w2)"
proof -
  obtain cres w1 where cur: "current (w\<lparr>tx := stored w\<rparr>) = (cres, w1)" by force
  have "stored w1 = stored w" "tx w1 = stored w" using read_onlyD [OF assms(1) cur] by simp_all
  then show ?thesis
    using assms(2) cur
    by (cases cres) (auto simp: with_storage_session_def on_world_def run_then_def split: prod.splits)
qed

lemma get_uploaded_file_SomeD:
  "get_uploaded_file t i tid = Some f \<Longrightarrow> f \<in> set (uploaded_files t) \<and> f_id f = i \<and> f_tenant_id f = tid"
  unfolding get_uploaded_file_def by (drule find_SomeD) simp

lemma storage_delete_effect:
  assumes "object_store S obj" and "storage_delete_uploaded_file cfg S f u (w, s) = (res, (w', s'))"
  shows "(stored w' = stored w \<or> stored w' = drop_uploaded_file (f_id f) (tx w))
    \<and> (\<forall>b k. b \<noteq> s3_bucket_name cfg \<or> k \<noteq> f_object_key f \<longrightarrow> obj s' b k = obj s b k)
    \<and> (stored w' = stored w \<and> s' = s \<or> can_delete_uploaded_file u f)"
proof (cases "can_delete_uploaded_file u f")
  case True
  obtain x s1 where d: "delete_object_call S (s3_bucket_name cfg) (f_object_key f) s = (x, s1)" by force
  have "s' = s1 \<and> (stored w' = stored w \<or> stored w' = drop_uploaded_file (f_id f) (tx w))"
    using assms(2) True d
    by (auto simp: storage_delete_uploaded_file_def run_then_def s3_call_def provider_delete_object_def
        on_world_def flush_commit_cases split: sum.splits if_splits)
  then show ?thesis using True object_store.other_keys_delete [OF assms(1) _ d] by blast
next
  case False
  then show ?thesis using assms(2) by (simp add: storage_delete_uploaded_file_def)
qed

section \<open>An example store\<close>

text \<open>An object store that never fails, for concrete runs; it satisfies the laws.\<close>

type_synonym object_map = "string \<Rightarrow> string \<Rightarrow> (string \<times> string) option"

definition store_objects :: "object_map s3_client" where
  "store_objects = \<lparr>put_object = (\<lambda>b k body ct s. (Inr (), s(b := (s b)(k \<mapsto> (body, ct))))),
     upload_fileobj_call = (\<lambda>b k body ct s. (Inr (), s(b := (s b)(k \<mapsto> (body, ct))))),
     delete_object_call = (\<lambda>b k s. (Inr (), s(b := (s b)(k := None)))),
     head_object = (\<lambda>b k s. case s b k of None \<Rightarrow> Inl ClientError
       | Some (body, ct) \<Rightarrow> Inr (Some ct, int (length body))),
     get_object = (\<lambda>b k s. case s b k of None \<Rightarrow> Inl ClientError | Some (body, ct) \<Rightarrow> Inr body),
     generate_presigned_url = (\<lambda>m ps n. Inr (''https://'' @ m)),
     head_bucket = (\<lambda>b s. Inr ())\<rparr>"

interpretation store_objects: object_store store_objects "\<lambda>s. s"
  by unfold_locales (auto simp: store_objects_def split: option.splits)

section \<open>Properties\<close>

text \<open>
  C6: an upload is accepted only from a user with the upload permission, and only after all checks.
  The row it leaves is marked as verified, belongs to that user and tenant, and its object holds exactly
  the bytes sent, under the user's key prefix; the content has an allowed type, carries that type's
  signature, fits the size limit and was called clean by the scanner. A refused upload leaves no row.
\<close>

theorem upload_contents_checked:
  fixes w w' :: "'r world"
  assumes "object_store S obj" and "0 < upload_stream_chunk_size_bytes cfg" and "0 \<le> upload_max_size_bytes cfg"
    and "read_only current"
    and "upload_file_route cfg S http uid_hex new_id now current file (w, s) = (res, (w', s'))"
  shows "case res of
      Inl e \<Rightarrow> stored w' = stored w
    | Inr r \<Rightarrow> \<exists>u f. fst (current (w\<lparr>tx := stored w\<rparr>)) = Inr u \<and> user_has_permission u FILES_UPLOAD
        \<and> stored w' = add_uploaded_file f (stored w) \<and> r = read_uploaded_file f
        \<and> f_tenant_id f = u_tenant_id u \<and> f_owner_id f = u_id u \<and> f_verification_status f = verified
        \<and> f_size_bytes f = int (length (uf_stream file)) \<and> f_size_bytes f \<le> upload_max_size_bytes cfg
        \<and> obj s' (s3_bucket_name cfg) (f_object_key f) = Some (uf_stream file, f_content_type f)
        \<and> f_content_type f \<in> set (allowed_content_types cfg)
        \<and> sniff_content_type (uf_stream file) = Some (f_content_type f)
        \<and> scan_clean cfg http (uf_stream file) (f_filename f)
        \<and> starts_with (f_object_key f) (owner_prefix (u_tenant_id u) (u_id u))"
proof (cases res)
  case (Inl e)
  then show ?thesis
    using permitted_storage [OF assms(4) assms(5) [unfolded upload_file_route_def]] storage_upload_Inl
    by (fastforce simp: run_then_Inl_iff)
next
  case (Inr r)
  then obtain u and w1 w2 :: "'r world" where u: "fst (current (w\<lparr>tx := stored w\<rparr>)) = Inr u" "user_has_any_permission u [FILES_UPLOAD]"
    and w1: "tx w1 = stored w" "stored w1 = stored w" and w2: "stored w' = stored w2"
    and run: "run_then (storage_upload cfg S http uid_hex new_id now u file) (\<lambda>f. ret (read_uploaded_file f)) (w1, s)
      = (Inr r, (w2, s'))"
    using permitted_storage [OF assms(4) assms(5) [unfolded upload_file_route_def]] by blast
  obtain f where r: "r = read_uploaded_file f"
    and up: "storage_upload cfg S http uid_hex new_id now u file (w1, s) = (Inr f, (w2, s'))"
    using run by (auto simp: run_then_Inr_iff)
  have "user_has_permission u FILES_UPLOAD"
    using u(2) by (simp add: user_has_any_permission_def user_has_permission_def)
  then show ?thesis
    using storage_upload_Inr [OF assms(1-3) up] u(1) w1 w2 r Inr by fastforce
qed

text \<open>
  C10: what becomes of a file that awaits verification. A run of the job either fails with an error
  outside the API, and then changes nothing; or it leaves the row verified, which it does only if the
  stored object has the declared size, carries the signature of the declared type and is called clean;
  or it removes the row. Other objects stay as they are, and running the job again changes nothing.
\<close>

theorem verification_decides:
  assumes "object_store S obj" and "schema_ok (stored w)" and "tx w = stored w"
    and "verify_presigned_upload_in_worker cfg S http i (w, s) = (res, (w', s'))"
    and "List.find (\<lambda>f. f_id f = i) (uploaded_files (stored w)) = Some f" and "f_verification_status f = pending"
  shows "(case res of
      Inl e \<Rightarrow> w' = w \<and> s' = s \<and> (\<forall>d. e \<noteq> Domain d)
    | Inr _ \<Rightarrow>
        (stored w' = drop_uploaded_file i (stored w)
         \<or> stored w' = mark_verified i (stored w) \<and> s' = s
           \<and> (\<exists>body t. obj s (s3_bucket_name cfg) (f_object_key f) = Some (body, t)
               \<and> int (length body) = f_size_bytes f \<and> sniff_content_type body = Some (f_content_type f)
               \<and> scan_clean cfg http body (f_filename f)))
        \<and> verify_presigned_upload_in_worker cfg S http i (w', s') = (Inr (), (w', s')))
    \<and> (\<forall>b k. b \<noteq> s3_bucket_name cfg \<or> k \<noteq> f_object_key f \<longrightarrow> obj s' b k = obj s b k)"
proof -
  have i: "f_id f = i" using find_SomeD [OF assms(5)] by simp
  let ?v = "verify_stored_object_content cfg S http (f_object_key f) (f_content_type f) (f_size_bytes f)
     (f_filename f) s"
  consider (refused) d where "?v = Inl (Domain d)" | (fault) e where "?v = Inl e" "\<forall>d. e \<noteq> Domain d" | (good) "?v = Inr ()"
    by (cases ?v) auto
  then show ?thesis
  proof cases
    case refused
    let ?s = "snd (delete_object_call S (s3_bucket_name cfg) (f_object_key f) s)"
    let ?t = "drop_uploaded_file i (stored w)"
    have run: "res = Inr ()" "w' = w\<lparr>tx := ?t, stored := ?t\<rparr>" "s' = ?s"
      using assms(3-6) refused drop_file_schema_ok [OF assms(2), of i] i
      by (auto simp: verify_presigned_upload_in_worker_def on_world_def flush_commit_cases
          provider_delete_object_def split: if_splits)
    have again: "verify_presigned_upload_in_worker cfg S http i (w', s') = (Inr (), (w', s'))"
      using run(2) by (simp add: verify_presigned_upload_in_worker_def find_after_drop)
    have other: "obj s' b k = obj s b k" if "b \<noteq> s3_bucket_name cfg \<or> k \<noteq> f_object_key f" for b k
      using object_store.other_keys_delete [OF assms(1) that] run(3) by (metis prod.collapse)
    show ?thesis using run(1,2) again other by simp
  next
    case fault
    then have "res = Inl e \<and> w' = w \<and> s' = s"
      using assms(3-6) by (cases e) (auto simp: verify_presigned_upload_in_worker_def)
    then show ?thesis using fault(2) by simp
  next
    case good
    let ?t = "mark_verified i (stored w)"
    have run: "res = Inr ()" "w' = w\<lparr>tx := ?t, stored := ?t\<rparr>" "s' = s"
      using assms(3-6) good mark_verified_schema_ok [OF assms(2), of i] i
      by (auto simp: verify_presigned_upload_in_worker_def on_world_def flush_commit_cases split: if_splits)
    have again: "verify_presigned_upload_in_worker cfg S http i (w', s') = (Inr (), (w', s'))"
      using run(2) find_after_mark [OF assms(5)] by (simp add: verify_presigned_upload_in_worker_def)
    show ?thesis using run again object_store.verify_content_Inr [OF assms(1) good] by simp
  qed
qed


text \<open>Rows are determined by their id and by their object key.\<close>

lemma uploaded_file_unique:
  assumes "schema_ok t" "f \<in> set (uploaded_files t)" "g \<in> set (uploaded_files t)"
    and "f_id f = f_id g \<or> f_object_key f = f_object_key g"
  shows "f = g"
  using assms unfolding schema_ok_def uploaded_files_ok_def unique_by_def by (metis (no_types) distinct_map inj_onD)

lemma download_link_effect:
  assumes "read_only current" and "get_download_url cfg S current i (w, s) = (res, (w1, s1))"
  shows "stored w1 = stored w \<and> s1 = s \<and> (\<forall>url. res = Inr url \<longrightarrow>
      (\<exists>u f. fst (current (w\<lparr>tx := stored w\<rparr>)) = Inr u \<and> f \<in> set (uploaded_files (stored w)) \<and> f_id f = i
        \<and> f_tenant_id f = u_tenant_id u \<and> f_verification_status f = verified
        \<and> (user_has_permission u FILES_DOWNLOAD \<or> f_owner_id f = u_id u)))"
  using with_current_storage [OF assms(1) assms(2) [unfolded get_download_url_def]]
proof (elim disjE exE conjE)
  fix u v1 v2
  assume cur: "fst (current (w\<lparr>tx := stored w\<rparr>)) = Inr u" and v: "tx v1 = stored w" "stored v1 = stored w"
    and run: "run_then (on_world (reads (\<lambda>w. get_uploaded_file (tx w) i (u_tenant_id u))))
      (\<lambda>x. case x of None \<Rightarrow> raise file_not_found
         | Some f \<Rightarrow> lift_result (storage_get_presigned_download_url cfg S f u)) (v1, s) = (res, (v2, s1))"
    and "stored w1 = stored v2"
  then show ?thesis
    by (auto simp: run_then_def on_world_def storage_get_presigned_download_url_def and_then_Inr_iff
        ensure_upload_is_downloadable_def can_access_uploaded_file_def dest!: get_uploaded_file_SomeD
        split: option.splits if_splits)
qed simp_all

text \<open>A removal either changes nothing or concerns one row of the tenant that the user may delete.\<close>

lemma delete_file_effect:
  assumes "object_store S obj" and "read_only current"
    and "delete_file cfg S current i (w, s) = (res, (w2, s2))"
  shows "stored w2 = stored w \<and> s2 = s \<or> (\<exists>u g. fst (current (w\<lparr>tx := stored w\<rparr>)) = Inr u
    \<and> g \<in> set (uploaded_files (stored w)) \<and> f_id g = i \<and> f_tenant_id g = u_tenant_id u
    \<and> can_delete_uploaded_file u g \<and> (stored w2 = stored w \<or> stored w2 = drop_uploaded_file i (stored w))
    \<and> (\<forall>b k. b \<noteq> s3_bucket_name cfg \<or> k \<noteq> f_object_key g \<longrightarrow> obj s2 b k = obj s b k))"
  using with_current_storage [OF assms(2) assms(3) [unfolded delete_file_def]]
proof (elim disjE exE conjE)
  fix u v1 v2
  assume cur: "fst (current (w\<lparr>tx := stored w\<rparr>)) = Inr u" and v: "tx v1 = stored w" "stored v1 = stored w"
    and run: "run_then (on_world (reads (\<lambda>w. get_uploaded_file (tx w) i (u_tenant_id u))))
      (\<lambda>x. case x of None \<Rightarrow> raise file_not_found
         | Some f \<Rightarrow> storage_delete_uploaded_file cfg S f u) (v1, s) = (res, (v2, s2))"
    and w2: "stored w2 = stored v2"
  show ?thesis
  proof (cases "get_uploaded_file (stored w) i (u_tenant_id u)")
    case None
    then have "stored v2 = stored w" "s2 = s" using run v by (auto simp: run_then_def on_world_def)
    then show ?thesis using w2 by simp
  next
    case (Some g)
    then have g: "g \<in> set (uploaded_files (stored w))" "f_id g = i" "f_tenant_id g = u_tenant_id u"
      using get_uploaded_file_SomeD by auto
    have "storage_delete_uploaded_file cfg S g u (v1, s) = (res, (v2, s2))"
      using run Some v by (simp add: run_then_def on_world_def)
    from storage_delete_effect [OF assms(1) this] show ?thesis using cur v g w2 by auto
  qed
qed simp_all

text \<open>
  C11: a file is handed out or removed only by its own tenant, and there only by its owner or a user
  with the permission for all files; a download link is only made for verified content. Nobody's rows
  or objects change otherwise.
\<close>

theorem file_access_isolated:
  assumes "object_store S obj" and "read_only current" and "schema_ok (stored w)"
    and "get_download_url cfg S current i (w, s) = (res, (w1, s1))"
    and "delete_file cfg S current i (w, s) = (res', (w2, s2))"
  shows "stored w1 = stored w \<and> s1 = s \<and> (\<forall>url. res = Inr url \<longrightarrow>
        (\<exists>u f. fst (current (w\<lparr>tx := stored w\<rparr>)) = Inr u \<and> f \<in> set (uploaded_files (stored w)) \<and> f_id f = i
          \<and> f_tenant_id f = u_tenant_id u \<and> f_verification_status f = verified
          \<and> (user_has_permission u FILES_DOWNLOAD \<or> f_owner_id f = u_id u)))
    \<and> (\<forall>f \<in> set (uploaded_files (stored w)). f \<notin> set (uploaded_files (stored w2))
          \<or> obj s2 (s3_bucket_name cfg) (f_object_key f) \<noteq> obj s (s3_bucket_name cfg) (f_object_key f) \<longrightarrow>
        (\<exists>u. fst (current (w\<lparr>tx := stored w\<rparr>)) = Inr u \<and> f_id f = i \<and> f_tenant_id f = u_tenant_id u
          \<and> (user_has_permission u FILES_DELETE \<or> f_owner_id f = u_id u)))"
proof -
  have "\<exists>u. fst (current (w\<lparr>tx := stored w\<rparr>)) = Inr u \<and> f_id f = i \<and> f_tenant_id f = u_tenant_id u
      \<and> (user_has_permission u FILES_DELETE \<or> f_owner_id f = u_id u)"
    if f: "f \<in> set (uploaded_files (stored w))"
      and ch: "f \<notin> set (uploaded_files (stored w2))
        \<or> obj s2 (s3_bucket_name cfg) (f_object_key f) \<noteq> obj s (s3_bucket_name cfg) (f_object_key f)" for f
  proof -
    from delete_file_effect [OF assms(1,2,5)] f ch obtain u g where
      cur: "fst (current (w\<lparr>tx := stored w\<rparr>)) = Inr u"
      and g: "g \<in> set (uploaded_files (stored w))" "f_id g = i" "f_tenant_id g = u_tenant_id u"
        "can_delete_uploaded_file u g" "stored w2 = stored w \<or> stored w2 = drop_uploaded_file i (stored w)"
        "\<forall>b k. b \<noteq> s3_bucket_name cfg \<or> k \<noteq> f_object_key g \<longrightarrow> obj s2 b k = obj s b k"
      by auto
    have "f_id f = f_id g \<or> f_object_key f = f_object_key g"
      using ch f g(2,5,6) by (auto simp: drop_uploaded_file_def)
    then have "f = g" by (rule uploaded_file_unique [OF assms(3) f g(1)])
    then show ?thesis using cur g by (auto simp: can_delete_uploaded_file_def split: if_splits)
  qed
  then show ?thesis using download_link_effect [OF assms(2,4)] by blast
qed

text \<open>
  The key under which a user's upload is stored is accepted, when a presigned upload is completed,
  from exactly that user: no other user of any tenant can register the object as his own.
\<close>

theorem object_key_ownership:
  "ensure_object_key_belongs_to_owner (build_object_key uid_hex tenant_id owner_id filename) u = Inr ()
    \<longleftrightarrow> u_tenant_id u = tenant_id \<and> u_id u = owner_id"
proof
  assume "ensure_object_key_belongs_to_owner (build_object_key uid_hex tenant_id owner_id filename) u = Inr ()"
  then have "starts_with (build_object_key uid_hex tenant_id owner_id filename) (owner_prefix (u_tenant_id u) (u_id u))"
    by (simp add: ensure_object_key_belongs_to_owner_def split: if_splits)
  then show "u_tenant_id u = tenant_id \<and> u_id u = owner_id"
    unfolding build_object_key_prefix by (auto dest: owner_prefix_unique)
qed (simp add: ensure_object_key_belongs_to_owner_def build_object_key_prefix)

definition example_upload :: upload_file where
  "example_upload = \<lparr>uf_filename = Some ''a.pdf'', uf_content_type = Some ''application/pdf'', uf_stream = ''%PDF-1.7''\<rparr>"

definition example_file :: "upload_verification_status \<Rightarrow> uploaded_file" where
  "example_file st = \<lparr>f_id = 7, f_tenant_id = 1, f_owner_id = 3, f_object_key = ''tenants/1/uploads/3/0af-a.pdf'',
     f_filename = ''a.pdf'', f_content_type = ''application/pdf'', f_size_bytes = 8, f_verification_status = st,
     f_created_at = 0\<rparr>"

definition example_objects :: object_map where
  "example_objects = (\<lambda>_ _. None)(''uploads'' :=
     [''tenants/1/uploads/3/0af-a.pdf'' \<mapsto> (''%PDF-1.7'', ''application/pdf'')])"

definition with_file :: "upload_verification_status \<Rightarrow> store world" where
  "with_file st = example_world\<lparr>stored := add_uploaded_file (example_file st) example_tables,
     tx := add_uploaded_file (example_file st) example_tables\<rparr>"

lemma example_upload_checks:
  "validate_upload_filename ''a.pdf'' = Inr ''a.pdf''"
  "validate_declared_content_type example_cfg (Some ''application/pdf'') = Inr ''application/pdf''"
  "sniff_content_type ''%PDF-1.7'' = Some ''application/pdf''"
  by code_simp+

lemma example_scan: "run_malware_scan example_cfg http body filename = Inr \<lparr>clean = True, detail = ''malware_scan_disabled''\<rparr>"
  by (simp add: run_malware_scan_def get_malware_scanner_def default_settings_def)

lemma example_file_simps [simp]:
  "f_id (example_file st) = 7" "f_tenant_id (example_file st) = 1" "f_owner_id (example_file st) = 3"
  "f_object_key (example_file st) = ''tenants/1/uploads/3/0af-a.pdf''" "f_filename (example_file st) = ''a.pdf''"
  "f_content_type (example_file st) = ''application/pdf''" "f_size_bytes (example_file st) = 8"
  "f_verification_status (example_file st) = st"
  by (simp_all add: example_file_def)

lemma example_file_schema: "schema_ok (add_uploaded_file (example_file st) example_tables)"
  by (simp add: schema_ok_def table_oks unique_by_def add_uploaded_file_def example_file_def example_tables_def
      example_user_def example_tenant_def empty_tables_def refers_def)

lemma example_key: "build_object_key ''0af'' 1 3 ''a.pdf'' = ''tenants/1/uploads/3/0af-a.pdf''"
  by code_simp

lemma example_limits [simp]:
  "upload_max_size_bytes example_cfg = 5242880" "upload_stream_chunk_size_bytes example_cfg = 65536"
  "s3_bucket_name example_cfg = ''uploads''" "upload_presigned_url_expire_seconds example_cfg = 300"
  by (simp_all add: default_settings_def)

lemma example_upload_runs:
  assumes "tx w = example_tables"
  shows "storage_upload example_cfg store_objects http ''0af'' 7 0 (example_user 3 ''user'') example_upload
     (w, (\<lambda>_ _. None)) = (Inr (example_file verified),
       (w\<lparr>tx := add_uploaded_file (example_file verified) example_tables,
          stored := add_uploaded_file (example_file verified) example_tables\<rparr>, example_objects))"
proof -
  have spool: "spool_upload_stream_limited example_cfg ''%PDF-1.7'' = Inr (''%PDF-1.7'', 8)"
    by (subst spool_upload_stream_limited_eq) simp_all
  have f: "\<lparr>f_id = 7, f_tenant_id = 1, f_owner_id = 3, f_object_key = ''tenants/1/uploads/3/0af-a.pdf'',
     f_filename = ''a.pdf'', f_content_type = ''application/pdf'', f_size_bytes = 8, f_verification_status = verified,
     f_created_at = 0\<rparr> = example_file verified"
    by (simp add: example_file_def)
  have put: "s3_call (provider_upload_fileobj example_cfg store_objects ''tenants/1/uploads/3/0af-a.pdf'' ''%PDF-1.7''
      ''application/pdf'') e (w, (\<lambda>_ _. None)) = (Inr (), (w, example_objects))" for e
    by (simp add: s3_call_def provider_upload_fileobj_def store_objects_def example_objects_def)
  show ?thesis
    using assms example_file_schema
    by (simp add: storage_upload_def example_upload_def or_else_def example_upload_checks spool validate_file_size_def
        validate_content_sniff_def example_scan ensure_malware_scan_is_clean_def example_key f put
        on_world_def flush_commit_cases run_then_def Let_def)
qed

lemma upload_contents_checked_witness:
  "\<exists>w' s' r. upload_file_route example_cfg store_objects (\<lambda>_ _ _ _. None) ''0af'' 7 0
      (get_current_user ref_crypto example_cfg 0 None (example_token 3)) example_upload (example_world, (\<lambda>_ _. None))
      = (Inr r, (w', s')) \<and> (\<exists>f. r = read_uploaded_file f \<and> f_owner_id f = 3
        \<and> s' ''uploads'' (f_object_key f) = Some (''%PDF-1.7'', f_content_type f))"
proof -
  let ?current = "get_current_user ref_crypto example_cfg 0 None (example_token 3)"
  let ?run = "upload_file_route example_cfg store_objects (\<lambda>_ _ _ _. None) ''0af'' 7 0 ?current example_upload
     (example_world, (\<lambda>_ _. None))"
  have perm: "user_has_any_permission (example_user 3 ''user'') [FILES_UPLOAD]"
    by (simp add: user_has_any_permission_def role_permissions USER_PERMISSIONS_def)
  have "fst ?run = Inr (read_uploaded_file (example_file verified))"
    using perm example_member
    by (simp add: upload_file_route_def with_storage_session_def on_world_def require_permission_def run_then_def
        example_upload_runs)
  then obtain r w' s' where run: "?run = (Inr r, (w', s'))" by (metis prod.collapse)
  show ?thesis
    using upload_contents_checked [OF store_objects.object_store_axioms _ _ read_only_current_user run] run
      example_member
    by (auto simp: example_upload_def)
qed

lemma example_verification:
  "verify_stored_object_content example_cfg store_objects http ''tenants/1/uploads/3/0af-a.pdf'' ''application/pdf'' 8
     ''a.pdf'' example_objects = Inr ()"
proof -
  have md: "get_object_metadata example_cfg store_objects ''tenants/1/uploads/3/0af-a.pdf'' example_objects
      = Inr \<lparr>md_size_bytes = 8, md_content_type = ''application/pdf''\<rparr>"
    by (simp add: get_object_metadata_def store_objects_def example_objects_def Let_def) code_simp
  have body: "download_object_body example_cfg store_objects ''tenants/1/uploads/3/0af-a.pdf'' 8 example_objects
      = Inr ''%PDF-1.7''"
    by (simp add: download_object_body_def store_objects_def example_objects_def Let_def)
  show ?thesis
    by (simp add: verify_stored_object_content_def md body assert_stored_metadata_matches_def
        validate_content_sniff_def example_upload_checks example_scan ensure_malware_scan_is_clean_def)
qed

lemma with_file_rows:
  "stored (with_file st) = add_uploaded_file (example_file st) example_tables"
  "tx (with_file st) = add_uploaded_file (example_file st) example_tables"
  "uploaded_files (add_uploaded_file (example_file st) example_tables) = [example_file st]"
  by (simp_all add: with_file_def add_uploaded_file_def example_tables_def empty_tables_def)

lemma verification_decides_witness:
  "\<exists>w'. verify_presigned_upload_in_worker example_cfg store_objects (\<lambda>_ _ _ _. None) 7
      (with_file pending, example_objects) = (Inr (), (w', example_objects))
    \<and> verify_presigned_upload_in_worker example_cfg store_objects (\<lambda>_ _ _ _. None) 7 (w', example_objects)
      = (Inr (), (w', example_objects))"
proof -
  have found: "List.find (\<lambda>f. f_id f = 7) (uploaded_files (stored (with_file pending))) = Some (example_file pending)"
    by (simp add: with_file_rows)
  obtain w' where run: "verify_presigned_upload_in_worker example_cfg store_objects (\<lambda>_ _ _ _. None) 7
      (with_file pending, example_objects) = (Inr (), (w', example_objects))"
    using found example_verification mark_verified_schema_ok [OF example_file_schema, of 7 pending]
    by (simp add: verify_presigned_upload_in_worker_def with_file_rows on_world_def flush_commit_cases)
  show ?thesis
    using verification_decides [OF store_objects.object_store_axioms _ _ run found]
      example_file_schema [of pending] run
    by (simp add: with_file_rows)
qed

lemma file_access_isolated_witness:
  "\<exists>w1 w2 url. get_download_url example_cfg store_objects (ret (example_user 3 ''user'')) 7
       (with_file verified, example_objects) = (Inr url, (w1, example_objects))
    \<and> delete_file example_cfg store_objects (ret (example_user 3 ''user'')) 7
       (with_file verified, example_objects) = (Inr (), (w2, (\<lambda>_ _. None)))
    \<and> (\<exists>f \<in> set (uploaded_files (stored (with_file verified))). f \<notin> set (uploaded_files (stored w2)) \<and> f_owner_id f = 3)"
proof -
  let ?u = "example_user 3 ''user''" and ?w = "with_file verified"
  have perm: "user_has_permission ?u FILES_DOWNLOAD_SELF" "user_has_permission ?u FILES_DELETE_SELF"
    "\<not> user_has_permission ?u FILES_DELETE"
    by (simp_all add: user_has_permission_def role_permissions USER_PERMISSIONS_def)
  have found: "get_uploaded_file (add_uploaded_file (example_file verified) example_tables) 7 1 = Some (example_file verified)"
    by (simp add: get_uploaded_file_def with_file_rows)
  obtain w1 url where dl: "get_download_url example_cfg store_objects (ret ?u) 7 (?w, example_objects)
      = (Inr url, (w1, example_objects))"
    using perm found
    by (simp add: get_download_url_def with_storage_session_def on_world_def run_then_def with_file_rows
        storage_get_presigned_download_url_def can_access_uploaded_file_def ensure_upload_is_downloadable_def
        generate_presigned_download_url_def store_objects_def)
  have gone: "uploaded_files (drop_uploaded_file 7 (add_uploaded_file (example_file verified) example_tables)) = []"
    by (simp add: drop_uploaded_file_def with_file_rows)
  have empty: "example_objects(''uploads'' := (example_objects ''uploads'')(''tenants/1/uploads/3/0af-a.pdf'' := None))
      = (\<lambda>_ _. None)"
    by (auto simp: example_objects_def fun_eq_iff)
  obtain w2 where del: "delete_file example_cfg store_objects (ret ?u) 7 (?w, example_objects)
      = (Inr (), (w2, (\<lambda>_ _. None)))" and rows: "uploaded_files (stored w2) = []"
    using perm found drop_file_schema_ok [OF example_file_schema, of 7 verified] gone empty
    by (simp add: delete_file_def with_storage_session_def on_world_def run_then_def with_file_rows
        storage_delete_uploaded_file_def can_delete_uploaded_file_def s3_call_def provider_delete_object_def
        store_objects_def flush_commit_cases)
  have ro: "read_only (ret ?u)" by (simp add: read_only_def)
  have ok: "schema_ok (stored ?w)" using example_file_schema by (simp add: with_file_rows)
  have "f_id f = 7 \<and> f_owner_id f = 3" if "f \<in> set (uploaded_files (stored ?w))" for f
    using file_access_isolated [OF store_objects.object_store_axioms ro ok dl del] that rows perm(3)
    by auto
  then show ?thesis using dl del rows by (auto simp: with_file_rows)
qed

end
