(* ===== verification/Worker.thy ===== *)
theory Worker
  imports Queue_Refinement Webhooks Storage
begin

text \<open>
  The background worker (\<open>app/worker.py\<close>), the shutdown flags (\<open>app/core/shutdown.py\<close>) and the tool for
  dead jobs (\<open>app/worker_failed_jobs.py\<close>).

  \<open>deployment\<close> holds what a worker process is connected to. A \<open>tick\<close> holds what one pass of the worker's
  loop observes from outside: readings of the clocks, fresh values, what other processes commit, whether
  the SMTP server accepts, and whether a termination signal arrives. The loop runs over a list of ticks;
  a run that has used up its ticks is still going. An exception that leaves the loop ends the process,
  which is the outcome \<open>Crashed\<close>.

  A payload holds what the enqueueing functions write, so an identifier that is no integer is refused.
  Logging and metrics calls have no effect on this state.
\<close>

section \<open>Shutdown\<close>

record shutdown_state =
  in_flight_requests :: int
  shutdown_flag :: bool
  job_in_progress :: bool

definition increment_in_flight_requests :: "shutdown_state \<Rightarrow> shutdown_state" where
  "increment_in_flight_requests s = s\<lparr>in_flight_requests := in_flight_requests s + 1\<rparr>"

definition decrement_in_flight_requests :: "shutdown_state \<Rightarrow> shutdown_state" where
  "decrement_in_flight_requests s = s\<lparr>in_flight_requests := in_flight_requests s - 1\<rparr>"

definition get_in_flight_request_count :: "shutdown_state \<Rightarrow> int" where
  "get_in_flight_request_count s = in_flight_requests s"

definition request_worker_shutdown :: "shutdown_state \<Rightarrow> shutdown_state" where
  "request_worker_shutdown s = s\<lparr>shutdown_flag := True\<rparr>"

definition worker_shutdown_requested :: "shutdown_state \<Rightarrow> bool" where
  "worker_shutdown_requested s = shutdown_flag s"

definition mark_worker_job_started :: "shutdown_state \<Rightarrow> shutdown_state" where
  "mark_worker_job_started s = s\<lparr>job_in_progress := True\<rparr>"

definition mark_worker_job_finished :: "shutdown_state \<Rightarrow> shutdown_state" where
  "mark_worker_job_finished s = s\<lparr>job_in_progress := False\<rparr>"

lemmas shutdown_defs = increment_in_flight_requests_def decrement_in_flight_requests_def
  get_in_flight_request_count_def request_worker_shutdown_def worker_shutdown_requested_def
  mark_worker_job_started_def mark_worker_job_finished_def

datatype wait_outcome = Drained | Timed_out | Waiting

text \<open>
  The two waiting loops. Each pass reads the clock and then the flag or counter; a pass that continues
  sleeps. The passes are listed; a list that ends early is a wait that still goes on.
\<close>

fun wait_loop :: "('o \<Rightarrow> bool) \<Rightarrow> time \<Rightarrow> (time \<times> 'o) list \<Rightarrow> wait_outcome" where
  "wait_loop idle deadline [] = Waiting"
| "wait_loop idle deadline ((now, x) # passes) =
     (if \<not> now < deadline then Timed_out
      else if idle x then Drained
      else wait_loop idle deadline passes)"

definition wait_for_in_flight_requests ::
  "time \<Rightarrow> time \<Rightarrow> (time \<times> shutdown_state) list \<Rightarrow> wait_outcome option" where
  "wait_for_in_flight_requests grace start passes =
     (if grace \<le> 0 then None
      else Some (wait_loop (\<lambda>s. get_in_flight_request_count s = 0) (start + grace) passes))"

definition wait_for_worker_job_completion ::
  "time \<Rightarrow> time \<Rightarrow> shutdown_state \<Rightarrow> (time \<times> shutdown_state) list \<Rightarrow> wait_outcome option" where
  "wait_for_worker_job_completion grace start s passes =
     (if \<not> job_in_progress s then None
      else Some (wait_loop (\<lambda>s. \<not> job_in_progress s) (start + grace) passes))"

section \<open>The worker's state and surroundings\<close>

record ('r, 's) deployment =
  dp_cfg :: settings
  dp_queues :: "'r redis_queues"
  dp_keys :: "'r redis_keys"
  dp_crypto :: crypto
  dp_s3 :: "'s s3_client"
  dp_http :: scanner_http
  dp_fromiso :: "string \<Rightarrow> time option"
  dp_error_text :: "exn \<Rightarrow> string"

record tick =
  tk_signal_before :: bool
  tk_maintenance_clock :: time
  tk_maintenance_now :: time
  tk_signal_during :: bool
  tk_queue_clock :: time
  tk_queue_now :: time
  tk_dequeue_iso :: string
  tk_smtp :: smtp_server
  tk_others :: "tables \<Rightarrow> tables"
  tk_handler_now :: time
  tk_raw_token :: string
  tk_token_id :: int
  tk_completion_id :: int
  tk_retry_now :: time
  tk_failed_iso :: string

record ('r, 's) worker =
  wk_world :: "'r world"
  wk_mails :: "mail list"
  wk_store :: 's
  wk_shutdown :: shutdown_state
  last_maintenance_attempt_at :: time
  last_queue_maintenance_at :: time

type_synonym ('r, 's, 'a) worker_action = "('r, 's) worker \<Rightarrow> (exn, 'a) result \<times> ('r, 's) worker"

definition wk_redis :: "('r, 's) worker \<Rightarrow> 'r" where
  "wk_redis k = redis (wk_world k)"

definition set_redis :: "'r \<Rightarrow> ('r, 's) worker \<Rightarrow> ('r, 's) worker" where
  "set_redis r k = k\<lparr>wk_world := (wk_world k)\<lparr>redis := r\<rparr>\<rparr>"

definition signalled :: "bool \<Rightarrow> ('r, 's) worker \<Rightarrow> ('r, 's) worker" where
  "signalled b k = (if b then k\<lparr>wk_shutdown := request_worker_shutdown (wk_shutdown k)\<rparr> else k)"

section \<open>Jobs\<close>

datatype job_failure = UnknownJobTypeError string | Raised exn

definition failure_text :: "('r, 's) deployment \<Rightarrow> job_failure \<Rightarrow> string" where
  "failure_text D f = (case f of
       UnknownJobTypeError t \<Rightarrow> ''unknown job type: '' @ t
     | Raised (Domain d) \<Rightarrow> de_message d
     | Raised e \<Rightarrow> dp_error_text D e)"

definition payload_id :: "pydict \<Rightarrow> string \<Rightarrow> (exn, int) result" where
  "payload_id payload k = (case dict_get payload k of
       None \<Rightarrow> Inl (Unexpected ''KeyError'')
     | Some (PInt i) \<Rightarrow> Inr i
     | Some v \<Rightarrow> Inl (Unexpected ''TypeError''))"

text \<open>An operation on the world and the mails, or on the world and the object store.\<close>

definition on_mailing :: "('r mailing, unit) action \<Rightarrow> ('r, 's) worker \<Rightarrow> (job_failure, unit) result \<times> ('r, 's) worker" where
  "on_mailing m k = (case m (wk_world k, wk_mails k) of
       (Inl e, (w, ms)) \<Rightarrow> (Inl (Raised e), k\<lparr>wk_world := w, wk_mails := ms\<rparr>)
     | (Inr u, (w, ms)) \<Rightarrow> (Inr u, k\<lparr>wk_world := w, wk_mails := ms\<rparr>))"

definition on_storage :: "('r world \<times> 's, unit) action \<Rightarrow> ('r, 's) worker \<Rightarrow> (job_failure, unit) result \<times> ('r, 's) worker" where
  "on_storage m k = (case m (wk_world k, wk_store k) of
       (Inl e, (w, s)) \<Rightarrow> (Inl (Raised e), k\<lparr>wk_world := w, wk_store := s\<rparr>)
     | (Inr u, (w, s)) \<Rightarrow> (Inr u, k\<lparr>wk_world := w, wk_store := s\<rparr>))"

definition handle_job ::
  "('r, 's) deployment \<Rightarrow> tick \<Rightarrow> job \<Rightarrow> ('r, 's) worker \<Rightarrow> (job_failure, unit) result \<times> ('r, 's) worker" where
  "handle_job D t j k =
     (if job_type j = SEND_PASSWORD_RESET_EMAIL_JOB then
        (case payload_id (job_payload j) ''user_id'' of
           Inl e \<Rightarrow> (Inl (Raised e), k)
         | Inr user_id \<Rightarrow>
             on_mailing (with_storage_session (create_password_reset_token_and_send_email (dp_crypto D) (dp_cfg D)
               (dp_keys D) (tk_smtp t) (tk_others t) (tk_handler_now t) (tk_raw_token t) (tk_token_id t)
               (tk_completion_id t) user_id (Some (job_id j)))) k)
      else if job_type j = VERIFY_PRESIGNED_UPLOAD_JOB then
        (case payload_id (job_payload j) ''uploaded_file_id'' of
           Inl e \<Rightarrow> (Inl (Raised e), k)
         | Inr uploaded_file_id \<Rightarrow>
             on_storage (with_storage_session (verify_presigned_upload_in_worker (dp_cfg D) (dp_s3 D) (dp_http D)
               uploaded_file_id)) k)
      else (Inl (UnknownJobTypeError (job_type j)), k))"

definition queue_fault :: "queue_error \<Rightarrow> exn" where
  "queue_fault e = Unexpected (case e of BadJob raw \<Rightarrow> ''invalid job'' | BadTimestamp t \<Rightarrow> ''invalid timestamp'')"

text \<open>The three ways a handled job leaves the processing list.\<close>

definition settle_job ::
  "('r, 's) deployment \<Rightarrow> tick \<Rightarrow> job \<Rightarrow> (job_failure, unit) result \<Rightarrow> 'r \<Rightarrow> 'r" where
  "settle_job D t j res r =
     (let cfg = dp_cfg D; R = dp_queues D in
      case res of
        Inl (UnknownJobTypeError ty) \<Rightarrow>
          snd (move_job_to_failed_queue R (worker_processing_queue_name cfg) (worker_failed_queue_name cfg) j
            (Some (failure_text D (UnknownJobTypeError ty))) (tk_failed_iso t) r)
      | Inl (Raised e) \<Rightarrow>
          if attempts j < worker_max_retries cfg
          then snd (schedule_retry R cfg (worker_processing_queue_name cfg) (worker_delayed_queue_name cfg) j
            (failure_text D (Raised e)) (tk_retry_now t) r)
          else snd (move_job_to_failed_queue R (worker_processing_queue_name cfg) (worker_failed_queue_name cfg) j
            (Some (failure_text D (Raised e))) (tk_failed_iso t) r)
      | Inr _ \<Rightarrow> ack_job R (worker_processing_queue_name cfg) j r)"

definition process_next_job :: "('r, 's) deployment \<Rightarrow> tick \<Rightarrow> ('r, 's, bool) worker_action" where
  "process_next_job D t k =
     (let cfg = dp_cfg D in
      case dequeue_job (dp_queues D) (worker_queue_name cfg) (worker_processing_queue_name cfg)
          (tk_dequeue_iso t) (wk_redis k) of
        (Inl e, r1) \<Rightarrow> (Inl (queue_fault e), set_redis r1 k)
      | (Inr None, r1) \<Rightarrow> (Inr False, set_redis r1 k)
      | (Inr (Some j), r1) \<Rightarrow>
          (case handle_job D t j ((set_redis r1 k)\<lparr>wk_shutdown := mark_worker_job_started (wk_shutdown k)\<rparr>) of
             (res, k2) \<Rightarrow>
               (Inr True, (set_redis (settle_job D t j res (wk_redis k2)) k2)
                  \<lparr>wk_shutdown := mark_worker_job_finished (wk_shutdown k2)\<rparr>)))"

section \<open>Maintenance\<close>

definition maintenance_cleanup :: "settings \<Rightarrow> time \<Rightarrow> ('r world, unit) action" where
  "maintenance_cleanup cfg now = with_session
     (run_then (cleanup_expired_password_reset_tokens now) (\<lambda>_.
      run_then (cleanup_expired_idempotency_records now) (\<lambda>_.
      run_then (cleanup_old_webhook_events cfg now) (\<lambda>_.
      run_then (cleanup_old_audit_logs cfg now) (\<lambda>_. noop)))))"

definition run_scheduled_maintenance :: "('r, 's) deployment \<Rightarrow> tick \<Rightarrow> ('r, 's, bool) worker_action" where
  "run_scheduled_maintenance D t k =
     (let cfg = dp_cfg D in
      if \<not> worker_maintenance_enabled cfg then (Inr False, k)
      else (case try_acquire_maintenance_lock (dp_keys D) (worker_maintenance_lock_key cfg)
              (worker_maintenance_interval_seconds cfg) (tk_maintenance_now t) (wk_redis k) of
          None \<Rightarrow> (Inl RedisError, k)
        | Some (acquired, r1) \<Rightarrow>
            if \<not> acquired then (Inr False, set_redis r1 k)
            else (case maintenance_cleanup cfg (tk_maintenance_now t) (wk_world (set_redis r1 k)) of
                (Inl e, w) \<Rightarrow> (Inl e, k\<lparr>wk_world := w\<rparr>)
              | (Inr _, w) \<Rightarrow> (Inr True, k\<lparr>wk_world := w\<rparr>))))"

definition maybe_run_scheduled_maintenance :: "('r, 's) deployment \<Rightarrow> tick \<Rightarrow> ('r, 's, bool) worker_action" where
  "maybe_run_scheduled_maintenance D t k =
     (let current_time = tk_maintenance_clock t in
      if current_time - last_maintenance_attempt_at k < worker_maintenance_interval_seconds (dp_cfg D) * second
      then (Inr False, k)
      else run_scheduled_maintenance D t (k\<lparr>last_maintenance_attempt_at := current_time\<rparr>))"

definition maybe_run_queue_maintenance :: "('r, 's) deployment \<Rightarrow> tick \<Rightarrow> ('r, 's, unit) worker_action" where
  "maybe_run_queue_maintenance D t k =
     (let cfg = dp_cfg D; current_time = tk_queue_clock t in
      if current_time - last_queue_maintenance_at k < worker_queue_maintenance_interval_seconds cfg * second
      then (Inr (), k)
      else
        (let k1 = k\<lparr>last_queue_maintenance_at := current_time\<rparr> in
         case reclaim_stale_processing_jobs (dp_queues D) (dp_fromiso D) (worker_queue_name cfg)
             (worker_processing_queue_name cfg) (worker_processing_visibility_timeout_seconds cfg)
             (tk_queue_now t) (wk_redis k1) of
           (Inl e, r1) \<Rightarrow> (Inl (queue_fault e), set_redis r1 k1)
         | (Inr _, r1) \<Rightarrow>
             (Inr (), set_redis (snd (promote_delayed_jobs (dp_queues D) (worker_queue_name cfg)
               (worker_delayed_queue_name cfg) (tk_queue_now t) (Some (worker_queue_promote_batch_size cfg)) r1)) k1)))"

section \<open>The loop\<close>

datatype worker_outcome = Stopped | Crashed exn | Running

fun run_worker :: "('r, 's) deployment \<Rightarrow> tick list \<Rightarrow> ('r, 's) worker \<Rightarrow> worker_outcome \<times> ('r, 's) worker" where
  "run_worker D [] k = (Running, k)"
| "run_worker D (t # ts) k0 =
     (let k = signalled (tk_signal_before t) k0 in
      if worker_shutdown_requested (wk_shutdown k) then (Stopped, k)
      else (case maybe_run_scheduled_maintenance D t k of
          (Inl e, k1) \<Rightarrow> (Crashed e, k1)
        | (Inr _, k1') \<Rightarrow>
            (let k1 = signalled (tk_signal_during t) k1' in
             if worker_shutdown_requested (wk_shutdown k1) then (Stopped, k1)
             else (case maybe_run_queue_maintenance D t k1 of
                 (Inl e, k2) \<Rightarrow> (Crashed e, k2)
               | (Inr _, k2) \<Rightarrow>
                   (case process_next_job D t k2 of
                      (Inl e, k3) \<Rightarrow> (Crashed e, k3)
                    | (Inr _, k3) \<Rightarrow> run_worker D ts k3)))))"

section \<open>The tool for dead jobs\<close>

datatype failed_jobs_command = ListFailed int | Requeue "int option"

text \<open>The document the tool prints, and the Redis state; \<open>None\<close> is a run that does not end.\<close>

definition failed_jobs_main ::
  "('r, 'm) redis_queues_scheme \<Rightarrow> settings \<Rightarrow> failed_jobs_command \<Rightarrow> 'r
     \<Rightarrow> ((queue_error, pyval) result \<times> 'r) option" where
  "failed_jobs_main R cfg command r = (case command of
       ListFailed limit \<Rightarrow>
         Some (and_then (list_failed_jobs R (worker_failed_queue_name cfg) limit r)
           (\<lambda>jobs. Inr (PList (map (\<lambda>j. PDict (to_dict j)) jobs))), r)
     | Requeue limit \<Rightarrow>
         (case requeue_failed_jobs R (worker_queue_name cfg) (worker_failed_queue_name cfg) limit r of
            None \<Rightarrow> None
          | Some (res, r') \<Rightarrow>
              Some (and_then res (\<lambda>n. Inr (PDict [(''requeued'', PInt n)])), r')))"

text \<open>\<open>app/password_reset_cleanup.py\<close>.\<close>

definition password_reset_cleanup_main :: "time \<Rightarrow> ('r world, int) action" where
  "password_reset_cleanup_main now = with_session (cleanup_expired_password_reset_tokens now)"

section \<open>The worker and the queues\<close>

lemma represents_cong:
  assumes "ls qn = ls' qn" "ls pn = ls' pn" "zs dn = zs' dn" "ls fn = ls' fn"
  shows "represents ls zs qn pn dn fn q = represents ls' zs' qn pn dn fn q"
  using assms by (simp add: represents_def)

text \<open>What becomes of a job in work that has been handled with the outcome \<open>res\<close>.\<close>

definition settled ::
  "('r, 's) deployment \<Rightarrow> tick \<Rightarrow> job \<Rightarrow> (job_failure, unit) result \<Rightarrow> jobq \<Rightarrow> jobq \<Rightarrow> bool" where
  "settled D t j res q q' \<longleftrightarrow> (case res of
       Inr _ \<Rightarrow> q' = acked j q
     | Inl f \<Rightarrow>
         if (\<exists>e. f = Raised e) \<and> attempts j < worker_max_retries (dp_cfg D)
         then q' = retried j (with_error (failure_text D f) (with_next_attempt j))
                (tk_retry_now t + calculate_retry_delay_seconds (dp_cfg D) (attempts j + 1) * second) q
         else (\<exists>j'. q' = buried j j' q \<and> wf_job j' \<and> job_id j' = job_id j \<and> attempts j' = attempts j))"

text \<open>
  The Redis laws the worker relies on: those of the queues under the configured names, and that setting
  a string key leaves every other key alone. No queue is named like the completion mark of a job or the
  maintenance lock.
\<close>

locale worker_redis =
  job_queues "dp_queues D" lst zst "worker_queue_name (dp_cfg D)" "worker_processing_queue_name (dp_cfg D)"
    "worker_delayed_queue_name (dp_cfg D)" "worker_failed_queue_name (dp_cfg D)"
  for D :: "('r, 's) deployment"
    and lst :: "'r \<Rightarrow> string \<Rightarrow> string list"
    and zst :: "'r \<Rightarrow> string \<Rightarrow> string \<rightharpoonup> time" +
  assumes set_key_elsewhere: "set_key (dp_keys D) now k v nx ex r = Some (b, r') \<Longrightarrow> x \<noteq> k \<Longrightarrow>
      lst r' x = lst r x \<and> zst r' x = zst r x"
    and no_clash: "x \<in> {worker_queue_name (dp_cfg D), worker_processing_queue_name (dp_cfg D),
        worker_delayed_queue_name (dp_cfg D), worker_failed_queue_name (dp_cfg D)} \<Longrightarrow>
      x \<noteq> password_reset_job_completed_key jid \<and> x \<noteq> worker_maintenance_lock_key (dp_cfg D)"
begin

lemma rep_set_key:
  assumes "rep r q" and "set_key (dp_keys D) now k v nx ex r = Some (b, r')"
    and "k = password_reset_job_completed_key jid \<or> k = worker_maintenance_lock_key (dp_cfg D)"
  shows "rep r' q"
proof -
  have same: "lst r' x = lst r x \<and> zst r' x = zst r x"
    if "x \<in> {worker_queue_name (dp_cfg D), worker_processing_queue_name (dp_cfg D),
        worker_delayed_queue_name (dp_cfg D), worker_failed_queue_name (dp_cfg D)}" for x
    using set_key_elsewhere [OF assms(2), of x] no_clash [OF that] assms(3) by blast
  show ?thesis
    using assms(1) same [of "worker_queue_name (dp_cfg D)"] same [of "worker_processing_queue_name (dp_cfg D)"]
      same [of "worker_delayed_queue_name (dp_cfg D)"] same [of "worker_failed_queue_name (dp_cfg D)"]
    by (simp add: represents_def)
qed

lemma keeps_rep_db:
  "keeps (\<lambda>w. rep (redis w) q) (flush c)" "keeps (\<lambda>w. rep (redis w) q) commit"
  "keeps (\<lambda>w. rep (redis w) q) rollback" "keeps (\<lambda>w. rep (redis w) q) (flush_commit c)"
  "keeps (\<lambda>w. rep (redis w) q) (interfere c)"
  by (simp_all add: keeps_def flush_cases commit_def rollback_def flush_commit_cases interfere_def)

lemma keeps_rep_mark:
  "keeps (\<lambda>w. rep (redis w) q) (mark_password_reset_job_completed (dp_keys D) cfg now jid)"
  "keeps (\<lambda>w. rep (redis w) q) (is_password_reset_job_completed (dp_keys D) now jid)"
  by (auto simp: keeps_def mark_password_reset_job_completed_def is_password_reset_job_completed_def
      intro: rep_set_key split: option.splits)

lemma keeps_rep_done: "keeps (\<lambda>w. rep (redis w) q) (is_password_reset_job_done (dp_keys D) now jid)"
  unfolding is_password_reset_job_done_def using keeps_rep_mark by auto

lemma keeps_rep_complete: "keeps (\<lambda>w. rep (redis w) q) (complete_reset_job (dp_keys D) cfg now c jid)"
  using keeps_rep_mark(1)
  by (auto simp: keeps_def complete_reset_job_def flush_commit_cases rollback_def run_then_def
      split: option.splits)

lemma keeps_on_world: "keeps P m \<Longrightarrow> keeps (\<lambda>s. P (fst s)) (on_world m)"
  by (auto simp: keeps_def on_world_def split_beta)

lemma keeps_rep_storage_session:
  fixes m :: "('r world \<times> 'x, 'b) action"
  assumes "keeps (\<lambda>s. rep (redis (fst s)) q) m"
  shows "keeps (\<lambda>s. rep (redis (fst s)) q) (with_storage_session m)"
  unfolding keeps_def with_storage_session_def
proof (intro allI impI)
  fix st :: "'r world \<times> 'x"
  assume "rep (redis (fst st)) q"
  then have "rep (redis (fst ((fst st)\<lparr>tx := stored (fst st)\<rparr>, snd st))) q" by simp
  then have "rep (redis (fst (snd (m ((fst st)\<lparr>tx := stored (fst st)\<rparr>, snd st))))) q"
    using assms unfolding keeps_def by blast
  then show "rep (redis (fst (snd (case m ((fst st)\<lparr>tx := stored (fst st)\<rparr>, snd st) of
      (res, st') \<Rightarrow> (res, ((fst st')\<lparr>tx := stored (fst st')\<rparr>, snd st')))))) q"
    by (simp add: split_beta)
qed

lemma keeps_rep_reset:
  "keeps (\<lambda>s. rep (redis (fst s)) q) (create_password_reset_token_and_send_email C cfg (dp_keys D) smtp others
     now raw_token token_id c uid (Some jid))"
  unfolding create_password_reset_token_and_send_email_def send_reset_token_def Let_def
  by (auto intro!: keeps_run_then keeps_on_world keeps_rep_db keeps_rep_mark keeps_rep_done keeps_rep_complete
      simp: keeps_pair deliver_def keeps_def [of _ "deliver _"] split: option.splits email_error.splits sum.splits)

lemma keeps_rep_verify:
  "keeps (\<lambda>s. rep (redis (fst s)) q) (verify_presigned_upload_in_worker cfg S http i)"
  by (auto simp: keeps_def verify_presigned_upload_in_worker_def on_world_def flush_commit_cases
      split: option.splits sum.splits exn.splits)


text \<open>Whatever a handler does, it leaves the queues alone.\<close>

lemma handle_job_keeps_queues:
  assumes "rep (wk_redis k) q" and "handle_job D t j k = (res, k')"
  shows "rep (wk_redis k') q \<and> last_queue_maintenance_at k' = last_queue_maintenance_at k
    \<and> last_maintenance_attempt_at k' = last_maintenance_attempt_at k \<and> wk_shutdown k' = wk_shutdown k"
proof -
  have mail: "rep (wk_redis k') q \<and> last_queue_maintenance_at k' = last_queue_maintenance_at k
      \<and> last_maintenance_attempt_at k' = last_maintenance_attempt_at k \<and> wk_shutdown k' = wk_shutdown k"
    if "on_mailing m k = (res, k')" "keeps (\<lambda>s. rep (redis (fst s)) q) m" for m
  proof -
    obtain y w ms where m: "m (wk_world k, wk_mails k) = (y, (w, ms))" by (metis prod.collapse)
    have "rep (redis w) q" using keepsD [OF that(2) _ m] assms(1) by (simp add: wk_redis_def)
    then show ?thesis using that(1) m by (cases y) (auto simp: on_mailing_def wk_redis_def)
  qed
  have store: "rep (wk_redis k') q \<and> last_queue_maintenance_at k' = last_queue_maintenance_at k
      \<and> last_maintenance_attempt_at k' = last_maintenance_attempt_at k \<and> wk_shutdown k' = wk_shutdown k"
    if "on_storage m k = (res, k')" "keeps (\<lambda>s. rep (redis (fst s)) q) m" for m
  proof -
    obtain y w s where m: "m (wk_world k, wk_store k) = (y, (w, s))" by (metis prod.collapse)
    have "rep (redis w) q" using keepsD [OF that(2) _ m] assms(1) by (simp add: wk_redis_def)
    then show ?thesis using that(1) m by (cases y) (auto simp: on_storage_def wk_redis_def)
  qed
  have "k' = k
      \<or> (\<exists>uid. on_mailing (with_storage_session (create_password_reset_token_and_send_email (dp_crypto D) (dp_cfg D)
            (dp_keys D) (tk_smtp t) (tk_others t) (tk_handler_now t) (tk_raw_token t) (tk_token_id t)
            (tk_completion_id t) uid (Some (job_id j)))) k = (res, k'))
      \<or> (\<exists>i. on_storage (with_storage_session (verify_presigned_upload_in_worker (dp_cfg D) (dp_s3 D) (dp_http D) i)) k
            = (res, k'))"
    using assms(2) by (auto simp: handle_job_def split: if_splits sum.splits)
  then show ?thesis
    using mail [OF _ keeps_rep_storage_session [OF keeps_rep_reset]]
      store [OF _ keeps_rep_storage_session [OF keeps_rep_verify]] assms(1) by blast
qed

lemma settle_refines:
  assumes "rep r q" and "wf_job j"
  shows "\<exists>q'. settled D t j res q q' \<and> rep (settle_job D t j res r) q'"
proof -
  note bury = bury_refines [OF assms]
  note retry = retry_refines [OF assms, where cfg = "dp_cfg D"]
  consider (finished) "res = Inr ()" | (unknown) ty where "res = Inl (UnknownJobTypeError ty)"
    | (raised) e where "res = Inl (Raised e)"
    by (metis job_failure.exhaust old.sum.exhaust old.unit.exhaust)
  then show ?thesis
  proof cases
    case finished
    then show ?thesis using ack_refines [OF assms] by (simp add: settled_def settle_job_def Let_def)
  next
    case unknown
    then show ?thesis
      using bury [of "Some (failure_text D (UnknownJobTypeError ty))" "tk_failed_iso t"]
      by (auto simp: settled_def settle_job_def Let_def split_beta)
  next
    case raised
    then show ?thesis
      using bury [of "Some (failure_text D (Raised e))" "tk_failed_iso t"]
        retry [where msg = "failure_text D (Raised e)" and now = "tk_retry_now t"]
      by (cases "attempts j < worker_max_retries (dp_cfg D)")
         (auto simp: settled_def settle_job_def Let_def split_beta)
  qed
qed

lemma set_redis_simps [simp]:
  "wk_redis (set_redis r k) = r" "wk_shutdown (set_redis r k) = wk_shutdown k"
  "last_queue_maintenance_at (set_redis r k) = last_queue_maintenance_at k"
  "last_maintenance_attempt_at (set_redis r k) = last_maintenance_attempt_at k"
  "wk_redis (k\<lparr>wk_shutdown := s\<rparr>) = wk_redis k" "wk_redis (k\<lparr>last_queue_maintenance_at := x\<rparr>) = wk_redis k"
  "wk_redis (k\<lparr>last_maintenance_attempt_at := x\<rparr>) = wk_redis k"
  "stored (wk_world (set_redis r k)) = stored (wk_world k)" "wk_mails (set_redis r k) = wk_mails k"
  "wk_store (set_redis r k) = wk_store k"
  by (simp_all add: set_redis_def wk_redis_def)

lemma process_idle:
  assumes "rep (wk_redis k) q" and "ready q = []"
  shows "\<exists>k'. process_next_job D t k = (Inr False, k') \<and> rep (wk_redis k') q \<and> wk_shutdown k' = wk_shutdown k"
  using dequeue_refines [OF assms(1), of "tk_dequeue_iso t"] assms(2)
  by (auto simp: process_next_job_def Let_def taken_def split: prod.splits)

text \<open>One run of a job, from the ready list to where it ends up.\<close>

lemma process_runs:
  fixes t :: tick
  assumes "rep (wk_redis k) q" and "ready q \<noteq> []"
  defines "j \<equiv> with_processing_started_at None (tk_dequeue_iso t) (last (ready q))"
    and "q1 \<equiv> q\<lparr>ready := butlast (ready q),
           working := with_processing_started_at None (tk_dequeue_iso t) (last (ready q)) # working q\<rparr>"
  shows "\<exists>k1 res k2 k' q2. rep (wk_redis k1) q1 \<and> job_in_progress (wk_shutdown k1)
    \<and> wk_mails k1 = wk_mails k \<and> wk_store k1 = wk_store k \<and> stored (wk_world k1) = stored (wk_world k)
    \<and> handle_job D t j k1 = (res, k2) \<and> process_next_job D t k = (Inr True, k')
    \<and> \<not> job_in_progress (wk_shutdown k') \<and> shutdown_flag (wk_shutdown k') = shutdown_flag (wk_shutdown k)
    \<and> last_queue_maintenance_at k' = last_queue_maintenance_at k
    \<and> last_maintenance_attempt_at k' = last_maintenance_attempt_at k
    \<and> stored (wk_world k') = stored (wk_world k2) \<and> wk_mails k' = wk_mails k2 \<and> wk_store k' = wk_store k2
    \<and> settled D t j res q1 q2 \<and> rep (wk_redis k') q2"
proof -
  have tk: "taken (tk_dequeue_iso t) q = (Some j, q1)"
    using assms(2) by (simp add: taken_def Let_def j_def q1_def)
  obtain r1 where d: "dequeue_job (dp_queues D) (worker_queue_name (dp_cfg D))
      (worker_processing_queue_name (dp_cfg D)) (tk_dequeue_iso t) (wk_redis k) = (Inr (Some j), r1)"
    and r1: "rep r1 q1"
    using dequeue_refines [OF assms(1), of "tk_dequeue_iso t"] tk by (auto split: prod.splits)
  define k1 where "k1 = (set_redis r1 k)\<lparr>wk_shutdown := mark_worker_job_started (wk_shutdown k)\<rparr>"
  obtain res k2 where h: "handle_job D t j k1 = (res, k2)" by force
  have k1: "rep (wk_redis k1) q1" using r1 by (simp add: k1_def)
  have wf: "wf_job j" using rep_lists(2) [OF r1] by (simp add: q1_def j_def)
  note k2 = handle_job_keeps_queues [OF k1 h]
  obtain q2 where q2: "settled D t j res q1 q2" "rep (settle_job D t j res (wk_redis k2)) q2"
    using settle_refines [of "wk_redis k2" q1 j t res] k2 wf by blast
  have run: "process_next_job D t k = (Inr True, (set_redis (settle_job D t j res (wk_redis k2)) k2)
      \<lparr>wk_shutdown := mark_worker_job_finished (wk_shutdown k2)\<rparr>)"
    using d h by (simp add: process_next_job_def Let_def k1_def)
  show ?thesis
    using k1 h run k2 q2
    by (intro exI [of _ k1] exI [of _ res] exI [of _ k2] exI [of _ q2]
          exI [of _ "(set_redis (settle_job D t j res (wk_redis k2)) k2)
            \<lparr>wk_shutdown := mark_worker_job_finished (wk_shutdown k2)\<rparr>"])
       (simp add: k1_def mark_worker_job_started_def mark_worker_job_finished_def)
qed

end

end
