(* ===== verification/Worker_Liveness.thy ===== *)
theory Worker_Liveness
  imports Worker
begin

text \<open>
  What the worker guarantees: every run settles its job, and a job that always fails ends in the failed
  queue. The first part follows the loop of \<open>app/worker.py\<close> through maintenance and one run of a job over
  a queue that holds one job; the properties come after it, with a worker of the small installation.
\<close>

text \<open>Queues that hold one job.\<close>

definition ready_only :: "job \<Rightarrow> jobq" where
  "ready_only i = \<lparr>ready = [i], working = [], delayed = Map.empty, dead = []\<rparr>"

definition delayed_only :: "job \<Rightarrow> time \<Rightarrow> jobq" where
  "delayed_only i x = \<lparr>ready = [], working = [], delayed = [i \<mapsto> x], dead = []\<rparr>"

definition dead_only :: "job \<Rightarrow> jobq" where
  "dead_only i = \<lparr>ready = [], working = [], delayed = Map.empty, dead = [i]\<rparr>"

context worker_redis
begin

lemma keeps_rep_cleanups:
  "keeps (\<lambda>w. rep (redis w) q) (cleanup_expired_password_reset_tokens now)"
  "keeps (\<lambda>w. rep (redis w) q) (cleanup_expired_idempotency_records now)"
  "keeps (\<lambda>w. rep (redis w) q) (cleanup_old_webhook_events cfg now)"
  "keeps (\<lambda>w. rep (redis w) q) (cleanup_old_audit_logs cfg now)"
  unfolding cleanup_expired_password_reset_tokens_def cleanup_expired_idempotency_records_def
    cleanup_old_webhook_events_def cleanup_old_audit_logs_def Let_def
  by (intro keeps_run_then keeps_basic keeps_rep_db)+

lemma maintenance_cleanup_rep:
  assumes "rep (redis w) q" and "maintenance_cleanup cfg now w = (res, w')"
  shows "rep (redis w') q"
proof -
  let ?m = "run_then (cleanup_expired_password_reset_tokens now) (\<lambda>_.
      run_then (cleanup_expired_idempotency_records now) (\<lambda>_.
      run_then (cleanup_old_webhook_events cfg now) (\<lambda>_.
      run_then (cleanup_old_audit_logs cfg now) (\<lambda>_. noop))))"
  have k: "keeps (\<lambda>w. rep (redis w) q) ?m"
    by (intro keeps_run_then keeps_rep_cleanups keeps_basic)
  obtain x y where m: "?m (w\<lparr>tx := stored w\<rparr>) = (x, y)" by force
  have "rep (redis y) q" using keepsD [OF k _ m] assms(1) by simp
  then show ?thesis using assms(2) m by (auto simp: maintenance_cleanup_def with_session_def)
qed

lemma maintenance_keeps_queues:
  assumes "rep (wk_redis k) q" and "maybe_run_scheduled_maintenance D t k = (res, k')"
  shows "rep (wk_redis k') q \<and> wk_shutdown k' = wk_shutdown k
    \<and> last_queue_maintenance_at k' = last_queue_maintenance_at k"
proof -
  have lock: "rep r' q" if "try_acquire_maintenance_lock (dp_keys D) (worker_maintenance_lock_key (dp_cfg D)) ttl now
      (wk_redis k) = Some (b, r')" for ttl now b r'
    using rep_set_key [OF assms(1) that [unfolded try_acquire_maintenance_lock_def]] by simp
  show ?thesis
    using assms
    by (auto simp: maybe_run_scheduled_maintenance_def run_scheduled_maintenance_def Let_def wk_redis_def set_redis_def
        dest!: lock [unfolded wk_redis_def] maintenance_cleanup_rep [rotated]
        split: if_splits option.splits prod.splits sum.splits)
qed


text \<open>Queue maintenance puts a delayed job that is due, or keeps a ready one, on the ready list.\<close>

lemma queue_maintenance:
  assumes "rep (wk_redis k) q" and "working q = []" and "0 < worker_queue_promote_batch_size (dp_cfg D)"
    and "q = ready_only i \<or> q = delayed_only i x \<and> 0 \<le> x \<and> x \<le> tk_queue_now t
      \<and> last_queue_maintenance_at k + worker_queue_maintenance_interval_seconds (dp_cfg D) * second \<le> tk_queue_clock t"
    and "last_queue_maintenance_at k \<le> tk_queue_clock t"
  shows "\<exists>k'. maybe_run_queue_maintenance D t k = (Inr (), k') \<and> rep (wk_redis k') (ready_only i)
    \<and> wk_shutdown k' = wk_shutdown k \<and> last_queue_maintenance_at k' \<le> tk_queue_clock t"
proof (cases "tk_queue_clock t - last_queue_maintenance_at k
    < worker_queue_maintenance_interval_seconds (dp_cfg D) * second")
  case True
  then have "q = ready_only i" using assms(4) by auto
  then show ?thesis using True assms(1,5) by (simp add: maybe_run_queue_maintenance_def Let_def)
next
  case False
  let ?now = "tk_queue_now t"
  have same: "reclaimed (\<lambda>_. False) q = q" using assms(2) by (cases q) (simp add: reclaimed_def)
  obtain r1 where r1: "reclaim_stale_processing_jobs (dp_queues D) (dp_fromiso D) (worker_queue_name (dp_cfg D))
      (worker_processing_queue_name (dp_cfg D)) (worker_processing_visibility_timeout_seconds (dp_cfg D)) ?now
      (wk_redis k) = (Inr 0, r1)" and rep1: "rep r1 q"
    using reclaim_refines [OF assms(1), of "dp_fromiso D" "worker_processing_visibility_timeout_seconds (dp_cfg D)"
        ?now "\<lambda>_. False"] assms(2) same by auto
  obtain m r2 where pr: "promote_delayed_jobs (dp_queues D) (worker_queue_name (dp_cfg D))
      (worker_delayed_queue_name (dp_cfg D)) ?now (Some (worker_queue_promote_batch_size (dp_cfg D))) r1 = (m, r2)"
    by force
  obtain js where js: "distinct js" "set js = due_jobs ?now q"
    and rep2: "rep r2 (promoted (take (quota (Some (worker_queue_promote_batch_size (dp_cfg D))) 0 (length js)) js) q)"
    using promote_refines [OF rep1, of ?now "Some (worker_queue_promote_batch_size (dp_cfg D))"] pr
    by (auto simp: Let_def)
  have "promoted (take (quota (Some (worker_queue_promote_batch_size (dp_cfg D))) 0 (length js)) js) q = ready_only i"
    using assms(4)
  proof
    assume q: "q = ready_only i"
    then have "js = []" using js(2) by (simp add: due_jobs_def ready_only_def)
    then show ?thesis using q by (simp add: promoted_def ready_only_def)
  next
    assume a: "q = delayed_only i x \<and> 0 \<le> x \<and> x \<le> ?now
      \<and> last_queue_maintenance_at k + worker_queue_maintenance_interval_seconds (dp_cfg D) * second \<le> tk_queue_clock t"
    then have "set js = {i}" using js(2) by (auto simp: due_jobs_def delayed_only_def split: if_splits)
    then have "js = [i]" using js(1) by (cases js) (auto simp: subset_singleton_iff)
    moreover have "1 \<le> nat (worker_queue_promote_batch_size (dp_cfg D))" using assms(3) by simp
    moreover have "[i \<mapsto> x] |` (- {i}) = Map.empty" by (auto simp: restrict_map_def)
    ultimately show ?thesis
      using a by (simp add: promoted_def ready_only_def delayed_only_def quota_def min_def)
  qed
  then show ?thesis
    using False r1 pr rep2 by (simp add: maybe_run_queue_maintenance_def Let_def)
qed

text \<open>One run of a failing job.\<close>

lemma process_failing:
  assumes "rep (wk_redis k) (ready_only i)"
    and "\<And>k1. \<exists>e k2. handle_job D t (with_processing_started_at None (tk_dequeue_iso t) i) k1 = (Inl (Raised e), k2)"
  shows "\<exists>k' q2. process_next_job D t k = (Inr True, k') \<and> rep (wk_redis k') q2
    \<and> shutdown_flag (wk_shutdown k') = shutdown_flag (wk_shutdown k)
    \<and> last_queue_maintenance_at k' = last_queue_maintenance_at k
    \<and> (if attempts i < worker_max_retries (dp_cfg D)
       then (\<exists>i'. q2 = delayed_only i' (tk_retry_now t + calculate_retry_delay_seconds (dp_cfg D) (attempts i + 1) * second)
           \<and> job_id i' = job_id i \<and> job_type i' = job_type i \<and> job_payload i' = job_payload i
           \<and> attempts i' = attempts i + 1)
       else (\<exists>i'. q2 = dead_only i' \<and> job_id i' = job_id i \<and> attempts i' = attempts i))"
proof -
  let ?j = "with_processing_started_at None (tk_dequeue_iso t) i"
  have ne: "ready (ready_only i) \<noteq> []" by (simp add: ready_only_def)
  obtain k1 res k2 k' q2 where h: "handle_job D t ?j k1 = (res, k2)" and run: "process_next_job D t k = (Inr True, k')"
    and fl: "shutdown_flag (wk_shutdown k') = shutdown_flag (wk_shutdown k)"
      "last_queue_maintenance_at k' = last_queue_maintenance_at k"
    and st: "settled D t ?j res ((ready_only i)\<lparr>ready := [], working := [?j]\<rparr>) q2" and rep2: "rep (wk_redis k') q2"
    using process_runs [OF assms(1) ne, of t] by (auto simp: ready_only_def)
  obtain e where e: "res = Inl (Raised e)" using assms(2) [of k1] h by auto
  show ?thesis
    using run rep2 fl st
    by (intro exI [of _ k'] exI [of _ q2])
       (auto simp: e settled_def retried_def buried_def ready_only_def delayed_only_def dead_only_def job_copies
        split: if_splits)
qed

end

section \<open>A job that always fails\<close>

text \<open>Between two passes of the loop the longest retry delay and the maintenance interval go by.\<close>

fun spaced :: "settings \<Rightarrow> tick list \<Rightarrow> bool" where
  "spaced cfg (t # u # ts) \<longleftrightarrow>
     tk_retry_now t + worker_retry_backoff_max_seconds cfg * second \<le> tk_queue_now u
     \<and> tk_queue_clock t + worker_queue_maintenance_interval_seconds cfg * second \<le> tk_queue_clock u
     \<and> spaced cfg (u # ts)"
| "spaced cfg ts \<longleftrightarrow> True"

text \<open>A pass in which no signal arrives and whose scheduled maintenance does not crash the worker.\<close>

definition quiet :: "('r, 's) deployment \<Rightarrow> tick \<Rightarrow> bool" where
  "quiet D t \<longleftrightarrow> \<not> tk_signal_before t \<and> \<not> tk_signal_during t \<and> 0 \<le> tk_retry_now t
     \<and> (\<forall>k. \<exists>b k'. maybe_run_scheduled_maintenance D t k = (Inr b, k'))"

definition same_work :: "job \<Rightarrow> job \<Rightarrow> bool" where
  "same_work i j \<longleftrightarrow> job_id i = job_id j \<and> job_type i = job_type j \<and> job_payload i = job_payload j"

definition always_fails :: "('r, 's) deployment \<Rightarrow> tick \<Rightarrow> job \<Rightarrow> bool" where
  "always_fails D t j \<longleftrightarrow> (\<forall>i k. same_work i j \<longrightarrow> (\<exists>e k'. handle_job D t i k = (Inl (Raised e), k')))"

lemma validated_worker_settings:
  assumes "validate_settings raw = Inr cfg"
  shows "0 \<le> worker_max_retries cfg" and "0 < worker_queue_promote_batch_size cfg"
    and "0 < worker_queue_maintenance_interval_seconds cfg"
proof -
  obtain s0 where s0: "validate_fields raw = Inr s0" "cfg = with_defaults s0"
    using assms by (auto simp: validate_settings_Inr_iff)
  have "(''worker_max_retries'', 0 \<le> worker_max_retries raw) \<in> set (field_constraints raw)"
    "(''worker_queue_promote_batch_size'', 0 < worker_queue_promote_batch_size raw) \<in> set (field_constraints raw)"
    "(''worker_queue_maintenance_interval_seconds'', 0 < worker_queue_maintenance_interval_seconds raw)
      \<in> set (field_constraints raw)"
    by (simp_all add: field_constraints_def)
  then have "0 \<le> worker_max_retries raw" "0 < worker_queue_promote_batch_size raw"
    "0 < worker_queue_maintenance_interval_seconds raw"
    using field_errors_positive [OF validate_fieldsD(1) [OF s0(1)]] by blast+
  moreover have "worker_max_retries cfg = worker_max_retries raw"
    "worker_queue_promote_batch_size cfg = worker_queue_promote_batch_size raw"
    "worker_queue_maintenance_interval_seconds cfg = worker_queue_maintenance_interval_seconds raw"
    using s0(1) by (auto simp: s0(2) with_defaults_def apply_legacy_routes_default_def
        apply_metrics_auth_default_def validate_fields_def and_then_Inr_iff Let_def
        split: option.splits if_splits)
  ultimately show "0 \<le> worker_max_retries cfg" "0 < worker_queue_promote_batch_size cfg"
    "0 < worker_queue_maintenance_interval_seconds cfg" by simp_all
qed

context worker_redis
begin

text \<open>One pass of the loop.\<close>

lemma loop_pass:
  assumes "rep (wk_redis k) q" and "0 < worker_queue_promote_batch_size (dp_cfg D)" and "quiet D t"
    and "\<not> shutdown_flag (wk_shutdown k)" and "last_queue_maintenance_at k \<le> tk_queue_clock t"
    and "q = ready_only i \<or> q = delayed_only i x \<and> 0 \<le> x \<and> x \<le> tk_queue_now t
      \<and> last_queue_maintenance_at k + worker_queue_maintenance_interval_seconds (dp_cfg D) * second \<le> tk_queue_clock t"
    and "always_fails D t i"
  shows "\<exists>k' q2. run_worker D (t # ts) k = run_worker D ts k' \<and> rep (wk_redis k') q2
    \<and> \<not> shutdown_flag (wk_shutdown k') \<and> last_queue_maintenance_at k' \<le> tk_queue_clock t
    \<and> (if attempts i < worker_max_retries (dp_cfg D)
       then (\<exists>i'. q2 = delayed_only i' (tk_retry_now t + calculate_retry_delay_seconds (dp_cfg D) (attempts i + 1) * second)
           \<and> same_work i' i \<and> attempts i' = attempts i + 1)
       else (\<exists>i'. q2 = dead_only i' \<and> job_id i' = job_id i \<and> attempts i' = attempts i))"
proof -
  obtain b k1 where m: "maybe_run_scheduled_maintenance D t k = (Inr b, k1)"
    using assms(3) unfolding quiet_def by blast
  have k1: "rep (wk_redis k1) q" "wk_shutdown k1 = wk_shutdown k"
    "last_queue_maintenance_at k1 = last_queue_maintenance_at k"
    using maintenance_keeps_queues [OF assms(1) m] by simp_all
  have w: "working q = []" using assms(6) by (auto simp: ready_only_def delayed_only_def)
  obtain k2 where qm: "maybe_run_queue_maintenance D t k1 = (Inr (), k2)" and k2: "rep (wk_redis k2) (ready_only i)"
    "wk_shutdown k2 = wk_shutdown k" "last_queue_maintenance_at k2 \<le> tk_queue_clock t"
    using queue_maintenance [OF k1(1) w assms(2), of i x t] assms(5,6) k1 by auto
  have "same_work (with_processing_started_at None (tk_dequeue_iso t) i) i"
    by (simp add: same_work_def job_copies)
  then have f: "\<exists>e k2. handle_job D t (with_processing_started_at None (tk_dequeue_iso t) i) k1 = (Inl (Raised e), k2)" for k1
    using assms(7) by (auto simp: always_fails_def)
  obtain k3 q2 where p: "process_next_job D t k2 = (Inr True, k3)" and k3: "rep (wk_redis k3) q2"
    "shutdown_flag (wk_shutdown k3) = shutdown_flag (wk_shutdown k2)"
    "last_queue_maintenance_at k3 = last_queue_maintenance_at k2"
    "if attempts i < worker_max_retries (dp_cfg D)
       then (\<exists>i'. q2 = delayed_only i' (tk_retry_now t + calculate_retry_delay_seconds (dp_cfg D) (attempts i + 1) * second)
           \<and> job_id i' = job_id i \<and> job_type i' = job_type i \<and> job_payload i' = job_payload i
           \<and> attempts i' = attempts i + 1)
       else (\<exists>i'. q2 = dead_only i' \<and> job_id i' = job_id i \<and> attempts i' = attempts i)"
    using process_failing [OF k2(1) f] by blast
  have "run_worker D (t # ts) k = run_worker D ts k3"
    using assms(3,4) m qm p k1(2) by (simp add: quiet_def signalled_def worker_shutdown_requested_def)
  then show ?thesis
    using k3 k2 assms(4) by (intro exI [of _ k3] exI [of _ q2]) (auto simp: same_work_def)
qed

lemma failing_job_loop:
  assumes "0 < worker_queue_promote_batch_size (dp_cfg D)"
    and "0 \<le> worker_retry_backoff_base_seconds (dp_cfg D)"
    and "worker_retry_backoff_base_seconds (dp_cfg D) \<le> worker_retry_backoff_max_seconds (dp_cfg D)"
    and "0 \<le> worker_queue_maintenance_interval_seconds (dp_cfg D)"
    and "rep (wk_redis k) q" and "\<not> shutdown_flag (wk_shutdown k)"
    and "last_queue_maintenance_at k \<le> tk_queue_clock (hd ts)"
    and "q = ready_only i \<or> q = delayed_only i x \<and> 0 \<le> x \<and> x \<le> tk_queue_now (hd ts)
      \<and> last_queue_maintenance_at k + worker_queue_maintenance_interval_seconds (dp_cfg D) * second
          \<le> tk_queue_clock (hd ts)"
    and "\<forall>t \<in> set ts. quiet D t \<and> always_fails D t j" and "spaced (dp_cfg D) ts" and "same_work i j"
    and "ts \<noteq> []" and "attempts i + int (length ts) = worker_max_retries (dp_cfg D) + 1"
  shows "\<exists>k' i'. run_worker D ts k = (Running, k') \<and> rep (wk_redis k') (dead_only i')
    \<and> job_id i' = job_id j \<and> attempts i' = worker_max_retries (dp_cfg D)"
  using assms(5-)
proof (induction ts arbitrary: k q i x)
  case (Cons t ts)
  have qt: "quiet D t" and "always_fails D t j" using Cons.prems(5) by simp_all
  then have af: "always_fails D t i" using Cons.prems(7) by (simp add: always_fails_def same_work_def)
  from Cons.prems obtain k' q2 where run: "run_worker D (t # ts) k = run_worker D ts k'" and k': "rep (wk_redis k') q2"
    "\<not> shutdown_flag (wk_shutdown k')" "last_queue_maintenance_at k' \<le> tk_queue_clock t"
    and out: "if attempts i < worker_max_retries (dp_cfg D)
       then (\<exists>i'. q2 = delayed_only i' (tk_retry_now t + calculate_retry_delay_seconds (dp_cfg D) (attempts i + 1) * second)
           \<and> same_work i' i \<and> attempts i' = attempts i + 1)
       else (\<exists>i'. q2 = dead_only i' \<and> job_id i' = job_id i \<and> attempts i' = attempts i)"
    using loop_pass [OF Cons.prems(1) assms(1) qt Cons.prems(2) _ _ af, of x ts] by auto
  show ?case
  proof (cases ts)
    case Nil
    then have "attempts i = worker_max_retries (dp_cfg D)" using Cons.prems(9) by simp
    then show ?thesis using run k'(1) out Nil Cons.prems(7) by (auto simp: same_work_def)
  next
    case (Cons u us)
    let ?d = "calculate_retry_delay_seconds (dp_cfg D) (attempts i + 1)"
    have "attempts i < worker_max_retries (dp_cfg D)" using Cons.prems(9) Cons by simp
    then obtain i' where i': "q2 = delayed_only i' (tk_retry_now t + ?d * second)" "same_work i' i"
      "attempts i' = attempts i + 1" using out by auto
    have d: "0 \<le> ?d" "?d \<le> worker_retry_backoff_max_seconds (dp_cfg D)"
      using retry_delay_min [OF assms(2,3)] retry_delay_max [OF assms(3)] assms(2) by (auto intro: order_trans)
    have sp: "tk_retry_now t + worker_retry_backoff_max_seconds (dp_cfg D) * second \<le> tk_queue_now u"
      "tk_queue_clock t + worker_queue_maintenance_interval_seconds (dp_cfg D) * second \<le> tk_queue_clock u"
      "spaced (dp_cfg D) ts"
      using Cons.prems(6) Cons by simp_all
    have "0 \<le> tk_retry_now t" using qt by (simp add: quiet_def)
    with d sp(1) have x: "0 \<le> tk_retry_now t + ?d * second"
      "tk_retry_now t + ?d * second \<le> tk_queue_now (hd ts)" using Cons by simp_all
    have wait: "last_queue_maintenance_at k' + worker_queue_maintenance_interval_seconds (dp_cfg D) * second
        \<le> tk_queue_clock (hd ts)" using sp(2) k'(3) Cons by simp
    have "\<exists>k'' i''. run_worker D ts k' = (Running, k'') \<and> rep (wk_redis k'') (dead_only i'')
        \<and> job_id i'' = job_id j \<and> attempts i'' = worker_max_retries (dp_cfg D)"
    proof (rule Cons.IH [OF k'(1,2)])
      show "last_queue_maintenance_at k' \<le> tk_queue_clock (hd ts)" using wait assms(4) by simp
      show "q2 = ready_only i' \<or> q2 = delayed_only i' (tk_retry_now t + ?d * second)
        \<and> 0 \<le> tk_retry_now t + ?d * second \<and> tk_retry_now t + ?d * second \<le> tk_queue_now (hd ts)
        \<and> last_queue_maintenance_at k' + worker_queue_maintenance_interval_seconds (dp_cfg D) * second
            \<le> tk_queue_clock (hd ts)"
        using i'(1) x wait by blast
      show "same_work i' j" using i'(2) Cons.prems(7) by (simp add: same_work_def)
      show "attempts i' + int (length ts) = worker_max_retries (dp_cfg D) + 1" using Cons.prems(9) i'(3) by simp
    qed (use Cons.prems(5) sp(3) Cons in simp_all)
    then show ?thesis using run by simp
  qed
qed simp

end

definition worker_queues ::
  "('r, 's) deployment \<Rightarrow> ('r \<Rightarrow> string \<Rightarrow> string list) \<Rightarrow> ('r \<Rightarrow> string \<Rightarrow> string \<rightharpoonup> time) \<Rightarrow> ('r, 's) worker \<Rightarrow> jobq \<Rightarrow> bool" where
  "worker_queues D lst zst k q \<longleftrightarrow> represents (lst (wk_redis k)) (zst (wk_redis k)) (worker_queue_name (dp_cfg D))
     (worker_processing_queue_name (dp_cfg D)) (worker_delayed_queue_name (dp_cfg D))
     (worker_failed_queue_name (dp_cfg D)) q"

text \<open>A signal ends the worker between two jobs, never within one.\<close>

lemma run_worker_stops:
  assumes "tk_signal_before t"
  shows "run_worker D (t # ts) k = (Stopped, k\<lparr>wk_shutdown := request_worker_shutdown (wk_shutdown k)\<rparr>)"
  using assms by (simp add: signalled_def request_worker_shutdown_def worker_shutdown_requested_def)

lemma stopped_wait:
  "\<not> job_in_progress s \<Longrightarrow> wait_for_worker_job_completion grace start s passes = None"
  by (simp add: wait_for_worker_job_completion_def)

lemma wait_loop_drained: "wait_loop idle deadline passes = Drained \<Longrightarrow>
    \<exists>p \<in> set passes. idle (snd p) \<and> fst p < deadline"
  by (induction idle deadline passes rule: wait_loop.induct) (auto split: if_splits)

section \<open>Properties of the worker\<close>

text \<open>
  C7: one run of the worker takes the oldest ready job, whatever the handler does, and settles it:
  acknowledged after a normal return; after an exception delayed by the retry delay with one more attempt
  and the text of the error, or dead once the retries are used up; dead at once for an unknown type. It
  never ends the loop, no other job moves, and afterwards no job is marked as running. Without a ready
  job nothing changes.
\<close>

theorem job_run_settled:
  assumes "worker_redis D lst zst" and "worker_queues D lst zst k q"
  shows "if ready q = [] then (\<exists>k'. process_next_job D t k = (Inr False, k') \<and> worker_queues D lst zst k' q)
    else (\<exists>k1 res k2 k' q2. let j = with_processing_started_at None (tk_dequeue_iso t) (last (ready q));
             q1 = q\<lparr>ready := butlast (ready q), working := j # working q\<rparr> in
        worker_queues D lst zst k1 q1 \<and> handle_job D t j k1 = (res, k2)
        \<and> process_next_job D t k = (Inr True, k') \<and> settled D t j res q1 q2 \<and> worker_queues D lst zst k' q2
        \<and> stored (wk_world k') = stored (wk_world k2) \<and> \<not> job_in_progress (wk_shutdown k'))"
  using worker_redis.process_idle [OF assms(1) assms(2) [unfolded worker_queues_def], of t]
    worker_redis.process_runs [OF assms(1) assms(2) [unfolded worker_queues_def], of t]
  unfolding worker_queues_def Let_def by (cases "ready q = []") (simp, blast, simp, blast)


section \<open>A worker of the small installation\<close>

definition worker_cfg :: settings where
  "worker_cfg = with_defaults (example_cfg\<lparr>worker_maintenance_enabled := False\<rparr>)"

definition example_deployment :: "(store, object_map) deployment" where
  "example_deployment = \<lparr>dp_cfg = worker_cfg, dp_queues = store_queues, dp_keys = store_keys,
     dp_crypto = ref_crypto, dp_s3 = store_objects, dp_http = (\<lambda>_ _ _ _. None), dp_fromiso = (\<lambda>_. None),
     dp_error_text = (\<lambda>_. ''error'')\<rparr>"

lemma example_deployment_simps [simp]:
  "dp_cfg example_deployment = worker_cfg" "dp_queues example_deployment = store_queues"
  "dp_keys example_deployment = store_keys"
  by (simp_all add: example_deployment_def)

lemma worker_cfg_simps [simp]:
  "worker_queue_name worker_cfg = ''app_jobs''" "worker_processing_queue_name worker_cfg = ''app_jobs_processing''"
  "worker_delayed_queue_name worker_cfg = ''app_jobs_delayed''" "worker_failed_queue_name worker_cfg = ''app_jobs_failed''"
  "worker_maintenance_lock_key worker_cfg = ''app_jobs_maintenance_lock''" "worker_max_retries worker_cfg = 3"
  "worker_maintenance_enabled worker_cfg = False" "worker_retry_backoff_max_seconds worker_cfg = 300"
  "worker_queue_maintenance_interval_seconds worker_cfg = 5"
  by (simp_all add: worker_cfg_def with_defaults_def default_settings_def apply_legacy_routes_default_def
      apply_metrics_auth_default_def)

interpretation example_worker: worker_redis example_deployment st_lists "\<lambda>r k. map_of (st_zsets r k)"
proof (rule worker_redis.intro)
  show "job_queues (dp_queues example_deployment) st_lists (\<lambda>r k. map_of (st_zsets r k))
      (worker_queue_name (dp_cfg example_deployment)) (worker_processing_queue_name (dp_cfg example_deployment))
      (worker_delayed_queue_name (dp_cfg example_deployment)) (worker_failed_queue_name (dp_cfg example_deployment))"
    by (simp add: store_jobs.job_queues_axioms)
  show "worker_redis_axioms example_deployment st_lists (\<lambda>r k. map_of (st_zsets r k))"
    by unfold_locales
      (auto simp: password_reset_job_completed_key_def PASSWORD_RESET_JOB_COMPLETED_PREFIX_def split: if_splits)
qed

lemma worker_cfg_valid: "validate_settings (example_cfg\<lparr>worker_maintenance_enabled := False\<rparr>) = Inr worker_cfg"
proof -
  have "validate_fields (example_cfg\<lparr>worker_maintenance_enabled := False\<rparr>)
      = Inr (example_cfg\<lparr>worker_maintenance_enabled := False\<rparr>)"
    by code_simp
  then show ?thesis
    unfolding validate_settings_Inr_iff worker_cfg_def
    by (intro exI [of _ "example_cfg\<lparr>worker_maintenance_enabled := False\<rparr>"]) (simp, code_simp)
qed

definition example_broken_job :: job where
  "example_broken_job = \<lparr>job_id = ''j1'', job_type = ''send_password_reset_email'', job_payload = [], attempts = 0,
     request_id = None, last_error = None, failed_at = None, processing_started_at = None\<rparr>"

definition example_tick :: "int \<Rightarrow> tick" where
  "example_tick n = \<lparr>tk_signal_before = False, tk_maintenance_clock = n * 400 * second,
     tk_maintenance_now = n * 400 * second, tk_signal_during = False, tk_queue_clock = n * 400 * second,
     tk_queue_now = n * 400 * second, tk_dequeue_iso = ''t'', tk_smtp = (\<lambda>_ _ _ _. True), tk_others = (\<lambda>t. t),
     tk_handler_now = n * 400 * second, tk_raw_token = ''raw'', tk_token_id = 1, tk_completion_id = 1,
     tk_retry_now = n * 400 * second, tk_failed_iso = ''t''\<rparr>"

lemma example_tick_simps [simp]:
  "tk_retry_now (example_tick n) = n * 400 * second" "tk_queue_now (example_tick n) = n * 400 * second"
  "tk_queue_clock (example_tick n) = n * 400 * second" "\<not> tk_signal_before (example_tick n)"
  "\<not> tk_signal_during (example_tick n)"
  by (simp_all add: example_tick_def)

definition example_worker_state :: "(store, object_map) worker" where
  "example_worker_state = \<lparr>wk_world = example_world\<lparr>redis := put_list ''app_jobs'' [to_json example_broken_job] empty_store\<rparr>,
     wk_mails = [], wk_store = (\<lambda>_ _. None),
     wk_shutdown = \<lparr>in_flight_requests = 0, shutdown_flag = False, job_in_progress = False\<rparr>,
     last_maintenance_attempt_at = 0, last_queue_maintenance_at = 0\<rparr>"

lemma example_worker_queues:
  "worker_queues example_deployment st_lists (\<lambda>r k. map_of (st_zsets r k)) example_worker_state (ready_only example_broken_job)"
proof -
  have "wf_job example_broken_job" by (simp add: wf_job_def example_broken_job_def)
  then show ?thesis
    by (simp add: worker_queues_def represents_def ready_only_def example_worker_state_def wk_redis_def wf_jobq_def
        example_world_def)
qed

lemma job_run_settled_witness:
  "\<exists>k'. process_next_job example_deployment (example_tick 1) example_worker_state = (Inr True, k')
    \<and> \<not> job_in_progress (wk_shutdown k')"
proof -
  have "ready (ready_only example_broken_job) \<noteq> []" by (simp add: ready_only_def)
  then show ?thesis
    using job_run_settled [OF example_worker.worker_redis_axioms example_worker_queues, of "example_tick 1"]
    by (auto simp: Let_def)
qed


end
