(* ===== verification/Tenant_Admin.thy ===== *)
theory Tenant_Admin
  imports Users
begin

text \<open>
  The platform's tenant routes (\<open>app/api/routes/tenants.py\<close>) and the administrator routes of one tenant
  (\<open>app/api/routes/admin.py\<close>) with the schemas they return. The query bounds of the framework
  (\<open>1 \<le> page\<close>, \<open>1 \<le> size \<le> 100\<close>) are the callers' obligation.
\<close>

section \<open>Tenant routes\<close>

record tenant_read =
  tr_id :: int
  tr_slug :: string
  tr_name :: string
  tr_is_active :: bool

definition read_tenant :: "tenant \<Rightarrow> tenant_read" where
  "read_tenant x = \<lparr>tr_id = t_id x, tr_slug = t_slug x, tr_name = t_name x, tr_is_active = t_is_active x\<rparr>"

definition tenant_not_found :: exn where
  "tenant_not_found = HTTPException 404 ''Tenant not found''"

definition create_tenant_route ::
  "int \<Rightarrow> int \<Rightarrow> time \<Rightarrow> ('r world, user) action \<Rightarrow> string \<Rightarrow> string \<Rightarrow> ('r world, tenant_read) action" where
  "create_tenant_route new_id audit_id now current slug name = with_session
     (run_then (lift_result (TenantCreate slug name)) (\<lambda>(slug', name').
      run_then (require_permission current [TENANTS_PROVISION]) (\<lambda>current_user.
      run_then (provision_tenant new_id audit_id now slug' name' (u_id current_user) (u_tenant_id current_user))
        (\<lambda>x. ret (read_tenant x)))))"

definition list_tenant_records ::
  "(string \<Rightarrow> 'k::linorder) \<Rightarrow> ('r world, user) action \<Rightarrow> int \<Rightarrow> int \<Rightarrow> bool
     \<Rightarrow> ('r world, tenant_read list) action" where
  "list_tenant_records collate current pg sz include_inactive = with_session
     (run_then (require_permission current [TENANTS_LIST]) (\<lambda>_.
      run_then (reads (\<lambda>w. list_tenants collate (tx w) ((pg - 1) * sz) sz include_inactive))
        (\<lambda>xs. ret (map read_tenant xs))))"

definition get_tenant_route :: "('r world, user) action \<Rightarrow> int \<Rightarrow> ('r world, tenant_read) action" where
  "get_tenant_route current tenant_id = with_session
     (run_then (require_permission current [TENANTS_LIST]) (\<lambda>_.
      run_then (reads (\<lambda>w. get_tenant_by_id (tx w) tenant_id)) (\<lambda>x. case x of
        None \<Rightarrow> raise tenant_not_found | Some y \<Rightarrow> ret (read_tenant y))))"

definition patch_tenant ::
  "int \<Rightarrow> time \<Rightarrow> ('r world, user) action \<Rightarrow> int \<Rightarrow> string option \<Rightarrow> bool option
     \<Rightarrow> ('r world, tenant_read) action" where
  "patch_tenant audit_id now current tenant_id name is_active = with_session
     (run_then (require_permission current [TENANTS_MANAGE]) (\<lambda>current_user.
      if is_active = None \<and> name = None
      then raise (HTTPException 400 ''At least one field must be provided'')
      else
        run_then (reads (\<lambda>w. get_tenant_by_id (tx w) tenant_id)) (\<lambda>x. case x of
          None \<Rightarrow> raise tenant_not_found
        | Some y \<Rightarrow>
            run_then (case name of None \<Rightarrow> ret (Some y) | Some n \<Rightarrow> update_tenant tenant_id (Some n) None) (\<lambda>y1.
            run_then (case is_active of None \<Rightarrow> ret y1
                | Some b \<Rightarrow> set_tenant_active_state audit_id now tenant_id b (u_id current_user)
                              (u_tenant_id current_user))
              (\<lambda>y2. case y2 of None \<Rightarrow> raise tenant_not_found | Some z \<Rightarrow> ret (read_tenant z))))))"

section \<open>Administrator routes\<close>

definition admin_panel :: "('r world, user) action \<Rightarrow> ('r world, pyval) action" where
  "admin_panel current = with_session
     (run_then (require_permission current [ADMIN_ACCESS]) (\<lambda>current_user.
      ret (PDict [(''message'', PStr ''Welcome admin''), (''email'', PStr (u_email current_user))])))"

record audit_log_read =
  ar_id :: int
  ar_admin_id :: "int option"
  ar_action :: audit_action
  ar_target_user_id :: "int option"
  ar_created_at :: time

definition all_actions :: "audit_action list" where
  "all_actions = [USER_UPDATED, USER_DEACTIVATED, USER_ACTIVATED, USER_DELETED, PASSWORD_RESET_REQUESTED,
     PASSWORD_RESET_CONFIRMED, TENANT_CREATED, TENANT_ACTIVATED, TENANT_DEACTIVATED]"

text \<open>A row whose action is none of the enum's values does not serialise.\<close>

definition read_audit_log :: "audit_log \<Rightarrow> (exn, audit_log_read) result" where
  "read_audit_log a = (case List.find (\<lambda>x. action_value x = a_action a) all_actions of
       None \<Rightarrow> Inl (Unexpected ''ResponseValidationError'')
     | Some x \<Rightarrow> Inr \<lparr>ar_id = a_id a, ar_admin_id = a_admin_id a, ar_action = x,
                     ar_target_user_id = a_target_user_id a, ar_created_at = a_created_at a\<rparr>)"

fun read_audit_logs :: "audit_log list \<Rightarrow> (exn, audit_log_read list) result" where
  "read_audit_logs [] = Inr []"
| "read_audit_logs (a # as) =
     and_then (read_audit_log a) (\<lambda>x. and_then (read_audit_logs as) (\<lambda>xs. Inr (x # xs)))"

definition list_audit_logs ::
  "('r world, user) action \<Rightarrow> int \<Rightarrow> int \<Rightarrow> audit_action option \<Rightarrow> int option \<Rightarrow> int option
     \<Rightarrow> ('r world, audit_log_read list) action" where
  "list_audit_logs current pg sz act admin_id target_user_id = with_session
     (run_then (require_permission current [AUDIT_LOGS_LIST]) (\<lambda>current_user.
      run_then (reads (\<lambda>w. get_audit_logs (tx w) (u_tenant_id current_user) ((pg - 1) * sz) sz act admin_id
          target_user_id)) (\<lambda>rows. lift_result (read_audit_logs rows))))"

section \<open>Lemmas\<close>

lemma all_actions_complete: "x \<in> set all_actions"
  by (cases x) (simp_all add: all_actions_def)

lemma find_action: "List.find (\<lambda>x. x = y) all_actions = Some y"
  by (cases y) (simp_all add: all_actions_def)

text \<open>Every row the services write serialises.\<close>

lemma read_audit_row:
  "a_action a = action_value y \<Longrightarrow> read_audit_log a = Inr \<lparr>ar_id = a_id a, ar_admin_id = a_admin_id a,
     ar_action = y, ar_target_user_id = a_target_user_id a, ar_created_at = a_created_at a\<rparr>"
  by (simp add: read_audit_log_def find_action)

text \<open>A route behind a permission either fails as the check does or runs with the authenticated user.\<close>

lemma permitted:
  assumes "read_only current" and "with_session (run_then (require_permission current ps) f) w = (res, w')"
  shows "(\<exists>e. res = Inl e \<and> stored w' = stored w)
    \<or> (\<exists>a w1. current (w\<lparr>tx := stored w\<rparr>) = (Inr a, w1) \<and> user_has_any_permission a ps
        \<and> tx w1 = stored w \<and> stored w1 = stored w
        \<and> (\<exists>w2. f a w1 = (res, w2) \<and> stored w' = stored w2))"
proof -
  obtain cres w1 where cur: "current (w\<lparr>tx := stored w\<rparr>) = (cres, w1)" by force
  have "stored w1 = stored w" "tx w1 = stored w" using read_onlyD [OF assms(1) cur] by simp_all
  then show ?thesis
    using assms(2) cur
    by (cases cres) (auto simp: with_session_res require_permission_def run_then_def action_distrib
        split: if_splits)
qed

lemma with_session_clean: "with_session m w = (res, w') \<Longrightarrow> tx w' = stored w'"
  by (auto simp: with_session_res)

lemma get_tenant_by_id_SomeD: "get_tenant_by_id t i = Some x \<Longrightarrow> x \<in> set (tenants t) \<and> t_id x = i"
  unfolding get_tenant_by_id_def using first_tenant_SomeD by fastforce

lemma tenants_set_tenant: "tenants (set_tenant i g t) = map (\<lambda>x. if t_id x = i then g x else x) (tenants t)"
  by (simp add: set_tenant_def)

lemma set_tenant_fields [simp]:
  "users (set_tenant i g t) = users t" "audit_logs (set_tenant i g t) = audit_logs t"
  by (simp_all add: set_tenant_def)

lemma tenants_audit [simp]: "tenants (add_audit_log a t) = tenants t"
  by (simp add: add_audit_log_def)

text \<open>A tenant row that says inactive locks the users of the tenant out.\<close>

definition tenant_closed :: "int \<Rightarrow> tables \<Rightarrow> bool" where
  "tenant_closed i t \<longleftrightarrow> list_all (\<lambda>x. t_id x = i \<longrightarrow> \<not> t_is_active x) (tenants t)"

lemma closed_tenant_refuses:
  assumes "tenant_closed (u_tenant_id u) (tx w)"
  shows "get_current_user C cfg now header token w \<noteq> (Inr u, w')"
proof
  assume "get_current_user C cfg now header token w = (Inr u, w')"
  then have "tenant_active (tx w) u" unfolding get_current_user_iff by blast
  then obtain x where "x \<in> set (tenants (tx w))" "t_id x = u_tenant_id u" "t_is_active x"
    using first_tenant_SomeD unfolding tenant_active_def user_tenant_def by (fastforce split: option.splits)
  then show False using assms by (auto simp: tenant_closed_def list_all_iff)
qed

lemma tenant_closed_set:
  "(\<And>x. t_id (g x) = t_id x) \<Longrightarrow> (\<And>x. \<not> t_is_active (g x)) \<Longrightarrow> tenant_closed i (set_tenant i g t)"
  by (auto simp: tenant_closed_def list_all_iff tenants_set_tenant)

lemma tenant_closed_audit [simp]: "tenant_closed i (add_audit_log a t) \<longleftrightarrow> tenant_closed i t"
  by (simp add: tenant_closed_def)

text \<open>What a tenant update leaves alone.\<close>

definition elsewhere_same :: "int \<Rightarrow> tables \<Rightarrow> tables \<Rightarrow> bool" where
  "elsewhere_same i t t' \<longleftrightarrow> users t' = users t \<and>
     filter (\<lambda>y. t_id y \<noteq> i) (tenants t') = filter (\<lambda>y. t_id y \<noteq> i) (tenants t)"

lemma elsewhere_same_trans: "elsewhere_same i t t' \<Longrightarrow> elsewhere_same i t' t'' \<Longrightarrow> elsewhere_same i t t''"
  by (simp add: elsewhere_same_def)

lemma elsewhere_same_set_tenant:
  assumes "\<And>y. t_id (g y) = t_id y"
  shows "elsewhere_same i t (set_tenant i g t)"
proof -
  have "filter (\<lambda>y. t_id y \<noteq> i) (map (\<lambda>y. if t_id y = i then g y else y) xs) = filter (\<lambda>y. t_id y \<noteq> i) xs" for xs
    using assms by (induction xs) auto
  then show ?thesis by (simp add: elsewhere_same_def tenants_set_tenant)
qed

lemma elsewhere_same_audit [simp]: "elsewhere_same i t (add_audit_log a t') \<longleftrightarrow> elsewhere_same i t t'"
  by (simp add: elsewhere_same_def)

lemma update_tenant_effect:
  assumes "update_tenant i nm b w = (Inr y, w')"
  shows "elsewhere_same i (tx w) (tx w')"
proof -
  let ?g = "\<lambda>y. case b of None \<Rightarrow> (case nm of None \<Rightarrow> y | Some n \<Rightarrow> y\<lparr>t_name := n\<rparr>)
    | Some c \<Rightarrow> (case nm of None \<Rightarrow> y | Some n \<Rightarrow> y\<lparr>t_name := n\<rparr>)\<lparr>t_is_active := c\<rparr>"
  have "elsewhere_same i (tx w) (set_tenant i ?g (tx w))"
    by (rule elsewhere_same_set_tenant) (simp split: option.splits)
  then show ?thesis
    using assms
    by (auto simp: update_tenant_def run_then_def flush_commit_cases Let_def elsewhere_same_def
        split: option.splits if_splits)
qed

lemma set_active_state_closes:
  assumes "set_tenant_active_state audit_id now i False adm adm_tid w = (Inr (Some x), w')"
  shows "tenant_closed i (stored w') \<and> elsewhere_same i (tx w) (stored w')
    \<and> (\<exists>y. get_tenant_by_id (stored w') i = Some y)"
proof -
  obtain z where z: "get_tenant_by_id (tx w) i = Some z"
    using assms by (auto simp: set_tenant_active_state_def update_tenant_def run_then_def split: option.splits)
  let ?t = "set_tenant i (\<lambda>y. y\<lparr>t_is_active := False\<rparr>) (tx w)"
  have found: "\<exists>y. get_tenant_by_id (add_audit_log a ?t) i = Some y" for a
    using z unfolding get_tenant_by_id_def first_tenant_def tenants_audit tenants_set_tenant
    by (subst find_map_other) auto
  have "tenant_closed i ?t" "elsewhere_same i (tx w) ?t"
    by (simp_all add: tenant_closed_set elsewhere_same_set_tenant)
  then show ?thesis
    using assms z found
    by (auto simp: set_tenant_active_state_def update_tenant_def run_then_def flush_commit_cases Let_def
        create_audit_log_def save_def split: if_splits)
qed

lemma closed_tenant_slug:
  assumes "tenants_ok (tx w)" and "tenant_closed i (tx w)" and "get_tenant_by_id (tx w) i = Some y"
  shows "fst (get_request_tenant (Some (t_slug y)) w) = Inl (domain NotFoundError ''Tenant not found'')"
proof (cases "get_tenant_by_slug (tx w) (t_slug y)")
  case None
  then show ?thesis
    by (simp add: get_request_tenant_def resolve_tenant_slug_def run_then_def get_active_tenant_cases)
next
  case (Some z)
  then have z: "z \<in> set (tenants (tx w))" "t_slug z = t_slug y"
    using first_tenant_SomeD unfolding get_tenant_by_slug_def by fastforce+
  have y: "y \<in> set (tenants (tx w))" "t_id y = i" using get_tenant_by_id_SomeD [OF assms(3)] by auto
  have "z = y"
    using assms(1) z y unfolding tenants_ok_def unique_by_def by (metis (no_types) distinct_map inj_onD)
  then have "\<not> t_is_active z" using assms(2) y by (auto simp: tenant_closed_def list_all_iff)
  then show ?thesis
    using Some by (simp add: get_request_tenant_def resolve_tenant_slug_def run_then_def get_active_tenant_cases)
qed

lemma patch_tenant_closes:
  assumes "world_ok w"
    and "patch_tenant audit_id now (get_current_user C cfg now' header token) i name (Some False) w = (Inr x, w')"
  shows "tenant_closed i (stored w')" "\<exists>y. get_tenant_by_id (stored w') i = Some y"
    "elsewhere_same i (stored w) (stored w')" "tenants_ok (stored w')"
    "\<exists>a w1. get_current_user C cfg now' header token (w\<lparr>tx := stored w\<rparr>) = (Inr a, w1) \<and> u_role a = ''platform_admin''"
proof -
  obtain a w1 w2 where a: "get_current_user C cfg now' header token (w\<lparr>tx := stored w\<rparr>) = (Inr a, w1)"
    "user_has_any_permission a [TENANTS_MANAGE]" "tx w1 = stored w" and
    f: "run_then (reads (\<lambda>w. get_tenant_by_id (tx w) i)) (\<lambda>x. case x of
          None \<Rightarrow> raise tenant_not_found
        | Some y \<Rightarrow>
            run_then (case name of None \<Rightarrow> ret (Some y) | Some n \<Rightarrow> update_tenant i (Some n) None) (\<lambda>y1.
            run_then (set_tenant_active_state audit_id now i False (u_id a) (u_tenant_id a))
              (\<lambda>y2. case y2 of None \<Rightarrow> raise tenant_not_found | Some z \<Rightarrow> ret (read_tenant z)))) w1
      = (Inr x, w2)" and st: "stored w' = stored w2"
    using permitted [OF read_only_current_user assms(2) [unfolded patch_tenant_def]] by auto
  obtain w3 y3 where w3: "elsewhere_same i (tx w1) (tx w3)"
    and run: "set_tenant_active_state audit_id now i False (u_id a) (u_tenant_id a) w3 = (Inr (Some y3), w2)"
    using f update_tenant_effect
    by (cases name) (fastforce simp: run_then_Inr_iff elsewhere_same_def split: option.splits)+
  note c = set_active_state_closes [OF run]
  show "tenant_closed i (stored w')" "\<exists>y. get_tenant_by_id (stored w') i = Some y" using c st by auto
  show "elsewhere_same i (stored w) (stored w')" using elsewhere_same_trans [OF w3, of "stored w2"] c a(3) st by simp
  have k: "keeps world_ok (patch_tenant audit_id now (get_current_user C cfg now' header token) i name (Some False))"
    unfolding patch_tenant_def require_permission_def get_current_user_def
    by (auto intro!: keeps_with_session keeps_run_then split: option.splits)
  show "tenants_ok (stored w')"
    using keepsD [OF k assms] by (simp add: world_ok_def schema_ok_def)
  show "\<exists>a w1. get_current_user C cfg now' header token (w\<lparr>tx := stored w\<rparr>) = (Inr a, w1) \<and> u_role a = ''platform_admin''"
    using a(1,2) tenants_permission_role [of TENANTS_MANAGE "u_role a"]
    by (auto simp: user_has_any_permission_def)
qed

section \<open>Properties\<close>

text \<open>
  C26: closing a tenant locks its users out at once. After a successful request that deactivates a
  tenant, no token authenticates a user of that tenant, whatever it claims and whenever it was issued;
  requests that name the tenant are answered as if it did not exist; no user row and no other tenant
  has changed, and only a platform administrator can have made the request.
\<close>

theorem tenant_deactivation_locks_out:
  assumes "world_ok w"
    and "patch_tenant audit_id now (get_current_user C cfg now header token) i name (Some False) w = (Inr x, w')"
  shows "(case fst (get_current_user C cfg t h tok w') of Inl e \<Rightarrow> True | Inr u \<Rightarrow> u_tenant_id u \<noteq> i)
    \<and> (case get_tenant_by_id (stored w') i of None \<Rightarrow> False
       | Some y \<Rightarrow> fst (get_request_tenant (Some (t_slug y)) w') = Inl (domain NotFoundError ''Tenant not found''))
    \<and> elsewhere_same i (stored w) (stored w')
    \<and> (case fst (get_current_user C cfg now header token (w\<lparr>tx := stored w\<rparr>)) of
         Inl e \<Rightarrow> False | Inr a \<Rightarrow> u_role a = ''platform_admin'')"
proof -
  note closed = patch_tenant_closes [OF assms]
  have tx: "tx w' = stored w'" using assms(2) with_session_clean unfolding patch_tenant_def by blast
  show ?thesis
  proof (intro conjI)
    show "case fst (get_current_user C cfg t h tok w') of Inl e \<Rightarrow> True | Inr u \<Rightarrow> u_tenant_id u \<noteq> i"
      using closed(1) closed_tenant_refuses [of _ w' C cfg t h tok] tx
      by (cases "get_current_user C cfg t h tok w'") (auto split: sum.splits)
    obtain y where y: "get_tenant_by_id (stored w') i = Some y" using closed(2) by blast
    show "case get_tenant_by_id (stored w') i of None \<Rightarrow> False
       | Some y \<Rightarrow> fst (get_request_tenant (Some (t_slug y)) w') = Inl (domain NotFoundError ''Tenant not found'')"
      using closed_tenant_slug [of w' i y] closed(1,4) y tx by simp
  qed (use closed in auto)
qed


theorem tenant_deactivation_locks_out_witness:
  "\<exists>x w'. patch_tenant 7 0 (get_current_user ref_crypto example_cfg 0 None (example_token 1)) 1 None (Some False)
      example_world = (Inr x, w')
    \<and> (case fst (get_current_user ref_crypto example_cfg 5 None (example_token 1) w') of
         Inl e \<Rightarrow> True | Inr u \<Rightarrow> u_tenant_id u \<noteq> 1)"
proof -
  let ?g = "\<lambda>y. y\<lparr>t_is_active := False\<rparr>"
  have u: "get_current_user ref_crypto example_cfg 0 None (example_token 1) (example_world\<lparr>tx := stored example_world\<rparr>)
    = (Inr (example_user 1 ''platform_admin''),
       in_tenant_context (example_user 1 ''platform_admin'') (example_world\<lparr>tx := stored example_world\<rparr>))"
    using example_current_user [of 1] by simp
  have ok: "schema_ok (set_tenant 1 ?g example_tables)"
    "schema_ok (add_audit_log (audit_row 7 0 (example_user 1 ''platform_admin'') TENANT_DEACTIVATED 1
        \<lparr>a_target_user_id := None\<rparr>) (set_tenant 1 ?g example_tables))"
    by (simp_all add: schema_ok_def table_oks unique_by_def example_tables_def empty_tables_def audit_row_def
        example_tenant_def example_user_def refers_def set_tenant_def add_audit_log_def)
  have t: "get_tenant_by_id example_tables 1 = Some example_tenant"
    by (simp add: get_tenant_by_id_def first_tenant_def example_tables_def example_tenant_def)
  have p: "user_has_any_permission (example_user 1 ''platform_admin'') [TENANTS_MANAGE]"
    by (simp add: user_has_any_permission_def role_permissions)
  have "\<exists>w'. patch_tenant 7 0 (get_current_user ref_crypto example_cfg 0 None (example_token 1)) 1 None (Some False)
      example_world = (Inr (read_tenant (example_tenant\<lparr>t_is_active := False\<rparr>)), w')"
    using u ok t p
    by (simp add: patch_tenant_def with_session_def require_permission_def run_then_def
        set_tenant_active_state_def update_tenant_def flush_commit_cases create_audit_log_def save_def Let_def
        audit_row_def)
  then show ?thesis
    using tenant_deactivation_locks_out [OF example_world_ok] by blast
qed

end
