(* ===== verification/Seeding.thy ===== *)
theory Seeding
  imports Auth
begin

text \<open>
  The seed scripts (\<open>app/seed_default_tenant.py\<close>, \<open>app/seed_dev_data.py\<close>). Sequence values and salts of the
  rows a script creates are functions of the seed.
\<close>

definition DEV_PASSWORD :: string where
  "DEV_PASSWORD = ''devpassword123''"

record dev_user_seed =
  ds_email :: string
  ds_role :: string

definition DEV_USERS :: "dev_user_seed list" where
  "DEV_USERS = [\<lparr>ds_email = ''admin@example.local'', ds_role = ''platform_admin''\<rparr>,
     \<lparr>ds_email = ''user@example.local'', ds_role = ''user''\<rparr>]"

text \<open>The session does not flush by itself, so every lookup sees the rows from before the first addition.\<close>

definition seed_dev_users ::
  "'m crypto_scheme \<Rightarrow> int \<Rightarrow> (dev_user_seed \<Rightarrow> int) \<Rightarrow> (dev_user_seed \<Rightarrow> string) \<Rightarrow> bool
     \<Rightarrow> ('r world, (string \<times> string) list) action" where
  "seed_dev_users C new_tenant_id new_id salt do_commit =
     run_then (ensure_default_tenant new_tenant_id False) (\<lambda>tenant.
     run_then (reads tx) (\<lambda>t.
       let missing = (\<lambda>d. get_user_by_email t (ds_email d) (t_id tenant) = None);
           row = (\<lambda>d. \<lparr>u_id = new_id d, u_tenant_id = t_id tenant, u_email = ds_email d,
             u_hashed_password = hash_password C (salt d) DEV_PASSWORD, u_is_active = True,
             u_role = ds_role d, u_token_version = 0\<rparr>);
           results = map (\<lambda>d. (ds_email d, if missing d then ''created'' else ''skipped'')) DEV_USERS in
       run_then (save do_commit (\<lambda>t. t\<lparr>users := users t @ map row (filter missing DEV_USERS)\<rparr>))
         (\<lambda>_. ret results)))"

definition seed_dev_data_main ::
  "'m crypto_scheme \<Rightarrow> settings \<Rightarrow> int \<Rightarrow> (dev_user_seed \<Rightarrow> int) \<Rightarrow> (dev_user_seed \<Rightarrow> string)
     \<Rightarrow> ('r world, (string \<times> string) list) action" where
  "seed_dev_data_main C cfg new_tenant_id new_id salt =
     (if environment cfg \<noteq> ''development'' then raise (Unexpected ''SystemExit'')
      else with_session (seed_dev_users C new_tenant_id new_id salt True))"

definition seed_default_tenant_main :: "int \<Rightarrow> ('r world, tenant) action" where
  "seed_default_tenant_main new_id = with_session (ensure_default_tenant new_id True)"

section \<open>Lemmas\<close>

text \<open>Running the script again skips every user.\<close>

lemma seed_again:
  assumes "get_tenant_by_slug (tx w) DEFAULT_TENANT_SLUG = Some x" and "schema_ok (tx w)"
    and "\<forall>d \<in> set DEV_USERS. get_user_by_email (tx w) (ds_email d) (t_id x) \<noteq> None"
  shows "seed_dev_users C tid new_id salt True w
    = (Inr (map (\<lambda>d. (ds_email d, ''skipped'')) DEV_USERS), w\<lparr>stored := tx w\<rparr>)"
proof -
  have "filter (\<lambda>d. get_user_by_email (tx w) (ds_email d) (t_id x) = None) DEV_USERS = []"
    using assms(3) by (simp add: filter_empty_conv)
  moreover have "map (\<lambda>d. (ds_email d, if get_user_by_email (tx w) (ds_email d) (t_id x) = None then ''created''
      else ''skipped'')) DEV_USERS = map (\<lambda>d. (ds_email d, ''skipped'')) DEV_USERS"
    using assms(3) by simp
  ultimately show ?thesis
    using assms(1,2) by (simp add: seed_dev_users_def ensure_default_tenant_def save_def flush_commit_cases Let_def
        run_then_def)
qed

end
