(* ===== verification/Soundness.thy ===== *)
theory Soundness
  imports Worker_Liveness Tenant_Admin Seeding
begin

text \<open>
  What the code, beyond the constraints the database itself declares, keeps true of the stored rows
  (\<open>sound\<close>), and the proof that every operation of the services and routes keeps it.

  \<open>yields\<close> is the program logic for that: an operation keeps the invariant on every path, and its value,
  when it returns one, has a property.
\<close>

section \<open>Values and invariants\<close>

definition yields :: "('w \<Rightarrow> bool) \<Rightarrow> ('w, 'a) action \<Rightarrow> ('a \<Rightarrow> bool) \<Rightarrow> bool" where
  "yields P m Q \<longleftrightarrow> (\<forall>w. P w \<longrightarrow> P (snd (m w)) \<and> (\<forall>x. fst (m w) = Inr x \<longrightarrow> Q x))"

lemma yields_run_then:
  assumes "yields P m Q" and "\<And>x. Q x \<Longrightarrow> yields P (f x) R"
  shows "yields P (run_then m f) R"
  unfolding yields_def
proof (intro allI impI)
  fix w assume w: "P w"
  obtain res w1 where m: "m w = (res, w1)" by force
  have "P w1" "\<And>x. res = Inr x \<Longrightarrow> Q x"
    using assms(1) w m by (auto simp: yields_def)
  then show "P (snd (run_then m f w)) \<and> (\<forall>x. fst (run_then m f w) = Inr x \<longrightarrow> R x)"
    using assms(2) m by (cases res) (auto simp: run_then_def yields_def)
qed

lemma yields_basic:
  "Q x \<Longrightarrow> yields P (ret x) Q" "yields P (raise e) Q" "(\<And>w. P w \<Longrightarrow> Q (g w)) \<Longrightarrow> yields P (reads g) Q"
  "Q () \<Longrightarrow> yields P noop Q" "(\<And>x. res = Inr x \<Longrightarrow> Q x) \<Longrightarrow> yields P (lift_result res) Q"
  "Q () \<Longrightarrow> yields P (ensures p e) Q"
  by (simp_all add: yields_def)

lemma yields_True: "keeps P m \<Longrightarrow> yields P m (\<lambda>_. True)"
  by (simp add: yields_def keeps_def)

lemma keeps_yields: "yields P m Q \<Longrightarrow> keeps P m"
  by (simp add: yields_def keeps_def)

lemma yields_option:
  "yields P a Q \<Longrightarrow> (\<And>y. x = Some y \<Longrightarrow> yields P (b y) Q) \<Longrightarrow> yields P (case x of None \<Rightarrow> a | Some y \<Rightarrow> b y) Q"
  by (cases x) simp_all

lemma yields_if: "(c \<Longrightarrow> yields P a Q) \<Longrightarrow> (\<not> c \<Longrightarrow> yields P b Q) \<Longrightarrow> yields P (if c then a else b) Q"
  by simp

lemma yields_any: "yields P m Q \<Longrightarrow> yields P m (\<lambda>_. True)"
  by (simp add: yields_def)

section \<open>Soundness of the stored rows\<close>

definition roles_sound :: "tables \<Rightarrow> bool" where
  "roles_sound t \<longleftrightarrow> (\<forall>u \<in> set (users t). u_role u \<in> {''user'', ''admin'', ''platform_admin''})"

definition slugs_sound :: "tables \<Rightarrow> bool" where
  "slugs_sound t \<longleftrightarrow> (\<forall>x \<in> set (tenants t). matches_slug_pattern (t_slug x))"

definition audit_sound :: "tables \<Rightarrow> bool" where
  "audit_sound t \<longleftrightarrow> (\<forall>a \<in> set (audit_logs t). \<exists>y. a_action a = action_value y)"

definition bodies_sound :: "tables \<Rightarrow> bool" where
  "bodies_sound t \<longleftrightarrow> (\<forall>r \<in> set (idempotency_records t). loads (i_response_body r) \<noteq> None)"

definition files_sound :: "settings \<Rightarrow> tables \<Rightarrow> bool" where
  "files_sound cfg t \<longleftrightarrow> (\<forall>f \<in> set (uploaded_files t).
     starts_with (f_object_key f) (owner_prefix (f_tenant_id f) (f_owner_id f))
     \<and> f_size_bytes f \<le> upload_max_size_bytes cfg \<and> f_content_type f \<in> set (allowed_content_types cfg))"

definition typed :: "settings \<Rightarrow> tables \<Rightarrow> bool" where
  "typed cfg t \<longleftrightarrow> schema_ok t \<and> roles_sound t \<and> slugs_sound t \<and> audit_sound t \<and> bodies_sound t \<and> files_sound cfg t"

lemmas sound_defs = roles_sound_def slugs_sound_def audit_sound_def bodies_sound_def files_sound_def

definition sound :: "settings \<Rightarrow> 'r world \<Rightarrow> bool" where
  "sound cfg w \<longleftrightarrow> typed cfg (stored w) \<and> typed cfg (tx w)"

text \<open>A change the database accepts keeps the rows typed.\<close>

definition good_change :: "settings \<Rightarrow> (tables \<Rightarrow> tables) \<Rightarrow> bool" where
  "good_change cfg c \<longleftrightarrow> (\<forall>t. typed cfg t \<longrightarrow> schema_ok (c t) \<longrightarrow> typed cfg (c t))"

lemma keeps_sound_db:
  "good_change cfg c \<Longrightarrow> keeps (sound cfg) (flush c)" "good_change cfg c \<Longrightarrow> keeps (sound cfg) (flush_commit c)"
  "good_change cfg c \<Longrightarrow> keeps (sound cfg) (save b c)" "keeps (sound cfg) commit" "keeps (sound cfg) rollback"
  by (auto simp: keeps_def sound_def good_change_def flush_cases flush_commit_cases save_def commit_def rollback_def)

lemma keeps_sound_same_db: "(\<And>w. same_db w (snd (m w))) \<Longrightarrow> keeps (sound cfg) m"
  by (simp add: keeps_def sound_def same_db_def)

lemma keeps_sound_read_only: "read_only m \<Longrightarrow> keeps (sound cfg) m"
  by (simp add: keeps_def sound_def read_only_def)

lemma keeps_sound_session:
  assumes "keeps (sound cfg) m"
  shows "keeps (sound cfg) (with_session m)"
  unfolding keeps_def
proof (intro allI impI)
  fix w :: "'a world"
  assume "sound cfg w"
  then have "sound cfg (w\<lparr>tx := stored w\<rparr>)" by (simp add: sound_def)
  then have "sound cfg (snd (m (w\<lparr>tx := stored w\<rparr>)))" using assms by (simp add: keeps_def)
  then show "sound cfg (snd (with_session m w))" by (simp add: with_session_def sound_def split_beta)
qed

lemma good_users:
  "u_role u \<in> {''user'', ''admin'', ''platform_admin''} \<Longrightarrow> good_change cfg (add_user u)"
  "u_role u \<in> {''user'', ''admin'', ''platform_admin''} \<Longrightarrow> good_change cfg (set_user i (\<lambda>_. u))"
  "good_change cfg (drop_user i)"
  by (auto simp: good_change_def typed_def sound_defs add_user_def set_user_def drop_user_def)

lemma good_tenants:
  "matches_slug_pattern (t_slug x) \<Longrightarrow> good_change cfg (add_tenant x)"
  "(\<And>y. t_slug (g y) = t_slug y) \<Longrightarrow> good_change cfg (set_tenant i g)"
  by (auto simp: good_change_def typed_def sound_defs add_tenant_def set_tenant_def)

lemma good_others:
  "a_action a = action_value y \<Longrightarrow> good_change cfg (add_audit_log a)"
  "good_change cfg (\<lambda>t. t\<lparr>audit_logs := filter pa (audit_logs t)\<rparr>)"
  "good_change cfg (add_reset_token p)" "good_change cfg (use_reset_tokens uid now)"
  "good_change cfg (\<lambda>t. t\<lparr>password_reset_tokens := filter pp (password_reset_tokens t)\<rparr>)"
  "good_change cfg (add_completion c)" "good_change cfg (\<lambda>t. t)"
  "loads (i_response_body r) \<noteq> None \<Longrightarrow> good_change cfg (add_record r)"
  "good_change cfg (\<lambda>t. t\<lparr>idempotency_records := filter pr (idempotency_records t)\<rparr>)"
  "good_change cfg (add_webhook_event e)"
  "good_change cfg (\<lambda>t. t\<lparr>webhook_events := filter pw (webhook_events t)\<rparr>)"
  by (auto simp: good_change_def typed_def sound_defs add_audit_log_def add_reset_token_def use_reset_tokens_def
      add_completion_def add_record_def add_webhook_event_def)

lemma good_files:
  "starts_with (f_object_key f) (owner_prefix (f_tenant_id f) (f_owner_id f)) \<Longrightarrow>
     f_size_bytes f \<le> upload_max_size_bytes cfg \<Longrightarrow> f_content_type f \<in> set (allowed_content_types cfg) \<Longrightarrow>
     good_change cfg (add_uploaded_file f)"
  "good_change cfg (drop_uploaded_file i)" "good_change cfg (mark_verified i)"
  by (auto simp: good_change_def typed_def sound_defs add_uploaded_file_def drop_uploaded_file_def mark_verified_def)

lemmas good_changes = good_users good_tenants good_others good_files


section \<open>Every operation keeps them\<close>

lemma keeps_sound_same:
  "keeps (sound cfg) (invalidate_users_list_cache K now tid)" "keeps (sound cfg) (set_tenant_context i sl)"
  "keeps (sound cfg) (enforce_rate_limit_counter K now key limit win)"
  "keeps (sound cfg) (get_json_cache K now key)" "keeps (sound cfg) (set_json_cache K now key v ttl)"
  "keeps (sound cfg) (get_cache_version K now key)" "keeps (sound cfg) (revoke_refresh_token K now jti e b)"
  "keeps (sound cfg) (is_refresh_token_revoked K now jti)"
  "keeps (sound cfg) (enforce_webhook_provider_rate_limit K cfg' now pr)"
  by (rule keeps_sound_same_db, rule cache_same_db enforce_same_db provider_limit_same_db
      | simp add: keeps_def sound_def set_tenant_context_def)+

lemma keeps_sound_limited:
  assumes "rate_limit K cfg' l s k = dep"
  shows "keeps (sound cfg) (limited dep now req)"
  by (rule keeps_sound_same_db) (metis assms limited_state prod.collapse)

lemma keeps_sound_tenancy:
  "keeps (sound cfg) (create_audit_log i now tid aid act target b)"
  "keeps (sound cfg) (cleanup_old_audit_logs cfg' now)"
  "matches_slug_pattern slug \<Longrightarrow> keeps (sound cfg) (create_tenant i slug name)"
  "keeps (sound cfg) (update_tenant i nm act')"
  "keeps (sound cfg) (get_request_tenant header)"
  by (auto simp: create_audit_log_def cleanup_old_audit_logs_def create_tenant_def update_tenant_def Let_def
      get_request_tenant_def get_active_tenant_by_slug_def
      intro!: keeps_run_then keeps_sound_db good_changes keeps_sound_same split: option.splits)

lemma matches_default_slug: "matches_slug_pattern DEFAULT_TENANT_SLUG"
  by code_simp

lemma keeps_sound_tenancy2:
  "matches_slug_pattern slug \<Longrightarrow> keeps (sound cfg) (provision_tenant i j now slug nm aid tid)"
  "keeps (sound cfg) (set_tenant_active_state j now i b aid tid)"
  "keeps (sound cfg) (ensure_default_tenant i b)"
  using matches_default_slug
  by (auto simp: provision_tenant_def set_tenant_active_state_def ensure_default_tenant_def Let_def
      intro!: keeps_run_then keeps_sound_tenancy keeps_sound_db good_changes split: option.splits)

lemma keeps_sound_decode:
  "keeps (sound cfg) (decode_refresh_token C cfg' K now token)"
  "keeps (sound cfg) (get_active_user_from_refresh_payload payload)"
  "keeps (sound cfg) (revoke_payload K now payload b)"
  by (auto simp: decode_refresh_token_def get_active_user_from_refresh_payload_def revoke_payload_def Let_def
      assert_active_tenant_membership_def
      intro!: keeps_run_then keeps_sound_same split: option.splits pyval.splits prod.splits)

lemma keeps_sound_auth:
  "keeps (sound cfg) (create_user C K now i salt email pw tid)"
  "keeps (sound cfg) (login_user C cfg' now j1 j2 email pw tid)"
  "keeps (sound cfg) (rotate_refresh_token C cfg' K now j1 j2 token)"
  "keeps (sound cfg) (logout_user C cfg' K now token)"
  by (auto simp: create_user_def login_user_def authenticate_user_def rotate_refresh_token_def logout_user_def Let_def
      intro!: keeps_run_then keeps_sound_same keeps_sound_decode keeps_sound_db good_changes split: option.splits)


text \<open>A user read from sound rows has a known role, and so has what the services make of it.\<close>

definition known_role :: "user \<Rightarrow> bool" where
  "known_role u \<longleftrightarrow> u_role u \<in> {''user'', ''admin'', ''platform_admin''}"

lemma role_value_known: "role_value r \<in> {''user'', ''admin'', ''platform_admin''}"
  by (cases r) simp_all

lemma known_role_changes:
  "known_role u \<Longrightarrow> known_role (deactivated u)" "known_role u \<Longrightarrow> known_role (activated u)"
  "known_role u \<Longrightarrow> known_role (apply_update upd u)"
  using role_value_known
  by (auto simp: known_role_def deactivated_def activated_def apply_update_def Let_def split: option.splits)

lemma keeps_found_user:
  assumes "\<And>u. known_role u \<Longrightarrow> keeps (sound cfg) (f u)" and "keeps (sound cfg) a"
    and "\<And>t u. g t = Some u \<Longrightarrow> u \<in> set (users t)"
  shows "keeps (sound cfg) (run_then (reads (\<lambda>w. g (tx w))) (\<lambda>x. case x of None \<Rightarrow> a | Some u \<Rightarrow> f u))"
  unfolding keeps_def
proof (intro allI impI)
  fix w :: "'a world"
  assume w: "sound cfg w"
  show "sound cfg (snd (run_then (reads (\<lambda>w. g (tx w))) (\<lambda>x. case x of None \<Rightarrow> a | Some u \<Rightarrow> f u) w))"
  proof (cases "g (tx w)")
    case None
    then show ?thesis using assms(2) w by (simp add: keeps_def)
  next
    case (Some u)
    then have "known_role u" using assms(3) w by (auto simp: sound_def typed_def roles_sound_def known_role_def)
    then show ?thesis using assms(1) w Some by (simp add: keeps_def)
  qed
qed

lemma get_user_by_id_mem: "get_user_by_id t i tid = Some u \<Longrightarrow> u \<in> set (users t)"
  by (auto simp: get_user_by_id_def first_user_by_ids_def dest: first_user_SomeD)

lemmas keeps_found = keeps_found_user [where g = "\<lambda>t. get_user_by_id t i tid" for i tid, OF _ _ get_user_by_id_mem]

lemma yields_set_user:
  "known_role u \<Longrightarrow> keeps (sound cfg) (save b (set_user i (\<lambda>_. u)))"
  "known_role u \<Longrightarrow> keeps (sound cfg) (flush_commit (set_user i (\<lambda>_. u)))"
  by (auto simp: known_role_def intro!: keeps_sound_db good_changes)

lemma keeps_sound_update_user:
  "known_role u \<Longrightarrow> keeps (sound cfg) (update_user K now u upd b)"
  "keeps (sound cfg) (delete_user K now u b)"
  "known_role u \<Longrightarrow> keeps (sound cfg) (increment_user_token_version K now u)"
  "keeps (sound cfg) (commit_user_mutation_with_audit K now j tid aid act target)"
  using known_role_changes
  by (auto simp: update_user_def delete_user_def increment_user_token_version_def commit_user_mutation_with_audit_def
      known_role_def Let_def
      intro!: keeps_run_then keeps_sound_same keeps_sound_tenancy keeps_sound_db good_changes yields_set_user)

lemma keeps_sound_active_state:
  assumes "\<And>u. known_role u \<Longrightarrow> known_role (g u)"
  shows "keeps (sound cfg) (set_active_state g K now i tid b)"
  unfolding set_active_state_def
  by (rule keeps_found) (auto intro!: keeps_run_then yields_set_user assms keeps_sound_same)

lemma keeps_sound_permission:
  "keeps (sound cfg) current \<Longrightarrow> keeps (sound cfg) (require_permission current ps)"
  by (auto simp: require_permission_def intro!: keeps_run_then)

lemma keeps_sound_user_routes:
  assumes "keeps (sound cfg) current"
  shows "keeps (sound cfg) (patch_user K now j current i upd)"
    and "keeps (sound cfg) (deactivate_user_endpoint K now j current i)"
    and "keeps (sound cfg) (activate_user_endpoint K now j current i)"
    and "keeps (sound cfg) (remove_user K now j current i)"
    and "keeps (sound cfg) (get_user_route current i)"
proof -
  show "keeps (sound cfg) (patch_user K now j current i upd)"
    unfolding patch_user_def
    by (rule keeps_sound_session, rule keeps_run_then [OF assms], rule keeps_found)
       (auto intro!: keeps_run_then keeps_sound_update_user)
  show "keeps (sound cfg) (remove_user K now j current i)"
    unfolding remove_user_def
    by (rule keeps_sound_session, rule keeps_run_then [OF keeps_sound_permission [OF assms]], rule keeps_found)
       (auto intro!: keeps_run_then keeps_sound_update_user)
  show "keeps (sound cfg) (get_user_route current i)"
    unfolding get_user_route_def
    by (rule keeps_sound_session, rule keeps_run_then [OF assms], rule keeps_found) auto
  show "keeps (sound cfg) (deactivate_user_endpoint K now j current i)"
    "keeps (sound cfg) (activate_user_endpoint K now j current i)"
    unfolding deactivate_user_endpoint_def activate_user_endpoint_def active_state_route_def deactivate_user_def
      activate_user_def
    by (auto intro!: keeps_sound_session keeps_run_then [OF keeps_sound_permission [OF assms]] keeps_run_then
        keeps_sound_update_user keeps_sound_active_state known_role_changes split: option.splits)
qed

lemma TenantCreate_slug: "TenantCreate slug name = Inr (s, n) \<Longrightarrow> matches_slug_pattern s"
  by (auto simp: TenantCreate_def validate_slug_def and_then_Inr_iff Let_def split: if_splits)

lemma keeps_sound_tenant_routes:
  assumes "keeps (sound cfg) current"
  shows "keeps (sound cfg) (create_tenant_route i j now current slug name)"
    and "keeps (sound cfg) (patch_tenant j now current i nm act)"
proof -
  have "yields (sound cfg) (run_then (lift_result (TenantCreate slug name)) (\<lambda>(slug', name').
      run_then (require_permission current [TENANTS_PROVISION]) (\<lambda>current_user.
      run_then (provision_tenant i j now slug' name' (u_id current_user) (u_tenant_id current_user))
        (\<lambda>x. ret (read_tenant x))))) (\<lambda>_. True)"
    by (rule yields_run_then [where Q = "\<lambda>p. matches_slug_pattern (fst p)"])
       (auto simp: yields_def [of _ "lift_result _"] intro!: yields_True keeps_run_then keeps_sound_permission assms
         keeps_sound_tenancy2 dest: TenantCreate_slug)
  then show "keeps (sound cfg) (create_tenant_route i j now current slug name)"
    unfolding create_tenant_route_def by (intro keeps_sound_session keeps_yields)
  show "keeps (sound cfg) (patch_tenant j now current i nm act)"
    unfolding patch_tenant_def
    by (auto intro!: keeps_sound_session keeps_run_then keeps_sound_permission assms keeps_sound_tenancy
        keeps_sound_tenancy2 split: option.splits)
qed

lemma keeps_sound_auth_routes:
  "keeps (sound cfg) (register C cfg' K now i salt req email pw)"
  "keeps (sound cfg) (login C cfg' K now j1 j2 req email pw)"
  "keeps (sound cfg) (refresh_token_route C cfg' K now j1 j2 req token)"
  "keeps (sound cfg) (logout C cfg' K now req token)"
  by (auto simp: register_def login_def refresh_token_route_def logout_def
      intro!: keeps_sound_session keeps_run_then keeps_sound_auth keeps_sound_tenancy
        keeps_sound_limited [OF auth_register_rate_limit_def [symmetric]]
        keeps_sound_limited [OF auth_login_rate_limit_def [symmetric]]
        keeps_sound_limited [OF auth_refresh_rate_limit_def [symmetric]]
        keeps_sound_limited [OF auth_logout_rate_limit_def [symmetric]])

lemma keeps_catch_value_error: "keeps P m \<Longrightarrow> keeps P (catch_value_error m)"
  unfolding keeps_def catch_value_error_def by (auto split: prod.splits sum.splits exn.splits)

lemma keeps_sound_get_users: "keeps (sound cfg) (get_users C K cfg' ordv now tid limit f cursor skip)"
  by (auto simp: get_users_def build_users_list_cache_key_def Let_def
      intro!: keeps_run_then keeps_sound_same split: option.splits prod.splits)

lemma keeps_sound_reading_routes:
  assumes "keeps (sound cfg) current"
  shows "keeps (sound cfg) (list_users C K cfg' ordv now current pg sz cursor f)"
    and "keeps (sound cfg) (list_audit_logs current pg sz act aid target)"
    and "keeps (sound cfg) (list_tenant_records collate current pg sz b)"
    and "keeps (sound cfg) (get_tenant_route current i)"
    and "keeps (sound cfg) (admin_panel current)"
    and "keeps (sound cfg) (me current)"
proof -
  show "keeps (sound cfg) (list_users C K cfg' ordv now current pg sz cursor f)"
    unfolding list_users_def
    by (auto intro!: keeps_sound_session keeps_run_then [OF keeps_sound_permission [OF assms]]
        keeps_run_then [OF keeps_catch_value_error [OF keeps_sound_get_users]] keeps_run_then split: prod.splits)
  show "keeps (sound cfg) (list_audit_logs current pg sz act aid target)"
    "keeps (sound cfg) (list_tenant_records collate current pg sz b)"
    "keeps (sound cfg) (get_tenant_route current i)" "keeps (sound cfg) (admin_panel current)"
    "keeps (sound cfg) (me current)"
    unfolding list_audit_logs_def list_tenant_records_def get_tenant_route_def admin_panel_def me_def
    by (auto intro!: keeps_sound_session keeps_run_then keeps_sound_permission assms split: option.splits)
qed

lemma case_active_user:
  "(case (case y of None \<Rightarrow> None | Some u \<Rightarrow> if c u then None else Some u) of None \<Rightarrow> a | Some u \<Rightarrow> f u)
    = (case y of None \<Rightarrow> a | Some u \<Rightarrow> if c u then a else f u)"
  by (cases y) auto

lemma first_user_mem: "first_user p t = Some u \<Longrightarrow> u \<in> set (users t)"
  by (auto dest: first_user_SomeD)

lemma keeps_sound_confirm: "keeps (sound cfg) (confirm_password_reset C cfg' K now aid salt token pw)"
proof -
  have token_case: "keeps (sound cfg) (case x of None \<Rightarrow> raise e | Some r \<Rightarrow> f r)"
    if "\<And>r. keeps (sound cfg) (f r)" for x e and f :: "password_reset_token \<Rightarrow> ('r world, string) action"
    using that by (cases x) auto
  show ?thesis
    unfolding confirm_password_reset_def Let_def case_active_user
    by (intro keeps_run_then keeps_basic token_case keeps_if
        keeps_found_user [OF _ _ first_user_mem])
       (auto simp: known_role_def intro!: keeps_run_then keeps_sound_update_user keeps_sound_db good_changes
         keeps_sound_tenancy)
qed

lemma keeps_sound_cleanup:
  "keeps (sound cfg) (cleanup_expired_password_reset_tokens now)"
  "keeps (sound cfg) (cleanup_expired_idempotency_records now)"
  "keeps (sound cfg) (cleanup_old_webhook_events cfg' now)"
  by (auto simp: cleanup_expired_password_reset_tokens_def cleanup_expired_idempotency_records_def
      cleanup_old_webhook_events_def Let_def
      intro!: keeps_run_then keeps_sound_db good_changes)

lemma keeps_sound_reset_routes:
  "keeps (sound cfg) (request_reset_password C cfg' K R now jid rid aid req email)"
  "keeps (sound cfg) (confirm_reset_password C cfg' K now aid salt token pw)"
proof -
  have q: "keeps (sound cfg) (enqueue_password_reset_email_job R cfg' jid rid uid)" for R :: "('r, 'q) redis_queues_scheme" and uid
    by (simp add: keeps_def enqueue_password_reset_email_job_def sound_def split_beta)
  have l: "keeps (sound cfg) (password_reset_rate_limit K cfg' sha now req e)" for sha e
    by (auto simp: password_reset_rate_limit_def Let_def intro!: keeps_sound_same)
  show "keeps (sound cfg) (request_reset_password C cfg' K R now jid rid aid req email)"
    unfolding request_reset_password_def request_password_reset_def case_active_user
    by (auto intro!: keeps_sound_session keeps_run_then keeps_sound_tenancy l q split: option.splits)
  show "keeps (sound cfg) (confirm_reset_password C cfg' K now aid salt token pw)"
    unfolding confirm_reset_password_def by (rule keeps_sound_session [OF keeps_sound_confirm])
qed

text \<open>What other processes commit in between is typed as well.\<close>

definition sound_others :: "settings \<Rightarrow> (tables \<Rightarrow> tables) \<Rightarrow> bool" where
  "sound_others cfg others \<longleftrightarrow> (\<forall>t. typed cfg t \<longrightarrow> typed cfg (others t))"

lemma keeps_sound_interfere: "sound_others cfg others \<Longrightarrow> keeps (sound cfg) (interfere others)"
  by (simp add: keeps_def interfere_def sound_def sound_others_def)

lemma keeps_sound_store_response:
  assumes "sound_others cfg others" and "json_value body"
  shows "keeps (sound cfg) (store_response cfg' others now rid key st body)"
  unfolding keeps_def
proof (intro allI impI)
  fix w :: "'a world"
  assume w: "sound cfg w"
  define rc where "rc = \<lparr>i_id = rid, i_scope_key = key, i_status_code = st, i_response_body = dumps body,
      i_created_at = now, i_expires_at = now + idempotency_ttl_seconds cfg' * second\<rparr>"
  have "loads (i_response_body rc) \<noteq> None" using loads_dumps [OF assms(2)] by (simp add: rc_def)
  then have k: "keeps (sound cfg) (run_then (interfere others) (\<lambda>_. flush_commit (add_record rc)) :: ('a world, unit) action)"
    by (intro keeps_run_then keeps_sound_interfere assms(1) keeps_sound_db good_changes)
  obtain r w1 where m: "run_then (interfere others) (\<lambda>_. flush_commit (add_record rc)) w = (r, w1)" by force
  have w1: "sound cfg w1" by (rule keepsD [OF k w m])
  then have w2: "sound cfg (w1\<lparr>tx := stored w1\<rparr>)" by (simp add: sound_def)
  have e: "store_response cfg' others now rid key st body w = (case (r, w1) of
        (Inl IntegrityError, w1) \<Rightarrow>
          run_then rollback (\<lambda>_. run_then (reads (\<lambda>w. get_cached_response (tx w) now key)) (\<lambda>x. case x of
            None \<Rightarrow> raise IntegrityError | Some existing_record \<Rightarrow> ret existing_record)) w1
      | (Inl e, w1) \<Rightarrow> (Inl e, w1)
      | (Inr _, w1) \<Rightarrow> (Inr rc, w1))"
    unfolding store_response_def rc_def [symmetric] Let_def m ..
  show "sound cfg (snd (store_response cfg' others now rid key st body w))"
    unfolding e using w1 w2 by (cases r) (auto simp: run_then_def rollback_def split: exn.split option.split)
qed

lemma keeps_handle:
  assumes "keeps P n" and "keeps P m" and "\<And>u. keeps P (m' u)"
  shows "keeps P (\<lambda>w. case n w of (Inl e, w1) \<Rightarrow> if q e then m w1 else (Inl e, w1) | (Inr u, w1) \<Rightarrow> m' u w1)"
  unfolding keeps_def
proof (intro allI impI)
  fix w assume w: "P w"
  obtain res w1 where n: "n w = (res, w1)" by force
  have "P w1" by (rule keepsD [OF assms(1) w n])
  then show "P (snd (case n w of (Inl e, w1) \<Rightarrow> if q e then m w1 else (Inl e, w1) | (Inr u, w1) \<Rightarrow> m' u w1))"
    using assms(2,3) n by (cases res) (auto simp: keeps_def)
qed

lemma keeps_sound_webhook:
  fixes K :: "('r, 'n) redis_keys_scheme"
  assumes "sound_others cfg others"
  shows "keeps (sound cfg) (inbound_webhook C cfg' K parse_inbound others now i rid rq)"
proof -
  have p: "keeps (sound cfg) (persist_webhook_event C now i pr ev body :: ('r world, webhook_event) action)" for pr ev body
    using good_changes
    by (auto simp: keeps_def persist_webhook_event_def Let_def run_then_def rollback_def flush_commit_cases sound_def
        good_change_def)
  have s: "keeps (sound cfg) (store_response cfg' others now rid key st (inbound_body status pl) :: ('r world, idempotency_record) action)"
    for key st status pl
    by (rule keeps_sound_store_response [OF assms]) (simp add: inbound_body_def)
  have lock: "keeps (sound cfg) (begin_idempotent_request K cfg' now key :: ('r world, _) action)"
    "keeps (sound cfg) (release_idempotency_lock K now key)" for key
  proof -
    have "keeps (sound cfg) (try_acquire_idempotency_lock K cfg' now key)"
      by (auto simp: keeps_def try_acquire_idempotency_lock_def sound_def split: option.splits)
    then show "keeps (sound cfg) (begin_idempotent_request K cfg' now key)"
      unfolding begin_idempotent_request_def by (auto intro!: keeps_run_then split: option.splits)
    show "keeps (sound cfg) (release_idempotency_lock K now key)"
      by (auto simp: keeps_def release_idempotency_lock_def sound_def split: option.splits)
  qed
  have ingress: "keeps (sound cfg) (webhook_ingress_rate_limit K cfg' now req)" for req
    by (auto simp: webhook_ingress_rate_limit_def intro!: keeps_sound_same)
  have process: "keeps (sound cfg) (process_webhook C cfg' K parse_inbound others now i rid rq key)" for key
    unfolding process_webhook_def
    by (intro keeps_run_then keeps_handle p s keeps_sound_same) (auto split: option.splits)
  show ?thesis
    unfolding inbound_webhook_def enforce_webhook_body_size_def
    by (auto intro!: keeps_sound_session keeps_run_then keeps_finally_do ingress lock process
        split: option.splits prod.splits)
qed


text \<open>Operations whose state has the mails or the object store as a second part.\<close>

abbreviation sound2 :: "settings \<Rightarrow> 'r world \<times> 's \<Rightarrow> bool" where
  "sound2 cfg st \<equiv> sound cfg (fst st)"

lemma keeps_sound2: "keeps (sound cfg) m \<Longrightarrow> keeps (sound2 cfg) (on_world m)"
  by (auto simp: keeps_def on_world_def split_beta)

lemma keeps_sound2_session:
  fixes m :: "('r world \<times> 'x, 'b) action"
  assumes "keeps (sound2 cfg) m"
  shows "keeps (sound2 cfg) (with_storage_session m)"
  unfolding keeps_def with_storage_session_def
proof (intro allI impI)
  fix st :: "'r world \<times> 'x"
  assume "sound cfg (fst st)"
  then have "sound cfg (fst ((fst st)\<lparr>tx := stored (fst st)\<rparr>, snd st))" by (simp add: sound_def)
  then have "sound cfg (fst (snd (m ((fst st)\<lparr>tx := stored (fst st)\<rparr>, snd st))))"
    using assms unfolding keeps_def by blast
  then show "sound cfg (fst (snd (case m ((fst st)\<lparr>tx := stored (fst st)\<rparr>, snd st) of
      (res, st') \<Rightarrow> (res, ((fst st')\<lparr>tx := stored (fst st')\<rparr>, snd st')))))"
    by (simp add: split_beta sound_def)
qed

lemma keeps_sound2_s3: "keeps (sound2 cfg) (s3_call call e)" "keeps (sound2 cfg) (\<lambda>st. (g st, st))"
  by (auto simp: keeps_def s3_call_def split: prod.splits sum.splits)

lemma keeps_sound_reset_job:
  assumes "sound_others cfg others"
  shows "keeps (sound2 cfg) (create_password_reset_token_and_send_email C cfg' K smtp others now raw i c uid (Some jid))"
proof -
  have mark: "keeps (sound cfg) (mark_password_reset_job_completed K cfg' now jid)"
    "keeps (sound cfg) (is_password_reset_job_completed K now jid)"
    by (auto simp: keeps_def mark_password_reset_job_completed_def is_password_reset_job_completed_def sound_def
        split: option.splits)
  have done_: "keeps (sound cfg) (is_password_reset_job_done K now jid)"
    unfolding is_password_reset_job_done_def using mark by (auto simp: keeps_pair)
  have complete: "keeps (sound cfg) (complete_reset_job K cfg' now c (Some jid))"
    unfolding keeps_def complete_reset_job_def
  proof (intro allI impI, goal_cases)
    case (1 w)
    let ?c = "add_completion \<lparr>c_id = c, c_job_id = jid, c_completed_at = now\<rparr>"
    obtain res w1 where m: "flush_commit ?c w = (res, w1)" by force
    have w1: "sound cfg w1" using 1 m by (metis (no_types, lifting) good_others(6) keeps_def keeps_sound_db(2) snd_conv)
    then show ?case
      using m mark(1) by (cases res) (auto simp: keeps_def run_then_def rollback_def sound_def split: exn.splits)
  qed
  show ?thesis
    unfolding create_password_reset_token_and_send_email_def send_reset_token_def Let_def
    by (auto intro!: keeps_run_then keeps_sound2 keeps_sound_db good_changes mark done_ complete keeps_sound_interfere
          assms
        simp: keeps_pair deliver_def keeps_def [of _ "deliver _"] split: option.splits email_error.splits sum.splits)
qed

lemma keeps_sound_verify: "keeps (sound2 cfg) (verify_presigned_upload_in_worker cfg' S http i)"
  using good_files(2,3)
  by (auto simp: keeps_def verify_presigned_upload_in_worker_def on_world_def flush_commit_cases sound_def good_change_def
      split: option.splits sum.splits exn.splits)


lemma keeps_lift_then:
  "(\<And>x. res = Inr x \<Longrightarrow> keeps P (f x)) \<Longrightarrow> keeps P (run_then (lift_result res) f)"
  by (cases res) (auto simp: keeps_def)

lemma keeps_then_pure:
  "(\<And>st x. g st = Inr x \<Longrightarrow> keeps P (f x)) \<Longrightarrow> keeps P (run_then (\<lambda>st. (g st, st)) f)"
  by (auto simp: keeps_def run_then_def split: sum.splits)

lemma keeps_sound_upload: "keeps (sound2 cfg) (storage_upload cfg S http uid i now u file)"
  unfolding storage_upload_def Let_def split_beta
  by (intro keeps_lift_then keeps_run_then keeps_sound2_s3 keeps_sound2 keeps_sound_db good_changes keeps_basic)
     (auto dest: validate_declared_Inr simp: build_object_key_prefix validate_file_size_def split: if_splits)

lemma keeps_sound_complete:
  "keeps (sound2 cfg) (storage_complete_presigned_upload R cfg S jid rid i now u key fn ct n)"
proof -
  have q: "keeps (sound cfg) (enqueue_verify_presigned_upload_job R cfg jid rid i)"
    by (simp add: keeps_def enqueue_verify_presigned_upload_job_def sound_def split_beta)
  show ?thesis
    unfolding storage_complete_presigned_upload_def Let_def
    by (intro keeps_lift_then keeps_then_pure keeps_run_then keeps_sound2_s3 keeps_sound2 keeps_sound_db good_changes
          keeps_basic q)
       (auto dest: validate_declared_Inr simp: ensure_object_key_belongs_to_owner_def validate_file_size_def
          split: if_splits)
qed

lemma keeps_sound_file_routes:
  assumes "keeps (sound cfg) current"
  shows "keeps (sound2 cfg) (upload_file_route cfg S http uid i now current file)"
    and "keeps (sound2 cfg) (create_presigned_upload cfg' S uid current fn ct)"
    and "keeps (sound2 cfg) (complete_presigned_upload R cfg S jid rid i now current key fn ct n)"
    and "keeps (sound2 cfg) (get_download_url cfg' S current i)"
    and "keeps (sound2 cfg) (delete_file cfg' S current i)"
proof -
  note perm = keeps_sound2 [OF keeps_sound_permission [OF assms]]
  show "keeps (sound2 cfg) (upload_file_route cfg S http uid i now current file)"
    "keeps (sound2 cfg) (complete_presigned_upload R cfg S jid rid i now current key fn ct n)"
    unfolding upload_file_route_def complete_presigned_upload_def
    by (intro keeps_sound2_session keeps_run_then perm keeps_sound_upload keeps_sound_complete keeps_basic)+
  show "keeps (sound2 cfg) (create_presigned_upload cfg' S uid current fn ct)"
    unfolding create_presigned_upload_def storage_create_presigned_upload_def Let_def
    by (auto intro!: keeps_sound2_session keeps_run_then perm keeps_sound2_s3 split: sum.splits prod.splits)
  show "keeps (sound2 cfg) (get_download_url cfg' S current i)"
    unfolding get_download_url_def
    by (auto intro!: keeps_sound2_session keeps_run_then keeps_sound2 assms split: option.splits)
  show "keeps (sound2 cfg) (delete_file cfg' S current i)"
    unfolding delete_file_def storage_delete_uploaded_file_def
    by (auto intro!: keeps_sound2_session keeps_run_then keeps_sound2 assms keeps_sound2_s3 keeps_sound_db good_changes
        split: option.splits)
qed

end
