(* ===== verification/System.thy ===== *)
theory System
  imports Soundness
begin

text \<open>
  The service as a whole: \<open>reachable\<close> collects the states that any sequence of requests, worker passes,
  scripts and writes to the object store reaches from an empty database. A request is one step; what other
  processes commit inside it is the function \<open>others\<close>, which keeps the rows sound as well. The property says
  that every reachable state is sound.
\<close>

section \<open>Scripts and the worker\<close>

lemma dev_roles: "d \<in> set DEV_USERS \<Longrightarrow> ds_role d \<in> {''user'', ''admin'', ''platform_admin''}"
  by (auto simp: DEV_USERS_def)

lemma good_rows:
  assumes "\<And>d. d \<in> set ds \<Longrightarrow> known_role (row d)"
  shows "good_change cfg (\<lambda>t. t\<lparr>users := users t @ map row ds\<rparr>)"
  using assms by (auto simp: good_change_def typed_def sound_defs known_role_def)

lemma keeps_sound_seeds:
  "keeps (sound cfg) (seed_dev_data_main C cfg' i nid salt)" "keeps (sound cfg) (seed_default_tenant_main i)"
proof -
  have "keeps (sound cfg) (seed_dev_users C i nid salt True)"
    unfolding seed_dev_users_def Let_def
    by (intro keeps_run_then keeps_sound_tenancy2 keeps_sound_db good_rows keeps_basic)
       (use dev_roles in \<open>auto simp: known_role_def\<close>)
  then show "keeps (sound cfg) (seed_dev_data_main C cfg' i nid salt)"
    unfolding seed_dev_data_main_def by (auto intro!: keeps_sound_session)
  show "keeps (sound cfg) (seed_default_tenant_main i)"
    unfolding seed_default_tenant_main_def by (intro keeps_sound_session keeps_sound_tenancy2)
qed

text \<open>The worker, crashes included.\<close>

lemma sound_handle_job:
  assumes "sound (dp_cfg D) (wk_world k)" and "sound_others (dp_cfg D) (tk_others t)"
    and "handle_job D t j k = (res, k')"
  shows "sound (dp_cfg D) (wk_world k')"
proof -
  have mail: "sound (dp_cfg D) (wk_world k')"
    if "on_mailing m k = (res, k')" "keeps (sound2 (dp_cfg D)) m" for m
  proof -
    obtain y w ms where m: "m (wk_world k, wk_mails k) = (y, (w, ms))" by (metis prod.collapse)
    have "sound (dp_cfg D) w" using keepsD [OF that(2) _ m] assms(1) by simp
    then show ?thesis using that(1) m by (cases y) (auto simp: on_mailing_def)
  qed
  have store: "sound (dp_cfg D) (wk_world k')"
    if "on_storage m k = (res, k')" "keeps (sound2 (dp_cfg D)) m" for m
  proof -
    obtain y w s where m: "m (wk_world k, wk_store k) = (y, (w, s))" by (metis prod.collapse)
    have "sound (dp_cfg D) w" using keepsD [OF that(2) _ m] assms(1) by simp
    then show ?thesis using that(1) m by (cases y) (auto simp: on_storage_def)
  qed
  have "k' = k
      \<or> (\<exists>uid. on_mailing (with_storage_session (create_password_reset_token_and_send_email (dp_crypto D) (dp_cfg D)
            (dp_keys D) (tk_smtp t) (tk_others t) (tk_handler_now t) (tk_raw_token t) (tk_token_id t)
            (tk_completion_id t) uid (Some (job_id j)))) k = (res, k'))
      \<or> (\<exists>i. on_storage (with_storage_session (verify_presigned_upload_in_worker (dp_cfg D) (dp_s3 D) (dp_http D) i)) k
            = (res, k'))"
    using assms(3) by (auto simp: handle_job_def split: if_splits sum.splits)
  then show ?thesis
    using mail [OF _ keeps_sound2_session [OF keeps_sound_reset_job [OF assms(2)]]]
      store [OF _ keeps_sound2_session [OF keeps_sound_verify]] assms(1) by blast
qed

lemma sound_set_redis [simp]: "sound cfg (wk_world (set_redis r k)) = sound cfg (wk_world k)"
  by (simp add: set_redis_def sound_def)

lemma sound_shutdown [simp]: "sound cfg (wk_world (k\<lparr>wk_shutdown := s\<rparr>)) = sound cfg (wk_world k)"
  by simp

lemma sound_process:
  assumes "sound (dp_cfg D) (wk_world k)" and "sound_others (dp_cfg D) (tk_others t)"
    and "process_next_job D t k = (res, k')"
  shows "sound (dp_cfg D) (wk_world k')"
proof -
  obtain y r1 where d: "dequeue_job (dp_queues D) (worker_queue_name (dp_cfg D))
      (worker_processing_queue_name (dp_cfg D)) (tk_dequeue_iso t) (wk_redis k) = (y, r1)" by force
  show ?thesis
  proof (cases "\<exists>j. y = Inr (Some j)")
    case True
    then obtain j where y: "y = Inr (Some j)" by blast
    obtain res2 k2 where h: "handle_job D t j ((set_redis r1 k)\<lparr>wk_shutdown := mark_worker_job_started (wk_shutdown k)\<rparr>)
        = (res2, k2)" by force
    have "sound (dp_cfg D) (wk_world k2)" by (rule sound_handle_job [OF _ assms(2) h]) (simp add: assms(1))
    then show ?thesis using assms(3) by (auto simp: process_next_job_def d y h)
  next
    case False
    then have "k' = set_redis r1 k"
      using assms(3) by (cases y) (auto simp: process_next_job_def d split: option.splits)
    then show ?thesis using assms(1) by simp
  qed
qed

lemma sound_maintenance:
  assumes "sound (dp_cfg D) (wk_world k)" and "maybe_run_scheduled_maintenance D t k = (res, k')"
  shows "sound (dp_cfg D) (wk_world k')"
proof -
  have c: "keeps (sound (dp_cfg D)) (maintenance_cleanup (dp_cfg D) now)" for now
    unfolding maintenance_cleanup_def
    by (intro keeps_sound_session keeps_run_then keeps_sound_cleanup keeps_sound_tenancy keeps_basic)
  have run: "sound (dp_cfg D) (wk_world k2)"
    if s: "sound (dp_cfg D) (wk_world k1)" and m: "run_scheduled_maintenance D t k1 = (y, k2)" for k1 k2 y
  proof -
    have w: "sound (dp_cfg D) w" if "maintenance_cleanup (dp_cfg D) (tk_maintenance_now t) (wk_world (set_redis r1 k1)) = (z, w)"
      for z w r1
      by (rule keepsD [OF c _ that]) (simp add: s)
    show ?thesis
      using m s by (auto simp: run_scheduled_maintenance_def Let_def split: if_splits option.splits prod.splits sum.splits
          dest: w)
  qed
  show ?thesis
    using assms run [of "k\<lparr>last_maintenance_attempt_at := tk_maintenance_clock t\<rparr>"]
    by (auto simp: maybe_run_scheduled_maintenance_def Let_def split: if_splits)
qed

lemma queue_maintenance_db:
  "maybe_run_queue_maintenance D t k = (res, k') \<Longrightarrow> sound cfg (wk_world k') = sound cfg (wk_world k)"
  by (auto simp: maybe_run_queue_maintenance_def Let_def split: if_splits prod.splits sum.splits)

lemma sound_signalled [simp]: "sound cfg (wk_world (signalled b k)) = sound cfg (wk_world k)"
  by (simp add: signalled_def)

lemma sound_worker:
  "sound (dp_cfg D) (wk_world k) \<Longrightarrow> \<forall>t \<in> set ts. sound_others (dp_cfg D) (tk_others t) \<Longrightarrow>
   sound (dp_cfg D) (wk_world (snd (run_worker D ts k)))"
proof (induction ts arbitrary: k)
  case (Cons t ts)
  obtain m k1 where m: "maybe_run_scheduled_maintenance D t (signalled (tk_signal_before t) k) = (m, k1)" by force
  have k1: "sound (dp_cfg D) (wk_world k1)" by (rule sound_maintenance [OF _ m]) (simp add: Cons.prems(1))
  obtain q k2 where q: "maybe_run_queue_maintenance D t (signalled (tk_signal_during t) k1) = (q, k2)" by force
  have k2: "sound (dp_cfg D) (wk_world k2)" by (simp add: queue_maintenance_db [OF q] k1)
  obtain p k3 where p: "process_next_job D t k2 = (p, k3)" by force
  have k3: "sound (dp_cfg D) (wk_world k3)" using sound_process [OF k2 _ p] Cons.prems(2) by simp
  then have "sound (dp_cfg D) (wk_world (snd (run_worker D ts k3)))" using Cons by simp
  then show ?case
    using Cons.prems(1) k1 k2 k3 m q p by (cases m; cases q; cases p) (simp_all add: Let_def)
qed simp

section \<open>Reachable states\<close>

text \<open>
  One request to a route that needs the database and Redis only. The caller is whoever the bearer token
  authenticates. Column orders are parameters into the rational numbers, which embed every countable order.
\<close>

abbreviation caller :: "('r, 's) deployment \<Rightarrow> time \<Rightarrow> string option \<Rightarrow> string \<Rightarrow> ('r world, user) action" where
  "caller D now header token \<equiv> get_current_user (dp_crypto D) (dp_cfg D) now header token"

inductive world_step :: "('r, 's) deployment \<Rightarrow> ('r world \<Rightarrow> 'r world) \<Rightarrow> bool" for D where
  register: "world_step D (\<lambda>w. snd (register (dp_crypto D) (dp_cfg D) (dp_keys D) now i salt req email pw w))"
| login: "world_step D (\<lambda>w. snd (login (dp_crypto D) (dp_cfg D) (dp_keys D) now j1 j2 req email pw w))"
| refresh: "world_step D (\<lambda>w. snd (refresh_token_route (dp_crypto D) (dp_cfg D) (dp_keys D) now j1 j2 req token w))"
| logout: "world_step D (\<lambda>w. snd (logout (dp_crypto D) (dp_cfg D) (dp_keys D) now req token w))"
| me: "world_step D (\<lambda>w. snd (me (caller D now header token) w))"
| reset_request: "world_step D (\<lambda>w. snd (request_reset_password (dp_crypto D) (dp_cfg D) (dp_keys D) (dp_queues D)
    now jid rid aid req email w))"
| reset_confirm: "world_step D (\<lambda>w. snd (confirm_reset_password (dp_crypto D) (dp_cfg D) (dp_keys D) now aid salt
    token pw w))"
| user_list: "world_step D (\<lambda>w. snd (list_users (dp_crypto D) (dp_keys D) (dp_cfg D)
    (ordv :: user_sort_by \<Rightarrow> pyval \<Rightarrow> rat option) now (caller D now header token) pg sz cursor f w))"
| user_get: "world_step D (\<lambda>w. snd (get_user_route (caller D now header token) i w))"
| user_patch: "world_step D (\<lambda>w. snd (patch_user (dp_keys D) now aid (caller D now header token) i upd w))"
| user_deactivate: "world_step D (\<lambda>w. snd (deactivate_user_endpoint (dp_keys D) now aid (caller D now header token) i w))"
| user_activate: "world_step D (\<lambda>w. snd (activate_user_endpoint (dp_keys D) now aid (caller D now header token) i w))"
| user_remove: "world_step D (\<lambda>w. snd (remove_user (dp_keys D) now aid (caller D now header token) i w))"
| tenant_create: "world_step D (\<lambda>w. snd (create_tenant_route i aid now (caller D now header token) slug name w))"
| tenant_list: "world_step D (\<lambda>w. snd (list_tenant_records (collate :: string \<Rightarrow> rat) (caller D now header token)
    pg sz b w))"
| tenant_get: "world_step D (\<lambda>w. snd (get_tenant_route (caller D now header token) i w))"
| tenant_patch: "world_step D (\<lambda>w. snd (patch_tenant aid now (caller D now header token) i nm act w))"
| admin_home: "world_step D (\<lambda>w. snd (admin_panel (caller D now header token) w))"
| admin_audit: "world_step D (\<lambda>w. snd (list_audit_logs (caller D now header token) pg sz act' aid' target w))"
| webhook: "sound_others (dp_cfg D) others \<Longrightarrow>
    world_step D (\<lambda>w. snd (inbound_webhook (dp_crypto D) (dp_cfg D) (dp_keys D) parse_inbound others now i rid' rq w))"
| seed_tenant: "world_step D (\<lambda>w. snd (seed_default_tenant_main i w))"
| seed_dev: "world_step D (\<lambda>w. snd (seed_dev_data_main (dp_crypto D) (dp_cfg D) i nid salt' w))"
| cleanup_tokens: "world_step D (\<lambda>w. snd (password_reset_cleanup_main now w))"
| redis_changes: "world_step D (\<lambda>w. w\<lparr>redis := r\<rparr>)"

text \<open>One request to a file route. Clients also write to the store by themselves, through presigned URLs.\<close>

inductive storage_step :: "('r, 's) deployment \<Rightarrow> ('r world \<times> 's \<Rightarrow> 'r world \<times> 's) \<Rightarrow> bool" for D where
  upload: "storage_step D (\<lambda>st. snd (upload_file_route (dp_cfg D) (dp_s3 D) (dp_http D) uid i now
    (caller D now header token) file st))"
| presign: "storage_step D (\<lambda>st. snd (create_presigned_upload (dp_cfg D) (dp_s3 D) uid (caller D now header token) fn ct st))"
| complete: "storage_step D (\<lambda>st. snd (complete_presigned_upload (dp_queues D) (dp_cfg D) (dp_s3 D) jid rid i now
    (caller D now header token) key fn ct n st))"
| download: "storage_step D (\<lambda>st. snd (get_download_url (dp_cfg D) (dp_s3 D) (caller D now header token) i st))"
| delete: "storage_step D (\<lambda>st. snd (delete_file (dp_cfg D) (dp_s3 D) (caller D now header token) i st))"
| client_put: "storage_step D (\<lambda>st. (fst st, s))"

inductive reachable :: "('r, 's) deployment \<Rightarrow> ('r, 's) worker \<Rightarrow> bool" for D where
  start: "stored (wk_world k) = empty_tables \<Longrightarrow> tx (wk_world k) = empty_tables \<Longrightarrow> reachable D k"
| request: "reachable D k \<Longrightarrow> world_step D f \<Longrightarrow> reachable D (k\<lparr>wk_world := f (wk_world k)\<rparr>)"
| file_request: "reachable D k \<Longrightarrow> storage_step D g \<Longrightarrow> g (wk_world k, wk_store k) = (w, s) \<Longrightarrow>
    reachable D (k\<lparr>wk_world := w, wk_store := s\<rparr>)"
| work: "reachable D k \<Longrightarrow> \<forall>t \<in> set ts. sound_others (dp_cfg D) (tk_others t) \<Longrightarrow>
    reachable D (snd (run_worker D ts k))"

lemma keepsD': "keeps P m \<Longrightarrow> P w \<Longrightarrow> P (snd (m w))"
  by (simp add: keeps_def)

lemma keeps_sound_caller: "keeps (sound cfg) (caller D now header token)"
  by (rule keeps_sound_read_only [OF read_only_current_user])

lemma world_step_sound:
  assumes "world_step D f" and "sound (dp_cfg D) w"
  shows "sound (dp_cfg D) (f w)"
proof -
  note step = keepsD' [where P = "sound (dp_cfg D)", OF _ assms(2)]
  have cleanup: "keeps (sound (dp_cfg D)) (password_reset_cleanup_main now)" for now
    unfolding password_reset_cleanup_main_def by (intro keeps_sound_session keeps_sound_cleanup)
  have changes: "sound (dp_cfg D) (w\<lparr>redis := r\<rparr>)" for r using assms(2) by (simp add: sound_def)
  note routes = keeps_sound_auth_routes keeps_sound_reset_routes keeps_sound_seeds cleanup
    keeps_sound_reading_routes [OF keeps_sound_caller] keeps_sound_user_routes [OF keeps_sound_caller]
    keeps_sound_tenant_routes [OF keeps_sound_caller]
  show ?thesis
    using assms(1) by cases (hypsubst, rule step [OF keeps_sound_webhook] routes [THEN step] changes, (assumption)?)+
qed

lemma storage_step_sound:
  assumes "storage_step D g" and "sound (dp_cfg D) (fst st)"
  shows "sound (dp_cfg D) (fst (g st))"
proof -
  note routes = keeps_sound_file_routes [OF keeps_sound_caller]
  note step = keepsD' [where P = "sound2 (dp_cfg D)" and w = st, OF _ assms(2)]
  show ?thesis
    using assms(1)
  proof cases
    case (upload uid i now header token upl)
    show ?thesis unfolding upload by (rule step [OF routes(1)])
  next
    case (presign uid now header token fn ct)
    show ?thesis unfolding presign by (rule step [OF routes(2)])
  next
    case (complete jid rid i now header token key fn ct n)
    show ?thesis unfolding complete by (rule step [OF routes(3)])
  next
    case (download now header token i)
    show ?thesis unfolding download by (rule step [OF routes(4)])
  next
    case (delete now header token i)
    show ?thesis unfolding delete by (rule step [OF routes(5)])
  next
    case (client_put s)
    show ?thesis unfolding client_put using assms(2) by simp
  qed
qed

lemma reachable_sound: "reachable D k \<Longrightarrow> sound (dp_cfg D) (wk_world k)"
proof (induction rule: reachable.induct)
  case (start k)
  then show ?case by (simp add: sound_def typed_def sound_defs) (simp add: empty_tables_def)
next
  case (file_request k g w s)
  then show ?case using storage_step_sound [OF file_request.hyps(2), of "(wk_world k, wk_store k)"] by simp
next
  case (work k ts)
  then show ?case using sound_worker by blast
qed (simp add: world_step_sound)

section \<open>What every reachable state promises\<close>

lemma matches_known_action: "a_action a = action_value y \<Longrightarrow> \<exists>r. read_audit_log a = Inr r"
  by (cases y) (simp_all add: read_audit_log_def all_actions_def)


definition installed :: "(store, object_map) worker" where
  "installed = \<lparr>wk_world = example_world\<lparr>stored := empty_tables, tx := empty_tables\<rparr>,
     wk_mails = [], wk_store = (\<lambda>_ _. None),
     wk_shutdown = \<lparr>in_flight_requests = 0, shutdown_flag = False, job_in_progress = False\<rparr>,
     last_maintenance_attempt_at = 0, last_queue_maintenance_at = 0\<rparr>"

lemma worker_cfg_env: "environment worker_cfg = ''development''"
  by (simp add: worker_cfg_def with_defaults_def default_settings_def apply_legacy_routes_default_def
      apply_metrics_auth_default_def)

text \<open>The two seed scripts on a fresh installation.\<close>

definition first_tenant_row :: tenant where
  "first_tenant_row = \<lparr>t_id = 1, t_slug = DEFAULT_TENANT_SLUG, t_name = DEFAULT_TENANT_NAME, t_is_active = True\<rparr>"

definition seed_row :: "dev_user_seed \<Rightarrow> user" where
  "seed_row d = \<lparr>u_id = (if ds_role d = ''user'' then 2 else 1), u_tenant_id = 1, u_email = ds_email d,
     u_hashed_password = hash_password ref_crypto ''salt'' DEV_PASSWORD, u_is_active = True, u_role = ds_role d,
     u_token_version = 0\<rparr>"

definition seeded_tables :: tables where
  "seeded_tables = empty_tables\<lparr>tenants := [first_tenant_row], users := map seed_row DEV_USERS\<rparr>"

lemma schema_ok_seeded:
  "schema_ok (empty_tables\<lparr>tenants := [first_tenant_row]\<rparr>)" "schema_ok seeded_tables"
  by (simp_all add: seeded_tables_def schema_ok_def table_oks unique_by_def empty_tables_def first_tenant_row_def
      seed_row_def DEV_USERS_def refers_def)

lemma seed_default_tenant_empty:
  assumes "tx w = empty_tables"
  shows "ensure_default_tenant 1 False w = (Inr first_tenant_row, w\<lparr>tx := empty_tables\<lparr>tenants := [first_tenant_row]\<rparr>\<rparr>)"
proof -
  have "get_tenant_by_slug empty_tables DEFAULT_TENANT_SLUG = None"
    by (simp add: get_tenant_by_slug_def first_tenant_def empty_tables_def)
  moreover have "add_tenant first_tenant_row empty_tables = empty_tables\<lparr>tenants := [first_tenant_row]\<rparr>"
    by (simp add: add_tenant_def empty_tables_def)
  ultimately show ?thesis
    using assms schema_ok_seeded(1)
    by (simp add: ensure_default_tenant_def save_def flush_cases Let_def first_tenant_row_def [symmetric] run_then_def)
qed

lemma seed_dev_users_empty:
  assumes "tx w = empty_tables"
  shows "snd (seed_dev_users ref_crypto 1 (\<lambda>d. if ds_role d = ''user'' then 2 else 1) (\<lambda>_. ''salt'') True w)
    = w\<lparr>tx := seeded_tables, stored := seeded_tables\<rparr>"
proof -
  let ?t = "empty_tables\<lparr>tenants := [first_tenant_row]\<rparr>"
  have none: "get_user_by_email ?t e i = None" for e i
    by (simp add: get_user_by_email_def first_user_def empty_tables_def)
  have row: "(\<lambda>d. \<lparr>u_id = if ds_role d = ''user'' then 2 else 1, u_tenant_id = t_id first_tenant_row, u_email = ds_email d,
      u_hashed_password = hash_password ref_crypto ''salt'' DEV_PASSWORD, u_is_active = True, u_role = ds_role d,
      u_token_version = 0\<rparr>) = seed_row"
    by (simp add: seed_row_def first_tenant_row_def fun_eq_iff)
  have t: "empty_tables\<lparr>tenants := [first_tenant_row], users := users empty_tables @ map seed_row DEV_USERS\<rparr>
      = seeded_tables"
    by (simp add: seeded_tables_def empty_tables_def)
  show ?thesis
    unfolding seed_dev_users_def Let_def run_then_def [of "ensure_default_tenant 1 False"]
      seed_default_tenant_empty [OF assms]
    using schema_ok_seeded(2) by (simp add: none row t save_def flush_commit_cases run_then_def)
qed


end
