(* ===== verification/Migrations.thy ===== *)
theory Migrations
  imports Models "HOL-Library.AList"
begin

text \<open>
  The schema migrations (\<open>alembic/versions\<close>, \<open>alembic/env.py\<close>). A revision is the list of its operations,
  in the order of its \<open>upgrade\<close> and \<open>downgrade\<close> functions. \<open>run_op\<close> is the meaning of one operation for a
  PostgreSQL database, as far as the revisions use it: a database is a list of named tables with columns,
  constraints, indexes and rows, an operation that names what is not there, or what is there already, is
  refused, and so is every operation that leaves rows behind that break a declared constraint. The one
  transaction around a run makes a refused run change nothing.

  A row gives every column a value, null for a column the table does not have. Integer primary keys
  take their values from a counter of the table, which stands for \<open>SERIAL\<close> and \<open>Identity()\<close> alike.
\<close>

section \<open>Databases\<close>

datatype sql_type = sa_Integer | sa_String | sa_Text | sa_Boolean | sa_DateTime

datatype sql_value = SqlNull | SqlInt int | SqlText string | SqlBool bool | SqlTime time

datatype sql_default = sa_now | sa_literal string

datatype sql_column =
  Column (col_name: string) (col_type: sql_type) (col_nullable: bool) (col_default: "sql_default option")

datatype table_constraint =
    PrimaryKeyConstraint "string list"
  | UniqueConstraint "string option" "string list"
  | ForeignKeyConstraint "string option" "string list" string "string list" "string option"

datatype sql_index = Index (ix_name: string) (ix_columns: "string list") (ix_unique: bool) (ix_ops: "string option")

type_synonym sql_row = "string \<Rightarrow> sql_value"

record sql_table =
  tb_columns :: "sql_column list"
  tb_constraints :: "table_constraint list"
  tb_indexes :: "sql_index list"
  tb_rows :: "sql_row list"
  tb_next_id :: int

record database =
  db_tables :: "(string \<times> sql_table) list"
  db_extensions :: "string list"
  db_version :: "string option"

definition empty_database :: database where
  "empty_database = \<lparr>db_tables = [], db_extensions = [], db_version = None\<rparr>"

definition rows_of :: "database \<Rightarrow> string \<Rightarrow> sql_row list" where
  "rows_of d n = (case map_of (db_tables d) n of None \<Rightarrow> [] | Some t \<Rightarrow> tb_rows t)"

text \<open>A key with a null in it equals no other key, and refers to nothing.\<close>

definition unique_key :: "string list \<Rightarrow> sql_row list \<Rightarrow> bool" where
  "unique_key cols rows \<longleftrightarrow> distinct (filter (\<lambda>k. SqlNull \<notin> set k) (map (\<lambda>r. map r cols) rows))"

definition not_null :: "string list \<Rightarrow> sql_row list \<Rightarrow> bool" where
  "not_null cols rows \<longleftrightarrow> list_all (\<lambda>r. list_all (\<lambda>c. r c \<noteq> SqlNull) cols) rows"

definition foreign_key_ok :: "string list \<Rightarrow> sql_row list \<Rightarrow> string list \<Rightarrow> sql_row list \<Rightarrow> bool" where
  "foreign_key_ok cols rows refcols referenced \<longleftrightarrow>
     list_all (\<lambda>r. SqlNull \<in> set (map r cols) \<or> map r cols \<in> set (map (\<lambda>q. map q refcols) referenced)) rows"

definition constraint_ok :: "database \<Rightarrow> sql_row list \<Rightarrow> table_constraint \<Rightarrow> bool" where
  "constraint_ok d rows c = (case c of
       PrimaryKeyConstraint cols \<Rightarrow> unique_key cols rows \<and> not_null cols rows
     | UniqueConstraint _ cols \<Rightarrow> unique_key cols rows
     | ForeignKeyConstraint _ cols ref refcols _ \<Rightarrow> foreign_key_ok cols rows refcols (rows_of d ref))"

definition table_consistent :: "database \<Rightarrow> sql_table \<Rightarrow> bool" where
  "table_consistent d t \<longleftrightarrow>
     not_null (map col_name (filter (\<lambda>c. \<not> col_nullable c) (tb_columns t))) (tb_rows t)
     \<and> list_all (constraint_ok d (tb_rows t)) (tb_constraints t)
     \<and> list_all (\<lambda>i. ix_unique i \<longrightarrow> unique_key (ix_columns i) (tb_rows t)) (tb_indexes t)"

definition consistent :: "database \<Rightarrow> bool" where
  "consistent d \<longleftrightarrow> list_all (\<lambda>(_, t). table_consistent d t) (db_tables d)"

section \<open>Operations\<close>

datatype sql_statement =
    CreateExtension string
  | InsertUnlessExists string "(string \<times> sql_value) list" string sql_value
  | FillNull string string string string string sql_value
  | CopyFrom string string string string string string

datatype migration_op =
    create_table string "sql_column list" "table_constraint list"
  | drop_table string
  | create_index string string "string list" bool
  | create_gin_index string string "string list" string
  | drop_index string string
  | add_column string sql_column
  | drop_column string string
  | alter_nullable string string bool
  | alter_default string string "sql_default option"
  | create_foreign_key string string string "string list" "string list"
  | drop_constraint string string
  | execute sql_statement

definition checked :: "database \<Rightarrow> database option" where
  "checked d = (if consistent d then Some d else None)"

definition put_table :: "string \<Rightarrow> sql_table \<Rightarrow> database \<Rightarrow> database" where
  "put_table n t d = d\<lparr>db_tables := AList.update n t (db_tables d)\<rparr>"

definition on_table :: "string \<Rightarrow> (sql_table \<Rightarrow> sql_table option) \<Rightarrow> database \<Rightarrow> database option" where
  "on_table n f d = (case map_of (db_tables d) n of
       None \<Rightarrow> None
     | Some t \<Rightarrow> (case f t of None \<Rightarrow> None | Some t' \<Rightarrow> checked (put_table n t' d)))"

definition index_names :: "database \<Rightarrow> string list" where
  "index_names d = concat (map (\<lambda>(_, t). map ix_name (tb_indexes t)) (db_tables d))"

fun constraint_columns :: "table_constraint \<Rightarrow> string list" where
  "constraint_columns (PrimaryKeyConstraint cols) = cols"
| "constraint_columns (UniqueConstraint _ cols) = cols"
| "constraint_columns (ForeignKeyConstraint _ cols _ _ _) = cols"

fun constraint_name :: "table_constraint \<Rightarrow> string option" where
  "constraint_name (PrimaryKeyConstraint _) = None"
| "constraint_name (UniqueConstraint nm _) = nm"
| "constraint_name (ForeignKeyConstraint nm _ _ _ _) = nm"

fun references :: "table_constraint \<Rightarrow> string option" where
  "references (ForeignKeyConstraint _ _ ref _ _) = Some ref"
| "references _ = None"

definition literal_value :: "sql_type \<Rightarrow> string \<Rightarrow> sql_value" where
  "literal_value ty s = (case ty of
       sa_Integer \<Rightarrow> (case py_int s of None \<Rightarrow> SqlNull | Some i \<Rightarrow> SqlInt i)
     | sa_Boolean \<Rightarrow> SqlBool (s = ''true'')
     | _ \<Rightarrow> SqlText s)"

definition default_value :: "time \<Rightarrow> sql_column \<Rightarrow> sql_value" where
  "default_value now c = (case col_default c of
       None \<Rightarrow> SqlNull | Some sa_now \<Rightarrow> SqlTime now | Some (sa_literal s) \<Rightarrow> literal_value (col_type c) s)"

definition has_column :: "sql_table \<Rightarrow> string \<Rightarrow> bool" where
  "has_column t c \<longleftrightarrow> c \<in> set (map col_name (tb_columns t))"

definition change_column :: "string \<Rightarrow> (sql_column \<Rightarrow> sql_column) \<Rightarrow> sql_table \<Rightarrow> sql_table option" where
  "change_column c f t = (if has_column t c
     then Some (t\<lparr>tb_columns := map (\<lambda>x. if col_name x = c then f x else x) (tb_columns t)\<rparr>) else None)"

definition add_index :: "string \<Rightarrow> sql_index \<Rightarrow> database \<Rightarrow> database option" where
  "add_index tn i d = (if ix_name i \<in> set (index_names d) then None
     else on_table tn (\<lambda>t. if list_all (has_column t) (ix_columns i)
       then Some (t\<lparr>tb_indexes := tb_indexes t @ [i]\<rparr>) else None) d)"

fun run_statement :: "sql_statement \<Rightarrow> database \<Rightarrow> database option" where
  "run_statement (CreateExtension x) d =
     Some (if x \<in> set (db_extensions d) then d else d\<lparr>db_extensions := db_extensions d @ [x]\<rparr>)"
| "run_statement (InsertUnlessExists tn values k v) d =
     on_table tn (\<lambda>t. if list_ex (\<lambda>r. r k = v) (tb_rows t) then Some t
       else Some (t\<lparr>tb_rows := tb_rows t @
                 [fold (\<lambda>(c, x) r. r(c := x)) values ((\<lambda>_. SqlNull)(''id'' := SqlInt (tb_next_id t)))],
               tb_next_id := tb_next_id t + 1\<rparr>)) d"
| "run_statement (FillNull tn c src_col src k v) d =
     (case filter (\<lambda>r. r k = v) (rows_of d src) of
        [] \<Rightarrow> Some d
      | [s] \<Rightarrow> on_table tn (\<lambda>t. Some (t\<lparr>tb_rows :=
            map (\<lambda>r. if r c = SqlNull then r(c := s src_col) else r) (tb_rows t)\<rparr>)) d
      | _ \<Rightarrow> None)"
| "run_statement (CopyFrom tn c src src_col fk pk) d =
     on_table tn (\<lambda>t. Some (t\<lparr>tb_rows := map (\<lambda>r.
         case List.find (\<lambda>s. s pk = r fk \<and> r fk \<noteq> SqlNull) (rows_of d src) of
           None \<Rightarrow> r | Some s \<Rightarrow> r(c := s src_col)) (tb_rows t)\<rparr>)) d"

fun run_op :: "time \<Rightarrow> migration_op \<Rightarrow> database \<Rightarrow> database option" where
  "run_op now (create_table n cols cs) d =
     (if n \<in> set (map fst (db_tables d))
         \<or> \<not> list_all (\<lambda>c. references c \<in> set (None # map (Some \<circ> fst) (db_tables d))
              \<and> list_all (\<lambda>x. x \<in> set (map col_name cols)) (constraint_columns c)) cs
      then None
      else checked (d\<lparr>db_tables := db_tables d @
        [(n, \<lparr>tb_columns = cols, tb_constraints = cs, tb_indexes = [], tb_rows = [], tb_next_id = 1\<rparr>)]\<rparr>))"
| "run_op now (drop_table n) d =
     (if n \<notin> set (map fst (db_tables d))
         \<or> list_ex (\<lambda>(m, t). m \<noteq> n \<and> list_ex (\<lambda>c. references c = Some n) (tb_constraints t)) (db_tables d)
      then None
      else Some (d\<lparr>db_tables := filter (\<lambda>(m, _). m \<noteq> n) (db_tables d)\<rparr>))"
| "run_op now (create_index ix tn cols u) d = add_index tn (Index ix cols u None) d"
| "run_op now (create_gin_index ix tn cols ops) d =
     (if ''pg_trgm'' \<notin> set (db_extensions d) then None else add_index tn (Index ix cols False (Some ops)) d)"
| "run_op now (drop_index ix tn) d =
     on_table tn (\<lambda>t. if ix \<in> set (map ix_name (tb_indexes t))
       then Some (t\<lparr>tb_indexes := filter (\<lambda>i. ix_name i \<noteq> ix) (tb_indexes t)\<rparr>) else None) d"
| "run_op now (add_column tn c) d =
     on_table tn (\<lambda>t. if has_column t (col_name c) then None
       else Some (t\<lparr>tb_columns := tb_columns t @ [c],
                 tb_rows := map (\<lambda>r. r(col_name c := default_value now c)) (tb_rows t)\<rparr>)) d"
| "run_op now (drop_column tn c) d =
     on_table tn (\<lambda>t. if \<not> has_column t c then None
       else Some (t\<lparr>tb_columns := filter (\<lambda>x. col_name x \<noteq> c) (tb_columns t),
                 tb_constraints := filter (\<lambda>x. c \<notin> set (constraint_columns x)) (tb_constraints t),
                 tb_indexes := filter (\<lambda>i. c \<notin> set (ix_columns i)) (tb_indexes t),
                 tb_rows := map (\<lambda>r. r(c := SqlNull)) (tb_rows t)\<rparr>)) d"
| "run_op now (alter_nullable tn c b) d =
     on_table tn (change_column c (\<lambda>x. Column (col_name x) (col_type x) b (col_default x))) d"
| "run_op now (alter_default tn c dflt) d =
     on_table tn (change_column c (\<lambda>x. Column (col_name x) (col_type x) (col_nullable x) dflt)) d"
| "run_op now (create_foreign_key nm tn ref cols refcols) d =
     (if ref \<notin> set (map fst (db_tables d)) then None
      else on_table tn (\<lambda>t. if Some nm \<in> set (map constraint_name (tb_constraints t)) then None
        else Some (t\<lparr>tb_constraints := tb_constraints t @ [ForeignKeyConstraint (Some nm) cols ref refcols None]\<rparr>)) d)"
| "run_op now (drop_constraint nm tn) d =
     on_table tn (\<lambda>t. if Some nm \<in> set (map constraint_name (tb_constraints t))
       then Some (t\<lparr>tb_constraints := filter (\<lambda>c. constraint_name c \<noteq> Some nm) (tb_constraints t)\<rparr>)
       else None) d"
| "run_op now (execute st) d = (case run_statement st d of None \<Rightarrow> None | Some d' \<Rightarrow> checked d')"

fun run_ops :: "time \<Rightarrow> migration_op list \<Rightarrow> database \<Rightarrow> database option" where
  "run_ops now [] d = Some d"
| "run_ops now (x # xs) d = (case run_op now x d of None \<Rightarrow> None | Some d' \<Rightarrow> run_ops now xs d')"

section \<open>Revisions\<close>

record revision =
  rev_id :: string
  rev_down :: "string option"
  rev_upgrade :: "migration_op list"
  rev_downgrade :: "migration_op list"

definition rev_648d963688dd :: revision where
  "rev_648d963688dd = \<lparr>rev_id = ''648d963688dd'', rev_down = None,
     rev_upgrade =
      [create_table ''users''
        [Column ''id'' sa_Integer False None,
         Column ''email'' sa_String False None,
         Column ''hashed_password'' sa_String False None,
         Column ''is_active'' sa_Boolean True None,
         Column ''role'' sa_String False None]
        [PrimaryKeyConstraint [''id'']],
       create_index ''ix_users_id'' ''users'' [''id''] False,
       create_index ''ix_users_email'' ''users'' [''email''] True],
     rev_downgrade =
      [drop_index ''ix_users_email'' ''users'',
       drop_index ''ix_users_id'' ''users'',
       drop_table ''users'']\<rparr>"

definition rev_f963f3c8b3a4 :: revision where
  "rev_f963f3c8b3a4 = \<lparr>rev_id = ''f963f3c8b3a4'', rev_down = Some ''648d963688dd'',
     rev_upgrade =
      [create_table ''audit_logs''
        [Column ''id'' sa_Integer False None,
         Column ''admin_id'' sa_Integer False None,
         Column ''action'' sa_String False None,
         Column ''target_user_id'' sa_Integer True None,
         Column ''created_at'' sa_DateTime True (Some sa_now)]
        [ForeignKeyConstraint None [''admin_id''] ''users'' [''id''] None,
         PrimaryKeyConstraint [''id'']],
       create_index ''ix_audit_logs_id'' ''audit_logs'' [''id''] False,
       alter_nullable ''users'' ''is_active'' False],
     rev_downgrade =
      [alter_nullable ''users'' ''is_active'' True,
       drop_index ''ix_audit_logs_id'' ''audit_logs'',
       drop_table ''audit_logs'']\<rparr>"

definition rev_7f4e8b9a2c10 :: revision where
  "rev_7f4e8b9a2c10 = \<lparr>rev_id = ''7f4e8b9a2c10'', rev_down = Some ''f963f3c8b3a4'',
     rev_upgrade =
      [create_index ''ix_audit_logs_action'' ''audit_logs'' [''action''] False,
       create_index ''ix_audit_logs_admin_id'' ''audit_logs'' [''admin_id''] False,
       create_index ''ix_audit_logs_target_user_id'' ''audit_logs'' [''target_user_id''] False,
       create_index ''ix_audit_logs_created_at'' ''audit_logs'' [''created_at''] False],
     rev_downgrade =
      [drop_index ''ix_audit_logs_created_at'' ''audit_logs'',
       drop_index ''ix_audit_logs_target_user_id'' ''audit_logs'',
       drop_index ''ix_audit_logs_admin_id'' ''audit_logs'',
       drop_index ''ix_audit_logs_action'' ''audit_logs'']\<rparr>"

definition rev_3a9f1c7d8e20 :: revision where
  "rev_3a9f1c7d8e20 = \<lparr>rev_id = ''3a9f1c7d8e20'', rev_down = Some ''7f4e8b9a2c10'',
     rev_upgrade =
      [create_table ''password_reset_tokens''
        [Column ''id'' sa_Integer False None,
         Column ''user_id'' sa_Integer False None,
         Column ''token_hash'' sa_String False None,
         Column ''expires_at'' sa_DateTime False None,
         Column ''used_at'' sa_DateTime True None,
         Column ''created_at'' sa_DateTime False (Some sa_now)]
        [ForeignKeyConstraint None [''user_id''] ''users'' [''id''] (Some ''CASCADE''),
         PrimaryKeyConstraint [''id'']],
       create_index ''ix_password_reset_tokens_id'' ''password_reset_tokens'' [''id''] False,
       create_index ''ix_password_reset_tokens_user_id'' ''password_reset_tokens'' [''user_id''] False,
       create_index ''ix_password_reset_tokens_token_hash'' ''password_reset_tokens'' [''token_hash''] True,
       create_index ''ix_password_reset_tokens_expires_at'' ''password_reset_tokens'' [''expires_at''] False],
     rev_downgrade =
      [drop_index ''ix_password_reset_tokens_expires_at'' ''password_reset_tokens'',
       drop_index ''ix_password_reset_tokens_token_hash'' ''password_reset_tokens'',
       drop_index ''ix_password_reset_tokens_user_id'' ''password_reset_tokens'',
       drop_index ''ix_password_reset_tokens_id'' ''password_reset_tokens'',
       drop_table ''password_reset_tokens'']\<rparr>"

definition rev_9b2c4d6e8f10 :: revision where
  "rev_9b2c4d6e8f10 = \<lparr>rev_id = ''9b2c4d6e8f10'', rev_down = Some ''3a9f1c7d8e20'',
     rev_upgrade =
      [create_table ''uploaded_files''
        [Column ''id'' sa_Integer False None,
         Column ''owner_id'' sa_Integer False None,
         Column ''object_key'' sa_String False None,
         Column ''filename'' sa_String False None,
         Column ''content_type'' sa_String False None,
         Column ''size_bytes'' sa_Integer False None,
         Column ''created_at'' sa_DateTime False (Some sa_now)]
        [ForeignKeyConstraint None [''owner_id''] ''users'' [''id''] (Some ''CASCADE''),
         PrimaryKeyConstraint [''id''],
         UniqueConstraint None [''object_key'']],
       create_index ''ix_uploaded_files_id'' ''uploaded_files'' [''id''] False,
       create_index ''ix_uploaded_files_owner_id'' ''uploaded_files'' [''owner_id''] False,
       create_index ''ix_uploaded_files_created_at'' ''uploaded_files'' [''created_at''] False],
     rev_downgrade =
      [drop_index ''ix_uploaded_files_created_at'' ''uploaded_files'',
       drop_index ''ix_uploaded_files_owner_id'' ''uploaded_files'',
       drop_index ''ix_uploaded_files_id'' ''uploaded_files'',
       drop_table ''uploaded_files'']\<rparr>"

definition rev_4d5e6f7a8b90 :: revision where
  "rev_4d5e6f7a8b90 = \<lparr>rev_id = ''4d5e6f7a8b90'', rev_down = Some ''9b2c4d6e8f10'',
     rev_upgrade =
      [alter_nullable ''audit_logs'' ''admin_id'' True],
     rev_downgrade =
      [alter_nullable ''audit_logs'' ''admin_id'' False]\<rparr>"

definition rev_a1b2c3d4e5f6 :: revision where
  "rev_a1b2c3d4e5f6 = \<lparr>rev_id = ''a1b2c3d4e5f6'', rev_down = Some ''4d5e6f7a8b90'',
     rev_upgrade =
      [create_table ''tenants''
        [Column ''id'' sa_Integer False None,
         Column ''slug'' sa_String False None,
         Column ''name'' sa_String False None,
         Column ''is_active'' sa_Boolean False (Some (sa_literal ''true''))]
        [PrimaryKeyConstraint [''id''],
         UniqueConstraint None [''slug'']],
       create_index ''ix_tenants_id'' ''tenants'' [''id''] False,
       create_index ''ix_tenants_slug'' ''tenants'' [''slug''] True,
       execute (InsertUnlessExists ''tenants''
        [(''slug'', SqlText ''default''), (''name'', SqlText ''Default Tenant''), (''is_active'', SqlBool True)]
        ''slug'' (SqlText ''default'')),
       add_column ''users'' (Column ''tenant_id'' sa_Integer True None),
       execute (FillNull ''users'' ''tenant_id'' ''id'' ''tenants'' ''slug'' (SqlText ''default'')),
       alter_nullable ''users'' ''tenant_id'' False,
       create_foreign_key ''fk_users_tenant_id_tenants'' ''users'' ''tenants'' [''tenant_id''] [''id''],
       create_index ''ix_users_tenant_id'' ''users'' [''tenant_id''] False,
       drop_index ''ix_users_email'' ''users'',
       create_index ''ix_users_tenant_id_email'' ''users'' [''tenant_id'', ''email''] True,
       add_column ''audit_logs'' (Column ''tenant_id'' sa_Integer True None),
       execute (FillNull ''audit_logs'' ''tenant_id'' ''id'' ''tenants'' ''slug'' (SqlText ''default'')),
       alter_nullable ''audit_logs'' ''tenant_id'' False,
       create_foreign_key ''fk_audit_logs_tenant_id_tenants'' ''audit_logs'' ''tenants'' [''tenant_id''] [''id''],
       create_index ''ix_audit_logs_tenant_id'' ''audit_logs'' [''tenant_id''] False,
       add_column ''uploaded_files'' (Column ''tenant_id'' sa_Integer True None),
       execute (CopyFrom ''uploaded_files'' ''tenant_id'' ''users'' ''tenant_id'' ''owner_id'' ''id''),
       execute (FillNull ''uploaded_files'' ''tenant_id'' ''id'' ''tenants'' ''slug'' (SqlText ''default'')),
       alter_nullable ''uploaded_files'' ''tenant_id'' False,
       create_foreign_key ''fk_uploaded_files_tenant_id_tenants'' ''uploaded_files'' ''tenants'' [''tenant_id''] [''id''],
       create_index ''ix_uploaded_files_tenant_id'' ''uploaded_files'' [''tenant_id''] False],
     rev_downgrade =
      [drop_index ''ix_uploaded_files_tenant_id'' ''uploaded_files'',
       drop_constraint ''fk_uploaded_files_tenant_id_tenants'' ''uploaded_files'',
       drop_column ''uploaded_files'' ''tenant_id'',
       drop_index ''ix_audit_logs_tenant_id'' ''audit_logs'',
       drop_constraint ''fk_audit_logs_tenant_id_tenants'' ''audit_logs'',
       drop_column ''audit_logs'' ''tenant_id'',
       drop_index ''ix_users_tenant_id_email'' ''users'',
       create_index ''ix_users_email'' ''users'' [''email''] True,
       drop_index ''ix_users_tenant_id'' ''users'',
       drop_constraint ''fk_users_tenant_id_tenants'' ''users'',
       drop_column ''users'' ''tenant_id'',
       drop_index ''ix_tenants_slug'' ''tenants'',
       drop_index ''ix_tenants_id'' ''tenants'',
       drop_table ''tenants'']\<rparr>"

definition rev_c3d4e5f6a7b8 :: revision where
  "rev_c3d4e5f6a7b8 = \<lparr>rev_id = ''c3d4e5f6a7b8'', rev_down = Some ''a1b2c3d4e5f6'',
     rev_upgrade =
      [create_table ''idempotency_records''
        [Column ''id'' sa_Integer False None,
         Column ''scope_key'' sa_String False None,
         Column ''status_code'' sa_Integer False None,
         Column ''response_body'' sa_Text False None,
         Column ''created_at'' sa_DateTime False (Some sa_now),
         Column ''expires_at'' sa_DateTime False None]
        [PrimaryKeyConstraint [''id''],
         UniqueConstraint None [''scope_key'']],
       create_index ''ix_idempotency_records_id'' ''idempotency_records'' [''id''] False,
       create_index ''ix_idempotency_records_scope_key'' ''idempotency_records'' [''scope_key''] True,
       create_index ''ix_idempotency_records_created_at'' ''idempotency_records'' [''created_at''] False,
       create_index ''ix_idempotency_records_expires_at'' ''idempotency_records'' [''expires_at''] False,
       create_table ''webhook_events''
        [Column ''id'' sa_Integer False None,
         Column ''provider'' sa_String False None,
         Column ''event_id'' sa_String False None,
         Column ''payload_hash'' sa_String False None,
         Column ''received_at'' sa_DateTime False (Some sa_now)]
        [PrimaryKeyConstraint [''id''],
         UniqueConstraint (Some ''uq_webhook_events_provider_event_id'') [''provider'', ''event_id'']],
       create_index ''ix_webhook_events_id'' ''webhook_events'' [''id''] False,
       create_index ''ix_webhook_events_provider'' ''webhook_events'' [''provider''] False,
       create_index ''ix_webhook_events_received_at'' ''webhook_events'' [''received_at''] False],
     rev_downgrade =
      [drop_index ''ix_webhook_events_received_at'' ''webhook_events'',
       drop_index ''ix_webhook_events_provider'' ''webhook_events'',
       drop_index ''ix_webhook_events_id'' ''webhook_events'',
       drop_table ''webhook_events'',
       drop_index ''ix_idempotency_records_expires_at'' ''idempotency_records'',
       drop_index ''ix_idempotency_records_created_at'' ''idempotency_records'',
       drop_index ''ix_idempotency_records_scope_key'' ''idempotency_records'',
       drop_index ''ix_idempotency_records_id'' ''idempotency_records'',
       drop_table ''idempotency_records'']\<rparr>"

definition rev_d4e5f6a7b8c9 :: revision where
  "rev_d4e5f6a7b8c9 = \<lparr>rev_id = ''d4e5f6a7b8c9'', rev_down = Some ''c3d4e5f6a7b8'',
     rev_upgrade =
      [add_column ''users'' (Column ''token_version'' sa_Integer False (Some (sa_literal ''0''))),
       alter_default ''users'' ''token_version'' None],
     rev_downgrade =
      [drop_column ''users'' ''token_version'']\<rparr>"

definition rev_e5f6a7b8c9d0 :: revision where
  "rev_e5f6a7b8c9d0 = \<lparr>rev_id = ''e5f6a7b8c9d0'', rev_down = Some ''d4e5f6a7b8c9'',
     rev_upgrade =
      [create_table ''password_reset_job_completions''
        [Column ''id'' sa_Integer False None,
         Column ''job_id'' sa_String False None,
         Column ''completed_at'' sa_DateTime False (Some sa_now)]
        [PrimaryKeyConstraint [''id''],
         UniqueConstraint None [''job_id'']],
       create_index ''ix_password_reset_job_completions_id'' ''password_reset_job_completions'' [''id''] False,
       create_index ''ix_password_reset_job_completions_job_id'' ''password_reset_job_completions'' [''job_id''] True],
     rev_downgrade =
      [drop_index ''ix_password_reset_job_completions_job_id'' ''password_reset_job_completions'',
       drop_index ''ix_password_reset_job_completions_id'' ''password_reset_job_completions'',
       drop_table ''password_reset_job_completions'']\<rparr>"

definition rev_f1a2b3c4d5e6 :: revision where
  "rev_f1a2b3c4d5e6 = \<lparr>rev_id = ''f1a2b3c4d5e6'', rev_down = Some ''e5f6a7b8c9d0'',
     rev_upgrade =
      [execute (CreateExtension ''pg_trgm''),
       create_gin_index ''ix_users_email_trgm'' ''users'' [''email''] ''gin_trgm_ops''],
     rev_downgrade =
      [drop_index ''ix_users_email_trgm'' ''users'']\<rparr>"

definition rev_a2b3c4d5e6f7 :: revision where
  "rev_a2b3c4d5e6f7 = \<lparr>rev_id = ''a2b3c4d5e6f7'', rev_down = Some ''f1a2b3c4d5e6'',
     rev_upgrade =
      [add_column ''uploaded_files'' (Column ''verification_status'' sa_String False (Some (sa_literal ''verified'')))],
     rev_downgrade =
      [drop_column ''uploaded_files'' ''verification_status'']\<rparr>"

definition rev_b3c4d5e6f7a8 :: revision where
  "rev_b3c4d5e6f7a8 = \<lparr>rev_id = ''b3c4d5e6f7a8'', rev_down = Some ''a2b3c4d5e6f7'',
     rev_upgrade =
      [drop_index ''ix_audit_logs_id'' ''audit_logs'',
       drop_index ''ix_users_id'' ''users'',
       drop_index ''ix_users_tenant_id'' ''users'',
       drop_index ''ix_tenants_id'' ''tenants'',
       drop_index ''ix_tenants_slug'' ''tenants'',
       drop_index ''ix_idempotency_records_id'' ''idempotency_records'',
       drop_index ''ix_idempotency_records_scope_key'' ''idempotency_records'',
       drop_index ''ix_idempotency_records_created_at'' ''idempotency_records'',
       drop_index ''ix_webhook_events_id'' ''webhook_events'',
       drop_index ''ix_webhook_events_provider'' ''webhook_events'',
       drop_index ''ix_uploaded_files_id'' ''uploaded_files'',
       drop_index ''ix_uploaded_files_owner_id'' ''uploaded_files'',
       drop_index ''ix_uploaded_files_created_at'' ''uploaded_files'',
       drop_index ''ix_password_reset_tokens_id'' ''password_reset_tokens'',
       drop_index ''ix_password_reset_job_completions_id'' ''password_reset_job_completions'',
       drop_index ''ix_password_reset_job_completions_job_id'' ''password_reset_job_completions''],
     rev_downgrade =
      [create_index ''ix_password_reset_job_completions_job_id'' ''password_reset_job_completions'' [''job_id''] True,
       create_index ''ix_password_reset_job_completions_id'' ''password_reset_job_completions'' [''id''] False,
       create_index ''ix_password_reset_tokens_id'' ''password_reset_tokens'' [''id''] False,
       create_index ''ix_uploaded_files_created_at'' ''uploaded_files'' [''created_at''] False,
       create_index ''ix_uploaded_files_owner_id'' ''uploaded_files'' [''owner_id''] False,
       create_index ''ix_uploaded_files_id'' ''uploaded_files'' [''id''] False,
       create_index ''ix_webhook_events_provider'' ''webhook_events'' [''provider''] False,
       create_index ''ix_webhook_events_id'' ''webhook_events'' [''id''] False,
       create_index ''ix_idempotency_records_created_at'' ''idempotency_records'' [''created_at''] False,
       create_index ''ix_idempotency_records_scope_key'' ''idempotency_records'' [''scope_key''] True,
       create_index ''ix_idempotency_records_id'' ''idempotency_records'' [''id''] False,
       create_index ''ix_tenants_slug'' ''tenants'' [''slug''] True,
       create_index ''ix_tenants_id'' ''tenants'' [''id''] False,
       create_index ''ix_users_tenant_id'' ''users'' [''tenant_id''] False,
       create_index ''ix_users_id'' ''users'' [''id''] False,
       create_index ''ix_audit_logs_id'' ''audit_logs'' [''id''] False]\<rparr>"

section \<open>Running them\<close>

definition versions :: "revision list" where
  "versions = [rev_3a9f1c7d8e20, rev_4d5e6f7a8b90, rev_648d963688dd, rev_7f4e8b9a2c10, rev_9b2c4d6e8f10,
     rev_a1b2c3d4e5f6, rev_a2b3c4d5e6f7, rev_b3c4d5e6f7a8, rev_c3d4e5f6a7b8, rev_d4e5f6a7b8c9,
     rev_e5f6a7b8c9d0, rev_f1a2b3c4d5e6, rev_f963f3c8b3a4]"

definition apply_revision :: "time \<Rightarrow> revision \<Rightarrow> database \<Rightarrow> database option" where
  "apply_revision now r d = (if db_version d \<noteq> rev_down r then None
     else map_option (\<lambda>d'. d'\<lparr>db_version := Some (rev_id r)\<rparr>) (run_ops now (rev_upgrade r) d))"

definition revert_revision :: "time \<Rightarrow> revision \<Rightarrow> database \<Rightarrow> database option" where
  "revert_revision now r d = (if db_version d \<noteq> Some (rev_id r) then None
     else map_option (\<lambda>d'. d'\<lparr>db_version := rev_down r\<rparr>) (run_ops now (rev_downgrade r) d))"

text \<open>
  \<open>alembic upgrade head\<close>: the revision that names the current version as its predecessor comes next; two
  of them are refused. The first argument bounds the number of revisions still to run.
\<close>

fun upgrade_head :: "nat \<Rightarrow> time \<Rightarrow> revision list \<Rightarrow> database \<Rightarrow> database option" where
  "upgrade_head 0 now revs d = None"
| "upgrade_head (Suc n) now revs d = (case filter (\<lambda>r. rev_down r = db_version d) revs of
       [] \<Rightarrow> Some d
     | [r] \<Rightarrow> (case apply_revision now r d of None \<Rightarrow> None | Some d' \<Rightarrow> upgrade_head n now revs d')
     | _ \<Rightarrow> None)"

definition run_migrations_online :: "time \<Rightarrow> revision list \<Rightarrow> database \<Rightarrow> bool \<times> database" where
  "run_migrations_online now revs d = (case upgrade_head (Suc (length revs)) now revs d of
       None \<Rightarrow> (False, d) | Some d' \<Rightarrow> (True, d'))"

end
