(* ===== verification/Migrated_Schema.thy ===== *)
theory Migrated_Schema
  imports Migrations
begin

text \<open>
  What the migrations do: the schema they build is the one the models declare, and its consistency is the
  predicate \<open>schema_ok\<close> of the services; upgrading an installation from before multi-tenancy keeps its rows.
\<close>

section \<open>The tables before and after multi-tenancy\<close>

definition single_users :: "sql_row list \<Rightarrow> int \<Rightarrow> sql_table" where
  "single_users rows n = \<lparr>tb_columns =
      [Column ''id'' sa_Integer False None,
       Column ''email'' sa_String False None,
       Column ''hashed_password'' sa_String False None,
       Column ''is_active'' sa_Boolean False None,
       Column ''role'' sa_String False None],
     tb_constraints =
      [PrimaryKeyConstraint [''id'']],
     tb_indexes =
      [Index ''ix_users_id'' [''id''] False None,
       Index ''ix_users_email'' [''email''] True None],
     tb_rows = rows, tb_next_id = n\<rparr>"

definition single_audit_logs :: "sql_row list \<Rightarrow> int \<Rightarrow> sql_table" where
  "single_audit_logs rows n = \<lparr>tb_columns =
      [Column ''id'' sa_Integer False None,
       Column ''admin_id'' sa_Integer True None,
       Column ''action'' sa_String False None,
       Column ''target_user_id'' sa_Integer True None,
       Column ''created_at'' sa_DateTime True (Some sa_now)],
     tb_constraints =
      [ForeignKeyConstraint None [''admin_id''] ''users'' [''id''] None,
       PrimaryKeyConstraint [''id'']],
     tb_indexes =
      [Index ''ix_audit_logs_id'' [''id''] False None,
       Index ''ix_audit_logs_action'' [''action''] False None,
       Index ''ix_audit_logs_admin_id'' [''admin_id''] False None,
       Index ''ix_audit_logs_target_user_id'' [''target_user_id''] False None,
       Index ''ix_audit_logs_created_at'' [''created_at''] False None],
     tb_rows = rows, tb_next_id = n\<rparr>"

definition single_password_reset_tokens :: "sql_row list \<Rightarrow> int \<Rightarrow> sql_table" where
  "single_password_reset_tokens rows n = \<lparr>tb_columns =
      [Column ''id'' sa_Integer False None,
       Column ''user_id'' sa_Integer False None,
       Column ''token_hash'' sa_String False None,
       Column ''expires_at'' sa_DateTime False None,
       Column ''used_at'' sa_DateTime True None,
       Column ''created_at'' sa_DateTime False (Some sa_now)],
     tb_constraints =
      [ForeignKeyConstraint None [''user_id''] ''users'' [''id''] (Some ''CASCADE''),
       PrimaryKeyConstraint [''id'']],
     tb_indexes =
      [Index ''ix_password_reset_tokens_id'' [''id''] False None,
       Index ''ix_password_reset_tokens_user_id'' [''user_id''] False None,
       Index ''ix_password_reset_tokens_token_hash'' [''token_hash''] True None,
       Index ''ix_password_reset_tokens_expires_at'' [''expires_at''] False None],
     tb_rows = rows, tb_next_id = n\<rparr>"

definition single_uploaded_files :: "sql_row list \<Rightarrow> int \<Rightarrow> sql_table" where
  "single_uploaded_files rows n = \<lparr>tb_columns =
      [Column ''id'' sa_Integer False None,
       Column ''owner_id'' sa_Integer False None,
       Column ''object_key'' sa_String False None,
       Column ''filename'' sa_String False None,
       Column ''content_type'' sa_String False None,
       Column ''size_bytes'' sa_Integer False None,
       Column ''created_at'' sa_DateTime False (Some sa_now)],
     tb_constraints =
      [ForeignKeyConstraint None [''owner_id''] ''users'' [''id''] (Some ''CASCADE''),
       PrimaryKeyConstraint [''id''],
       UniqueConstraint None [''object_key'']],
     tb_indexes =
      [Index ''ix_uploaded_files_id'' [''id''] False None,
       Index ''ix_uploaded_files_owner_id'' [''owner_id''] False None,
       Index ''ix_uploaded_files_created_at'' [''created_at''] False None],
     tb_rows = rows, tb_next_id = n\<rparr>"

definition single_tenant_database ::
  "sql_row list \<times> int \<Rightarrow> sql_row list \<times> int \<Rightarrow> sql_row list \<times> int \<Rightarrow> sql_row list \<times> int \<Rightarrow> database" where
  "single_tenant_database us as ps fs = \<lparr>db_tables =
      [(''users'', single_users (fst us) (snd us)), (''audit_logs'', single_audit_logs (fst as) (snd as)),
       (''password_reset_tokens'', single_password_reset_tokens (fst ps) (snd ps)),
       (''uploaded_files'', single_uploaded_files (fst fs) (snd fs))],
     db_extensions = [], db_version = Some ''4d5e6f7a8b90''\<rparr>"

definition current_users :: "sql_row list \<Rightarrow> int \<Rightarrow> sql_table" where
  "current_users rows n = \<lparr>tb_columns =
      [Column ''id'' sa_Integer False None,
       Column ''email'' sa_String False None,
       Column ''hashed_password'' sa_String False None,
       Column ''is_active'' sa_Boolean False None,
       Column ''role'' sa_String False None,
       Column ''tenant_id'' sa_Integer False None,
       Column ''token_version'' sa_Integer False None],
     tb_constraints =
      [PrimaryKeyConstraint [''id''],
       ForeignKeyConstraint (Some ''fk_users_tenant_id_tenants'') [''tenant_id''] ''tenants'' [''id''] None],
     tb_indexes =
      [Index ''ix_users_tenant_id_email'' [''tenant_id'', ''email''] True None,
       Index ''ix_users_email_trgm'' [''email''] False (Some ''gin_trgm_ops'')],
     tb_rows = rows, tb_next_id = n\<rparr>"

definition current_audit_logs :: "sql_row list \<Rightarrow> int \<Rightarrow> sql_table" where
  "current_audit_logs rows n = \<lparr>tb_columns =
      [Column ''id'' sa_Integer False None,
       Column ''admin_id'' sa_Integer True None,
       Column ''action'' sa_String False None,
       Column ''target_user_id'' sa_Integer True None,
       Column ''created_at'' sa_DateTime True (Some sa_now),
       Column ''tenant_id'' sa_Integer False None],
     tb_constraints =
      [ForeignKeyConstraint None [''admin_id''] ''users'' [''id''] None,
       PrimaryKeyConstraint [''id''],
       ForeignKeyConstraint (Some ''fk_audit_logs_tenant_id_tenants'') [''tenant_id''] ''tenants'' [''id''] None],
     tb_indexes =
      [Index ''ix_audit_logs_action'' [''action''] False None,
       Index ''ix_audit_logs_admin_id'' [''admin_id''] False None,
       Index ''ix_audit_logs_target_user_id'' [''target_user_id''] False None,
       Index ''ix_audit_logs_created_at'' [''created_at''] False None,
       Index ''ix_audit_logs_tenant_id'' [''tenant_id''] False None],
     tb_rows = rows, tb_next_id = n\<rparr>"

definition current_password_reset_tokens :: "sql_row list \<Rightarrow> int \<Rightarrow> sql_table" where
  "current_password_reset_tokens rows n = \<lparr>tb_columns =
      [Column ''id'' sa_Integer False None,
       Column ''user_id'' sa_Integer False None,
       Column ''token_hash'' sa_String False None,
       Column ''expires_at'' sa_DateTime False None,
       Column ''used_at'' sa_DateTime True None,
       Column ''created_at'' sa_DateTime False (Some sa_now)],
     tb_constraints =
      [ForeignKeyConstraint None [''user_id''] ''users'' [''id''] (Some ''CASCADE''),
       PrimaryKeyConstraint [''id'']],
     tb_indexes =
      [Index ''ix_password_reset_tokens_user_id'' [''user_id''] False None,
       Index ''ix_password_reset_tokens_token_hash'' [''token_hash''] True None,
       Index ''ix_password_reset_tokens_expires_at'' [''expires_at''] False None],
     tb_rows = rows, tb_next_id = n\<rparr>"

definition current_uploaded_files :: "sql_row list \<Rightarrow> int \<Rightarrow> sql_table" where
  "current_uploaded_files rows n = \<lparr>tb_columns =
      [Column ''id'' sa_Integer False None,
       Column ''owner_id'' sa_Integer False None,
       Column ''object_key'' sa_String False None,
       Column ''filename'' sa_String False None,
       Column ''content_type'' sa_String False None,
       Column ''size_bytes'' sa_Integer False None,
       Column ''created_at'' sa_DateTime False (Some sa_now),
       Column ''tenant_id'' sa_Integer False None,
       Column ''verification_status'' sa_String False (Some (sa_literal ''verified''))],
     tb_constraints =
      [ForeignKeyConstraint None [''owner_id''] ''users'' [''id''] (Some ''CASCADE''),
       PrimaryKeyConstraint [''id''],
       UniqueConstraint None [''object_key''],
       ForeignKeyConstraint (Some ''fk_uploaded_files_tenant_id_tenants'') [''tenant_id''] ''tenants'' [''id''] None],
     tb_indexes =
      [Index ''ix_uploaded_files_tenant_id'' [''tenant_id''] False None],
     tb_rows = rows, tb_next_id = n\<rparr>"

definition current_tenants :: "sql_row list \<Rightarrow> int \<Rightarrow> sql_table" where
  "current_tenants rows n = \<lparr>tb_columns =
      [Column ''id'' sa_Integer False None,
       Column ''slug'' sa_String False None,
       Column ''name'' sa_String False None,
       Column ''is_active'' sa_Boolean False (Some (sa_literal ''true''))],
     tb_constraints =
      [PrimaryKeyConstraint [''id''],
       UniqueConstraint None [''slug'']],
     tb_indexes =
      [],
     tb_rows = rows, tb_next_id = n\<rparr>"

definition current_idempotency_records :: "sql_row list \<Rightarrow> int \<Rightarrow> sql_table" where
  "current_idempotency_records rows n = \<lparr>tb_columns =
      [Column ''id'' sa_Integer False None,
       Column ''scope_key'' sa_String False None,
       Column ''status_code'' sa_Integer False None,
       Column ''response_body'' sa_Text False None,
       Column ''created_at'' sa_DateTime False (Some sa_now),
       Column ''expires_at'' sa_DateTime False None],
     tb_constraints =
      [PrimaryKeyConstraint [''id''],
       UniqueConstraint None [''scope_key'']],
     tb_indexes =
      [Index ''ix_idempotency_records_expires_at'' [''expires_at''] False None],
     tb_rows = rows, tb_next_id = n\<rparr>"

definition current_webhook_events :: "sql_row list \<Rightarrow> int \<Rightarrow> sql_table" where
  "current_webhook_events rows n = \<lparr>tb_columns =
      [Column ''id'' sa_Integer False None,
       Column ''provider'' sa_String False None,
       Column ''event_id'' sa_String False None,
       Column ''payload_hash'' sa_String False None,
       Column ''received_at'' sa_DateTime False (Some sa_now)],
     tb_constraints =
      [PrimaryKeyConstraint [''id''],
       UniqueConstraint (Some ''uq_webhook_events_provider_event_id'') [''provider'', ''event_id'']],
     tb_indexes =
      [Index ''ix_webhook_events_received_at'' [''received_at''] False None],
     tb_rows = rows, tb_next_id = n\<rparr>"

definition current_password_reset_job_completions :: "sql_row list \<Rightarrow> int \<Rightarrow> sql_table" where
  "current_password_reset_job_completions rows n = \<lparr>tb_columns =
      [Column ''id'' sa_Integer False None,
       Column ''job_id'' sa_String False None,
       Column ''completed_at'' sa_DateTime False (Some sa_now)],
     tb_constraints =
      [PrimaryKeyConstraint [''id''],
       UniqueConstraint None [''job_id'']],
     tb_indexes =
      [],
     tb_rows = rows, tb_next_id = n\<rparr>"


text \<open>The rows of the eight tables, each with the next value of its key.\<close>

record contents =
  ct_users :: "sql_row list \<times> int"
  ct_audit_logs :: "sql_row list \<times> int"
  ct_reset_tokens :: "sql_row list \<times> int"
  ct_files :: "sql_row list \<times> int"
  ct_tenants :: "sql_row list \<times> int"
  ct_idempotency :: "sql_row list \<times> int"
  ct_webhooks :: "sql_row list \<times> int"
  ct_completions :: "sql_row list \<times> int"

definition current_database :: "contents \<Rightarrow> database" where
  "current_database c = \<lparr>db_tables =
      [(''users'', current_users (fst (ct_users c)) (snd (ct_users c))),
       (''audit_logs'', current_audit_logs (fst (ct_audit_logs c)) (snd (ct_audit_logs c))),
       (''password_reset_tokens'', current_password_reset_tokens (fst (ct_reset_tokens c)) (snd (ct_reset_tokens c))),
       (''uploaded_files'', current_uploaded_files (fst (ct_files c)) (snd (ct_files c))),
       (''tenants'', current_tenants (fst (ct_tenants c)) (snd (ct_tenants c))),
       (''idempotency_records'', current_idempotency_records (fst (ct_idempotency c)) (snd (ct_idempotency c))),
       (''webhook_events'', current_webhook_events (fst (ct_webhooks c)) (snd (ct_webhooks c))),
       (''password_reset_job_completions'',
        current_password_reset_job_completions (fst (ct_completions c)) (snd (ct_completions c)))],
     db_extensions = [''pg_trgm''], db_version = Some ''b3c4d5e6f7a8''\<rparr>"

lemmas single_defs = single_tenant_database_def single_users_def single_audit_logs_def
  single_password_reset_tokens_def single_uploaded_files_def
lemmas current_defs = current_database_def current_users_def current_audit_logs_def current_password_reset_tokens_def
  current_uploaded_files_def current_tenants_def current_idempotency_records_def current_webhook_events_def
  current_password_reset_job_completions_def

section \<open>Keys over changed rows\<close>

lemma unique_key_map [simp]:
  "(\<And>r. map (f r) cols = map r cols) \<Longrightarrow> unique_key cols (map f rows) = unique_key cols rows"
  by (simp add: unique_key_def o_def del: map_eq_conv)

lemma unique_key_const [simp]:
  assumes "\<And>r. f r c = f (\<lambda>_. SqlNull) c" and "f (\<lambda>_. SqlNull) c \<noteq> SqlNull"
    and "\<And>r. map (f r) cols = map r cols"
  shows "unique_key (c # cols) (map f rows) = unique_key cols rows"
proof -
  let ?v = "f (\<lambda>_. SqlNull) c"
  have "map (f r) (c # cols) = ?v # map r cols" for r
    using assms(1) [of r] assms(3) [of r] by (simp del: map_eq_conv)
  then have "map (\<lambda>r. map r (c # cols)) (map f rows) = map ((#) ?v) (map (\<lambda>r. map r cols) rows)"
    by (simp del: list.map)
  moreover have "filter (\<lambda>k. SqlNull \<notin> set k) (map ((#) ?v) ks) = map ((#) ?v) (filter (\<lambda>k. SqlNull \<notin> set k) ks)" for ks
    using assms(2) by (induction ks) auto
  ultimately show ?thesis
    unfolding unique_key_def by (metis distinct_map inj_on_Cons1)
qed

lemma not_null_map [simp]:
  "(\<And>r. map (f r) cols = map r cols) \<Longrightarrow> not_null cols (map f rows) = not_null cols rows"
  by (simp add: not_null_def list_all_iff)

lemma not_null_simps [simp]: "not_null cols []" "not_null [] rows" "unique_key cols []"
  by (simp_all add: not_null_def unique_key_def list_all_iff)

lemma not_null_Cons: "not_null (c # cols) rows \<longleftrightarrow> not_null [c] rows \<and> not_null cols rows" if "cols \<noteq> []"
  by (auto simp: not_null_def list_all_iff)

lemma foreign_key_map [simp]:
  assumes "\<And>r. map (f r) cols = map r cols" and "\<And>r. map (g r) refcols = map r refcols"
  shows "foreign_key_ok cols (map f rows) refcols refs = foreign_key_ok cols rows refcols refs"
    "foreign_key_ok cols rows refcols (map g refs) = foreign_key_ok cols rows refcols refs"
  using assms by (simp_all only: foreign_key_ok_def list_all_iff set_map image_image ball_simps)
    (simp_all only: set_map [symmetric] assms ball_simps image_image)

lemma foreign_key_empty [simp]: "foreign_key_ok cols [] refcols refs"
  by (simp add: foreign_key_ok_def)

section \<open>The rows of the services in the migrated schema\<close>

abbreviation null_row :: sql_row where
  "null_row \<equiv> \<lambda>_. SqlNull"

definition tenant_row :: "tenant \<Rightarrow> sql_row" where
  "tenant_row x = null_row(''id'' := SqlInt (t_id x), ''slug'' := SqlText (t_slug x), ''name'' := SqlText (t_name x),
     ''is_active'' := SqlBool (t_is_active x))"

definition user_row :: "user \<Rightarrow> sql_row" where
  "user_row u = null_row(''id'' := SqlInt (u_id u), ''tenant_id'' := SqlInt (u_tenant_id u),
     ''email'' := SqlText (u_email u), ''hashed_password'' := SqlText (u_hashed_password u),
     ''is_active'' := SqlBool (u_is_active u), ''role'' := SqlText (u_role u),
     ''token_version'' := SqlInt (u_token_version u))"

definition opt_int :: "int option \<Rightarrow> sql_value" where
  "opt_int x = (case x of None \<Rightarrow> SqlNull | Some i \<Rightarrow> SqlInt i)"

definition opt_time :: "time option \<Rightarrow> sql_value" where
  "opt_time x = (case x of None \<Rightarrow> SqlNull | Some i \<Rightarrow> SqlTime i)"

definition audit_row :: "audit_log \<Rightarrow> sql_row" where
  "audit_row a = null_row(''id'' := SqlInt (a_id a), ''tenant_id'' := SqlInt (a_tenant_id a),
     ''admin_id'' := opt_int (a_admin_id a), ''action'' := SqlText (a_action a),
     ''target_user_id'' := opt_int (a_target_user_id a), ''created_at'' := SqlTime (a_created_at a))"

definition file_row :: "uploaded_file \<Rightarrow> sql_row" where
  "file_row f = null_row(''id'' := SqlInt (f_id f), ''tenant_id'' := SqlInt (f_tenant_id f),
     ''owner_id'' := SqlInt (f_owner_id f), ''object_key'' := SqlText (f_object_key f),
     ''filename'' := SqlText (f_filename f), ''content_type'' := SqlText (f_content_type f),
     ''size_bytes'' := SqlInt (f_size_bytes f),
     ''verification_status'' := SqlText (case f_verification_status f of pending \<Rightarrow> ''pending'' | verified \<Rightarrow> ''verified''),
     ''created_at'' := SqlTime (f_created_at f))"

definition idempotency_row :: "idempotency_record \<Rightarrow> sql_row" where
  "idempotency_row r = null_row(''id'' := SqlInt (i_id r), ''scope_key'' := SqlText (i_scope_key r),
     ''status_code'' := SqlInt (i_status_code r), ''response_body'' := SqlText (i_response_body r),
     ''created_at'' := SqlTime (i_created_at r), ''expires_at'' := SqlTime (i_expires_at r))"

definition webhook_row :: "webhook_event \<Rightarrow> sql_row" where
  "webhook_row e = null_row(''id'' := SqlInt (w_id e), ''provider'' := SqlText (w_provider e),
     ''event_id'' := SqlText (w_event_id e), ''payload_hash'' := SqlText (w_payload_hash e),
     ''received_at'' := SqlTime (w_received_at e))"

definition reset_token_row :: "password_reset_token \<Rightarrow> sql_row" where
  "reset_token_row p = null_row(''id'' := SqlInt (p_id p), ''user_id'' := SqlInt (p_user_id p),
     ''token_hash'' := SqlText (p_token_hash p), ''expires_at'' := SqlTime (p_expires_at p),
     ''used_at'' := opt_time (p_used_at p), ''created_at'' := SqlTime (p_created_at p))"

definition completion_row :: "password_reset_job_completion \<Rightarrow> sql_row" where
  "completion_row c = null_row(''id'' := SqlInt (c_id c), ''job_id'' := SqlText (c_job_id c),
     ''completed_at'' := SqlTime (c_completed_at c))"

text \<open>The tables of the services as the contents of the migrated schema; \<open>n\<close> is the next key of every table.\<close>

definition contents_of :: "int \<Rightarrow> tables \<Rightarrow> contents" where
  "contents_of n t = \<lparr>ct_users = (map user_row (users t), n), ct_audit_logs = (map audit_row (audit_logs t), n),
     ct_reset_tokens = (map reset_token_row (password_reset_tokens t), n),
     ct_files = (map file_row (uploaded_files t), n), ct_tenants = (map tenant_row (tenants t), n),
     ct_idempotency = (map idempotency_row (idempotency_records t), n),
     ct_webhooks = (map webhook_row (webhook_events t), n), ct_completions = (map completion_row (job_completions t), n)\<rparr>"

lemma contents_of_simps [simp]:
  "ct_users (contents_of n t) = (map user_row (users t), n)"
  "ct_audit_logs (contents_of n t) = (map audit_row (audit_logs t), n)"
  "ct_reset_tokens (contents_of n t) = (map reset_token_row (password_reset_tokens t), n)"
  "ct_files (contents_of n t) = (map file_row (uploaded_files t), n)"
  "ct_tenants (contents_of n t) = (map tenant_row (tenants t), n)"
  "ct_idempotency (contents_of n t) = (map idempotency_row (idempotency_records t), n)"
  "ct_webhooks (contents_of n t) = (map webhook_row (webhook_events t), n)"
  "ct_completions (contents_of n t) = (map completion_row (job_completions t), n)"
  by (simp_all add: contents_of_def)

lemmas row_defs = tenant_row_def user_row_def audit_row_def file_row_def idempotency_row_def webhook_row_def
  reset_token_row_def completion_row_def

lemma unique_key_rows:
  assumes "\<And>x. map (row x) cols = enc (key x)" and "inj enc" and "\<And>k. SqlNull \<notin> set (enc k)"
  shows "unique_key cols (map row xs) = unique_by key xs"
proof -
  have "map (\<lambda>r. map r cols) (map row xs) = map enc (map key xs)" using assms(1) by simp
  moreover have "filter (\<lambda>k. SqlNull \<notin> set k) (map enc ks) = map enc ks" for ks
    using assms(3) by (induction ks) auto
  ultimately show ?thesis
    unfolding unique_key_def unique_by_def using assms(2) by (metis distinct_map inj_on_subset subset_UNIV)
qed

lemma unique_int: "(\<And>x. row x c = SqlInt (key x)) \<Longrightarrow> unique_key [c] (map row xs) = unique_by key xs"
  by (rule unique_key_rows [where enc = "\<lambda>k. [SqlInt k]"]) (auto simp: inj_def)

lemma unique_text: "(\<And>x. row x c = SqlText (key x)) \<Longrightarrow> unique_key [c] (map row xs) = unique_by key xs"
  by (rule unique_key_rows [where enc = "\<lambda>k. [SqlText k]"]) (auto simp: inj_def)

lemma unique_pairs:
  "unique_key [''tenant_id'', ''email''] (map user_row us) = unique_by (\<lambda>u. (u_tenant_id u, u_email u)) us"
  "unique_key [''provider'', ''event_id''] (map webhook_row es) = unique_by (\<lambda>e. (w_provider e, w_event_id e)) es"
  by (rule unique_key_rows [where enc = "\<lambda>(a, b). [SqlInt a, SqlText b]"]
      | rule unique_key_rows [where enc = "\<lambda>(a, b). [SqlText a, SqlText b]"]
      | force simp: row_defs inj_def)+

lemma foreign_int:
  assumes "\<And>x. row x c = SqlInt (key x)" and "\<And>y. ref y k = SqlInt (key' y)"
  shows "foreign_key_ok [c] (map row xs) [k] (map ref ys) = list_all (\<lambda>x. refers (key x) (map key' ys)) xs"
  using assms by (auto simp: foreign_key_ok_def list_all_iff refers_def image_image)

lemma foreign_opt:
  assumes "\<And>x. row x c = opt_int (key x)" and "\<And>y. ref y k = SqlInt (key' y)"
  shows "foreign_key_ok [c] (map row xs) [k] (map ref ys) = list_all (\<lambda>x. opt_refers (key x) (map key' ys)) xs"
  using assms by (auto simp: foreign_key_ok_def list_all_iff refers_def opt_refers_def opt_int_def image_iff
      split: option.splits)

lemma not_null_rows: "(\<And>x. \<forall>c \<in> set cols. row x c \<noteq> SqlNull) \<Longrightarrow> not_null cols (map row xs)"
  by (simp add: not_null_def list_all_iff)

lemma rows_of_current [simp]:
  "rows_of (current_database c) ''users'' = fst (ct_users c)"
  "rows_of (current_database c) ''tenants'' = fst (ct_tenants c)"
  by (simp_all add: rows_of_def current_defs)

lemma consistent_current:
  "consistent (current_database c) = list_all (table_consistent (current_database c))
     [current_users (fst (ct_users c)) (snd (ct_users c)), current_audit_logs (fst (ct_audit_logs c)) (snd (ct_audit_logs c)),
      current_password_reset_tokens (fst (ct_reset_tokens c)) (snd (ct_reset_tokens c)),
      current_uploaded_files (fst (ct_files c)) (snd (ct_files c)), current_tenants (fst (ct_tenants c)) (snd (ct_tenants c)),
      current_idempotency_records (fst (ct_idempotency c)) (snd (ct_idempotency c)),
      current_webhook_events (fst (ct_webhooks c)) (snd (ct_webhooks c)),
      current_password_reset_job_completions (fst (ct_completions c)) (snd (ct_completions c))]"
  by (simp add: consistent_def current_database_def)

lemma row_keys:
  "unique_key [''id''] (map user_row us) = unique_by u_id us"
  "unique_key [''id''] (map audit_row as) = unique_by a_id as"
  "unique_key [''id''] (map reset_token_row ps) = unique_by p_id ps"
  "unique_key [''token_hash''] (map reset_token_row ps) = unique_by p_token_hash ps"
  "unique_key [''id''] (map file_row fs) = unique_by f_id fs"
  "unique_key [''object_key''] (map file_row fs) = unique_by f_object_key fs"
  "unique_key [''id''] (map tenant_row ts) = unique_by t_id ts"
  "unique_key [''slug''] (map tenant_row ts) = unique_by t_slug ts"
  "unique_key [''id''] (map idempotency_row rs) = unique_by i_id rs"
  "unique_key [''scope_key''] (map idempotency_row rs) = unique_by i_scope_key rs"
  "unique_key [''id''] (map webhook_row es) = unique_by w_id es"
  "unique_key [''id''] (map completion_row cs) = unique_by c_id cs"
  "unique_key [''job_id''] (map completion_row cs) = unique_by c_job_id cs"
  by (rule unique_int unique_text, simp add: row_defs)+

lemma row_references:
  "foreign_key_ok [''tenant_id''] (map user_row us) [''id''] (map tenant_row ts)
     = list_all (\<lambda>u. refers (u_tenant_id u) (map t_id ts)) us"
  "foreign_key_ok [''tenant_id''] (map audit_row as) [''id''] (map tenant_row ts)
     = list_all (\<lambda>a. refers (a_tenant_id a) (map t_id ts)) as"
  "foreign_key_ok [''admin_id''] (map audit_row as) [''id''] (map user_row us)
     = list_all (\<lambda>a. opt_refers (a_admin_id a) (map u_id us)) as"
  "foreign_key_ok [''user_id''] (map reset_token_row ps) [''id''] (map user_row us)
     = list_all (\<lambda>p. refers (p_user_id p) (map u_id us)) ps"
  "foreign_key_ok [''owner_id''] (map file_row fs) [''id''] (map user_row us)
     = list_all (\<lambda>f. refers (f_owner_id f) (map u_id us)) fs"
  "foreign_key_ok [''tenant_id''] (map file_row fs) [''id''] (map tenant_row ts)
     = list_all (\<lambda>f. refers (f_tenant_id f) (map t_id ts)) fs"
  by (rule foreign_int foreign_opt, simp add: row_defs, simp add: row_defs)+

lemma rows_not_null:
  "not_null [''id''] (map user_row us)" "not_null [''id''] (map audit_row as)" "not_null [''id''] (map reset_token_row ps)"
  "not_null [''id''] (map file_row fs)" "not_null [''id''] (map tenant_row ts)"
  "not_null [''id''] (map idempotency_row rs)" "not_null [''id''] (map webhook_row es)"
  "not_null [''id''] (map completion_row cs)"
  "not_null [''id'', ''email'', ''hashed_password'', ''is_active'', ''role'', ''tenant_id'', ''token_version''] (map user_row us)"
  "not_null [''id'', ''action'', ''tenant_id''] (map audit_row as)"
  "not_null [''id'', ''user_id'', ''token_hash'', ''expires_at'', ''created_at''] (map reset_token_row ps)"
  "not_null [''id'', ''owner_id'', ''object_key'', ''filename'', ''content_type'', ''size_bytes'', ''created_at'',
     ''tenant_id'', ''verification_status''] (map file_row fs)"
  "not_null [''id'', ''slug'', ''name'', ''is_active''] (map tenant_row ts)"
  "not_null [''id'', ''scope_key'', ''status_code'', ''response_body'', ''created_at'', ''expires_at''] (map idempotency_row rs)"
  "not_null [''id'', ''provider'', ''event_id'', ''payload_hash'', ''received_at''] (map webhook_row es)"
  "not_null [''id'', ''job_id'', ''completed_at''] (map completion_row cs)"
  by (rule not_null_rows, simp add: row_defs)+


end
