(* ===== verification/Migration_Steps.thy ===== *)
theory Migration_Steps
  imports Migrated_Schema
begin

text \<open>
  Running migration operations one table at a time: an accepted operation on a table leaves the rest of the
  database as it is, and whether it is accepted depends on that table alone, as long as the keys other tables
  refer to stay. \<open>settled_db\<close> is the invariant of the states in between.
\<close>

section \<open>One table at a time\<close>

definition refs_ids :: "sql_table \<Rightarrow> bool" where
  "refs_ids t \<longleftrightarrow> (\<forall>c \<in> set (tb_constraints t). case c of ForeignKeyConstraint _ _ _ refcols _ \<Rightarrow> refcols = [''id''] | _ \<Rightarrow> True)"

definition ids :: "sql_row list \<Rightarrow> sql_value list" where
  "ids rows = map (\<lambda>r. r ''id'') rows"

text \<open>A database in which every operation so far has been accepted, and whose foreign keys refer to \<open>id\<close> columns.\<close>

definition settled_db :: "database \<Rightarrow> bool" where
  "settled_db d \<longleftrightarrow> distinct (map fst (db_tables d)) \<and> consistent d \<and> list_all (\<lambda>(_, t). refs_ids t) (db_tables d)"

lemma put_table_simps [simp]:
  "map_of (db_tables (put_table n t d)) = (map_of (db_tables d))(n \<mapsto> t)"
  "put_table n t (put_table n u d) = put_table n t d"
  "fst ` set (db_tables (put_table n t d)) = insert n (fst ` set (db_tables d))"
  "db_extensions (put_table n t d) = db_extensions d" "db_version (put_table n t d) = db_version d"
  by (simp_all add: put_table_def update_conv' update_last dom_update)

lemma mem_update:
  "distinct (map fst xs) \<Longrightarrow> (m, x) \<in> set (AList.update n t xs) \<longleftrightarrow> m = n \<and> x = t \<or> m \<noteq> n \<and> (m, x) \<in> set xs"
  by (induction xs) force+

lemma mem_put: "distinct (map fst (db_tables d)) \<Longrightarrow> (m, x) \<in> set (db_tables (put_table n t d)) \<longleftrightarrow>
    m = n \<and> x = t \<or> m \<noteq> n \<and> (m, x) \<in> set (db_tables d)"
  by (simp add: put_table_def mem_update)

lemma distinct_put: "distinct (map fst (db_tables d)) \<Longrightarrow> distinct (map fst (db_tables (put_table n t d)))"
  by (simp add: put_table_def distinct_update)

lemma rows_of_put [simp]: "rows_of (put_table n t d) m = (if m = n then tb_rows t else rows_of d m)"
  by (simp add: rows_of_def)

lemma foreign_key_ids:
  "ids refs' = ids refs \<Longrightarrow> foreign_key_ok cols rows [''id''] refs' = foreign_key_ok cols rows [''id''] refs"
proof -
  have "set (map (\<lambda>q. map q [''id'']) rs) = (\<lambda>v. [v]) ` set (ids rs)" for rs
    by (simp add: ids_def image_image)
  then show "ids refs' = ids refs \<Longrightarrow> ?thesis" by (simp add: foreign_key_ok_def)
qed

lemma table_consistent_cong:
  assumes "refs_ids t" and "\<And>m. ids (rows_of d' m) = ids (rows_of d m)"
  shows "table_consistent d' t = table_consistent d t"
proof -
  have "constraint_ok d' rows c = constraint_ok d rows c" if "c \<in> set (tb_constraints t)" for rows c
    using bspec [OF assms(1) [unfolded refs_ids_def] that] foreign_key_ids [OF assms(2)]
    by (cases c) (simp_all add: constraint_ok_def)
  then show ?thesis by (simp add: table_consistent_def list_all_iff)
qed

lemma consistent_put:
  assumes "settled_db d" and "map_of (db_tables d) n = Some t" and "ids (tb_rows t') = ids (tb_rows t)"
  shows "consistent (put_table n t' d) \<longleftrightarrow> table_consistent (put_table n t' d) t'"
proof -
  have d: "distinct (map fst (db_tables d))" using assms(1) by (simp add: settled_db_def)
  have same: "ids (rows_of (put_table n t' d) m) = ids (rows_of d m)" for m
    using assms(2,3) by (simp add: rows_of_def)
  have others: "table_consistent (put_table n t' d) x" if "(m, x) \<in> set (db_tables d)" for m x
    using that assms(1) table_consistent_cong [OF _ same, of x]
    by (auto simp: settled_db_def consistent_def list_all_iff)
  show ?thesis
    unfolding consistent_def list_all_iff split_beta
  proof (intro iffI ballI)
    assume "\<forall>x \<in> set (db_tables (put_table n t' d)). table_consistent (put_table n t' d) (snd x)"
    moreover have "(n, t') \<in> set (db_tables (put_table n t' d))" by (simp add: mem_put [OF d])
    ultimately show "table_consistent (put_table n t' d) t'" by force
  next
    fix x assume "table_consistent (put_table n t' d) t'" and "x \<in> set (db_tables (put_table n t' d))"
    then show "table_consistent (put_table n t' d) (snd x)"
      using others by (cases x) (auto simp: mem_put [OF d])
  qed
qed

lemma settled_put:
  assumes "settled_db d" and "consistent (put_table n t' d)" and "refs_ids t'"
  shows "settled_db (put_table n t' d)"
proof -
  have d: "distinct (map fst (db_tables d))" using assms(1) by (simp add: settled_db_def)
  have "refs_ids x" if "(m, x) \<in> set (db_tables (put_table n t' d))" for m x
    using that assms(1,3) by (auto simp: settled_db_def list_all_iff mem_put [OF d])
  then show ?thesis using assms(2) distinct_put [OF d] by (auto simp: settled_db_def list_all_iff)
qed

definition other_index_names :: "string \<Rightarrow> database \<Rightarrow> string set" where
  "other_index_names n d = {x. \<exists>m t. (m, t) \<in> set (db_tables d) \<and> m \<noteq> n \<and> x \<in> ix_name ` set (tb_indexes t)}"

lemma index_names_put:
  assumes "distinct (map fst (db_tables d))"
  shows "x \<in> set (index_names (put_table n t d)) \<longleftrightarrow> x \<in> ix_name ` set (tb_indexes t) \<or> x \<in> other_index_names n d"
proof -
  have "x \<in> set (index_names d') \<longleftrightarrow> (\<exists>m t. (m, t) \<in> set (db_tables d') \<and> x \<in> ix_name ` set (tb_indexes t))" for d'
    by (force simp: index_names_def)
  then show ?thesis unfolding other_index_names_def by (simp only: mem_put [OF assms]) blast
qed

lemma put_same: "map_of (db_tables d) n = Some t \<Longrightarrow> put_table n t d = d"
  by (simp add: put_table_def update_triv)

lemma run_ops_append: "run_ops now (xs @ ys) d = (case run_ops now xs d of None \<Rightarrow> None | Some d' \<Rightarrow> run_ops now ys d')"
  by (induction xs arbitrary: d) (auto split: option.splits)


lemma settled_table: "settled_db d \<Longrightarrow> map_of (db_tables d) n = Some t \<Longrightarrow> table_consistent d t"
  by (auto simp: settled_db_def consistent_def list_all_iff dest: map_of_SomeD)

lemma settled_names: "settled_db d \<Longrightarrow> distinct (map fst (db_tables d))"
  by (simp add: settled_db_def)

text \<open>One accepted step on a table, the database around it being given.\<close>

lemma on_table_settled:
  assumes "settled_db d" and "map_of (db_tables d) n = Some t0" and "ids (tb_rows t) = ids (tb_rows t0)"
  shows "on_table n f (put_table n t d) = (case f t of None \<Rightarrow> None
    | Some t' \<Rightarrow> if consistent (put_table n t' d) then Some (put_table n t' d) else None)"
  by (simp add: on_table_def checked_def split: option.splits)

lemma table_consistent_rows:
  "table_consistent d \<lparr>tb_columns = cols, tb_constraints = cs, tb_indexes = ixs, tb_rows = rows, tb_next_id = n\<rparr>
    \<longleftrightarrow> not_null (map col_name (filter (\<lambda>c. \<not> col_nullable c) cols)) rows \<and> list_all (constraint_ok d rows) cs
      \<and> list_all (\<lambda>i. ix_unique i \<longrightarrow> unique_key (ix_columns i) rows) ixs"
  by (simp add: table_consistent_def)

lemma single_row [simp]:
  "unique_key cols [r]" "not_null [c] [r] \<longleftrightarrow> r c \<noteq> SqlNull"
  by (simp_all add: unique_key_def not_null_def list_all_iff)

lemma not_null_split [simp]: "not_null (c # c' # cs) rows \<longleftrightarrow> not_null [c] rows \<and> not_null (c' # cs) rows"
  by (auto simp: not_null_def list_all_iff)

lemma not_null_const [simp]: "(\<And>r. f r c \<noteq> SqlNull) \<Longrightarrow> not_null [c] (map f rows)"
  by (simp add: not_null_def list_all_iff)

lemma foreign_key_const [simp]: "(\<And>r. f r c = q k) \<Longrightarrow> foreign_key_ok [c] (map f rows) [k] [q]"
  by (simp add: foreign_key_ok_def list_all_iff)

lemma foreign_key_null [simp]: "(\<And>r. f r c = SqlNull) \<Longrightarrow> foreign_key_ok [c] (map f rows) [k] qs"
  by (simp add: foreign_key_ok_def list_all_iff)

lemma ids_map [simp]: "(\<And>r. f r ''id'' = r ''id'') \<Longrightarrow> ids (map f rows) = ids rows"
  by (simp add: ids_def)

definition default_tenant_row :: sql_row where
  "default_tenant_row = null_row(''id'' := SqlInt 1, ''slug'' := SqlText ''default'', ''name'' := SqlText ''Default Tenant'',
     ''is_active'' := SqlBool True)"

definition tenancy_users :: "sql_row list \<Rightarrow> int \<Rightarrow> sql_table" where
  "tenancy_users rows n = \<lparr>tb_columns = tb_columns (single_users rows n) @ [Column ''tenant_id'' sa_Integer False None],
     tb_constraints = tb_constraints (current_users rows n),
     tb_indexes = [Index ''ix_users_id'' [''id''] False None, Index ''ix_users_tenant_id'' [''tenant_id''] False None,
       Index ''ix_users_tenant_id_email'' [''tenant_id'', ''email''] True None],
     tb_rows = rows, tb_next_id = n\<rparr>"

lemma tenancy_upgrade_users:
  assumes d: "settled_db d" "map_of (db_tables d) ''users'' = Some (single_users us n)"
    and tenants: "rows_of d ''tenants'' = [default_tenant_row]" "''tenants'' \<in> fst ` set (db_tables d)"
    and free: "''ix_users_tenant_id'' \<notin> other_index_names ''users'' d"
      "''ix_users_tenant_id_email'' \<notin> other_index_names ''users'' d"
  shows "run_ops now (take 7 (drop 4 (rev_upgrade rev_a1b2c3d4e5f6))) d
    = Some (put_table ''users'' (tenancy_users (map (\<lambda>r. r(''tenant_id'' := SqlInt 1)) us) n) d)"
proof -
  have d': "put_table ''users'' (single_users us n) d = d" using d(2) by (rule put_same)
  have u: "not_null [''id''] us" "not_null [''email''] us" "not_null [''hashed_password''] us" "not_null [''is_active''] us"
    "not_null [''role''] us" "unique_key [''id''] us" "unique_key [''email''] us"
    using settled_table [OF d] by (simp_all add: single_users_def table_consistent_rows constraint_ok_def)
  have cons: "consistent (put_table ''users'' t' d) \<longleftrightarrow> table_consistent (put_table ''users'' t' d) t'"
    if "ids (tb_rows t') = ids us" for t'
    by (rule consistent_put [OF d]) (simp add: that single_users_def)
  have names: "x \<in> set (index_names (put_table ''users'' t d)) \<longleftrightarrow> x \<in> ix_name ` set (tb_indexes t) \<or> x \<in> other_index_names ''users'' d"
    for x t by (rule index_names_put [OF settled_names [OF d(1)]])
  have "run_ops now (take 7 (drop 4 (rev_upgrade rev_a1b2c3d4e5f6))) (put_table ''users'' (single_users us n) d)
    = Some (put_table ''users'' (tenancy_users (map (\<lambda>r. r(''tenant_id'' := SqlInt 1)) us) n) d)"
    using tenants free u
    by (simp add: rev_a1b2c3d4e5f6_def on_table_def checked_def cons names single_users_def tenancy_users_def
      current_users_def has_column_def change_column_def add_index_def table_consistent_rows constraint_ok_def
      default_value_def default_tenant_row_def o_def)
  then show ?thesis by (simp add: d')
qed

end
