(* ===== verification/Tenancy_Upgrade.thy ===== *)
theory Tenancy_Upgrade
  imports Migration_Steps
begin

text \<open>
  The revision that brings multi-tenancy (\<open>a1b2c3d4e5f6\<close>), run on an installation with arbitrary rows.
\<close>

definition tenancy_audit_logs :: "sql_row list \<Rightarrow> int \<Rightarrow> sql_table" where
  "tenancy_audit_logs rows n = (current_audit_logs rows n)\<lparr>tb_indexes :=
     Index ''ix_audit_logs_id'' [''id''] False None # tb_indexes (current_audit_logs rows n)\<rparr>"

definition tenancy_files :: "sql_row list \<Rightarrow> int \<Rightarrow> sql_table" where
  "tenancy_files rows n = (single_uploaded_files rows n)\<lparr>
     tb_columns := tb_columns (single_uploaded_files rows n) @ [Column ''tenant_id'' sa_Integer False None],
     tb_constraints := tb_constraints (current_uploaded_files rows n),
     tb_indexes := tb_indexes (single_uploaded_files rows n) @ [Index ''ix_uploaded_files_tenant_id'' [''tenant_id''] False None]\<rparr>"

definition tenancy_tenants :: "sql_row list \<Rightarrow> int \<Rightarrow> sql_table" where
  "tenancy_tenants rows n = (current_tenants rows n)\<lparr>tb_indexes :=
     [Index ''ix_tenants_id'' [''id''] False None, Index ''ix_tenants_slug'' [''slug''] True None]\<rparr>"

lemmas tenancy_tables = tenancy_audit_logs_def tenancy_files_def tenancy_tenants_def tenancy_users_def

lemmas step_simps = on_table_def checked_def has_column_def change_column_def add_index_def table_consistent_rows
  constraint_ok_def default_value_def o_def

lemma tenancy_upgrade_audit_logs:
  assumes d: "settled_db d" "map_of (db_tables d) ''audit_logs'' = Some (single_audit_logs as n)"
    and tenants: "rows_of d ''tenants'' = [default_tenant_row]" "''tenants'' \<in> fst ` set (db_tables d)"
    and free: "''ix_audit_logs_tenant_id'' \<notin> other_index_names ''audit_logs'' d"
  shows "run_ops now (take 5 (drop 11 (rev_upgrade rev_a1b2c3d4e5f6))) d
    = Some (put_table ''audit_logs'' (tenancy_audit_logs (map (\<lambda>r. r(''tenant_id'' := SqlInt 1)) as) n) d)"
proof -
  have d': "put_table ''audit_logs'' (single_audit_logs as n) d = d" using d(2) by (rule put_same)
  have a: "not_null [''id''] as" "not_null [''action''] as" "unique_key [''id''] as"
    "foreign_key_ok [''admin_id''] as [''id''] (rows_of d ''users'')"
    using settled_table [OF d] by (simp_all add: single_audit_logs_def table_consistent_rows constraint_ok_def)
  have cons: "consistent (put_table ''audit_logs'' t' d) \<longleftrightarrow> table_consistent (put_table ''audit_logs'' t' d) t'"
    if "ids (tb_rows t') = ids as" for t'
    by (rule consistent_put [OF d]) (simp add: that single_audit_logs_def)
  have names: "x \<in> set (index_names (put_table ''audit_logs'' t d))
      \<longleftrightarrow> x \<in> ix_name ` set (tb_indexes t) \<or> x \<in> other_index_names ''audit_logs'' d"
    for x t by (rule index_names_put [OF settled_names [OF d(1)]])
  have "run_ops now (take 5 (drop 11 (rev_upgrade rev_a1b2c3d4e5f6))) (put_table ''audit_logs'' (single_audit_logs as n) d)
    = Some (put_table ''audit_logs'' (tenancy_audit_logs (map (\<lambda>r. r(''tenant_id'' := SqlInt 1)) as) n) d)"
    using tenants free a
    by (simp add: rev_a1b2c3d4e5f6_def step_simps cons names single_audit_logs_def tenancy_tables
      current_audit_logs_def default_tenant_row_def)
  then show ?thesis by (simp add: d')
qed

lemma default_id [simp]:
  "default_tenant_row ''id'' = SqlInt 1" "default_tenant_row ''slug'' = SqlText ''default''"
  by (simp_all add: default_tenant_row_def)

text \<open>A file whose owner is not found keeps the null that the last statement fills.\<close>

lemma filled_file:
  fixes r :: sql_row and x :: sql_value and k :: string and q :: bool
  assumes "\<And>s. s \<in> set rows \<Longrightarrow> s ''tenant_id'' = SqlInt 1"
  defines "r' \<equiv> (case List.find (\<lambda>s. s k = x \<and> q) rows of None \<Rightarrow> r(''tenant_id'' := SqlNull)
      | Some s \<Rightarrow> (r(''tenant_id'' := SqlNull))(''tenant_id'' := s ''tenant_id''))"
  shows "(if r' ''tenant_id'' = SqlNull then r'(''tenant_id'' := SqlInt 1) else r') = r(''tenant_id'' := SqlInt 1)"
  using assms(1) by (auto simp: r'_def find_Some_iff split: option.splits)

lemma tenancy_upgrade_files:
  assumes d: "settled_db d" "map_of (db_tables d) ''uploaded_files'' = Some (single_uploaded_files fs n)"
    and tenants: "rows_of d ''tenants'' = [default_tenant_row]" "''tenants'' \<in> fst ` set (db_tables d)"
    and us: "\<And>u. u \<in> set (rows_of d ''users'') \<Longrightarrow> u ''tenant_id'' = SqlInt 1"
    and free: "''ix_uploaded_files_tenant_id'' \<notin> other_index_names ''uploaded_files'' d"
  shows "run_ops now (drop 16 (rev_upgrade rev_a1b2c3d4e5f6)) d
    = Some (put_table ''uploaded_files'' (tenancy_files (map (\<lambda>r. r(''tenant_id'' := SqlInt 1)) fs) n) d)"
proof -
  have d': "put_table ''uploaded_files'' (single_uploaded_files fs n) d = d" using d(2) by (rule put_same)
  have a: "not_null [''id''] fs" "not_null [''owner_id''] fs" "not_null [''object_key''] fs" "not_null [''filename''] fs"
    "not_null [''content_type''] fs" "not_null [''size_bytes''] fs" "not_null [''created_at''] fs" "unique_key [''id''] fs"
    "unique_key [''object_key''] fs" "foreign_key_ok [''owner_id''] fs [''id''] (rows_of d ''users'')"
    using settled_table [OF d] by (simp_all add: single_uploaded_files_def table_consistent_rows constraint_ok_def)
  have cons: "consistent (put_table ''uploaded_files'' t' d) \<longleftrightarrow> table_consistent (put_table ''uploaded_files'' t' d) t'"
    if "ids (tb_rows t') = ids fs" for t'
    by (rule consistent_put [OF d]) (simp add: that single_uploaded_files_def)
  have names: "x \<in> set (index_names (put_table ''uploaded_files'' t d))
      \<longleftrightarrow> x \<in> ix_name ` set (tb_indexes t) \<or> x \<in> other_index_names ''uploaded_files'' d"
    for x t by (rule index_names_put [OF settled_names [OF d(1)]])
  define copied where "copied r = (case List.find (\<lambda>s. s ''id'' = r ''owner_id'' \<and> r ''owner_id'' \<noteq> SqlNull) (rows_of d ''users'')
      of None \<Rightarrow> r(''tenant_id'' := SqlNull)
      | Some s \<Rightarrow> (r(''tenant_id'' := SqlNull))(''tenant_id'' := s ''tenant_id''))" for r :: sql_row
  have keeps [simp]: "copied r x = r x" if "x \<noteq> ''tenant_id''" for r x
    using that by (simp add: copied_def split: option.splits)
  have fill: "(if copied r ''tenant_id'' = SqlNull then (copied r)(''tenant_id'' := default_tenant_row ''id'') else copied r)
      = r(''tenant_id'' := SqlInt 1)" for r
    unfolding copied_def default_id by (rule filled_file) (rule us)
  have copy: "(\<lambda>r. case List.find (\<lambda>s. s ''id'' = r ''owner_id'' \<and> r ''owner_id'' \<noteq> SqlNull) (rows_of d ''users'') of
        None \<Rightarrow> r | Some s \<Rightarrow> r(''tenant_id'' := s ''tenant_id'')) (r(''tenant_id'' := SqlNull)) = copied r" for r
    by (simp add: copied_def split: option.splits)
  have "run_ops now (drop 16 (rev_upgrade rev_a1b2c3d4e5f6)) (put_table ''uploaded_files'' (single_uploaded_files fs n) d)
    = Some (put_table ''uploaded_files'' (tenancy_files (map (\<lambda>r. r(''tenant_id'' := SqlInt 1)) fs) n) d)"
    using tenants free a
    apply (simp add: rev_a1b2c3d4e5f6_def step_simps cons names single_uploaded_files_def tenancy_tables
      current_uploaded_files_def fill copy copied_def [symmetric])
    done
  then show ?thesis by (simp add: d')
qed

definition with_tenants ::
  "sql_table \<Rightarrow> sql_table \<Rightarrow> sql_table \<Rightarrow> sql_table \<Rightarrow> database" where
  "with_tenants u a p f = \<lparr>db_tables = [(''users'', u), (''audit_logs'', a), (''password_reset_tokens'', p),
      (''uploaded_files'', f), (''tenants'', tenancy_tenants [default_tenant_row] 2)],
     db_extensions = [], db_version = Some ''4d5e6f7a8b90''\<rparr>"

lemma single_consistentD:
  assumes "consistent (single_tenant_database us as ps fs)"
  shows "unique_key [''id''] (fst us)" "unique_key [''email''] (fst us)" "unique_key [''id''] (fst as)"
    "unique_key [''id''] (fst ps)" "unique_key [''token_hash''] (fst ps)" "unique_key [''id''] (fst fs)"
    "unique_key [''object_key''] (fst fs)"
    "foreign_key_ok [''admin_id''] (fst as) [''id''] (fst us)" "foreign_key_ok [''user_id''] (fst ps) [''id''] (fst us)"
    "foreign_key_ok [''owner_id''] (fst fs) [''id''] (fst us)"
    "not_null [''id''] (fst us)" "not_null [''id''] (fst as)" "not_null [''id''] (fst ps)" "not_null [''id''] (fst fs)"
    "not_null [''id'', ''email'', ''hashed_password'', ''is_active'', ''role''] (fst us)"
    "not_null [''id'', ''action''] (fst as)"
    "not_null [''id'', ''user_id'', ''token_hash'', ''expires_at'', ''created_at''] (fst ps)"
    "not_null [''id'', ''owner_id'', ''object_key'', ''filename'', ''content_type'', ''size_bytes'', ''created_at''] (fst fs)"
  using assms
  by (simp_all add: consistent_def single_defs table_consistent_rows constraint_ok_def rows_of_def)

lemma table_consistent_empty:
  "table_consistent d \<lparr>tb_columns = cols, tb_constraints = cs, tb_indexes = ixs, tb_rows = [], tb_next_id = n\<rparr>"
  by (auto simp: table_consistent_def constraint_ok_def list_all_def split: table_constraint.splits)

lemma tenancy_upgrade_tenants:
  assumes "consistent (single_tenant_database us as ps fs)"
  shows "run_ops now (take 4 (rev_upgrade rev_a1b2c3d4e5f6)) (single_tenant_database us as ps fs)
      = Some (with_tenants (single_users (fst us) (snd us)) (single_audit_logs (fst as) (snd as))
          (single_password_reset_tokens (fst ps) (snd ps)) (single_uploaded_files (fst fs) (snd fs)))"
    and "settled_db (with_tenants (single_users (fst us) (snd us)) (single_audit_logs (fst as) (snd as))
          (single_password_reset_tokens (fst ps) (snd ps)) (single_uploaded_files (fst fs) (snd fs)))"
  using single_consistentD [OF assms]
  by (simp_all add: rev_a1b2c3d4e5f6_def single_defs step_simps with_tenants_def tenancy_tenants_def current_tenants_def
      table_consistent_empty consistent_def index_names_def put_table_def rows_of_def default_tenant_row_def
      settled_db_def refs_ids_def)

lemma with_tenants_simps [simp]:
  "rows_of (with_tenants u a p f) ''tenants'' = [default_tenant_row]"
  "rows_of (with_tenants u a p f) ''users'' = tb_rows u"
  "map_of (db_tables (with_tenants u a p f)) ''users'' = Some u"
  "map_of (db_tables (with_tenants u a p f)) ''audit_logs'' = Some a"
  "map_of (db_tables (with_tenants u a p f)) ''uploaded_files'' = Some f"
  "fst ` set (db_tables (with_tenants u a p f))
     = {''users'', ''audit_logs'', ''password_reset_tokens'', ''uploaded_files'', ''tenants''}"
  "put_table ''users'' u' (with_tenants u a p f) = with_tenants u' a p f"
  "put_table ''audit_logs'' a' (with_tenants u a p f) = with_tenants u a' p f"
  "put_table ''uploaded_files'' f' (with_tenants u a p f) = with_tenants u a p f'"
  by (simp_all add: with_tenants_def rows_of_def put_table_def tenancy_tenants_def current_tenants_def)

lemma other_index_names_Un:
  "other_index_names n d = (\<Union>(m, t) \<in> set (db_tables d). if m = n then {} else ix_name ` set (tb_indexes t))"
  unfolding other_index_names_def by (auto split: if_splits)
    (metis (no_types, lifting) imageI)+

lemma other_names_with_tenants:
  "other_index_names n (with_tenants u a p f) =
     (if n = ''users'' then {} else ix_name ` set (tb_indexes u)) \<union> (if n = ''audit_logs'' then {} else ix_name ` set (tb_indexes a))
     \<union> (if n = ''password_reset_tokens'' then {} else ix_name ` set (tb_indexes p))
     \<union> (if n = ''uploaded_files'' then {} else ix_name ` set (tb_indexes f))
     \<union> (if n = ''tenants'' then {} else {''ix_tenants_id'', ''ix_tenants_slug''})"
  by (simp add: other_index_names_Un with_tenants_def tenancy_tenants_def Un_assoc)

text \<open>The rows of the three tables with a tenant.\<close>

abbreviation in_default_tenant :: "sql_row list \<Rightarrow> sql_row list" where
  "in_default_tenant rows \<equiv> map (\<lambda>r. r(''tenant_id'' := SqlInt 1)) rows"

definition tenancy_database ::
  "sql_row list \<times> int \<Rightarrow> sql_row list \<times> int \<Rightarrow> sql_row list \<times> int \<Rightarrow> sql_row list \<times> int \<Rightarrow> database" where
  "tenancy_database us as ps fs = with_tenants (tenancy_users (in_default_tenant (fst us)) (snd us))
     (tenancy_audit_logs (in_default_tenant (fst as)) (snd as)) (single_password_reset_tokens (fst ps) (snd ps))
     (tenancy_files (in_default_tenant (fst fs)) (snd fs))"

lemma run_op_consistent:
  "run_op now x d = Some d' \<Longrightarrow> (\<forall>n. x \<noteq> drop_table n) \<Longrightarrow> consistent d'"
  by (cases x) (auto simp: on_table_def add_index_def checked_def split: if_splits option.splits)

lemma run_ops_consistent:
  "run_ops now xs d = Some d' \<Longrightarrow> xs \<noteq> [] \<Longrightarrow> (\<forall>n. drop_table n \<notin> set xs) \<Longrightarrow> consistent d'"
proof (induction xs arbitrary: d)
  case (Cons x xs)
  then obtain d1 where d1: "run_op now x d = Some d1" "run_ops now xs d1 = Some d'" by (auto split: option.splits)
  have "consistent d1" using run_op_consistent [OF d1(1)] Cons.prems(3) by auto
  then show ?case using Cons.IH [OF d1(2)] Cons.prems(3) d1(2) by (cases xs) auto
qed simp

lemma tenancy_upgrade:
  assumes "consistent (single_tenant_database us as ps fs)"
  shows "run_ops now (rev_upgrade rev_a1b2c3d4e5f6) (single_tenant_database us as ps fs) = Some (tenancy_database us as ps fs)"
    and "settled_db (tenancy_database us as ps fs)"
proof -
  let ?ops = "rev_upgrade rev_a1b2c3d4e5f6"
  let ?u = "single_users (fst us) (snd us)" and ?a = "single_audit_logs (fst as) (snd as)"
  let ?p = "single_password_reset_tokens (fst ps) (snd ps)" and ?f = "single_uploaded_files (fst fs) (snd fs)"
  let ?u' = "tenancy_users (in_default_tenant (fst us)) (snd us)"
  let ?a' = "tenancy_audit_logs (in_default_tenant (fst as)) (snd as)"
  let ?f' = "tenancy_files (in_default_tenant (fst fs)) (snd fs)"
  note names = other_names_with_tenants single_users_def single_audit_logs_def single_password_reset_tokens_def
    single_uploaded_files_def tenancy_users_def tenancy_audit_logs_def current_audit_logs_def
  have split: "?ops = take 4 ?ops @ take 7 (drop 4 ?ops) @ take 5 (drop 11 ?ops) @ drop 16 ?ops"
    by (simp add: rev_a1b2c3d4e5f6_def)
  have refs: "refs_ids ?u'" "refs_ids ?a'" "refs_ids ?f'"
    by (simp_all add: refs_ids_def tenancy_tables current_users_def current_audit_logs_def current_uploaded_files_def)
  have no_drop: "drop_table n \<notin> set (take k (drop l ?ops))" "drop_table n \<notin> set (drop l ?ops)" for n k l
    by (auto simp: rev_a1b2c3d4e5f6_def dest!: in_set_takeD in_set_dropD)
  have s0: "settled_db (with_tenants ?u ?a ?p ?f)" by (rule tenancy_upgrade_tenants(2) [OF assms])
  have u: "run_ops now (take 7 (drop 4 ?ops)) (with_tenants ?u ?a ?p ?f) = Some (with_tenants ?u' ?a ?p ?f)"
    by (subst tenancy_upgrade_users [OF s0]) (simp_all add: names)
  have s1: "settled_db (with_tenants ?u' ?a ?p ?f)"
    using settled_put [OF s0, of "''users''" ?u'] run_ops_consistent [OF u] no_drop refs(1)
    by (simp add: rev_a1b2c3d4e5f6_def)
  have a: "run_ops now (take 5 (drop 11 ?ops)) (with_tenants ?u' ?a ?p ?f) = Some (with_tenants ?u' ?a' ?p ?f)"
    by (subst tenancy_upgrade_audit_logs [OF s1]) (simp_all add: names)
  have s2: "settled_db (with_tenants ?u' ?a' ?p ?f)"
    using settled_put [OF s1, of "''audit_logs''" ?a'] run_ops_consistent [OF a] no_drop refs(2)
    by (simp add: rev_a1b2c3d4e5f6_def)
  have f: "run_ops now (drop 16 ?ops) (with_tenants ?u' ?a' ?p ?f) = Some (with_tenants ?u' ?a' ?p ?f')"
    by (subst tenancy_upgrade_files [OF s2]) (auto simp: names)
  show "run_ops now ?ops (single_tenant_database us as ps fs) = Some (tenancy_database us as ps fs)"
    by (subst split) (simp add: run_ops_append tenancy_upgrade_tenants(1) [OF assms] u a f tenancy_database_def)
  show "settled_db (tenancy_database us as ps fs)"
    using settled_put [OF s2, of "''uploaded_files''" ?f'] run_ops_consistent [OF f] no_drop refs(3)
    by (simp add: rev_a1b2c3d4e5f6_def tenancy_database_def)
qed

end
