(* ===== verification/Later_Revisions.thy ===== *)
theory Later_Revisions
  imports Tenancy_Upgrade
begin

text \<open>
  The revisions after multi-tenancy: new tables, new columns, and the removal of indexes that other constraints
  make redundant.
\<close>

section \<open>New tables and dropped indexes\<close>

definition add_table :: "string \<Rightarrow> sql_table \<Rightarrow> database \<Rightarrow> database" where
  "add_table n t d = d\<lparr>db_tables := db_tables d @ [(n, t)]\<rparr>"

lemma update_append: "n \<notin> fst ` set xs \<Longrightarrow> AList.update n t (xs @ [(n, u)]) = xs @ [(n, t)]"
  by (induction xs) auto

lemma add_table_simps [simp]:
  "n \<notin> fst ` set (db_tables d) \<Longrightarrow> put_table n t (add_table n u d) = add_table n t d"
  "n \<notin> fst ` set (db_tables d) \<Longrightarrow> map_of (db_tables (add_table n t d)) n = Some t"
  "n \<notin> fst ` set (db_tables d) \<Longrightarrow> other_index_names n (add_table n t d) = set (index_names d)"
proof -
  assume n: "n \<notin> fst ` set (db_tables d)"
  show "put_table n t (add_table n u d) = add_table n t d" by (simp add: put_table_def add_table_def update_append n)
  show "map_of (db_tables (add_table n t d)) n = Some t"
    using n by (simp add: add_table_def map_add_def map_of_eq_None_iff [THEN iffD2])
  have "m \<noteq> n" if "(m, x) \<in> set (db_tables d)" for m x using that n by force
  then have "(\<Union>(m, x) \<in> set (db_tables d). if m = n then {} else ix_name ` set (tb_indexes x))
      = (\<Union>(m, x) \<in> set (db_tables d). ix_name ` set (tb_indexes x))"
    by (intro SUP_cong) auto
  then show "other_index_names n (add_table n t d) = set (index_names d)"
    by (simp add: other_index_names_Un add_table_def index_names_def split_beta)
qed

lemma table_consistent_same_rows:
  assumes "\<And>m. rows_of d' m = rows_of d m"
  shows "table_consistent d' t = table_consistent d t"
proof -
  have "constraint_ok d' = constraint_ok d"
  proof (intro ext)
    show "constraint_ok d' rows c = constraint_ok d rows c" for rows c
      by (cases c) (simp_all add: constraint_ok_def assms)
  qed
  then show ?thesis by (simp add: table_consistent_def)
qed

lemma settled_add_table:
  assumes "settled_db d" and "n \<notin> fst ` set (db_tables d)" and "refs_ids t" and "tb_rows t = []"
  shows "settled_db (add_table n t d)"
proof -
  have "rows_of (add_table n t d) m = rows_of d m" for m
    using assms(2,4) by (auto simp: rows_of_def add_table_def map_add_def split: option.splits)
  then have "table_consistent (add_table n t d) x = table_consistent d x" for x
    by (rule table_consistent_same_rows)
  moreover have "table_consistent d t"
    using table_consistent_empty [of d "tb_columns t" "tb_constraints t" "tb_indexes t" "tb_next_id t"] assms(4)
    by (metis (full_types) old.unit.exhaust sql_table.surjective)
  ultimately show ?thesis
    using assms by (auto simp: settled_db_def consistent_def add_table_def list_all_iff)
qed

lemma consistent_settled: "settled_db d \<Longrightarrow> consistent d"
  by (simp add: settled_db_def)

lemma drop_index_settled:
  assumes "settled_db d" and "map_of (db_tables d) n = Some t" and "ix \<in> ix_name ` set (tb_indexes t)"
  shows "run_op now (drop_index ix n) d = Some (put_table n (t\<lparr>tb_indexes := filter (\<lambda>i. ix_name i \<noteq> ix) (tb_indexes t)\<rparr>) d)"
    and "settled_db (put_table n (t\<lparr>tb_indexes := filter (\<lambda>i. ix_name i \<noteq> ix) (tb_indexes t)\<rparr>) d)"
proof -
  let ?t = "t\<lparr>tb_indexes := filter (\<lambda>i. ix_name i \<noteq> ix) (tb_indexes t)\<rparr>"
  have rows: "rows_of (put_table n ?t d) m = rows_of d m" for m
    using assms(2) by (simp add: rows_of_def)
  have "table_consistent d t" by (rule settled_table [OF assms(1,2)])
  then have "table_consistent (put_table n ?t d) t" using table_consistent_same_rows [OF rows] by simp
  then have "table_consistent (put_table n ?t d) ?t" by (auto simp: table_consistent_def list_all_iff)
  then have c: "consistent (put_table n ?t d)" using consistent_put [OF assms(1,2), of ?t] by simp
  show "run_op now (drop_index ix n) d = Some (put_table n ?t d)"
    using assms(2,3) c by (simp add: on_table_def checked_def)
  have "refs_ids t" using assms(1,2) by (auto simp: settled_db_def list_all_iff dest: map_of_SomeD)
  then show "settled_db (put_table n ?t d)" using settled_put [OF assms(1) c] by (simp add: refs_ids_def)
qed

text \<open>Consecutive drops.\<close>

definition without_index :: "string \<times> string \<Rightarrow> database \<Rightarrow> database" where
  "without_index p d = (case map_of (db_tables d) (snd p) of None \<Rightarrow> d
     | Some t \<Rightarrow> put_table (snd p) (t\<lparr>tb_indexes := filter (\<lambda>i. ix_name i \<noteq> fst p) (tb_indexes t)\<rparr>) d)"

fun droppable :: "(string \<times> string) list \<Rightarrow> database \<Rightarrow> bool" where
  "droppable [] d \<longleftrightarrow> True"
| "droppable (p # ps) d \<longleftrightarrow> (case map_of (db_tables d) (snd p) of None \<Rightarrow> False
     | Some t \<Rightarrow> fst p \<in> ix_name ` set (tb_indexes t)) \<and> droppable ps (without_index p d)"

lemma run_drops:
  "settled_db d \<Longrightarrow> droppable ps d \<Longrightarrow>
   run_ops now (map (\<lambda>p. drop_index (fst p) (snd p)) ps) d = Some (fold without_index ps d) \<and> settled_db (fold without_index ps d)"
proof (induction ps arbitrary: d)
  case (Cons p ps)
  then obtain t where t: "map_of (db_tables d) (snd p) = Some t" "fst p \<in> ix_name ` set (tb_indexes t)"
    by (auto split: option.splits)
  have "run_op now (drop_index (fst p) (snd p)) d = Some (without_index p d)" "settled_db (without_index p d)"
    using drop_index_settled [OF Cons.prems(1) t] t by (simp_all add: without_index_def)
  then show ?case using Cons by simp
qed simp

section \<open>The later revisions\<close>

lemma upgrade_new_tables:
  assumes d: "settled_db d"
  shows "''idempotency_records'' \<notin> fst ` set (db_tables d) \<Longrightarrow>
      {''ix_idempotency_records_id'', ''ix_idempotency_records_scope_key'', ''ix_idempotency_records_created_at'',
       ''ix_idempotency_records_expires_at''} \<inter> set (index_names d) = {} \<Longrightarrow>
      run_ops now (take 5 (rev_upgrade rev_c3d4e5f6a7b8)) d = Some (add_table ''idempotency_records''
        ((current_idempotency_records [] 1)\<lparr>tb_indexes := [Index ''ix_idempotency_records_id'' [''id''] False None,
          Index ''ix_idempotency_records_scope_key'' [''scope_key''] True None,
          Index ''ix_idempotency_records_created_at'' [''created_at''] False None,
          Index ''ix_idempotency_records_expires_at'' [''expires_at''] False None]\<rparr>) d)" (is "?i \<Longrightarrow> ?i' \<Longrightarrow> ?I")
    and "''webhook_events'' \<notin> fst ` set (db_tables d) \<Longrightarrow>
      {''ix_webhook_events_id'', ''ix_webhook_events_provider'', ''ix_webhook_events_received_at''} \<inter> set (index_names d) = {} \<Longrightarrow>
      run_ops now (drop 5 (rev_upgrade rev_c3d4e5f6a7b8)) d = Some (add_table ''webhook_events''
        ((current_webhook_events [] 1)\<lparr>tb_indexes := [Index ''ix_webhook_events_id'' [''id''] False None,
          Index ''ix_webhook_events_provider'' [''provider''] False None,
          Index ''ix_webhook_events_received_at'' [''received_at''] False None]\<rparr>) d)" (is "?w \<Longrightarrow> ?w' \<Longrightarrow> ?W")
    and "''password_reset_job_completions'' \<notin> fst ` set (db_tables d) \<Longrightarrow>
      {''ix_password_reset_job_completions_id'', ''ix_password_reset_job_completions_job_id''} \<inter> set (index_names d) = {} \<Longrightarrow>
      run_ops now (rev_upgrade rev_e5f6a7b8c9d0) d = Some (add_table ''password_reset_job_completions''
        ((current_password_reset_job_completions [] 1)\<lparr>tb_indexes :=
          [Index ''ix_password_reset_job_completions_id'' [''id''] False None,
           Index ''ix_password_reset_job_completions_job_id'' [''job_id''] True None]\<rparr>) d)" (is "?c \<Longrightarrow> ?c' \<Longrightarrow> ?C")
proof -
  have added: "consistent (add_table n t d)" if "n \<notin> fst ` set (db_tables d)" "refs_ids t" "tb_rows t = []" for n t
    using settled_add_table [OF d that] by (rule consistent_settled)
  have names: "x \<in> set (index_names (add_table n t d)) \<longleftrightarrow> x \<in> ix_name ` set (tb_indexes t) \<or> x \<in> set (index_names d)"
    for x n t by (auto simp: add_table_def index_names_def)
  have create: "d\<lparr>db_tables := db_tables d @ [(n, t)]\<rparr> = add_table n t d" for n t by (simp add: add_table_def)
  note defs = step_simps create added names refs_ids_def table_consistent_empty
  show ?I if ?i ?i'
    using that by (simp add: rev_c3d4e5f6a7b8_def defs current_idempotency_records_def)
  show ?W if ?w ?w'
    using that by (simp add: rev_c3d4e5f6a7b8_def defs current_webhook_events_def)
  show ?C if ?c ?c'
    using that by (simp add: rev_e5f6a7b8c9d0_def defs current_password_reset_job_completions_def)
qed

definition token_users :: "sql_row list \<Rightarrow> int \<Rightarrow> sql_table" where
  "token_users rows n = (current_users rows n)\<lparr>tb_indexes := tb_indexes (tenancy_users rows n)\<rparr>"

definition searchable_users :: "sql_row list \<Rightarrow> int \<Rightarrow> sql_table" where
  "searchable_users rows n = (current_users rows n)\<lparr>tb_indexes := tb_indexes (tenancy_users rows n) @
     [Index ''ix_users_email_trgm'' [''email''] False (Some ''gin_trgm_ops'')]\<rparr>"

definition checked_files :: "sql_row list \<Rightarrow> int \<Rightarrow> sql_table" where
  "checked_files rows n = (current_uploaded_files rows n)\<lparr>tb_indexes := tb_indexes (tenancy_files rows n)\<rparr>"

lemma upgrade_token_version:
  assumes d: "settled_db d" "map_of (db_tables d) ''users'' = Some (tenancy_users us n)"
  shows "run_ops now (rev_upgrade rev_d4e5f6a7b8c9) d
    = Some (put_table ''users'' (token_users (map (\<lambda>r. r(''token_version'' := SqlInt 0)) us) n) d)"
proof -
  have d': "put_table ''users'' (tenancy_users us n) d = d" using d(2) by (rule put_same)
  have u: "not_null [''id''] us" "not_null [''email''] us" "not_null [''hashed_password''] us" "not_null [''is_active''] us"
    "not_null [''role''] us" "not_null [''tenant_id''] us" "unique_key [''id''] us" "unique_key [''tenant_id'', ''email''] us"
    "foreign_key_ok [''tenant_id''] us [''id''] (rows_of d ''tenants'')"
    using settled_table [OF d]
    by (simp_all add: tenancy_users_def single_users_def current_users_def table_consistent_rows constraint_ok_def)
  have cons: "consistent (put_table ''users'' t' d) \<longleftrightarrow> table_consistent (put_table ''users'' t' d) t'"
    if "ids (tb_rows t') = ids us" for t'
    by (rule consistent_put [OF d]) (simp add: that tenancy_users_def)
  have zero: "py_int ''0'' = Some 0" by code_simp
  have "run_ops now (rev_upgrade rev_d4e5f6a7b8c9) (put_table ''users'' (tenancy_users us n) d)
    = Some (put_table ''users'' (token_users (map (\<lambda>r. r(''token_version'' := SqlInt 0)) us) n) d)"
    using u by (simp add: rev_d4e5f6a7b8c9_def step_simps cons token_users_def tenancy_users_def single_users_def
      current_users_def literal_value_def zero)
  then show ?thesis by (simp add: d')
qed

lemma database_extensions [simp]:
  "consistent (d\<lparr>db_extensions := x\<rparr>) = consistent d" "settled_db (d\<lparr>db_extensions := x\<rparr>) = settled_db d"
  "consistent (d\<lparr>db_version := v\<rparr>) = consistent d" "settled_db (d\<lparr>db_version := v\<rparr>) = settled_db d"
proof -
  have "table_consistent (d\<lparr>db_extensions := x\<rparr>) = table_consistent d" "table_consistent (d\<lparr>db_version := v\<rparr>) = table_consistent d"
    by (intro ext table_consistent_same_rows, simp add: rows_of_def)+
  then show "consistent (d\<lparr>db_extensions := x\<rparr>) = consistent d" "settled_db (d\<lparr>db_extensions := x\<rparr>) = settled_db d"
    "consistent (d\<lparr>db_version := v\<rparr>) = consistent d" "settled_db (d\<lparr>db_version := v\<rparr>) = settled_db d"
    by (simp_all add: consistent_def settled_db_def)
qed

lemma upgrade_search_index:
  assumes d: "settled_db d" "map_of (db_tables d) ''users'' = Some (token_users us n)"
    and free: "''ix_users_email_trgm'' \<notin> other_index_names ''users'' d" and ext: "db_extensions d = []"
  shows "run_ops now (rev_upgrade rev_f1a2b3c4d5e6) d
    = Some ((put_table ''users'' (searchable_users us n) d)\<lparr>db_extensions := [''pg_trgm'']\<rparr>)"
proof -
  let ?d = "d\<lparr>db_extensions := [''pg_trgm'']\<rparr>"
  have e: "settled_db ?d" "map_of (db_tables ?d) ''users'' = Some (token_users us n)" using d by simp_all
  have names: "index_names ?d = index_names d" "other_index_names m ?d = other_index_names m d" for m
    by (simp_all add: index_names_def other_index_names_def)
  have new: "x \<notin> set (index_names d)" if "x \<notin> other_index_names ''users'' d" "x \<notin> ix_name ` set (tb_indexes (token_users us n))" for x
    using index_names_put [OF settled_names [OF d(1)], of x "''users''" "token_users us n"] that
    by (simp add: put_same [OF d(2)])
  have free': "''ix_users_email_trgm'' \<notin> set (index_names d)"
    by (rule new [OF free]) (simp add: token_users_def tenancy_users_def)
  have "table_consistent ?d (token_users us n)" by (rule settled_table [OF e])
  then have t: "table_consistent (put_table ''users'' (searchable_users us n) ?d) (token_users us n)"
    using table_consistent_same_rows [of "put_table ''users'' (searchable_users us n) ?d" ?d] d(2)
    by (simp add: rows_of_def searchable_users_def token_users_def current_users_def)
  have "consistent (put_table ''users'' (searchable_users us n) ?d)"
  proof (rule iffD2 [OF consistent_put [OF e]])
    show "ids (tb_rows (searchable_users us n)) = ids (tb_rows (token_users us n))"
      by (simp add: searchable_users_def token_users_def)
    show "table_consistent (put_table ''users'' (searchable_users us n) ?d) (searchable_users us n)"
      using t by (auto simp: table_consistent_def searchable_users_def token_users_def)
  qed
  then show ?thesis
    using d ext free' consistent_settled [OF d(1)]
    by (simp add: rev_f1a2b3c4d5e6_def step_simps names searchable_users_def token_users_def current_users_def)
       (simp add: put_table_def)
qed

lemma upgrade_verification_status:
  assumes d: "settled_db d" "map_of (db_tables d) ''uploaded_files'' = Some (tenancy_files fs n)"
  shows "run_ops now (rev_upgrade rev_a2b3c4d5e6f7) d = Some (put_table ''uploaded_files''
      (checked_files (map (\<lambda>r. r(''verification_status'' := SqlText ''verified'')) fs) n) d)"
proof -
  have d': "put_table ''uploaded_files'' (tenancy_files fs n) d = d" using d(2) by (rule put_same)
  have f: "not_null [''id''] fs" "not_null [''owner_id''] fs" "not_null [''object_key''] fs" "not_null [''filename''] fs"
    "not_null [''content_type''] fs" "not_null [''size_bytes''] fs" "not_null [''created_at''] fs" "not_null [''tenant_id''] fs"
    "unique_key [''id''] fs" "unique_key [''object_key''] fs" "foreign_key_ok [''owner_id''] fs [''id''] (rows_of d ''users'')"
    "foreign_key_ok [''tenant_id''] fs [''id''] (rows_of d ''tenants'')"
    using settled_table [OF d]
    by (simp_all add: tenancy_files_def single_uploaded_files_def current_uploaded_files_def table_consistent_rows
      constraint_ok_def)
  have cons: "consistent (put_table ''uploaded_files'' t' d) \<longleftrightarrow> table_consistent (put_table ''uploaded_files'' t' d) t'"
    if "ids (tb_rows t') = ids fs" for t'
    by (rule consistent_put [OF d]) (simp add: that tenancy_files_def single_uploaded_files_def)
  have "run_ops now (rev_upgrade rev_a2b3c4d5e6f7) (put_table ''uploaded_files'' (tenancy_files fs n) d)
    = Some (put_table ''uploaded_files''
      (checked_files (map (\<lambda>r. r(''verification_status'' := SqlText ''verified'')) fs) n) d)"
    using f by (simp add: rev_a2b3c4d5e6f7_def step_simps cons checked_files_def tenancy_files_def single_uploaded_files_def
      current_uploaded_files_def literal_value_def)
  then show ?thesis by (simp add: d')
qed

section \<open>The whole upgrade\<close>

lemma rev_links [simp]:
  "rev_down rev_648d963688dd = None" "rev_down rev_f963f3c8b3a4 = Some ''648d963688dd''"
  "rev_down rev_7f4e8b9a2c10 = Some ''f963f3c8b3a4''" "rev_down rev_3a9f1c7d8e20 = Some ''7f4e8b9a2c10''"
  "rev_down rev_9b2c4d6e8f10 = Some ''3a9f1c7d8e20''" "rev_down rev_4d5e6f7a8b90 = Some ''9b2c4d6e8f10''"
  "rev_down rev_a1b2c3d4e5f6 = Some ''4d5e6f7a8b90''" "rev_down rev_c3d4e5f6a7b8 = Some ''a1b2c3d4e5f6''"
  "rev_down rev_d4e5f6a7b8c9 = Some ''c3d4e5f6a7b8''" "rev_down rev_e5f6a7b8c9d0 = Some ''d4e5f6a7b8c9''"
  "rev_down rev_f1a2b3c4d5e6 = Some ''e5f6a7b8c9d0''" "rev_down rev_a2b3c4d5e6f7 = Some ''f1a2b3c4d5e6''"
  "rev_down rev_b3c4d5e6f7a8 = Some ''a2b3c4d5e6f7''"
  "rev_id rev_648d963688dd = ''648d963688dd''" "rev_id rev_f963f3c8b3a4 = ''f963f3c8b3a4''"
  "rev_id rev_7f4e8b9a2c10 = ''7f4e8b9a2c10''" "rev_id rev_3a9f1c7d8e20 = ''3a9f1c7d8e20''"
  "rev_id rev_9b2c4d6e8f10 = ''9b2c4d6e8f10''" "rev_id rev_4d5e6f7a8b90 = ''4d5e6f7a8b90''"
  "rev_id rev_a1b2c3d4e5f6 = ''a1b2c3d4e5f6''" "rev_id rev_c3d4e5f6a7b8 = ''c3d4e5f6a7b8''"
  "rev_id rev_d4e5f6a7b8c9 = ''d4e5f6a7b8c9''" "rev_id rev_e5f6a7b8c9d0 = ''e5f6a7b8c9d0''"
  "rev_id rev_f1a2b3c4d5e6 = ''f1a2b3c4d5e6''" "rev_id rev_a2b3c4d5e6f7 = ''a2b3c4d5e6f7''"
  "rev_id rev_b3c4d5e6f7a8 = ''b3c4d5e6f7a8''"
  by (simp_all add: rev_648d963688dd_def rev_f963f3c8b3a4_def rev_7f4e8b9a2c10_def rev_3a9f1c7d8e20_def
      rev_9b2c4d6e8f10_def rev_4d5e6f7a8b90_def rev_a1b2c3d4e5f6_def rev_c3d4e5f6a7b8_def rev_d4e5f6a7b8c9_def
      rev_e5f6a7b8c9d0_def rev_f1a2b3c4d5e6_def rev_a2b3c4d5e6f7_def rev_b3c4d5e6f7a8_def)

lemma next_revision:
  "filter (\<lambda>r. rev_down r = None) versions = [rev_648d963688dd]"
  "filter (\<lambda>r. rev_down r = Some ''648d963688dd'') versions = [rev_f963f3c8b3a4]"
  "filter (\<lambda>r. rev_down r = Some ''f963f3c8b3a4'') versions = [rev_7f4e8b9a2c10]"
  "filter (\<lambda>r. rev_down r = Some ''7f4e8b9a2c10'') versions = [rev_3a9f1c7d8e20]"
  "filter (\<lambda>r. rev_down r = Some ''3a9f1c7d8e20'') versions = [rev_9b2c4d6e8f10]"
  "filter (\<lambda>r. rev_down r = Some ''9b2c4d6e8f10'') versions = [rev_4d5e6f7a8b90]"
  "filter (\<lambda>r. rev_down r = Some ''4d5e6f7a8b90'') versions = [rev_a1b2c3d4e5f6]"
  "filter (\<lambda>r. rev_down r = Some ''a1b2c3d4e5f6'') versions = [rev_c3d4e5f6a7b8]"
  "filter (\<lambda>r. rev_down r = Some ''c3d4e5f6a7b8'') versions = [rev_d4e5f6a7b8c9]"
  "filter (\<lambda>r. rev_down r = Some ''d4e5f6a7b8c9'') versions = [rev_e5f6a7b8c9d0]"
  "filter (\<lambda>r. rev_down r = Some ''e5f6a7b8c9d0'') versions = [rev_f1a2b3c4d5e6]"
  "filter (\<lambda>r. rev_down r = Some ''f1a2b3c4d5e6'') versions = [rev_a2b3c4d5e6f7]"
  "filter (\<lambda>r. rev_down r = Some ''a2b3c4d5e6f7'') versions = [rev_b3c4d5e6f7a8]"
  "filter (\<lambda>r. rev_down r = Some ''b3c4d5e6f7a8'') versions = []"
  by (simp_all add: versions_def)

lemma upgrade_step:
  assumes "filter (\<lambda>r. rev_down r = db_version d) revs = [r]"
    and "run_ops now (rev_upgrade r) d = Some d'"
  shows "upgrade_head (Suc n) now revs d = upgrade_head n now revs (d'\<lparr>db_version := Some (rev_id r)\<rparr>)"
proof -
  have "rev_down r = db_version d" using assms(1) by (metis (mono_tags, lifting) filter_eq_ConsD)
  then show ?thesis using assms by (simp add: apply_revision_def)
qed

definition full_database :: "contents \<Rightarrow> database" where
  "full_database c = \<lparr>db_tables =
      [(''users'', searchable_users (fst (ct_users c)) (snd (ct_users c))),
       (''audit_logs'', tenancy_audit_logs (fst (ct_audit_logs c)) (snd (ct_audit_logs c))),
       (''password_reset_tokens'', single_password_reset_tokens (fst (ct_reset_tokens c)) (snd (ct_reset_tokens c))),
       (''uploaded_files'', checked_files (fst (ct_files c)) (snd (ct_files c))),
       (''tenants'', tenancy_tenants (fst (ct_tenants c)) (snd (ct_tenants c))),
       (''idempotency_records'', (current_idempotency_records (fst (ct_idempotency c)) (snd (ct_idempotency c)))\<lparr>tb_indexes :=
          [Index ''ix_idempotency_records_id'' [''id''] False None,
           Index ''ix_idempotency_records_scope_key'' [''scope_key''] True None,
           Index ''ix_idempotency_records_created_at'' [''created_at''] False None,
           Index ''ix_idempotency_records_expires_at'' [''expires_at''] False None]\<rparr>),
       (''webhook_events'', (current_webhook_events (fst (ct_webhooks c)) (snd (ct_webhooks c)))\<lparr>tb_indexes :=
          [Index ''ix_webhook_events_id'' [''id''] False None, Index ''ix_webhook_events_provider'' [''provider''] False None,
           Index ''ix_webhook_events_received_at'' [''received_at''] False None]\<rparr>),
       (''password_reset_job_completions'',
        (current_password_reset_job_completions (fst (ct_completions c)) (snd (ct_completions c)))\<lparr>tb_indexes :=
          [Index ''ix_password_reset_job_completions_id'' [''id''] False None,
           Index ''ix_password_reset_job_completions_job_id'' [''job_id''] True None]\<rparr>)],
     db_extensions = [''pg_trgm''], db_version = Some ''a2b3c4d5e6f7''\<rparr>"

definition redundant_indexes :: "(string \<times> string) list" where
  "redundant_indexes = [(''ix_audit_logs_id'', ''audit_logs''), (''ix_users_id'', ''users''), (''ix_users_tenant_id'', ''users''),
     (''ix_tenants_id'', ''tenants''), (''ix_tenants_slug'', ''tenants''), (''ix_idempotency_records_id'', ''idempotency_records''),
     (''ix_idempotency_records_scope_key'', ''idempotency_records''), (''ix_idempotency_records_created_at'', ''idempotency_records''),
     (''ix_webhook_events_id'', ''webhook_events''), (''ix_webhook_events_provider'', ''webhook_events''),
     (''ix_uploaded_files_id'', ''uploaded_files''), (''ix_uploaded_files_owner_id'', ''uploaded_files''),
     (''ix_uploaded_files_created_at'', ''uploaded_files''), (''ix_password_reset_tokens_id'', ''password_reset_tokens''),
     (''ix_password_reset_job_completions_id'', ''password_reset_job_completions''),
     (''ix_password_reset_job_completions_job_id'', ''password_reset_job_completions'')]"

lemma full_tables:
  "searchable_users r n = (current_users r n)\<lparr>tb_indexes := [Index ''ix_users_id'' [''id''] False None,
     Index ''ix_users_tenant_id'' [''tenant_id''] False None, Index ''ix_users_tenant_id_email'' [''tenant_id'', ''email''] True None,
     Index ''ix_users_email_trgm'' [''email''] False (Some ''gin_trgm_ops'')]\<rparr>"
  "single_password_reset_tokens r n = (current_password_reset_tokens r n)\<lparr>tb_indexes :=
     Index ''ix_password_reset_tokens_id'' [''id''] False None # tb_indexes (current_password_reset_tokens r n)\<rparr>"
  by (simp_all add: searchable_users_def tenancy_users_def single_password_reset_tokens_def current_password_reset_tokens_def)

lemma drop_redundant:
  assumes "settled_db (full_database c)"
  shows "run_ops now (rev_upgrade rev_b3c4d5e6f7a8) (full_database c)
      = Some ((current_database c)\<lparr>db_version := Some ''a2b3c4d5e6f7''\<rparr>)"
    and "settled_db (current_database c)"
proof -
  have ops: "rev_upgrade rev_b3c4d5e6f7a8 = map (\<lambda>p. drop_index (fst p) (snd p)) redundant_indexes"
    by (simp add: rev_b3c4d5e6f7a8_def redundant_indexes_def)
  note steps = redundant_indexes_def full_database_def without_index_def put_table_def full_tables(1,2) tenancy_audit_logs_def
    checked_files_def tenancy_files_def tenancy_tenants_def
  have "droppable redundant_indexes (full_database c)"
    by (simp add: steps single_uploaded_files_def)
  moreover have "fold without_index redundant_indexes (full_database c)
      = (current_database c)\<lparr>db_version := Some ''a2b3c4d5e6f7''\<rparr>"
    by (simp add: steps current_defs single_uploaded_files_def)
  ultimately have r: "run_ops now (rev_upgrade rev_b3c4d5e6f7a8) (full_database c)
      = Some ((current_database c)\<lparr>db_version := Some ''a2b3c4d5e6f7''\<rparr>)
    \<and> settled_db ((current_database c)\<lparr>db_version := Some ''a2b3c4d5e6f7''\<rparr>)"
    using run_drops [OF assms, of redundant_indexes now] ops by simp
  then show "run_ops now (rev_upgrade rev_b3c4d5e6f7a8) (full_database c)
      = Some ((current_database c)\<lparr>db_version := Some ''a2b3c4d5e6f7''\<rparr>)"
    and "settled_db (current_database c)" by simp_all
qed

definition upgraded ::
  "sql_row list \<times> int \<Rightarrow> sql_row list \<times> int \<Rightarrow> sql_row list \<times> int \<Rightarrow> sql_row list \<times> int \<Rightarrow> contents" where
  "upgraded us as ps fs = \<lparr>
     ct_users = (map (\<lambda>r. r(''tenant_id'' := SqlInt 1, ''token_version'' := SqlInt 0)) (fst us), snd us),
     ct_audit_logs = (map (\<lambda>r. r(''tenant_id'' := SqlInt 1)) (fst as), snd as), ct_reset_tokens = ps,
     ct_files = (map (\<lambda>r. r(''tenant_id'' := SqlInt 1, ''verification_status'' := SqlText ''verified'')) (fst fs), snd fs),
     ct_tenants = ([default_tenant_row], 2), ct_idempotency = ([], 1), ct_webhooks = ([], 1), ct_completions = ([], 1)\<rparr>"

lemma settled_run:
  assumes "settled_db d" and "run_ops now xs d = Some d'" and "xs \<noteq> []" and "\<And>n. drop_table n \<notin> set xs"
    and "d' = (put_table n t d)\<lparr>db_extensions := e\<rparr>" and "refs_ids t"
  shows "settled_db d'"
proof -
  have "consistent (put_table n t d)" using run_ops_consistent [OF assms(2)] assms(3-5) by auto
  then show ?thesis using settled_put [OF assms(1) _ assms(6)] assms(5) by simp
qed

lemma name_simps [simp]:
  "index_names (d\<lparr>db_version := v\<rparr>) = index_names d" "index_names (d\<lparr>db_extensions := e\<rparr>) = index_names d"
  "other_index_names m (d\<lparr>db_version := v\<rparr>) = other_index_names m d"
  "put_table n t (d\<lparr>db_version := v\<rparr>) = (put_table n t d)\<lparr>db_version := v\<rparr>"
  "put_table n t (d\<lparr>db_extensions := e\<rparr>) = (put_table n t d)\<lparr>db_extensions := e\<rparr>"
  "add_table n t (d\<lparr>db_version := v\<rparr>) = (add_table n t d)\<lparr>db_version := v\<rparr>"
  by (simp_all add: index_names_def other_index_names_def put_table_def add_table_def)

lemma refs_ids_users: "refs_ids (current_users r n)" "refs_ids (token_users r n)" "refs_ids (searchable_users r n)"
  and refs_ids_files: "refs_ids (checked_files r n)"
  by (simp_all add: refs_ids_def token_users_def searchable_users_def checked_files_def current_users_def
      current_uploaded_files_def)

lemma upgrade_from_tenancy:
  fixes us as ps fs :: "sql_row list \<times> int"
  defines "d \<equiv> tenancy_database us as ps fs"
  assumes settled: "settled_db d"
  shows "\<exists>d1 d2 d3 d4 d5.
      run_ops now (rev_upgrade rev_c3d4e5f6a7b8) (d\<lparr>db_version := Some ''a1b2c3d4e5f6''\<rparr>) = Some d1
    \<and> run_ops now (rev_upgrade rev_d4e5f6a7b8c9) (d1\<lparr>db_version := Some ''c3d4e5f6a7b8''\<rparr>) = Some d2
    \<and> run_ops now (rev_upgrade rev_e5f6a7b8c9d0) (d2\<lparr>db_version := Some ''d4e5f6a7b8c9''\<rparr>) = Some d3
    \<and> run_ops now (rev_upgrade rev_f1a2b3c4d5e6) (d3\<lparr>db_version := Some ''e5f6a7b8c9d0''\<rparr>) = Some d4
    \<and> run_ops now (rev_upgrade rev_a2b3c4d5e6f7) (d4\<lparr>db_version := Some ''f1a2b3c4d5e6''\<rparr>) = Some d5
    \<and> d5\<lparr>db_version := Some ''a2b3c4d5e6f7''\<rparr> = full_database (upgraded us as ps fs)
    \<and> settled_db (full_database (upgraded us as ps fs))"
proof -
  let ?idem = "(current_idempotency_records [] 1)\<lparr>tb_indexes := [Index ''ix_idempotency_records_id'' [''id''] False None,
          Index ''ix_idempotency_records_scope_key'' [''scope_key''] True None,
          Index ''ix_idempotency_records_created_at'' [''created_at''] False None,
          Index ''ix_idempotency_records_expires_at'' [''expires_at''] False None]\<rparr>"
  let ?hook = "(current_webhook_events [] 1)\<lparr>tb_indexes := [Index ''ix_webhook_events_id'' [''id''] False None,
          Index ''ix_webhook_events_provider'' [''provider''] False None,
          Index ''ix_webhook_events_received_at'' [''received_at''] False None]\<rparr>"
  let ?comp = "(current_password_reset_job_completions [] 1)\<lparr>tb_indexes :=
          [Index ''ix_password_reset_job_completions_id'' [''id''] False None,
           Index ''ix_password_reset_job_completions_job_id'' [''job_id''] True None]\<rparr>"
  let ?v = "\<lambda>d v. d\<lparr>db_version := Some v\<rparr>"
  note tables = tenancy_database_def with_tenants_def tenancy_users_def tenancy_audit_logs_def tenancy_files_def
    tenancy_tenants_def single_password_reset_tokens_def single_uploaded_files_def current_audit_logs_def
  have names: "db_tables (d\<lparr>db_version := v\<rparr>) = db_tables d" "db_tables (d\<lparr>db_extensions := e\<rparr>) = db_tables d"
    for v e and d :: database by simp_all
  define d0 where "d0 = d\<lparr>db_version := Some ''a1b2c3d4e5f6''\<rparr>"
  have s0: "settled_db d0" using settled by (simp add: d0_def)
  define d1a where "d1a = add_table ''idempotency_records'' ?idem d0"
  have i: "run_ops now (take 5 (rev_upgrade rev_c3d4e5f6a7b8)) d0 = Some d1a"
    unfolding d1a_def by (rule upgrade_new_tables(1) [OF s0]) (simp_all add: d0_def d_def tables index_names_def)
  have s1a: "settled_db d1a"
    unfolding d1a_def
    by (rule settled_add_table [OF s0])
       (simp_all add: d0_def d_def tables refs_ids_def current_idempotency_records_def)
  define d1 where "d1 = add_table ''webhook_events'' ?hook d1a"
  have w: "run_ops now (drop 5 (rev_upgrade rev_c3d4e5f6a7b8)) d1a = Some d1"
    unfolding d1_def
    by (rule upgrade_new_tables(2) [OF s1a]) (simp_all add: d1a_def d0_def d_def tables index_names_def add_table_def)
  have s1: "settled_db d1"
    unfolding d1_def
    by (rule settled_add_table [OF s1a])
       (simp_all add: d1a_def d0_def d_def tables refs_ids_def current_webhook_events_def add_table_def)
  have c: "run_ops now (rev_upgrade rev_c3d4e5f6a7b8) d0 = Some d1"
    using run_ops_append [of now "take 5 (rev_upgrade rev_c3d4e5f6a7b8)" "drop 5 (rev_upgrade rev_c3d4e5f6a7b8)" d0] i w by simp
  define d2 where "d2 = put_table ''users'' (token_users (map (\<lambda>r. r(''token_version'' := SqlInt 0)) (in_default_tenant (fst us)))
      (snd us)) (?v d1 ''c3d4e5f6a7b8'')"
  have t: "run_ops now (rev_upgrade rev_d4e5f6a7b8c9) (?v d1 ''c3d4e5f6a7b8'') = Some d2"
    unfolding d2_def
    by (rule upgrade_token_version, simp add: s1) (simp_all add: d1_def d1a_def d0_def d_def add_table_def tenancy_database_def with_tenants_def)
  have s2: "settled_db d2"
    by (rule settled_run [OF _ t, where n = "''users''" and e = "db_extensions d1"
        and t = "token_users (map (\<lambda>r. r(''token_version'' := SqlInt 0)) (in_default_tenant (fst us))) (snd us)"], simp add: s1)
       (simp_all add: rev_d4e5f6a7b8c9_def d2_def refs_ids_users put_table_def)
  define d3 where "d3 = add_table ''password_reset_job_completions'' ?comp (?v d2 ''d4e5f6a7b8c9'')"
  have p: "run_ops now (rev_upgrade rev_e5f6a7b8c9d0) (?v d2 ''d4e5f6a7b8c9'') = Some d3"
    unfolding d3_def
    by (rule upgrade_new_tables(3), simp add: s2)
       (simp_all add: d2_def d1_def d1a_def d0_def d_def tables token_users_def add_table_def index_names_def put_table_def)
  have s3: "settled_db d3"
    unfolding d3_def
    by (rule settled_add_table, simp add: s2)
       (simp_all add: d2_def d1_def d1a_def d0_def d_def tables add_table_def refs_ids_def
        current_password_reset_job_completions_def)
  define d4 where "d4 = (put_table ''users'' (searchable_users (map (\<lambda>r. r(''token_version'' := SqlInt 0)) (in_default_tenant (fst us)))
      (snd us)) (?v d3 ''e5f6a7b8c9d0''))\<lparr>db_extensions := [''pg_trgm'']\<rparr>"
  have g: "run_ops now (rev_upgrade rev_f1a2b3c4d5e6) (?v d3 ''e5f6a7b8c9d0'') = Some d4"
    unfolding d4_def
    by (rule upgrade_search_index, simp add: s3)
       (simp_all add: d3_def d2_def d1_def d1a_def d0_def d_def tables add_table_def other_index_names_Un put_table_def)
  have s4: "settled_db d4"
    by (rule settled_run [OF _ g, where n = "''users''" and e = "[''pg_trgm'']"
        and t = "searchable_users (map (\<lambda>r. r(''token_version'' := SqlInt 0)) (in_default_tenant (fst us))) (snd us)"], simp add: s3)
       (simp_all add: rev_f1a2b3c4d5e6_def d4_def refs_ids_users)
  define d5 where "d5 = put_table ''uploaded_files'' (checked_files (map (\<lambda>r. r(''verification_status'' := SqlText ''verified''))
      (in_default_tenant (fst fs))) (snd fs)) (?v d4 ''f1a2b3c4d5e6'')"
  have f: "run_ops now (rev_upgrade rev_a2b3c4d5e6f7) (?v d4 ''f1a2b3c4d5e6'') = Some d5"
    unfolding d5_def
    by (rule upgrade_verification_status, simp add: s4)
       (simp_all add: d4_def d3_def d2_def d1_def d1a_def d0_def d_def add_table_def put_table_def tenancy_database_def with_tenants_def)
  have s5: "settled_db d5"
    by (rule settled_run [OF _ f, where n = "''uploaded_files''" and e = "db_extensions d4"
        and t = "checked_files (map (\<lambda>r. r(''verification_status'' := SqlText ''verified'')) (in_default_tenant (fst fs))) (snd fs)"], simp add: s4)
       (simp_all add: rev_a2b3c4d5e6f7_def d5_def refs_ids_files put_table_def)
  have e: "?v d5 ''a2b3c4d5e6f7'' = full_database (upgraded us as ps fs)"
    by (simp add: full_database_def upgraded_def d5_def d4_def d3_def d2_def d1_def d1a_def d0_def d_def add_table_def
      put_table_def tenancy_database_def with_tenants_def o_def)
  then have s6: "settled_db (full_database (upgraded us as ps fs))" using s5 by (metis database_extensions(4))
  show ?thesis using c t p g f e s6 unfolding d0_def by blast
qed

end
