(* ===== verification/Schema_Upgrade.thy ===== *)
theory Schema_Upgrade
  imports Later_Revisions
begin

text \<open>
  \<open>alembic upgrade head\<close>: on an empty database it builds what \<open>app/models\<close> declares, on an installation from
  before multi-tenancy it keeps the rows.
\<close>

lemma upgrade_single_tenant:
  assumes "consistent (single_tenant_database us as ps fs)"
  shows "upgrade_head (Suc (Suc (Suc (Suc (Suc (Suc (Suc (Suc n)))))))) now versions (single_tenant_database us as ps fs)
    = Some (current_database (upgraded us as ps fs))"
proof -
  let ?d0 = "single_tenant_database us as ps fs"
  have v0: "db_version ?d0 = Some ''4d5e6f7a8b90''" by (simp add: single_tenant_database_def)
  note t = tenancy_upgrade [OF assms]
  obtain d1 d2 d3 d4 d5 where s:
      "run_ops now (rev_upgrade rev_c3d4e5f6a7b8) ((tenancy_database us as ps fs)\<lparr>db_version := Some ''a1b2c3d4e5f6''\<rparr>) = Some d1"
      "run_ops now (rev_upgrade rev_d4e5f6a7b8c9) (d1\<lparr>db_version := Some ''c3d4e5f6a7b8''\<rparr>) = Some d2"
      "run_ops now (rev_upgrade rev_e5f6a7b8c9d0) (d2\<lparr>db_version := Some ''d4e5f6a7b8c9''\<rparr>) = Some d3"
      "run_ops now (rev_upgrade rev_f1a2b3c4d5e6) (d3\<lparr>db_version := Some ''e5f6a7b8c9d0''\<rparr>) = Some d4"
      "run_ops now (rev_upgrade rev_a2b3c4d5e6f7) (d4\<lparr>db_version := Some ''f1a2b3c4d5e6''\<rparr>) = Some d5"
      "d5\<lparr>db_version := Some ''a2b3c4d5e6f7''\<rparr> = full_database (upgraded us as ps fs)"
      "settled_db (full_database (upgraded us as ps fs))"
    using upgrade_from_tenancy [OF t(2)] by blast
  have f: "db_version (full_database (upgraded us as ps fs)) = Some ''a2b3c4d5e6f7''" by (simp add: full_database_def)
  note step = upgrade_step [where revs = versions and now = now]
  have c: "current_database (upgraded us as ps fs)
      = (current_database (upgraded us as ps fs))\<lparr>db_version := Some ''b3c4d5e6f7a8''\<rparr>"
    by (simp add: current_database_def)
  have step': "upgrade_head (Suc m) now versions (d\<lparr>db_version := Some v\<rparr>) = upgrade_head m now versions (d'\<lparr>db_version := Some (rev_id r)\<rparr>)"
    if "filter (\<lambda>r. rev_down r = Some v) versions = [r]" "run_ops now (rev_upgrade r) (d\<lparr>db_version := Some v\<rparr>) = Some d'" for m v d d' r
    by (rule step) (simp_all add: that)
  have first: "upgrade_head (Suc m) now versions ?d0
      = upgrade_head m now versions ((tenancy_database us as ps fs)\<lparr>db_version := Some ''a1b2c3d4e5f6''\<rparr>)" for m
    by (subst step [OF _ t(1)]) (simp_all only: v0 next_revision rev_links)
  have last: "upgrade_head (Suc (Suc m)) now versions (full_database (upgraded us as ps fs))
      = Some (current_database (upgraded us as ps fs))" for m
  proof -
    have "upgrade_head (Suc (Suc m)) now versions (full_database (upgraded us as ps fs)) = upgrade_head (Suc m) now versions
        ((current_database (upgraded us as ps fs))\<lparr>db_version := Some ''a2b3c4d5e6f7''\<rparr>\<lparr>db_version := Some (rev_id rev_b3c4d5e6f7a8)\<rparr>)"
      by (rule step [OF _ drop_redundant(1) [OF s(7)]]) (simp only: f next_revision)
    also have "\<dots> = Some (current_database (upgraded us as ps fs))"
      by (simp add: next_revision current_database_def)
    finally show ?thesis .
  qed
  show ?thesis
    by (simp only: first step' [OF next_revision(8) s(1)] step' [OF next_revision(9) s(2)] step' [OF next_revision(10) s(3)]
        step' [OF next_revision(11) s(4)] step' [OF next_revision(12) s(5)] rev_links s(6) last)
qed

lemmas first_revisions = rev_648d963688dd_def rev_f963f3c8b3a4_def rev_7f4e8b9a2c10_def rev_3a9f1c7d8e20_def
  rev_9b2c4d6e8f10_def rev_4d5e6f7a8b90_def

lemma run_op_version:
  "run_op now x (d\<lparr>db_version := v\<rparr>) = map_option (\<lambda>d. d\<lparr>db_version := v\<rparr>) (run_op now x d)"
proof -
  have r: "rows_of (d\<lparr>db_version := v\<rparr>) = rows_of d" for d by (simp add: rows_of_def fun_eq_iff)
  have o: "on_table n f (d\<lparr>db_version := v\<rparr>) = map_option (\<lambda>d. d\<lparr>db_version := v\<rparr>) (on_table n f d)" for n f d
    by (simp add: on_table_def checked_def split: option.splits)
  have s: "run_statement st (d\<lparr>db_version := v\<rparr>) = map_option (\<lambda>d. d\<lparr>db_version := v\<rparr>) (run_statement st d)" for st
    by (cases st) (simp_all add: o r split: list.splits)
  have c: "checked (d\<lparr>db_version := v\<rparr>) = map_option (\<lambda>d. d\<lparr>db_version := v\<rparr>) (checked d)" for d
    by (simp add: checked_def)
  have u: "d\<lparr>db_version := v, db_tables := x\<rparr> = (d\<lparr>db_tables := x\<rparr>)\<lparr>db_version := v\<rparr>" for d x by simp
  show ?thesis
    by (cases x) (simp_all add: o s c u add_index_def del: database.update_convs split: option.splits)
qed

lemma run_ops_version:
  "run_ops now xs (d\<lparr>db_version := v\<rparr>) = map_option (\<lambda>d. d\<lparr>db_version := v\<rparr>) (run_ops now xs d)"
  by (induction xs arbitrary: d) (auto simp: run_op_version split: option.splits)

lemma first_upgrades:
  "run_ops now (concat (map rev_upgrade [rev_648d963688dd, rev_f963f3c8b3a4, rev_7f4e8b9a2c10, rev_3a9f1c7d8e20,
      rev_9b2c4d6e8f10, rev_4d5e6f7a8b90])) empty_database
    = Some ((single_tenant_database ([], 1) ([], 1) ([], 1) ([], 1))\<lparr>db_version := None\<rparr>)"
  by (simp add: step_simps consistent_def put_table_def index_names_def table_consistent_empty first_revisions
      empty_database_def single_defs)

text \<open>Revisions that follow one another.\<close>

fun linked :: "revision list \<Rightarrow> string option \<Rightarrow> revision list \<Rightarrow> bool" where
  "linked revs v [] \<longleftrightarrow> True"
| "linked revs v (r # rs) \<longleftrightarrow> filter (\<lambda>x. rev_down x = v) revs = [r] \<and> linked revs (Some (rev_id r)) rs"

lemma upgrade_chain:
  assumes "linked revs (db_version d) rs" and "run_ops now (concat (map rev_upgrade rs)) d = Some d'"
  shows "upgrade_head (length rs + n) now revs d
    = upgrade_head n now revs (if rs = [] then d else d'\<lparr>db_version := Some (rev_id (last rs))\<rparr>)"
  using assms
proof (induction rs arbitrary: d d')
  case (Cons r rs)
  then obtain d1 where d1: "run_ops now (rev_upgrade r) d = Some d1" "run_ops now (concat (map rev_upgrade rs)) d1 = Some d'"
    by (auto simp: run_ops_append split: option.splits)
  have "run_ops now (concat (map rev_upgrade rs)) (d1\<lparr>db_version := Some (rev_id r)\<rparr>)
      = Some (d'\<lparr>db_version := Some (rev_id r)\<rparr>)"
    using d1(2) by (simp add: run_ops_version)
  then have "upgrade_head (length rs + n) now revs (d1\<lparr>db_version := Some (rev_id r)\<rparr>) = upgrade_head n now revs
      (if rs = [] then d1\<lparr>db_version := Some (rev_id r)\<rparr>
       else d'\<lparr>db_version := Some (rev_id r)\<rparr>\<lparr>db_version := Some (rev_id (last rs))\<rparr>)"
    using Cons.IH [of "d1\<lparr>db_version := Some (rev_id r)\<rparr>" "d'\<lparr>db_version := Some (rev_id r)\<rparr>"] Cons.prems(1) by simp
  moreover have "upgrade_head (length (r # rs) + n) now revs d
      = upgrade_head (length rs + n) now revs (d1\<lparr>db_version := Some (rev_id r)\<rparr>)"
    using upgrade_step [OF _ d1(1), of revs "length rs + n"] Cons.prems(1) by simp
  ultimately show ?case using d1(2) by (cases rs) (simp_all del: upgrade_head.simps)
qed simp

lemma upgrade_empty:
  "upgrade_head (Suc (length versions)) now versions empty_database
    = Some (current_database (upgraded ([], 1) ([], 1) ([], 1) ([], 1)))"
proof -
  let ?rs = "[rev_648d963688dd, rev_f963f3c8b3a4, rev_7f4e8b9a2c10, rev_3a9f1c7d8e20, rev_9b2c4d6e8f10, rev_4d5e6f7a8b90]"
  let ?s = "single_tenant_database ([], 1) ([], 1) ([], 1) ([], 1)"
  have l: "linked versions (db_version empty_database) ?rs" by (simp add: next_revision empty_database_def)
  have s: "consistent ?s" by (simp add: consistent_def single_defs table_consistent_empty)
  have "upgrade_head (length ?rs + 8) now versions empty_database = upgrade_head 8 now versions ?s"
    unfolding upgrade_chain [OF l first_upgrades] by (simp add: single_tenant_database_def)
  also have "\<dots> = Some (current_database (upgraded ([], 1) ([], 1) ([], 1) ([], 1)))"
    using upgrade_single_tenant [OF s, of 0 now] by (simp add: numeral_eq_Suc)
  moreover have "Suc (length versions) = length ?rs + 8" by (simp add: versions_def)
  ultimately show ?thesis by (simp only:)
qed

section \<open>The schema the models declare\<close>

text \<open>
  The tables of \<open>Base.metadata\<close>: columns with type and nullability, constraints, and the indexes, those of
  \<open>index=True\<close> under the name SQLAlchemy gives them. An unnamed constraint has no name here either.
\<close>

record model_table =
  mt_columns :: "(string \<times> sql_type \<times> bool) list"
  mt_constraints :: "table_constraint list"
  mt_indexes :: "(string \<times> string list \<times> bool) list"

definition index_of :: "string \<Rightarrow> string \<Rightarrow> string \<times> string list \<times> bool" where
  "index_of tn c = (''ix_'' @ tn @ ''_'' @ c, [c], False)"

definition Tenant_table :: model_table where
  "Tenant_table = \<lparr>mt_columns = [(''id'', sa_Integer, False), (''slug'', sa_String, False), (''name'', sa_String, False),
       (''is_active'', sa_Boolean, False)],
     mt_constraints = [PrimaryKeyConstraint [''id''], UniqueConstraint None [''slug'']],
     mt_indexes = []\<rparr>"

definition User_table :: model_table where
  "User_table = \<lparr>mt_columns = [(''id'', sa_Integer, False), (''tenant_id'', sa_Integer, False), (''email'', sa_String, False),
       (''hashed_password'', sa_String, False), (''is_active'', sa_Boolean, False), (''role'', sa_String, False),
       (''token_version'', sa_Integer, False)],
     mt_constraints = [PrimaryKeyConstraint [''id''], ForeignKeyConstraint None [''tenant_id''] ''tenants'' [''id''] None],
     mt_indexes = [(''ix_users_tenant_id_email'', [''tenant_id'', ''email''], True)]\<rparr>"

definition AuditLog_table :: model_table where
  "AuditLog_table = \<lparr>mt_columns = [(''id'', sa_Integer, False), (''tenant_id'', sa_Integer, False),
       (''admin_id'', sa_Integer, True), (''action'', sa_String, False), (''target_user_id'', sa_Integer, True),
       (''created_at'', sa_DateTime, True)],
     mt_constraints = [PrimaryKeyConstraint [''id''], ForeignKeyConstraint None [''tenant_id''] ''tenants'' [''id''] None,
       ForeignKeyConstraint None [''admin_id''] ''users'' [''id''] None],
     mt_indexes = map (index_of ''audit_logs'') [''tenant_id'', ''admin_id'', ''action'', ''target_user_id'', ''created_at'']\<rparr>"

definition UploadedFile_table :: model_table where
  "UploadedFile_table = \<lparr>mt_columns = [(''id'', sa_Integer, False), (''tenant_id'', sa_Integer, False),
       (''owner_id'', sa_Integer, False), (''object_key'', sa_String, False), (''filename'', sa_String, False),
       (''content_type'', sa_String, False), (''size_bytes'', sa_Integer, False), (''verification_status'', sa_String, False),
       (''created_at'', sa_DateTime, False)],
     mt_constraints = [PrimaryKeyConstraint [''id''], UniqueConstraint None [''object_key''],
       ForeignKeyConstraint None [''tenant_id''] ''tenants'' [''id''] None,
       ForeignKeyConstraint None [''owner_id''] ''users'' [''id''] (Some ''CASCADE'')],
     mt_indexes = [index_of ''uploaded_files'' ''tenant_id'']\<rparr>"

definition IdempotencyRecord_table :: model_table where
  "IdempotencyRecord_table = \<lparr>mt_columns = [(''id'', sa_Integer, False), (''scope_key'', sa_String, False),
       (''status_code'', sa_Integer, False), (''response_body'', sa_Text, False), (''created_at'', sa_DateTime, False),
       (''expires_at'', sa_DateTime, False)],
     mt_constraints = [PrimaryKeyConstraint [''id''], UniqueConstraint None [''scope_key'']],
     mt_indexes = [index_of ''idempotency_records'' ''expires_at'']\<rparr>"

definition WebhookEvent_table :: model_table where
  "WebhookEvent_table = \<lparr>mt_columns = [(''id'', sa_Integer, False), (''provider'', sa_String, False),
       (''event_id'', sa_String, False), (''payload_hash'', sa_String, False), (''received_at'', sa_DateTime, False)],
     mt_constraints = [PrimaryKeyConstraint [''id''],
       UniqueConstraint (Some ''uq_webhook_events_provider_event_id'') [''provider'', ''event_id'']],
     mt_indexes = [index_of ''webhook_events'' ''received_at'']\<rparr>"

definition PasswordResetToken_table :: model_table where
  "PasswordResetToken_table = \<lparr>mt_columns = [(''id'', sa_Integer, False), (''user_id'', sa_Integer, False),
       (''token_hash'', sa_String, False), (''expires_at'', sa_DateTime, False), (''used_at'', sa_DateTime, True),
       (''created_at'', sa_DateTime, False)],
     mt_constraints = [PrimaryKeyConstraint [''id''],
       ForeignKeyConstraint None [''user_id''] ''users'' [''id''] (Some ''CASCADE'')],
     mt_indexes = [(''ix_password_reset_tokens_token_hash'', [''token_hash''], True),
       index_of ''password_reset_tokens'' ''user_id'', index_of ''password_reset_tokens'' ''expires_at'']\<rparr>"

definition PasswordResetJobCompletion_table :: model_table where
  "PasswordResetJobCompletion_table = \<lparr>mt_columns = [(''id'', sa_Integer, False), (''job_id'', sa_String, False),
       (''completed_at'', sa_DateTime, False)],
     mt_constraints = [PrimaryKeyConstraint [''id''], UniqueConstraint None [''job_id'']],
     mt_indexes = []\<rparr>"

definition metadata :: "(string \<times> model_table) list" where
  "metadata = [(''audit_logs'', AuditLog_table), (''idempotency_records'', IdempotencyRecord_table),
     (''password_reset_job_completions'', PasswordResetJobCompletion_table),
     (''password_reset_tokens'', PasswordResetToken_table), (''tenants'', Tenant_table),
     (''uploaded_files'', UploadedFile_table), (''users'', User_table), (''webhook_events'', WebhookEvent_table)]"

lemmas model_tables = Tenant_table_def User_table_def AuditLog_table_def UploadedFile_table_def
  IdempotencyRecord_table_def WebhookEvent_table_def PasswordResetToken_table_def PasswordResetJobCompletion_table_def

text \<open>A table of the database is the declared one, up to order and the names of foreign keys.\<close>

fun unnamed :: "table_constraint \<Rightarrow> table_constraint" where
  "unnamed (ForeignKeyConstraint _ cols ref refcols del) = ForeignKeyConstraint None cols ref refcols del"
| "unnamed c = c"

definition is_declared :: "model_table \<Rightarrow> sql_table \<Rightarrow> bool" where
  "is_declared m t \<longleftrightarrow>
     mset (map (\<lambda>c. (col_name c, col_type c, col_nullable c)) (tb_columns t)) = mset (mt_columns m)
     \<and> mset (map unnamed (tb_constraints t)) = mset (mt_constraints m)
     \<and> mset (map (\<lambda>i. (ix_name i, ix_columns i, ix_unique i)) (tb_indexes t)) = mset (mt_indexes m)"

definition search_index :: "string \<times> string list \<times> bool" where
  "search_index = (''ix_users_email_trgm'', [''email''], False)"

lemma tables_declared:
  "is_declared (User_table\<lparr>mt_indexes := mt_indexes User_table @ [search_index]\<rparr>) (current_users r n)"
  "is_declared AuditLog_table (current_audit_logs r n)"
  "is_declared PasswordResetToken_table (current_password_reset_tokens r n)"
  "is_declared UploadedFile_table (current_uploaded_files r n)" "is_declared Tenant_table (current_tenants r n)"
  "is_declared IdempotencyRecord_table (current_idempotency_records r n)"
  "is_declared WebhookEvent_table (current_webhook_events r n)"
  "is_declared PasswordResetJobCompletion_table (current_password_reset_job_completions r n)"
  by (simp_all add: is_declared_def model_tables current_defs search_index_def index_of_def)

text \<open>
  C31: run on an empty database, the migrations succeed and end with exactly the tables the models declare, with
  their columns, types, constraints and indexes; only the trigram index of the user search is known to the
  migrations alone. The one row is the default tenant.
\<close>

theorem migrations_build_models:
  "\<exists>d. run_migrations_online now versions empty_database = (True, d)
    \<and> (\<forall>n. case map_of metadata n of
         None \<Rightarrow> map_of (db_tables d) n = None
       | Some m \<Rightarrow> \<exists>t. map_of (db_tables d) n = Some t
         \<and> is_declared (if n = ''users'' then m\<lparr>mt_indexes := mt_indexes m @ [search_index]\<rparr> else m) t
         \<and> tb_rows t = (if n = ''tenants'' then [tenant_row \<lparr>t_id = 1, t_slug = ''default'', t_name = ''Default Tenant'',
              t_is_active = True\<rparr>] else []))"
proof -
  let ?c = "upgraded ([], 1) ([], 1) ([], 1) ([], 1)"
  let ?d = "current_database ?c"
  have run: "run_migrations_online now versions empty_database = (True, ?d)"
    by (simp only: run_migrations_online_def upgrade_empty option.case)
  have rows: "default_tenant_row = tenant_row \<lparr>t_id = 1, t_slug = ''default'', t_name = ''Default Tenant'', t_is_active = True\<rparr>"
    by (simp add: default_tenant_row_def tenant_row_def)
  have names: "set (map fst (db_tables ?d)) = set (map fst metadata)"
    by (auto simp: current_database_def metadata_def)
  have tb: "tb_rows (current_users r n) = r" "tb_rows (current_audit_logs r n) = r"
    "tb_rows (current_password_reset_tokens r n) = r" "tb_rows (current_uploaded_files r n) = r"
    "tb_rows (current_tenants r n) = r" "tb_rows (current_idempotency_records r n) = r"
    "tb_rows (current_webhook_events r n) = r" "tb_rows (current_password_reset_job_completions r n) = r" for r n
    by (simp_all add: current_defs)
  have "\<exists>t. map_of (db_tables ?d) n = Some t
      \<and> is_declared (if n = ''users'' then m\<lparr>mt_indexes := mt_indexes m @ [search_index]\<rparr> else m) t
      \<and> tb_rows t = (if n = ''tenants'' then [default_tenant_row] else [])"
    if "map_of metadata n = Some m" for n m
    using that tables_declared
    by (simp add: metadata_def current_database_def tb upgraded_def split: if_splits)
  moreover have "map_of (db_tables ?d) n = None" if "map_of metadata n = None" for n
    using that names by (simp add: map_of_eq_None_iff)
  ultimately have "case map_of metadata n of
         None \<Rightarrow> map_of (db_tables ?d) n = None
       | Some m \<Rightarrow> \<exists>t. map_of (db_tables ?d) n = Some t
         \<and> is_declared (if n = ''users'' then m\<lparr>mt_indexes := mt_indexes m @ [search_index]\<rparr> else m) t
         \<and> tb_rows t = (if n = ''tenants'' then [default_tenant_row] else [])" for n
    by (cases "map_of metadata n") (simp_all only: option.case)
  then show ?thesis unfolding rows [symmetric] by (intro exI [of _ ?d] conjI run allI)
qed

section \<open>Upgrading an installation\<close>

text \<open>
  C33: upgrading an installation from before multi-tenancy, whatever rows its four tables hold, succeeds in one
  transaction and loses nothing: every row keeps its columns, users, audit rows and files belong to the new default
  tenant, files count as verified, and the result satisfies every constraint of the current schema.
\<close>

theorem single_tenant_upgrade:
  assumes "consistent (single_tenant_database us as ps fs)"
  shows "\<exists>d. run_migrations_online now versions (single_tenant_database us as ps fs) = (True, d) \<and> consistent d
    \<and> rows_of d ''users'' = map (\<lambda>r. r(''tenant_id'' := SqlInt 1, ''token_version'' := SqlInt 0)) (fst us)
    \<and> rows_of d ''audit_logs'' = map (\<lambda>r. r(''tenant_id'' := SqlInt 1)) (fst as)
    \<and> rows_of d ''password_reset_tokens'' = fst ps
    \<and> rows_of d ''uploaded_files''
        = map (\<lambda>r. r(''tenant_id'' := SqlInt 1, ''verification_status'' := SqlText ''verified'')) (fst fs)
    \<and> rows_of d ''tenants'' = [default_tenant_row]"
proof -
  let ?d = "current_database (upgraded us as ps fs)"
  have n: "Suc (length versions) = Suc (Suc (Suc (Suc (Suc (Suc (Suc (Suc 6)))))))" by (simp add: versions_def)
  have "run_migrations_online now versions (single_tenant_database us as ps fs) = (True, ?d)"
    unfolding run_migrations_online_def n upgrade_single_tenant [OF assms] by simp
  moreover have "consistent ?d"
  proof -
    obtain d5 where "settled_db (full_database (upgraded us as ps fs))"
      using upgrade_from_tenancy [OF tenancy_upgrade(2) [OF assms]] by blast
    then show ?thesis using drop_redundant(2) consistent_settled by blast
  qed
  moreover have "rows_of ?d ''audit_logs'' = fst (ct_audit_logs (upgraded us as ps fs))"
    "rows_of ?d ''password_reset_tokens'' = fst (ct_reset_tokens (upgraded us as ps fs))"
    "rows_of ?d ''uploaded_files'' = fst (ct_files (upgraded us as ps fs))"
    by (simp_all add: rows_of_def current_defs)
  ultimately show ?thesis by (intro exI [of _ ?d]) (simp add: upgraded_def)
qed

section \<open>A small installation\<close>

definition example_old_user :: sql_row where
  "example_old_user = null_row(''id'' := SqlInt 1, ''email'' := SqlText ''a@b.c'', ''hashed_password'' := SqlText ''h'',
     ''is_active'' := SqlBool True, ''role'' := SqlText ''user'')"

definition example_single :: database where
  "example_single = single_tenant_database ([example_old_user], 2) ([], 1) ([], 1) ([], 1)"

lemma example_single_consistent: "consistent example_single"
  by (simp add: example_single_def consistent_def single_defs table_consistent_rows table_consistent_empty
      constraint_ok_def example_old_user_def)

lemma single_tenant_upgrade_witness:
  "\<exists>d. run_migrations_online 0 versions example_single = (True, d)
    \<and> map (\<lambda>r. (r ''email'', r ''tenant_id'')) (rows_of d ''users'') = [(SqlText ''a@b.c'', SqlInt 1)]"
  using single_tenant_upgrade [OF example_single_consistent [unfolded example_single_def], of 0]
  by (auto simp: example_single_def example_old_user_def)

end
