(* ===== verification/Tenancy_Rollback.thy ===== *)
theory Tenancy_Rollback
  imports Schema_Upgrade
begin

text \<open>
  Taking the multi-tenancy revision back: when it is possible, what it loses, and that it undoes the upgrade.
\<close>

section \<open>Going back\<close>

definition tenancy_state ::
  "sql_row list \<times> int \<Rightarrow> sql_row list \<times> int \<Rightarrow> sql_row list \<times> int \<Rightarrow> sql_row list \<times> int \<Rightarrow> sql_row list \<times> int \<Rightarrow> database" where
  "tenancy_state us as ps fs ts = \<lparr>db_tables = [(''users'', tenancy_users (fst us) (snd us)),
      (''audit_logs'', tenancy_audit_logs (fst as) (snd as)),
      (''password_reset_tokens'', single_password_reset_tokens (fst ps) (snd ps)),
      (''uploaded_files'', tenancy_files (fst fs) (snd fs)), (''tenants'', tenancy_tenants (fst ts) (snd ts))],
     db_extensions = [], db_version = Some ''a1b2c3d4e5f6''\<rparr>"

abbreviation untenanted :: "sql_row list \<Rightarrow> sql_row list" where
  "untenanted rows \<equiv> map (\<lambda>r. r(''tenant_id'' := SqlNull)) rows"

lemma downgrade_files:
  assumes d: "settled_db d" "map_of (db_tables d) ''uploaded_files'' = Some (tenancy_files fs n)"
  shows "run_ops now (take 3 (rev_downgrade rev_a1b2c3d4e5f6)) d
    = Some (put_table ''uploaded_files'' (single_uploaded_files (untenanted fs) n) d)"
proof -
  have d': "put_table ''uploaded_files'' (tenancy_files fs n) d = d" using d(2) by (rule put_same)
  have f: "not_null [''id''] fs" "not_null [''owner_id''] fs" "not_null [''object_key''] fs" "not_null [''filename''] fs"
    "not_null [''content_type''] fs" "not_null [''size_bytes''] fs" "not_null [''created_at''] fs" "not_null [''tenant_id''] fs"
    "unique_key [''id''] fs" "unique_key [''object_key''] fs" "foreign_key_ok [''owner_id''] fs [''id''] (rows_of d ''users'')"
    "foreign_key_ok [''tenant_id''] fs [''id''] (rows_of d ''tenants'')"
    using settled_table [OF d]
    by (simp_all add: tenancy_files_def single_uploaded_files_def current_uploaded_files_def table_consistent_rows
      constraint_ok_def)
  have cons: "consistent (put_table ''uploaded_files'' t' d) \<longleftrightarrow> table_consistent (put_table ''uploaded_files'' t' d) t'"
    if "ids (tb_rows t') = ids fs" for t'
    by (rule consistent_put [OF d]) (simp add: that tenancy_files_def single_uploaded_files_def)
  have "run_ops now (take 3 (rev_downgrade rev_a1b2c3d4e5f6)) (put_table ''uploaded_files'' (tenancy_files fs n) d)
    = Some (put_table ''uploaded_files'' (single_uploaded_files (untenanted fs) n) d)"
    using f by (simp add: rev_a1b2c3d4e5f6_def step_simps cons tenancy_files_def single_uploaded_files_def
      current_uploaded_files_def)
  then show ?thesis by (simp add: d')
qed

lemma downgrade_audit_logs:
  assumes d: "settled_db d" "map_of (db_tables d) ''audit_logs'' = Some (tenancy_audit_logs as n)"
  shows "run_ops now (take 3 (drop 3 (rev_downgrade rev_a1b2c3d4e5f6))) d
    = Some (put_table ''audit_logs'' (single_audit_logs (untenanted as) n) d)"
proof -
  have d': "put_table ''audit_logs'' (tenancy_audit_logs as n) d = d" using d(2) by (rule put_same)
  have a: "not_null [''id''] as" "not_null [''action''] as" "not_null [''tenant_id''] as" "unique_key [''id''] as"
    "foreign_key_ok [''admin_id''] as [''id''] (rows_of d ''users'')"
    "foreign_key_ok [''tenant_id''] as [''id''] (rows_of d ''tenants'')"
    using settled_table [OF d]
    by (simp_all add: tenancy_audit_logs_def current_audit_logs_def table_consistent_rows constraint_ok_def)
  have cons: "consistent (put_table ''audit_logs'' t' d) \<longleftrightarrow> table_consistent (put_table ''audit_logs'' t' d) t'"
    if "ids (tb_rows t') = ids as" for t'
    by (rule consistent_put [OF d]) (simp add: that tenancy_audit_logs_def current_audit_logs_def)
  have "run_ops now (take 3 (drop 3 (rev_downgrade rev_a1b2c3d4e5f6))) (put_table ''audit_logs'' (tenancy_audit_logs as n) d)
    = Some (put_table ''audit_logs'' (single_audit_logs (untenanted as) n) d)"
    using a by (simp add: rev_a1b2c3d4e5f6_def step_simps cons tenancy_audit_logs_def single_audit_logs_def
      current_audit_logs_def)
  then show ?thesis by (simp add: d')
qed

lemma downgrade_users:
  assumes d: "settled_db d" "map_of (db_tables d) ''users'' = Some (tenancy_users us n)"
    and free: "''ix_users_email'' \<notin> other_index_names ''users'' d"
  shows "run_ops now (take 5 (drop 6 (rev_downgrade rev_a1b2c3d4e5f6))) d
    = (if unique_key [''email''] us then Some (put_table ''users'' (single_users (untenanted us) n) d) else None)"
proof -
  have d': "put_table ''users'' (tenancy_users us n) d = d" using d(2) by (rule put_same)
  have u: "not_null [''id''] us" "not_null [''email''] us" "not_null [''hashed_password''] us" "not_null [''is_active''] us"
    "not_null [''role''] us" "not_null [''tenant_id''] us" "unique_key [''id''] us" "unique_key [''tenant_id'', ''email''] us"
    "foreign_key_ok [''tenant_id''] us [''id''] (rows_of d ''tenants'')"
    using settled_table [OF d]
    by (simp_all add: tenancy_users_def single_users_def current_users_def table_consistent_rows constraint_ok_def)
  have cons: "consistent (put_table ''users'' t' d) \<longleftrightarrow> table_consistent (put_table ''users'' t' d) t'"
    if "ids (tb_rows t') = ids us" for t'
    by (rule consistent_put [OF d]) (simp add: that tenancy_users_def)
  have names: "x \<in> set (index_names (put_table ''users'' t d)) \<longleftrightarrow> x \<in> ix_name ` set (tb_indexes t) \<or> x \<in> other_index_names ''users'' d"
    for x t by (rule index_names_put [OF settled_names [OF d(1)]])
  have "run_ops now (take 5 (drop 6 (rev_downgrade rev_a1b2c3d4e5f6))) (put_table ''users'' (tenancy_users us n) d)
    = (if unique_key [''email''] us then Some (put_table ''users'' (single_users (untenanted us) n) d) else None)"
    using u free by (simp add: rev_a1b2c3d4e5f6_def step_simps cons names tenancy_users_def single_users_def current_users_def)
  then show ?thesis by (simp add: d')
qed

lemma refs_ids_tenancy:
  "refs_ids (tenancy_users r n)" "refs_ids (tenancy_audit_logs r n)" "refs_ids (tenancy_files r n)"
  "refs_ids (tenancy_tenants r n)" "refs_ids (single_password_reset_tokens r n)" "refs_ids (single_uploaded_files r n)"
  "refs_ids (single_audit_logs r n)" "refs_ids (single_users r n)"
  by (simp_all add: refs_ids_def tenancy_tables current_users_def current_audit_logs_def current_uploaded_files_def
      current_tenants_def single_password_reset_tokens_def single_uploaded_files_def single_audit_logs_def single_users_def)

lemma settled_tenancy: "consistent (tenancy_state us as ps fs ts) \<Longrightarrow> settled_db (tenancy_state us as ps fs ts)"
  by (simp add: settled_db_def tenancy_state_def refs_ids_tenancy)

lemma settled_after:
  assumes "settled_db d" and "run_ops now xs d = Some (put_table n t d)" and "xs \<noteq> []" and "\<And>n. drop_table n \<notin> set xs"
    and "refs_ids t"
  shows "settled_db (put_table n t d)"
  using settled_put [OF assms(1) run_ops_consistent [OF assms(2,3)] assms(5)] assms(4) by blast

lemma downgrade_tenants:
  assumes "settled_db (tenancy_state us as ps fs ts)"
    and "d = put_table ''users'' (single_users us' nu) (put_table ''audit_logs'' (single_audit_logs as' na)
      (put_table ''uploaded_files'' (single_uploaded_files fs' nf) (tenancy_state us as ps fs ts)))"
    and "settled_db d"
  shows "run_ops now (drop 11 (rev_downgrade rev_a1b2c3d4e5f6)) d
    = Some ((single_tenant_database (us', nu) (as', na) ps (fs', nf))\<lparr>db_version := Some ''a1b2c3d4e5f6''\<rparr>)"
proof -
  have d: "map_of (db_tables d) ''tenants'' = Some (tenancy_tenants (fst ts) (snd ts))"
    using assms(2) by (simp add: tenancy_state_def)
  have ops: "drop 11 (rev_downgrade rev_a1b2c3d4e5f6) = map (\<lambda>p. drop_index (fst p) (snd p))
      [(''ix_tenants_slug'', ''tenants''), (''ix_tenants_id'', ''tenants'')] @ [drop_table ''tenants'']"
    by (simp add: rev_a1b2c3d4e5f6_def)
  have "droppable [(''ix_tenants_slug'', ''tenants''), (''ix_tenants_id'', ''tenants'')] d"
    using d by (simp add: without_index_def tenancy_tenants_def)
  note drops = run_drops [OF assms(3) this, of now]
  show ?thesis
    unfolding ops run_ops_append using drops
    by (simp add: without_index_def d tenancy_tenants_def)
       (simp add: assms(2) tenancy_state_def put_table_def single_defs current_tenants_def)
qed

lemma downgrade_tenancy:
  assumes "consistent (tenancy_state us as ps fs ts)"
  shows "revert_revision now rev_a1b2c3d4e5f6 (tenancy_state us as ps fs ts)
    = (if unique_key [''email''] (fst us)
       then Some (single_tenant_database (untenanted (fst us), snd us) (untenanted (fst as), snd as) ps
              (untenanted (fst fs), snd fs))
       else None)"
proof -
  let ?d = "tenancy_state us as ps fs ts" and ?ops = "rev_downgrade rev_a1b2c3d4e5f6"
  have split: "?ops = take 3 ?ops @ take 3 (drop 3 ?ops) @ take 5 (drop 6 ?ops) @ drop 11 ?ops"
    by (simp add: rev_a1b2c3d4e5f6_def)
  have no_drop: "drop_table n \<notin> set (take 3 ?ops)" "drop_table n \<notin> set (take 3 (drop 3 ?ops))"
    "drop_table n \<notin> set (take 5 (drop 6 ?ops))" "take 3 ?ops \<noteq> []" "take 3 (drop 3 ?ops) \<noteq> []"
    "take 5 (drop 6 ?ops) \<noteq> []" for n
    unfolding rev_a1b2c3d4e5f6_def by simp_all
  have len: "?ops \<noteq> []" "length ?ops = 14" by (simp_all add: rev_a1b2c3d4e5f6_def)
  have s0: "settled_db ?d" by (rule settled_tenancy [OF assms])
  define d1 where "d1 = put_table ''uploaded_files'' (single_uploaded_files (untenanted (fst fs)) (snd fs)) ?d"
  have f: "run_ops now (take 3 ?ops) ?d = Some d1"
    unfolding d1_def by (rule downgrade_files [OF s0]) (simp add: tenancy_state_def)
  have s1: "settled_db d1"
    unfolding d1_def by (rule settled_after [OF s0 f [unfolded d1_def]]) (simp_all add: no_drop len refs_ids_tenancy)
  define d2 where "d2 = put_table ''audit_logs'' (single_audit_logs (untenanted (fst as)) (snd as)) d1"
  have a: "run_ops now (take 3 (drop 3 ?ops)) d1 = Some d2"
    unfolding d2_def by (rule downgrade_audit_logs [OF s1]) (simp add: d1_def tenancy_state_def)
  have s2: "settled_db d2"
    unfolding d2_def by (rule settled_after [OF s1 a [unfolded d2_def]]) (simp_all add: no_drop len refs_ids_tenancy)
  define d3 where "d3 = put_table ''users'' (single_users (untenanted (fst us)) (snd us)) d2"
  have u: "run_ops now (take 5 (drop 6 ?ops)) d2 = (if unique_key [''email''] (fst us) then Some d3 else None)"
    unfolding d3_def
    by (rule downgrade_users [OF s2])
       (simp_all add: d2_def d1_def tenancy_state_def other_index_names_Un put_table_def single_audit_logs_def
         single_password_reset_tokens_def single_uploaded_files_def tenancy_tenants_def)
  have t: "run_ops now (drop 11 ?ops) d3 = Some ((single_tenant_database (untenanted (fst us), snd us)
      (untenanted (fst as), snd as) ps (untenanted (fst fs), snd fs))\<lparr>db_version := Some ''a1b2c3d4e5f6''\<rparr>)"
    if unique: "unique_key [''email''] (fst us)"
  proof (rule downgrade_tenants [OF s0])
    have "run_ops now (take 5 (drop 6 ?ops)) d2 = Some d3" using u unique by simp
    from settled_after [OF s2 this [unfolded d3_def] no_drop(6) no_drop(3) refs_ids_tenancy(8)]
    show "settled_db d3" unfolding d3_def .
  qed (simp add: d3_def d2_def d1_def)
  have v: "db_version ?d = Some (rev_id rev_a1b2c3d4e5f6)" by (simp add: tenancy_state_def)
  have run: "run_ops now ?ops ?d = (if unique_key [''email''] (fst us) then Some ((single_tenant_database (untenanted (fst us), snd us)
      (untenanted (fst as), snd as) ps (untenanted (fst fs), snd fs))\<lparr>db_version := Some ''a1b2c3d4e5f6''\<rparr>) else None)"
    by (subst split) (simp add: run_ops_append f a u t)
  show ?thesis unfolding revert_revision_def run v by (simp add: single_tenant_database_def)
qed

text \<open>
  C34: the multi-tenancy revision can be taken back exactly as long as no address is used in two tenants. It then
  drops the tenants and keeps every user, audit row and file without its tenant; otherwise it is refused and nothing
  changes. Taking it back right after applying it gives the database from before.
\<close>

theorem tenancy_rollback:
  assumes "consistent (tenancy_state us as ps fs ts)"
  shows "(revert_revision now rev_a1b2c3d4e5f6 (tenancy_state us as ps fs ts) = None
      \<longleftrightarrow> (\<exists>i j. i < j \<and> j < length (fst us) \<and> (fst us ! i) ''email'' = (fst us ! j) ''email''))
    \<and> (\<forall>d. revert_revision now rev_a1b2c3d4e5f6 (tenancy_state us as ps fs ts) = Some d \<longrightarrow>
        rows_of d ''tenants'' = [] \<and> rows_of d ''users'' = map (\<lambda>r. r(''tenant_id'' := SqlNull)) (fst us)
        \<and> rows_of d ''audit_logs'' = map (\<lambda>r. r(''tenant_id'' := SqlNull)) (fst as)
        \<and> rows_of d ''uploaded_files'' = map (\<lambda>r. r(''tenant_id'' := SqlNull)) (fst fs)
        \<and> rows_of d ''password_reset_tokens'' = fst ps)"
proof -
  have emails: "r ''email'' \<noteq> SqlNull" if "r \<in> set (fst us)" for r
    using settled_table [OF settled_tenancy [OF assms], of "''users''" "tenancy_users (fst us) (snd us)"] that
    by (simp add: tenancy_state_def tenancy_users_def single_users_def table_consistent_rows not_null_def list_all_iff)
  have "filter (\<lambda>k. SqlNull \<notin> set k) (map (\<lambda>r. [r ''email'']) (fst us)) = map (\<lambda>r. [r ''email'']) (fst us)"
    using emails by (intro filter_True) (auto dest: sym)
  then have "unique_key [''email''] (fst us) \<longleftrightarrow> distinct (map (\<lambda>r. r ''email'') (fst us))"
    by (simp add: unique_key_def distinct_map inj_on_def)
  also have "\<dots> \<longleftrightarrow> \<not> (\<exists>i j. i < j \<and> j < length (fst us) \<and> (fst us ! i) ''email'' = (fst us ! j) ''email'')"
    by (fastforce simp: distinct_conv_nth nat_neq_iff)
  finally show ?thesis
    unfolding downgrade_tenancy [OF assms] by (auto simp: rows_of_def single_defs)
qed

text \<open>
  C35: the multi-tenancy revision loses nothing that was there: applying it to an installation from before it and
  taking it back right away restores the very same database.
\<close>

theorem tenancy_roundtrip:
  assumes "consistent (single_tenant_database us as ps fs)"
    and "\<forall>r \<in> set (fst us) \<union> set (fst as) \<union> set (fst fs). r ''tenant_id'' = SqlNull"
  shows "\<exists>d. apply_revision now rev_a1b2c3d4e5f6 (single_tenant_database us as ps fs) = Some d
    \<and> revert_revision now rev_a1b2c3d4e5f6 d = Some (single_tenant_database us as ps fs)"
proof -
  let ?d = "tenancy_state (in_default_tenant (fst us), snd us) (in_default_tenant (fst as), snd as) ps
      (in_default_tenant (fst fs), snd fs) ([default_tenant_row], 2)"
  have e: "(tenancy_database us as ps fs)\<lparr>db_version := Some ''a1b2c3d4e5f6''\<rparr> = ?d"
    by (simp add: tenancy_database_def with_tenants_def tenancy_state_def)
  have a: "apply_revision now rev_a1b2c3d4e5f6 (single_tenant_database us as ps fs) = Some ?d"
    using tenancy_upgrade(1) [OF assms(1), of now]
    by (simp add: apply_revision_def e [symmetric]) (simp add: single_tenant_database_def)
  have c: "consistent ?d"
    using tenancy_upgrade(2) [OF assms(1)] consistent_settled by (metis e database_extensions(4))
  have restored: "untenanted (in_default_tenant rows) = rows" if "\<forall>r \<in> set rows. r ''tenant_id'' = SqlNull" for rows
    using that by (intro nth_equalityI) (auto simp: fun_upd_idem)
  have "unique_key [''email''] (in_default_tenant (fst us))" using single_consistentD(2) [OF assms(1)] by simp
  then have "revert_revision now rev_a1b2c3d4e5f6 ?d = Some (single_tenant_database us as ps fs)"
    unfolding downgrade_tenancy [OF c] using restored assms(2) by simp
  then show ?thesis using a by blast
qed

section \<open>The small installation again\<close>

lemma tenancy_roundtrip_witness:
  "\<exists>d. apply_revision 0 rev_a1b2c3d4e5f6 example_single = Some d
    \<and> revert_revision 0 rev_a1b2c3d4e5f6 d = Some example_single"
  using tenancy_roundtrip [OF example_single_consistent [unfolded example_single_def], of 0]
  by (simp add: example_single_def example_old_user_def)

definition example_tenants :: "sql_row list" where
  "example_tenants = map tenant_row [\<lparr>t_id = 1, t_slug = ''default'', t_name = ''A'', t_is_active = True\<rparr>,
     \<lparr>t_id = 2, t_slug = ''other'', t_name = ''B'', t_is_active = True\<rparr>]"

definition example_shared :: "sql_row list" where
  "example_shared = [example_old_user(''tenant_id'' := SqlInt 1),
     example_old_user(''id'' := SqlInt 2, ''tenant_id'' := SqlInt 2)]"

lemma tenancy_rollback_witness:
  "revert_revision 0 rev_a1b2c3d4e5f6 (tenancy_state (example_shared, 3) ([], 1) ([], 1) ([], 1) (example_tenants, 3)) = None"
proof -
  let ?d = "tenancy_state (example_shared, 3) ([], 1) ([], 1) ([], 1) (example_tenants, 3)"
  have "foreign_key_ok [''tenant_id''] example_shared [''id''] example_tenants" "unique_key [''id''] example_shared"
    "unique_key [''tenant_id'', ''email''] example_shared" "unique_key [''id''] example_tenants"
    "unique_key [''slug''] example_tenants"
    by code_simp+
  moreover have "example_shared \<noteq> []" by (simp add: example_shared_def)
  moreover have "not_null [c] example_shared" if "c \<in> {''id'', ''email'', ''hashed_password'', ''is_active'', ''role'', ''tenant_id''}" for c
    using that by (auto simp: not_null_def example_shared_def example_old_user_def)
  moreover have "not_null [c] example_tenants" if "c \<in> {''id'', ''slug'', ''name'', ''is_active''}" for c
    using that by (auto simp: not_null_def example_tenants_def tenant_row_def)
  ultimately have "consistent ?d"
    by (simp add: tenancy_state_def consistent_def tenancy_tables current_users_def current_audit_logs_def
        current_uploaded_files_def current_tenants_def single_users_def single_uploaded_files_def
        single_password_reset_tokens_def table_consistent_rows table_consistent_empty constraint_ok_def rows_of_def)
  note rollback = conjunct1 [OF tenancy_rollback [OF this, of 0]]
  have "\<exists>i j. i < j \<and> j < length example_shared \<and> (example_shared ! i) ''email'' = (example_shared ! j) ''email''"
    by (rule exI [of _ 0], rule exI [of _ 1]) (simp add: example_shared_def example_old_user_def)
  then show ?thesis using rollback by simp
qed

end
