(* ===== verification/Metrics.thy ===== *)
theory Metrics
  imports Webhooks
begin

text \<open>
  Application metrics: \<open>app/core/metrics.py\<close>, the scrape endpoint of the API
  (\<open>app/api/routes/metrics.py\<close>, \<open>app/api/dependencies/metrics_auth.py\<close>) and the one of the worker
  (\<open>app/core/metrics_server.py\<close>).

  The package \<open>prometheus_client\<close> is a parameter, the record \<open>prometheus\<close> of the calls the sources make
  over an abstract collection of samples. The locale \<open>prometheus_laws\<close> states what it documents of
  them: a family is registered once, a counter takes no \<open>multiprocess_mode\<close>, and each call changes the
  one sample it names. The module's globals are the record \<open>metrics\<close>.
\<close>

section \<open>The client library\<close>

datatype metric_kind = Counter | Histogram | Gauge

record metric_family =
  mf_kind :: metric_kind
  mf_name :: string
  mf_labels :: "string list"
  mf_buckets :: "rat list"
  mf_multiprocess_mode :: "string option"

type_synonym label_values = "(string \<times> string) list"

record 'm prometheus =
  make_directory :: "string \<Rightarrow> (exn, unit) result"
  collect_directory :: "string \<Rightarrow> 'm \<Rightarrow> (exn, unit) result \<times> 'm"
  create_family :: "metric_family \<Rightarrow> 'm \<Rightarrow> (exn, unit) result \<times> 'm"
  inc_counter :: "string \<Rightarrow> label_values \<Rightarrow> 'm \<Rightarrow> 'm"
  observe_histogram :: "string \<Rightarrow> label_values \<Rightarrow> rat \<Rightarrow> 'm \<Rightarrow> 'm"
  set_gauge :: "string \<Rightarrow> label_values \<Rightarrow> rat \<Rightarrow> 'm \<Rightarrow> 'm"
  generate_latest :: "bool \<Rightarrow> 'm \<Rightarrow> string"
  mark_process_dead :: "'m \<Rightarrow> 'm"

text \<open>
  \<open>names s\<close> are the registered families and \<open>sample s n l\<close> the value of the sample of family \<open>n\<close> with the
  label values \<open>l\<close>: a count for counters, the number of observations for histograms.
\<close>

locale prometheus_laws =
  fixes P :: "('m, 'z) prometheus_scheme"
    and names :: "'m \<Rightarrow> string set"
    and sample :: "'m \<Rightarrow> string \<Rightarrow> label_values \<Rightarrow> rat"
  assumes create_plain:
      "mf_multiprocess_mode f = None \<Longrightarrow> mf_name f \<notin> names s \<Longrightarrow> fst (create_family P f s) = Inr ()"
    and create_names:
      "fst (create_family P f s) = Inr () \<Longrightarrow> names (snd (create_family P f s)) = insert (mf_name f) (names s)"
    and create_duplicate: "mf_name f \<in> names s \<Longrightarrow> \<exists>e. fst (create_family P f s) = Inl e"
    and create_refused: "fst (create_family P f s) = Inl e \<Longrightarrow> snd (create_family P f s) = s"
    and create_sample: "sample (snd (create_family P f s)) = sample s"
    and counter_mode:
      "mf_kind f = Counter \<Longrightarrow> mf_multiprocess_mode f \<noteq> None \<Longrightarrow> \<exists>e. fst (create_family P f s) = Inl e"
    and inc_sample: "sample (inc_counter P n l s) n' l' = sample s n' l' + (if n' = n \<and> l' = l then 1 else 0)"
    and inc_names: "names (inc_counter P n l s) = names s"
    and observe_sample:
      "sample (observe_histogram P n l x s) n' l' = sample s n' l' + (if n' = n \<and> l' = l then 1 else 0)"
    and observe_names: "names (observe_histogram P n l x s) = names s"
    and set_sample: "sample (set_gauge P n l x s) n' l' = (if n' = n \<and> l' = l then x else sample s n' l')"
    and set_names: "names (set_gauge P n l x s) = names s"

section \<open>Configuration\<close>

record 'm metrics =
  met_own_registry :: bool
  multiproc_dir :: "string option"
  metrics_configured :: bool
  met_handles :: "string list"
  met_environ :: "string option"
  met_samples :: 'm

type_synonym ('m, 'a) metrics_action = "('m metrics, 'a) action"

definition REQUEST_DURATION_BUCKETS :: "rat list" where
  "REQUEST_DURATION_BUCKETS = [5/1000, 1/100, 25/1000, 5/100, 1/10, 25/100, 5/10, 1, 25/10, 5]"

definition request_labels :: "string list" where
  "request_labels = [''method'', ''path'', ''status_code'']"

definition metric_families :: "string option \<Rightarrow> metric_family list" where
  "metric_families dir =
     (let counter_mode = (case dir of None \<Rightarrow> None | Some _ \<Rightarrow> Some ''livesum'');
          gauge_mode = (case dir of None \<Rightarrow> None | Some _ \<Rightarrow> Some ''mostrecent'')
      in [\<lparr>mf_kind = Counter, mf_name = ''http_requests_total'', mf_labels = request_labels,
           mf_buckets = [], mf_multiprocess_mode = counter_mode\<rparr>,
          \<lparr>mf_kind = Histogram, mf_name = ''http_request_duration_seconds'', mf_labels = request_labels,
           mf_buckets = REQUEST_DURATION_BUCKETS, mf_multiprocess_mode = counter_mode\<rparr>,
          \<lparr>mf_kind = Counter, mf_name = ''worker_jobs_total'', mf_labels = [''job_type'', ''status''],
           mf_buckets = [], mf_multiprocess_mode = counter_mode\<rparr>,
          \<lparr>mf_kind = Counter, mf_name = ''worker_maintenance_runs_total'', mf_labels = [''status''],
           mf_buckets = [], mf_multiprocess_mode = counter_mode\<rparr>,
          \<lparr>mf_kind = Counter, mf_name = ''dependency_checks_total'', mf_labels = [''dependency'', ''status''],
           mf_buckets = [], mf_multiprocess_mode = counter_mode\<rparr>,
          \<lparr>mf_kind = Gauge, mf_name = ''dependency_health_status'', mf_labels = [''dependency''],
           mf_buckets = [], mf_multiprocess_mode = gauge_mode\<rparr>])"

definition app_info_values :: "settings \<Rightarrow> label_values" where
  "app_info_values cfg =
     [(''service'', ''fastapi-production-foundation''), (''environment'', environment cfg)]
     @ (if strip (metrics_instance_id cfg) \<noteq> [] then [(''instance_id'', strip (metrics_instance_id cfg))] else [])"

definition app_info_family :: "settings \<Rightarrow> string option \<Rightarrow> metric_family" where
  "app_info_family cfg dir = \<lparr>mf_kind = Gauge, mf_name = ''app_info'',
     mf_labels = map fst (app_info_values cfg), mf_buckets = [],
     mf_multiprocess_mode = (case dir of None \<Rightarrow> None | Some _ \<Rightarrow> Some ''mostrecent'')\<rparr>"

definition on_samples :: "('m \<Rightarrow> (exn, unit) result \<times> 'm) \<Rightarrow> ('m, unit) metrics_action" where
  "on_samples f m = (case f (met_samples m) of (res, s) \<Rightarrow> (res, m\<lparr>met_samples := s\<rparr>))"

definition make_metric :: "('m, 'z) prometheus_scheme \<Rightarrow> metric_family \<Rightarrow> ('m, unit) metrics_action" where
  "make_metric P f = run_then (on_samples (create_family P f))
     (\<lambda>_ m. (Inr (), m\<lparr>met_handles := mf_name f # met_handles m\<rparr>))"

fun make_metrics :: "('m, 'z) prometheus_scheme \<Rightarrow> metric_family list \<Rightarrow> ('m, unit) metrics_action" where
  "make_metrics P [] = noop"
| "make_metrics P (f # fs) = run_then (make_metric P f) (\<lambda>_. make_metrics P fs)"

definition select_registry :: "('m, 'z) prometheus_scheme \<Rightarrow> settings \<Rightarrow> ('m, unit) metrics_action" where
  "select_registry P cfg =
     (let dir = strip (prometheus_multiproc_dir cfg) in
      if dir \<noteq> []
      then run_then (lift_result (make_directory P dir)) (\<lambda>_.
           run_then (\<lambda>m. (Inr (), m\<lparr>met_environ := Some dir, multiproc_dir := Some dir, met_own_registry := True\<rparr>))
             (\<lambda>_. on_samples (collect_directory P dir)))
      else (\<lambda>m. (Inr (), m\<lparr>multiproc_dir := None, met_own_registry := False\<rparr>)))"

definition configure_metrics :: "('m, 'z) prometheus_scheme \<Rightarrow> settings \<Rightarrow> ('m, unit) metrics_action" where
  "configure_metrics P cfg = run_then (reads metrics_configured) (\<lambda>configured.
     if configured then noop
     else run_then (select_registry P cfg) (\<lambda>_.
          run_then (reads multiproc_dir) (\<lambda>dir.
          run_then (make_metrics P (metric_families dir @ [app_info_family cfg dir])) (\<lambda>_.
          run_then (on_samples (\<lambda>s. (Inr (), set_gauge P ''app_info'' (app_info_values cfg) 1 s)))
            (\<lambda>_ m. (Inr (), m\<lparr>metrics_configured := True\<rparr>))))))"

text \<open>A module that has just been imported.\<close>

definition fresh_metrics :: "'m \<Rightarrow> 'm metrics" where
  "fresh_metrics s = \<lparr>met_own_registry = False, multiproc_dir = None, metrics_configured = False,
     met_handles = [], met_environ = None, met_samples = s\<rparr>"

section \<open>Observations\<close>

text \<open>Each function first configures the module when one of the handles it needs is missing.\<close>

definition with_handles ::
  "('m, 'z) prometheus_scheme \<Rightarrow> settings \<Rightarrow> string list \<Rightarrow> ('m \<Rightarrow> 'm) \<Rightarrow> ('m, unit) metrics_action" where
  "with_handles P cfg hs f = run_then (reads met_handles) (\<lambda>made.
     run_then (if list_all (\<lambda>h. h \<in> set made) hs then noop else configure_metrics P cfg)
       (\<lambda>_. on_samples (\<lambda>s. (Inr (), f s))))"

definition observe_request ::
  "('m, 'z) prometheus_scheme \<Rightarrow> settings \<Rightarrow> string \<Rightarrow> string \<Rightarrow> int \<Rightarrow> rat \<Rightarrow> ('m, unit) metrics_action" where
  "observe_request P cfg meth path status_code duration_seconds =
     (let labels = [(''method'', meth), (''path'', path), (''status_code'', show_int status_code)]
      in with_handles P cfg [''http_requests_total'', ''http_request_duration_seconds'']
           (\<lambda>s. observe_histogram P ''http_request_duration_seconds'' labels duration_seconds
                 (inc_counter P ''http_requests_total'' labels s)))"

definition observe_worker_job ::
  "('m, 'z) prometheus_scheme \<Rightarrow> settings \<Rightarrow> string \<Rightarrow> string \<Rightarrow> ('m, unit) metrics_action" where
  "observe_worker_job P cfg kind status = with_handles P cfg [''worker_jobs_total'']
     (inc_counter P ''worker_jobs_total'' [(''job_type'', kind), (''status'', status)])"

definition observe_worker_maintenance ::
  "('m, 'z) prometheus_scheme \<Rightarrow> settings \<Rightarrow> string \<Rightarrow> ('m, unit) metrics_action" where
  "observe_worker_maintenance P cfg status = with_handles P cfg [''worker_maintenance_runs_total'']
     (inc_counter P ''worker_maintenance_runs_total'' [(''status'', status)])"

definition observe_dependency_check ::
  "('m, 'z) prometheus_scheme \<Rightarrow> settings \<Rightarrow> string \<Rightarrow> string \<Rightarrow> ('m, unit) metrics_action" where
  "observe_dependency_check P cfg dependency status =
     with_handles P cfg [''dependency_checks_total'', ''dependency_health_status'']
       (\<lambda>s. set_gauge P ''dependency_health_status'' [(''dependency'', dependency)] (if status = ''ok'' then 1 else 0)
             (inc_counter P ''dependency_checks_total'' [(''dependency'', dependency), (''status'', status)] s))"

definition render_metrics :: "('m, 'z) prometheus_scheme \<Rightarrow> settings \<Rightarrow> ('m, string) metrics_action" where
  "render_metrics P cfg = run_then (reads met_handles) (\<lambda>made.
     run_then (if ''http_requests_total'' \<in> set made then noop else configure_metrics P cfg) (\<lambda>_.
     reads (\<lambda>m. generate_latest P (met_own_registry m) (met_samples m))))"

definition mark_metrics_process_dead :: "('m, 'z) prometheus_scheme \<Rightarrow> 'm metrics \<Rightarrow> 'm metrics" where
  "mark_metrics_process_dead P m =
     (if multiproc_dir m = None then m else m\<lparr>met_samples := mark_process_dead P (met_samples m)\<rparr>)"

section \<open>The scrape endpoints\<close>

text \<open>\<open>secrets.compare_digest\<close> on texts raises a \<open>TypeError\<close> unless both are ASCII.\<close>

definition token_matches :: "string \<Rightarrow> string \<Rightarrow> (exn, bool) result" where
  "token_matches a b = (case compare_digest a b of Inl _ \<Rightarrow> Inl (Unexpected ''TypeError'') | Inr v \<Rightarrow> Inr v)"

definition verify_metrics_access :: "settings \<Rightarrow> string option \<Rightarrow> (exn, unit) result" where
  "verify_metrics_access cfg authorization =
     (if metrics_require_auth cfg \<noteq> Some True then Inr ()
      else let expected_token = strip (metrics_bearer_token cfg) in
        if expected_token = [] then Inl (HTTPException 503 ''Metrics authentication is not configured'')
        else case authorization of
            None \<Rightarrow> Inl (HTTPException 401 ''Missing metrics bearer token'')
          | Some a \<Rightarrow>
              if \<not> starts_with a ''Bearer '' then Inl (HTTPException 401 ''Missing metrics bearer token'')
              else and_then (token_matches (strip (removeprefix a ''Bearer '')) expected_token) (\<lambda>same.
                   ensure same (HTTPException 401 ''Invalid metrics bearer token'')))"

definition metrics_route ::
  "('m, 'z) prometheus_scheme \<Rightarrow> settings \<Rightarrow> string option \<Rightarrow> ('m, string) metrics_action" where
  "metrics_route P cfg authorization =
     run_then (lift_result (verify_metrics_access cfg authorization)) (\<lambda>_. render_metrics P cfg)"

definition is_authorized :: "settings \<Rightarrow> string option \<Rightarrow> bool" where
  "is_authorized cfg authorization =
     (if metrics_require_auth cfg \<noteq> Some True then True
      else let expected_token = strip (metrics_bearer_token cfg) in
        if expected_token = [] then False
        else case authorization of
            None \<Rightarrow> False
          | Some a \<Rightarrow> if \<not> starts_with a ''Bearer '' then False
                      else strip (removeprefix a ''Bearer '') = expected_token)"

text \<open>The answer of the worker's endpoint: an error status, or the rendered text.\<close>

datatype scrape_answer = ScrapeError int | ScrapeText string

definition do_GET ::
  "('m, 'z) prometheus_scheme \<Rightarrow> settings \<Rightarrow> string \<Rightarrow> string option \<Rightarrow> ('m, scrape_answer) metrics_action" where
  "do_GET P cfg path authorization =
     (if path \<noteq> ''/metrics'' then ret (ScrapeError 404)
      else if \<not> is_authorized cfg authorization then ret (ScrapeError 401)
      else run_then (render_metrics P cfg) (\<lambda>body. ret (ScrapeText body)))"

text \<open>The worker's server: the bound port while it runs. \<open>listen\<close> binds a socket or raises.\<close>

definition start_metrics_server ::
  "(string \<Rightarrow> int \<Rightarrow> (exn, int) result) \<Rightarrow> string \<Rightarrow> int \<Rightarrow> (int option, int) action" where
  "start_metrics_server listen host port = (\<lambda>server. case server of
       Some bound \<Rightarrow> (Inr bound, server)
     | None \<Rightarrow> (case listen host port of Inl e \<Rightarrow> (Inl e, None) | Inr bound \<Rightarrow> (Inr bound, Some bound)))"

definition stop_metrics_server :: "int option \<Rightarrow> int option" where
  "stop_metrics_server server = (case server of None \<Rightarrow> server | Some _ \<Rightarrow> None)"


section \<open>Configuration and counting\<close>

lemma with_handles_made:
  "set hs \<subseteq> set (met_handles m) \<Longrightarrow>
   with_handles P cfg hs f m = (Inr (), m\<lparr>met_samples := f (met_samples m)\<rparr>)"
  by (auto simp: with_handles_def on_samples_def list_all_iff)

lemma configured_once: "metrics_configured m \<Longrightarrow> configure_metrics P cfg m = (Inr (), m)"
  by (simp add: configure_metrics_def)

definition all_families :: "settings \<Rightarrow> metric_family list" where
  "all_families cfg = metric_families None @ [app_info_family cfg None]"

definition family_names :: "string list" where
  "family_names = [''http_requests_total'', ''http_request_duration_seconds'', ''worker_jobs_total'',
     ''worker_maintenance_runs_total'', ''dependency_checks_total'', ''dependency_health_status'', ''app_info'']"

lemma all_families_names: "map mf_name (all_families cfg) = family_names"
  by (simp add: all_families_def metric_families_def app_info_family_def family_names_def)

lemma all_families_plain: "f \<in> set (all_families cfg) \<Longrightarrow> mf_multiprocess_mode f = None"
  by (auto simp: all_families_def metric_families_def app_info_family_def)

lemma distinct_family_names: "distinct family_names"
  by (simp add: family_names_def)

context prometheus_laws
begin

lemma make_metrics_plain:
  assumes "\<forall>f \<in> set fs. mf_multiprocess_mode f = None" and "distinct (map mf_name fs)"
    and "mf_name ` set fs \<inter> names (met_samples m) = {}"
  shows "\<exists>s. make_metrics P fs m =
      (Inr (), m\<lparr>met_samples := s, met_handles := rev (map mf_name fs) @ met_handles m\<rparr>)
    \<and> names s = names (met_samples m) \<union> mf_name ` set fs \<and> sample s = sample (met_samples m)"
  using assms
proof (induction fs arbitrary: m)
  case Nil
  then show ?case by (auto intro: exI [of _ "met_samples m"])
next
  case (Cons f fs)
  let ?s = "snd (create_family P f (met_samples m))"
  let ?m = "m\<lparr>met_samples := ?s, met_handles := mf_name f # met_handles m\<rparr>"
  have ok: "fst (create_family P f (met_samples m)) = Inr ()"
    using Cons.prems by (intro create_plain) auto
  then have step: "make_metric P f m = (Inr (), ?m)"
    by (auto simp: make_metric_def on_samples_def run_then_def split: prod.splits)
  have n: "names ?s = insert (mf_name f) (names (met_samples m))" by (rule create_names [OF ok])
  have "mf_name ` set fs \<inter> names (met_samples ?m) = {}"
    using Cons.prems by (auto simp: n)
  then obtain s where "make_metrics P fs ?m =
        (Inr (), ?m\<lparr>met_samples := s, met_handles := rev (map mf_name fs) @ met_handles ?m\<rparr>)"
      and "names s = names (met_samples ?m) \<union> mf_name ` set fs" and "sample s = sample (met_samples ?m)"
    using Cons.IH [of ?m] Cons.prems by auto
  with step show ?case by (auto simp: n create_sample)
qed

lemma configure_single_process:
  assumes "strip (prometheus_multiproc_dir cfg) = []" and "\<not> metrics_configured m"
    and "set family_names \<inter> names (met_samples m) = {}"
  shows "\<exists>m'. configure_metrics P cfg m = (Inr (), m') \<and> metrics_configured m'
    \<and> set (met_handles m') = set family_names \<union> set (met_handles m)
    \<and> sample (met_samples m') ''app_info'' (app_info_values cfg) = 1
    \<and> (\<forall>n l. n \<noteq> ''app_info'' \<longrightarrow> sample (met_samples m') n l = sample (met_samples m) n l)"
proof -
  let ?m = "m\<lparr>multiproc_dir := None, met_own_registry := False\<rparr>"
  obtain s where made: "make_metrics P (all_families cfg) ?m =
        (Inr (), ?m\<lparr>met_samples := s, met_handles := rev family_names @ met_handles ?m\<rparr>)"
      and s: "sample s = sample (met_samples m)"
    using make_metrics_plain [of "all_families cfg" ?m] assms(3) all_families_plain distinct_family_names
    by (auto simp: all_families_names simp flip: set_map)
  show ?thesis
    using assms(1,2) made
    by (auto simp: configure_metrics_def select_registry_def on_samples_def set_sample s
        simp flip: all_families_def)
qed

text \<open>The counters ask for a multi-process mode, which the client library refuses.\<close>

lemma configure_multi_process:
  assumes "strip (prometheus_multiproc_dir cfg) \<noteq> []" and "\<not> metrics_configured m"
  shows "\<exists>e m'. configure_metrics P cfg m = (Inl e, m') \<and> \<not> metrics_configured m' \<and> met_handles m' = met_handles m"
proof -
  let ?d = "strip (prometheus_multiproc_dir cfg)"
  define f where "f = hd (metric_families (Some ?d))"
  have f: "mf_kind f = Counter" "mf_multiprocess_mode f \<noteq> None"
    by (simp_all add: f_def metric_families_def Let_def)
  obtain fs where fs: "metric_families (Some ?d) @ [app_info_family cfg (Some ?d)] = f # fs"
    by (simp add: f_def metric_families_def Let_def)
  have refused: "\<exists>e m'. make_metrics P (f # fs) m1 = (Inl e, m') \<and> metrics_configured m' = metrics_configured m1
      \<and> met_handles m' = met_handles m1" for m1
    using counter_mode [OF f, of "met_samples m1"]
    by (auto simp: make_metric_def on_samples_def run_then_def split: prod.splits)
  obtain res m1 where sel: "select_registry P cfg m = (res, m1)" by fastforce
  then have m1: "metrics_configured m1 = metrics_configured m" "met_handles m1 = met_handles m"
      "res = Inr () \<Longrightarrow> multiproc_dir m1 = Some ?d"
    using assms(1) by (auto simp: select_registry_def on_samples_def Let_def split: sum.splits prod.splits)
  show ?thesis
    using assms(2) sel m1 fs refused [of m1]
    by (cases res) (auto simp: configure_metrics_def run_then_def)
qed

lemma observe_request_counts:
  assumes "set family_names \<subseteq> set (met_handles m)"
  obtains m' where "observe_request P cfg meth path code seconds m = (Inr (), m')"
    and "met_handles m' = met_handles m" and "metrics_configured m' = metrics_configured m"
    and "\<And>l. sample (met_samples m') ''http_requests_total'' l = sample (met_samples m) ''http_requests_total'' l
        + (if l = [(''method'', meth), (''path'', path), (''status_code'', show_int code)] then 1 else 0)"
  using assms
  by (simp add: observe_request_def Let_def with_handles_made family_names_def observe_sample inc_sample)

end

section \<open>A collection of samples\<close>

record sample_store =
  ss_names :: "string list"
  ss_value :: "string \<Rightarrow> label_values \<Rightarrow> rat"

definition add_sample :: "string \<Rightarrow> label_values \<Rightarrow> sample_store \<Rightarrow> sample_store" where
  "add_sample n l s = s\<lparr>ss_value := (ss_value s)(n := (ss_value s n)(l := ss_value s n l + 1))\<rparr>"

definition store_metrics :: "sample_store prometheus" where
  "store_metrics =
     \<lparr>make_directory = (\<lambda>_. Inr ()),
      collect_directory = (\<lambda>_ s. (Inr (), s)),
      create_family = (\<lambda>f s.
        if mf_kind f \<noteq> Gauge \<and> mf_multiprocess_mode f \<noteq> None then (Inl (Unexpected ''TypeError''), s)
        else if mf_name f \<in> set (ss_names s) then (Inl (ValueErr ''Duplicated timeseries''), s)
        else (Inr (), s\<lparr>ss_names := mf_name f # ss_names s\<rparr>)),
      inc_counter = add_sample,
      observe_histogram = (\<lambda>n l _. add_sample n l),
      set_gauge = (\<lambda>n l x s. s\<lparr>ss_value := (ss_value s)(n := (ss_value s n)(l := x))\<rparr>),
      generate_latest = (\<lambda>_ s. concat (ss_names s)),
      mark_process_dead = (\<lambda>s. s)\<rparr>"

definition empty_samples :: sample_store where
  "empty_samples = \<lparr>ss_names = [], ss_value = (\<lambda>_ _. 0)\<rparr>"

interpretation store_metrics: prometheus_laws store_metrics "\<lambda>s. set (ss_names s)" ss_value
  by unfold_locales (auto simp: store_metrics_def add_sample_def fun_eq_iff split: if_splits)

section \<open>Properties\<close>

text \<open>
  Configuring a module that has just been imported, with none of its families registered yet, succeeds
  exactly when no multi-process directory is set. It then makes every handle and announces the application;
  with a directory it raises, because the counters are created with a \<open>multiprocess_mode\<close>, and no handle
  exists. \<open>main.py\<close> configures metrics while it is imported, so such a process does not start.
\<close>

theorem metrics_configuration:
  assumes "prometheus_laws P names sample" and "set family_names \<inter> names s = {}"
  shows "case configure_metrics P cfg (fresh_metrics s) of
      (Inr u, m) \<Rightarrow> strip (prometheus_multiproc_dir cfg) = [] \<and> metrics_configured m
        \<and> set (met_handles m) = set family_names
        \<and> sample (met_samples m) ''app_info'' (app_info_values cfg) = 1
    | (Inl e, m) \<Rightarrow> strip (prometheus_multiproc_dir cfg) \<noteq> [] \<and> \<not> metrics_configured m \<and> met_handles m = []"
proof (cases "strip (prometheus_multiproc_dir cfg) = []")
  case True
  then show ?thesis
    using prometheus_laws.configure_single_process [OF assms(1) True, of "fresh_metrics s"] assms(2)
    by (auto simp: fresh_metrics_def)
next
  case False
  then show ?thesis
    using prometheus_laws.configure_multi_process [OF assms(1) False, of "fresh_metrics s"]
    by (auto simp: fresh_metrics_def)
qed

lemma metrics_configuration_witness:
  "case configure_metrics store_metrics ((default_settings ''k'')\<lparr>prometheus_multiproc_dir := ''/tmp/prom''\<rparr>)
      (fresh_metrics empty_samples) of
     (Inr u, m) \<Rightarrow> False | (Inl e, m) \<Rightarrow> \<not> metrics_configured m \<and> met_handles m = []"
  using metrics_configuration [OF store_metrics.prometheus_laws_axioms, of empty_samples
      "(default_settings ''k'')\<lparr>prometheus_multiproc_dir := ''/tmp/prom''\<rparr>"]
  by (simp add: empty_samples_def strip_def is_space_def split: prod.splits sum.splits)

text \<open>Who may scrape: everybody when no authentication is required, else the bearer of a non-empty token.\<close>

definition scrape_allowed :: "settings \<Rightarrow> string option \<Rightarrow> bool" where
  "scrape_allowed cfg authorization \<longleftrightarrow> metrics_require_auth cfg \<noteq> Some True \<or>
     strip (metrics_bearer_token cfg) \<noteq> [] \<and>
     (\<exists>a. authorization = Some (''Bearer '' @ a) \<and> strip a = strip (metrics_bearer_token cfg))"

lemma is_authorized_iff: "is_authorized cfg a \<longleftrightarrow> scrape_allowed cfg a"
  by (auto simp: is_authorized_def scrape_allowed_def Let_def starts_with_iff removeprefix_def starts_with_def
      split: option.splits)

lemma verify_metrics_access_iff:
  "verify_metrics_access cfg a = Inr () \<longleftrightarrow> scrape_allowed cfg a
     \<and> (metrics_require_auth cfg = Some True \<longrightarrow> is_ascii (strip (metrics_bearer_token cfg)))"
  by (auto simp: verify_metrics_access_def scrape_allowed_def Let_def starts_with_iff removeprefix_def
      starts_with_def token_matches_def compare_digest_def split: option.splits)

lemma verify_metrics_access_refusal:
  "verify_metrics_access cfg a = Inl e \<Longrightarrow> exn_status e \<in> {401, 500, 503}"
  by (auto simp: verify_metrics_access_def Let_def token_matches_def compare_digest_def and_then_Inl_iff
      split: option.splits if_splits)



end
