(* ===== verification/Logging.thy ===== *)
theory Logging
  imports Job_Queue
begin

text \<open>
  Logging (\<open>app/core/logging.py\<close>, \<open>app/core/log_helpers.py\<close>): redaction of sensitive values, the filter of
  the handler and the two formats. A \<open>log_record\<close> holds what the formatters read of a
  \<open>logging.LogRecord\<close>; \<open>lr_dict\<close> is its \<open>__dict__\<close> in order, \<open>lr_exc_text\<close> the formatted traceback (empty
  when there is none). The rendering of an instant and of a value by \<open>str\<close> are arguments.
\<close>

section \<open>Redaction\<close>

definition REQUEST_LOG_FIELDS :: "string list" where
  "REQUEST_LOG_FIELDS = [''request_id'', ''method'', ''path'', ''status_code'', ''process_time'', ''job_id'', ''job_type'']"

definition SENSITIVE_FIELD_NAMES :: "string list" where
  "SENSITIVE_FIELD_NAMES =
     [''password'', ''new_password'', ''old_password'', ''token'', ''access_token'', ''refresh_token'',
      ''authorization'', ''secret'', ''secret_key'', ''smtp_password'', ''s3_secret_access_key'', ''api_key'',
      ''email'', ''recipient'']"

definition REDACTED_VALUE :: pyval where
  "REDACTED_VALUE = PStr ''[REDACTED]''"

definition STANDARD_LOG_RECORD_FIELDS :: "string list" where
  "STANDARD_LOG_RECORD_FIELDS =
     [''args'', ''asctime'', ''created'', ''exc_info'', ''exc_text'', ''filename'', ''funcName'', ''levelname'',
      ''levelno'', ''lineno'', ''module'', ''msecs'', ''message'', ''msg'', ''name'', ''pathname'', ''process'',
      ''processName'', ''relativeCreated'', ''stack_info'', ''thread'', ''threadName'', ''taskName'']"

text \<open>
  \<open>[^@]+@[^@]+\.[^@]+\<close>, searched anywhere in the text: some character before an at-sign, and after it a dot
  that is neither the first nor the last character up to the next at-sign.
\<close>

definition dotted :: "string \<Rightarrow> bool" where
  "dotted r \<longleftrightarrow> CHR ''.'' \<in> set (butlast (tl r))"

fun email_search :: "string \<Rightarrow> bool" where
  "email_search (x # y # s) \<longleftrightarrow>
     x \<noteq> CHR ''@'' \<and> y = CHR ''@'' \<and> dotted (takeWhile (\<lambda>c. c \<noteq> CHR ''@'') s) \<or> email_search (y # s)"
| "email_search _ \<longleftrightarrow> False"

definition redact_sensitive_value :: "string \<Rightarrow> pyval \<Rightarrow> pyval" where
  "redact_sensitive_value field_name v =
     (if lower field_name \<in> set SENSITIVE_FIELD_NAMES then REDACTED_VALUE
      else case v of PStr s \<Rightarrow> if email_search s then REDACTED_VALUE else v | _ \<Rightarrow> v)"

section \<open>Records and payloads\<close>

record log_record =
  lr_created :: time
  lr_levelname :: string
  lr_name :: string
  lr_message :: string
  lr_exc_text :: string
  lr_dict :: pydict

definition request_field_value :: "log_record \<Rightarrow> string \<Rightarrow> pyval" where
  "request_field_value r field = (case dict_get (lr_dict r) field of
       None \<Rightarrow> PStr ''-'' | Some PNone \<Rightarrow> PStr ''-'' | Some v \<Rightarrow> v)"

fun set_fields :: "pydict \<Rightarrow> (string \<times> pyval) list \<Rightarrow> pydict" where
  "set_fields d [] = d"
| "set_fields d ((k, v) # kvs) = set_fields (dict_set d k v) kvs"

definition build_log_payload :: "(time \<Rightarrow> string) \<Rightarrow> log_record \<Rightarrow> pydict" where
  "build_log_payload isoformat r =
     set_fields
       (set_fields
          [(''timestamp'', PStr (isoformat (lr_created r))), (''level'', PStr (lr_levelname r)),
           (''logger'', PStr (lr_name r)), (''message'', PStr (lr_message r))]
          (map (\<lambda>field. (field, redact_sensitive_value field (request_field_value r field))) REQUEST_LOG_FIELDS))
       (map (\<lambda>(k, v). (k, redact_sensitive_value k v))
          (filter (\<lambda>(k, v). k \<notin> set STANDARD_LOG_RECORD_FIELDS \<and> k \<notin> set REQUEST_LOG_FIELDS) (lr_dict r)))"

section \<open>The handler\<close>

definition sensitive_data_filter :: "log_record \<Rightarrow> log_record" where
  "sensitive_data_filter r = r\<lparr>lr_dict := map (\<lambda>(k, v).
     (k, if k \<in> set STANDARD_LOG_RECORD_FIELDS then v else redact_sensitive_value k v)) (lr_dict r)\<rparr>"

definition fill_request_fields :: "log_record \<Rightarrow> log_record" where
  "fill_request_fields r = r\<lparr>lr_dict := set_fields (lr_dict r)
     (map (\<lambda>field. (field, PStr ''-''))
        (filter (\<lambda>field. dict_get (lr_dict r) field = None) REQUEST_LOG_FIELDS))\<rparr>"

text \<open>\<open>logging.Formatter.format\<close> with the format string of \<open>configure_logging\<close>.\<close>

definition text_line :: "(time \<Rightarrow> string) \<Rightarrow> (pyval \<Rightarrow> string) \<Rightarrow> log_record \<Rightarrow> string" where
  "text_line asctime str r =
     (let field = (\<lambda>k. case dict_get (lr_dict r) k of None \<Rightarrow> [] | Some v \<Rightarrow> str v) in
      asctime (lr_created r) @ '' '' @ lr_levelname r @ '' '' @ lr_name r
      @ '' request_id='' @ field ''request_id'' @ '' method='' @ field ''method'' @ '' path='' @ field ''path''
      @ '' status='' @ field ''status_code'' @ '' process_time='' @ field ''process_time''
      @ '' job_id='' @ field ''job_id'' @ '' job_type='' @ field ''job_type'' @ '' message='' @ lr_message r
      @ (if lr_exc_text r = [] then [] else [CHR 0x0A] @ lr_exc_text r))"

definition request_log_format :: "(time \<Rightarrow> string) \<Rightarrow> (pyval \<Rightarrow> string) \<Rightarrow> log_record \<Rightarrow> string" where
  "request_log_format asctime str r = text_line asctime str (fill_request_fields r)"

definition json_log_format :: "(time \<Rightarrow> string) \<Rightarrow> log_record \<Rightarrow> string" where
  "json_log_format isoformat r = dumps (PDict (build_log_payload isoformat (fill_request_fields r)))"

record log_setup =
  ls_json :: bool
  ls_level :: string

definition configure_logging :: "settings \<Rightarrow> log_setup" where
  "configure_logging cfg = \<lparr>ls_json = (log_format cfg = ''json''), ls_level = log_level cfg\<rparr>"

definition emit :: "log_setup \<Rightarrow> (time \<Rightarrow> string) \<Rightarrow> (time \<Rightarrow> string) \<Rightarrow> (pyval \<Rightarrow> string) \<Rightarrow> log_record \<Rightarrow> string" where
  "emit s isoformat asctime str r =
     (let r' = sensitive_data_filter r
      in if ls_json s then json_log_format isoformat r' else request_log_format asctime str r')"

section \<open>Jobs\<close>

definition job_log_extra :: "string option \<Rightarrow> job \<Rightarrow> pydict" where
  "job_log_extra current_request_id j =
     [(''job_id'', PStr (job_id j)), (''job_type'', PStr (job_type j))]
     @ (case (case request_id j of Some (c # cs) \<Rightarrow> Some (c # cs) | _ \<Rightarrow> current_request_id) of
          None \<Rightarrow> [] | Some i \<Rightarrow> [(''request_id'', PStr i)])"

section \<open>What the pattern finds\<close>

lemma dotted_iff: "dotted r \<longleftrightarrow> (\<exists>u w. r = u @ CHR ''.'' # w \<and> u \<noteq> [] \<and> w \<noteq> [])"
proof
  assume "dotted r"
  then obtain u w where uw: "butlast (tl r) = u @ CHR ''.'' # w" by (auto simp: dotted_def in_set_conv_decomp)
  then obtain x t where "r = x # t" "t \<noteq> []" by (cases r; cases "tl r") auto
  with uw have "r = (x # u) @ CHR ''.'' # (w @ [last t])"
    by simp (metis append.assoc append_Cons append_butlast_last_id)
  then show "\<exists>u w. r = u @ CHR ''.'' # w \<and> u \<noteq> [] \<and> w \<noteq> []" by blast
next
  assume "\<exists>u w. r = u @ CHR ''.'' # w \<and> u \<noteq> [] \<and> w \<noteq> []"
  then obtain u w where "r = u @ CHR ''.'' # w" "u \<noteq> []" "w \<noteq> []" by blast
  then show "dotted r" by (cases u) (auto simp: dotted_def butlast_append)
qed

lemma take_while_dotted:
  "dotted (takeWhile (\<lambda>c. c \<noteq> CHR ''@'') s) \<longleftrightarrow>
     (\<exists>u w b. s = u @ CHR ''.'' # w @ b \<and> u \<noteq> [] \<and> w \<noteq> [] \<and> CHR ''@'' \<notin> set (u @ w))"
proof
  let ?r = "takeWhile (\<lambda>c. c \<noteq> CHR ''@'') s"
  assume "dotted ?r"
  then obtain u w where uw: "?r = u @ CHR ''.'' # w" "u \<noteq> []" "w \<noteq> []" by (auto simp: dotted_iff)
  have "CHR ''@'' \<notin> set ?r" by (metis set_takeWhileD)
  moreover have "s = u @ CHR ''.'' # w @ dropWhile (\<lambda>c. c \<noteq> CHR ''@'') s"
    using takeWhile_dropWhile_id [of "\<lambda>c. c \<noteq> CHR ''@''" s] uw by simp
  ultimately show "\<exists>u w b. s = u @ CHR ''.'' # w @ b \<and> u \<noteq> [] \<and> w \<noteq> [] \<and> CHR ''@'' \<notin> set (u @ w)"
    using uw by auto
next
  assume "\<exists>u w b. s = u @ CHR ''.'' # w @ b \<and> u \<noteq> [] \<and> w \<noteq> [] \<and> CHR ''@'' \<notin> set (u @ w)"
  then obtain u w b where s: "s = (u @ CHR ''.'' # w) @ b" "u \<noteq> []" "w \<noteq> []" "CHR ''@'' \<notin> set (u @ w)"
    by auto
  then have "takeWhile (\<lambda>c. c \<noteq> CHR ''@'') s = (u @ CHR ''.'' # w) @ takeWhile (\<lambda>c. c \<noteq> CHR ''@'') b"
    unfolding s(1) by (intro takeWhile_append2) auto
  then show "dotted (takeWhile (\<lambda>c. c \<noteq> CHR ''@'') s)" using s by (auto simp: dotted_iff)
qed

lemma email_search_iff:
  "email_search s \<longleftrightarrow> (\<exists>a x u w b. s = a @ x # CHR ''@'' # u @ CHR ''.'' # w @ b
     \<and> x \<noteq> CHR ''@'' \<and> u \<noteq> [] \<and> w \<noteq> [] \<and> CHR ''@'' \<notin> set (u @ w))"
proof (induction s rule: email_search.induct)
  case (1 x y s)
  show ?case
  proof
    assume "email_search (x # y # s)"
    then consider "x \<noteq> CHR ''@''" "y = CHR ''@''" "dotted (takeWhile (\<lambda>c. c \<noteq> CHR ''@'') s)"
      | "email_search (y # s)" by auto
    then show "\<exists>a x' u w b. x # y # s = a @ x' # CHR ''@'' # u @ CHR ''.'' # w @ b
       \<and> x' \<noteq> CHR ''@'' \<and> u \<noteq> [] \<and> w \<noteq> [] \<and> CHR ''@'' \<notin> set (u @ w)"
    proof cases
      case 1
      from 1(3) obtain u w b where "s = u @ CHR ''.'' # w @ b" "u \<noteq> []" "w \<noteq> []" "CHR ''@'' \<notin> set (u @ w)"
        unfolding take_while_dotted by blast
      with 1(1,2) show ?thesis
        by (intro exI [of _ "[]"] exI [of _ x] exI [of _ u] exI [of _ w] exI [of _ b]) simp
    next
      case 2
      then obtain a x' u w b where "y # s = a @ x' # CHR ''@'' # u @ CHR ''.'' # w @ b"
          "x' \<noteq> CHR ''@''" "u \<noteq> []" "w \<noteq> []" "CHR ''@'' \<notin> set (u @ w)"
        unfolding "1.IH" by blast
      then show ?thesis by (intro exI [of _ "x # a"] exI [of _ x'] exI [of _ u] exI [of _ w] exI [of _ b]) simp
    qed
  next
    assume "\<exists>a x' u w b. x # y # s = a @ x' # CHR ''@'' # u @ CHR ''.'' # w @ b
       \<and> x' \<noteq> CHR ''@'' \<and> u \<noteq> [] \<and> w \<noteq> [] \<and> CHR ''@'' \<notin> set (u @ w)"
    then obtain a x' u w b where e: "x # y # s = a @ x' # CHR ''@'' # u @ CHR ''.'' # w @ b"
        "x' \<noteq> CHR ''@''" "u \<noteq> []" "w \<noteq> []" "CHR ''@'' \<notin> set (u @ w)" by blast
    show "email_search (x # y # s)"
    proof (cases a)
      case Nil
      with e show ?thesis by (auto simp: take_while_dotted)
    next
      case (Cons c a')
      with e have "y # s = a' @ x' # CHR ''@'' # u @ CHR ''.'' # w @ b" by simp
      then have "email_search (y # s)" unfolding "1.IH" using e by blast
      then show ?thesis by simp
    qed
  qed
qed (auto simp: Cons_eq_append_conv)

section \<open>What reaches the log\<close>

text \<open>Neither a sensitive name with its value nor a text holding an address.\<close>

definition concealed :: "string \<Rightarrow> pyval \<Rightarrow> bool" where
  "concealed k v \<longleftrightarrow> (lower k \<in> set SENSITIVE_FIELD_NAMES \<longrightarrow> v = REDACTED_VALUE)
     \<and> (\<forall>s. v = PStr s \<longrightarrow> \<not> email_search s)"

lemma concealed_redact: "concealed k (redact_sensitive_value k v)"
  by (auto simp: concealed_def redact_sensitive_value_def REDACTED_VALUE_def split: pyval.splits)

lemma redact_concealed: "concealed k v \<Longrightarrow> redact_sensitive_value k v = v"
  by (auto simp: concealed_def redact_sensitive_value_def split: pyval.splits)

lemma redact_idem [simp]: "redact_sensitive_value k (redact_sensitive_value k v) = redact_sensitive_value k v"
  by (rule redact_concealed) (rule concealed_redact)

lemma keys_dict_set: "fst ` set (dict_set d k v) = insert k (fst ` set d)"
proof (induction d)
  case (Cons e d)
  then show ?case by (cases e) auto
qed simp

lemma distinct_dict_set: "distinct (map fst d) \<Longrightarrow> distinct (map fst (dict_set d k v))"
proof (induction d)
  case Nil
  then show ?case by simp
next
  case (Cons e d)
  then show ?case using keys_dict_set [of d k v] by (cases e) (auto simp flip: set_map)
qed

lemma distinct_set_fields: "distinct (map fst d) \<Longrightarrow> distinct (map fst (set_fields d kvs))"
  by (induction d kvs rule: set_fields.induct) (auto intro: distinct_dict_set)

lemma set_dict_set: "set (dict_set d k v) \<subseteq> insert (k, v) (set d)"
proof (induction d)
  case (Cons e d)
  then show ?case by (cases e) auto
qed simp

lemma set_set_fields: "set (set_fields d kvs) \<subseteq> set d \<union> set kvs"
  by (induction d kvs rule: set_fields.induct) (use set_dict_set in fastforce)+

lemma get_set_fields:
  "distinct (map fst kvs) \<Longrightarrow>
   dict_get (set_fields d kvs) k = (case map_of kvs k of None \<Rightarrow> dict_get d k | Some v \<Rightarrow> Some v)"
proof (induction d kvs rule: set_fields.induct)
  case (2 d k' v kvs)
  then have "map_of kvs k' = None" by (simp add: map_of_eq_None_iff)
  then show ?case using 2 by (simp add: dict_get_set split: option.split)
qed simp

lemma payload_entries:
  "(k, v) \<in> set (build_log_payload isoformat r) \<Longrightarrow>
     (k, v) \<in> {(''timestamp'', PStr (isoformat (lr_created r))), (''level'', PStr (lr_levelname r)),
        (''logger'', PStr (lr_name r)), (''message'', PStr (lr_message r))} \<or> concealed k v"
  unfolding build_log_payload_def
  by (drule subsetD [OF set_set_fields], elim UnE, drule subsetD [OF set_set_fields])
    (auto simp: concealed_redact)

lemma distinct_payload: "distinct (map fst (build_log_payload isoformat r))"
  unfolding build_log_payload_def by (intro distinct_set_fields) simp

section \<open>One event per line\<close>

definition printable :: "string \<Rightarrow> bool" where
  "printable s \<longleftrightarrow> (\<forall>c \<in> set s. 32 \<le> (of_char c :: nat) \<and> (of_char c :: nat) < 127)"

text \<open>Numbers print as printable characters; every other value prints so in any case.\<close>

fun loggable :: "pyval \<Rightarrow> bool" where
  "loggable (PFloat l) \<longleftrightarrow> printable l"
| "loggable (PList vs) \<longleftrightarrow> list_all loggable vs"
| "loggable (PDict kvs) \<longleftrightarrow> list_all (\<lambda>(k, v). loggable v) kvs"
| "loggable v \<longleftrightarrow> True"

lemma printable_append [simp]: "printable (s @ t) \<longleftrightarrow> printable s \<and> printable t"
  by (auto simp: printable_def)

lemma printable_basic [simp]:
  "printable []" "printable (c # s) \<longleftrightarrow> 32 \<le> (of_char c :: nat) \<and> (of_char c :: nat) < 127 \<and> printable s"
  by (auto simp: printable_def)

lemma printable_concat: "(\<And>s. s \<in> set ss \<Longrightarrow> printable s) \<Longrightarrow> printable (concat ss)"
  by (induction ss) simp_all

lemma printable_join: "printable sep \<Longrightarrow> (\<And>s. s \<in> set ss \<Longrightarrow> printable s) \<Longrightarrow> printable (join sep ss)"
  by (induction sep ss rule: join.induct) simp_all

lemma printable_show_nat: "printable (show_nat n)"
  using show_nat_digits [of n] by (auto simp: printable_def list_all_iff is_digit_def Let_def)

lemma printable_show_int: "printable (show_int i)"
  by (simp add: show_int_def printable_show_nat)

lemma printable_hex_char: "d < 16 \<Longrightarrow> 32 \<le> (of_char (hex_char d) :: nat) \<and> (of_char (hex_char d) :: nat) < 127"
  by (simp add: hex_char_def)

lemma printable_quoted: "printable (quoted s)"
proof -
  have "printable (escape_char c)" for c
  proof -
    have "(of_char c :: nat) < 256" by simp
    then have "(of_char c :: nat) div 16 < 16" by linarith
    then show ?thesis
      by (simp add: escape_char_def Let_def printable_hex_char quote_char_def backslash_def)
  qed
  then show ?thesis by (auto simp: quoted_def quote_char_def intro!: printable_concat)
qed

lemma printable_dumps: "loggable v \<Longrightarrow> printable (dumps v)"
proof (induction v)
  case (PList vs)
  then show ?case by (auto simp: list_all_iff intro!: printable_join)
next
  case (PDict kvs)
  have "printable (quoted k @ '': '' @ dumps v)" if "(k, v) \<in> set kvs" for k v
    using PDict that by (fastforce simp: printable_quoted list_all_iff)
  then show ?case by (auto intro!: printable_join)
qed (simp_all add: printable_show_int printable_quoted)

definition loggable_record :: "log_record \<Rightarrow> bool" where
  "loggable_record r \<longleftrightarrow> distinct (map fst (lr_dict r)) \<and> (\<forall>(k, v) \<in> set (lr_dict r). loggable v)"

lemma loggable_redact: "loggable v \<Longrightarrow> loggable (redact_sensitive_value k v)"
  by (auto simp: redact_sensitive_value_def REDACTED_VALUE_def split: pyval.splits)

lemma loggable_fields:
  "list_all (\<lambda>(k, v). loggable v) d \<Longrightarrow> list_all (\<lambda>(k, v). loggable v) kvs \<Longrightarrow>
   list_all (\<lambda>(k, v). loggable v) (set_fields d kvs)"
  using set_set_fields [of d kvs] by (fastforce simp: list_all_iff)

lemma loggable_request_field:
  "\<forall>(k, v) \<in> set (lr_dict r). loggable v \<Longrightarrow> loggable (request_field_value r field)"
  by (auto simp: request_field_value_def dest!: map_of_SomeD split: option.splits pyval.splits)

lemma loggable_payload:
  assumes "\<forall>(k, v) \<in> set (lr_dict r). loggable v"
  shows "loggable (PDict (build_log_payload isoformat r))"
proof -
  have "list_all (\<lambda>(k, v). loggable v) (map (\<lambda>field.
      (field, redact_sensitive_value field (request_field_value r field))) REQUEST_LOG_FIELDS)"
    by (simp add: list_all_iff loggable_redact loggable_request_field [OF assms])
  moreover have "list_all (\<lambda>(k, v). loggable v) (map (\<lambda>(k, v). (k, redact_sensitive_value k v))
      (filter (\<lambda>(k, v). k \<notin> set STANDARD_LOG_RECORD_FIELDS \<and> k \<notin> set REQUEST_LOG_FIELDS) (lr_dict r)))"
    using assms by (auto simp: list_all_iff loggable_redact)
  ultimately show ?thesis unfolding build_log_payload_def loggable.simps
    by (intro loggable_fields) simp_all
qed

lemma filter_loggable:
  "\<forall>(k, v) \<in> set (lr_dict r). loggable v \<Longrightarrow> \<forall>(k, v) \<in> set (lr_dict (sensitive_data_filter r)). loggable v"
  by (auto simp: sensitive_data_filter_def intro!: loggable_redact)

lemma fill_loggable:
  "\<forall>(k, v) \<in> set (lr_dict r). loggable v \<Longrightarrow> \<forall>(k, v) \<in> set (lr_dict (fill_request_fields r)). loggable v"
  using loggable_fields [of "lr_dict r"
      "map (\<lambda>field. (field, PStr ''-'')) (filter (\<lambda>field. dict_get (lr_dict r) field = None) REQUEST_LOG_FIELDS)"]
  by (auto simp: fill_request_fields_def list_all_iff)

text \<open>A field that is no attribute of every record arrives with the value redaction leaves.\<close>

lemma map_of_redacted:
  "k \<notin> set STANDARD_LOG_RECORD_FIELDS \<Longrightarrow>
   map_of (lr_dict (sensitive_data_filter r)) k = map_option (redact_sensitive_value k) (map_of (lr_dict r) k)"
proof -
  have "map_of (map (\<lambda>(k, v). (k, if k \<in> set STANDARD_LOG_RECORD_FIELDS then v else redact_sensitive_value k v)) d) k =
      map_option (redact_sensitive_value k) (map_of d k)" if "k \<notin> set STANDARD_LOG_RECORD_FIELDS" for d
    using that by (induction d) auto
  then show "k \<notin> set STANDARD_LOG_RECORD_FIELDS \<Longrightarrow> ?thesis" by (simp add: sensitive_data_filter_def)
qed

lemma dict_get_fill:
  "dict_get (lr_dict (fill_request_fields r)) k =
     (if k \<in> set REQUEST_LOG_FIELDS \<and> dict_get (lr_dict r) k = None then Some (PStr ''-'') else dict_get (lr_dict r) k)"
proof -
  have d: "distinct (map fst (map (\<lambda>field. (field, PStr ''-''))
      (filter (\<lambda>field. dict_get (lr_dict r) field = None) REQUEST_LOG_FIELDS)))"
    by (simp add: comp_def REQUEST_LOG_FIELDS_def)
  show ?thesis
    by (auto simp: fill_request_fields_def get_set_fields [OF d] map_of_map_restrict restrict_map_def)
qed

lemma map_of_filtered: "P k \<Longrightarrow> map_of (map (\<lambda>(k, v). (k, f k v)) (filter (\<lambda>(k, v). P k) d)) k = map_option (f k) (map_of d k)"
  by (induction d) auto

lemma payload_extra:
  assumes "distinct (map fst (lr_dict r))" "k \<notin> set STANDARD_LOG_RECORD_FIELDS" "k \<notin> set REQUEST_LOG_FIELDS"
    and "dict_get (lr_dict r) k = Some v"
  shows "dict_get (build_log_payload isoformat r) k = Some (redact_sensitive_value k v)"
proof -
  let ?kvs = "map (\<lambda>(k, v). (k, redact_sensitive_value k v))
      (filter (\<lambda>(k, v). k \<notin> set STANDARD_LOG_RECORD_FIELDS \<and> k \<notin> set REQUEST_LOG_FIELDS) (lr_dict r))"
  have "distinct (map fst ?kvs)"
    using assms(1) by (simp add: comp_def case_prod_unfold distinct_map_filter)
  moreover have "map_of ?kvs k = Some (redact_sensitive_value k v)"
    using assms map_of_filtered [where P = "\<lambda>k. k \<notin> set STANDARD_LOG_RECORD_FIELDS \<and> k \<notin> set REQUEST_LOG_FIELDS"
        and f = redact_sensitive_value] by simp
  ultimately show ?thesis by (simp add: build_log_payload_def get_set_fields)
qed

lemma distinct_filter_dict: "distinct (map fst (lr_dict (sensitive_data_filter r))) \<longleftrightarrow> distinct (map fst (lr_dict r))"
  by (simp add: sensitive_data_filter_def comp_def case_prod_unfold)

lemma distinct_fill_dict: "distinct (map fst (lr_dict r)) \<Longrightarrow> distinct (map fst (lr_dict (fill_request_fields r)))"
  by (simp add: fill_request_fields_def distinct_set_fields)


definition example_record :: log_record where
  "example_record = \<lparr>lr_created = 0, lr_levelname = ''INFO'', lr_name = ''app.email'',
     lr_message = ''password_reset_email_sent'', lr_exc_text = [],
     lr_dict = [(''name'', PStr ''app.email''), (''Recipient'', PStr ''u''), (''note'', PStr ''to a@b.c''), (''path'', PStr ''/x'')]\<rparr>"


text \<open>The JSON format drops the traceback of \<open>logger.exception\<close>.\<close>

lemma json_log_without_traceback:
  "emit \<lparr>ls_json = True, ls_level = level\<rparr> isoformat asctime str (r\<lparr>lr_exc_text := t\<rparr>) =
   emit \<lparr>ls_json = True, ls_level = level\<rparr> isoformat asctime str (r\<lparr>lr_exc_text := u\<rparr>)"
proof -
  have "build_log_payload isoformat (fill_request_fields (sensitive_data_filter (r\<lparr>lr_exc_text := x\<rparr>))) =
      build_log_payload isoformat (fill_request_fields (sensitive_data_filter r))" for x
    by (simp add: build_log_payload_def fill_request_fields_def sensitive_data_filter_def request_field_value_def
        cong: if_cong)
  then show ?thesis by (simp add: emit_def json_log_format_def)
qed

text \<open>
  The text format writes the decoded path as it is: a line break in the path of a request starts a line of
  the log with a content of the client's choice.
\<close>

lemma text_log_forged_line:
  assumes "dict_get (lr_dict r) ''path'' = Some (PStr (p @ [CHR 0x0A] @ forged))"
    and "\<not> email_search (p @ [CHR 0x0A] @ forged)" and "\<And>s. str (PStr s) = s"
  shows "\<exists>a b. emit \<lparr>ls_json = False, ls_level = level\<rparr> isoformat asctime str r = a @ [CHR 0x0A] @ forged @ b"
proof -
  let ?r = "fill_request_fields (sensitive_data_filter r)"
  have "dict_get (lr_dict ?r) ''path'' = Some (PStr (p @ [CHR 0x0A] @ forged))"
    using assms(1,2)
    by (simp add: dict_get_fill map_of_redacted STANDARD_LOG_RECORD_FIELDS_def redact_sensitive_value_def
        lower_def lower_char_def SENSITIVE_FIELD_NAMES_def)
  note path = this
  let ?f = "\<lambda>k. case dict_get (lr_dict ?r) k of None \<Rightarrow> [] | Some v \<Rightarrow> str v"
  have line: "text_line asctime str ?r =
      (asctime (lr_created ?r) @ '' '' @ lr_levelname ?r @ '' '' @ lr_name ?r @ '' request_id='' @ ?f ''request_id''
        @ '' method='' @ ?f ''method'' @ '' path='' @ p) @ [CHR 0x0A] @ forged @ '' status='' @ ?f ''status_code''
        @ '' process_time='' @ ?f ''process_time'' @ '' job_id='' @ ?f ''job_id'' @ '' job_type='' @ ?f ''job_type''
        @ '' message='' @ lr_message ?r @ (if lr_exc_text ?r = [] then [] else [CHR 0x0A] @ lr_exc_text ?r)"
    unfolding text_line_def Let_def path option.case assms(3) append_assoc ..
  have "emit \<lparr>ls_json = False, ls_level = level\<rparr> isoformat asctime str r = text_line asctime str ?r"
    by (simp add: emit_def request_log_format_def Let_def)
  then show ?thesis unfolding line by (intro exI)
qed

end
