(* ===== verification/Ids.thy ===== *)
theory Ids
  imports Py_Text "HOL-Library.Word"
begin

text \<open>
  Identifiers of requests and jobs (\<open>app/core/ids.py\<close>). A UUID is the integer of its 128 bits. The clock
  reading in nanoseconds and the two random draws are arguments; where the interpreter has a
  \<open>uuid.uuid7\<close> of its own, its result is the argument \<open>stdlib_uuid7\<close>.
\<close>

unbundle bit_operations_syntax

section \<open>Generation\<close>

definition uuid7 :: "int option \<Rightarrow> int \<Rightarrow> int \<Rightarrow> int \<Rightarrow> int" where
  "uuid7 stdlib_uuid7 time_ns random_a random_b = (case stdlib_uuid7 of
       Some u \<Rightarrow> u
     | None \<Rightarrow>
         let timestamp_ms = (time_ns div 1000000) AND (push_bit 48 1 - 1)
         in push_bit 80 timestamp_ms OR push_bit 76 0x7 OR push_bit 64 random_a OR push_bit 62 2
              OR random_b)"

text \<open>\<open>str(uuid)\<close>: 32 hexadecimal digits in groups of 8, 4, 4, 4 and 12.\<close>

fun hex_digits :: "nat \<Rightarrow> int \<Rightarrow> string" where
  "hex_digits 0 n = []"
| "hex_digits (Suc k) n = hex_digits k (n div 16) @ [hex_char (nat (n mod 16))]"

definition uuid_text :: "int \<Rightarrow> string" where
  "uuid_text u = (let h = hex_digits 32 u in
     take 8 h @ ''-'' @ take 4 (drop 8 h) @ ''-'' @ take 4 (drop 12 h) @ ''-'' @ take 4 (drop 16 h)
       @ ''-'' @ drop 20 h)"

section \<open>Fields\<close>

definition uuid_version :: "int \<Rightarrow> int" where
  "uuid_version u = drop_bit 76 u AND 0xF"

definition uuid_variant :: "int \<Rightarrow> int" where
  "uuid_variant u = drop_bit 62 u AND 3"

definition uuid_time_ms :: "int \<Rightarrow> int" where
  "uuid_time_ms u = drop_bit 80 u"

lemma push_bit_or_low:
  fixes a b :: int
  assumes "0 \<le> b" "b < 2 ^ n"
  shows "push_bit n a OR b = a * 2 ^ n + b"
proof -
  have "\<not> bit (push_bit n a) m \<or> \<not> bit b m" for m
  proof (cases "m < n")
    case True
    then show ?thesis by (simp add: bit_push_bit_iff)
  next
    case False
    have "b div 2 ^ m = 0"
      using assms False by (intro div_pos_pos_trivial) (auto intro: less_le_trans power_increasing)
    then show ?thesis by (simp add: bit_iff_odd)
  qed
  then have "push_bit n a + b = push_bit n a OR b"
    by (simp add: disjunctive_add)
  then show ?thesis by (simp add: push_bit_eq_mult)
qed

lemma low_and_mask: "(t :: int) AND (push_bit n 1 - 1) = t mod 2 ^ n"
  by (simp add: push_bit_eq_mult take_bit_eq_mask [symmetric] mask_eq_exp_minus_1 [symmetric] take_bit_eq_mod)

text \<open>The fields do not overlap, so the value is their sum.\<close>

lemma uuid7_sum:
  assumes "0 \<le> random_a" "random_a < 2 ^ 12" "0 \<le> random_b" "random_b < 2 ^ 62"
  shows "uuid7 None time_ns random_a random_b =
    (time_ns div 1000000 mod 2 ^ 48) * 2 ^ 80 + 7 * 2 ^ 76 + random_a * 2 ^ 64 + 2 * 2 ^ 62 + random_b"
proof -
  let ?t = "time_ns div 1000000 mod 2 ^ 48"
  have b: "push_bit 62 2 OR random_b = 2 * 2 ^ 62 + random_b"
    using assms by (intro push_bit_or_low) simp_all
  have a: "push_bit 64 random_a OR (2 * 2 ^ 62 + random_b) = random_a * 2 ^ 64 + (2 * 2 ^ 62 + random_b)"
    using assms by (intro push_bit_or_low) simp_all
  have v: "push_bit 76 7 OR (random_a * 2 ^ 64 + (2 * 2 ^ 62 + random_b)) =
      7 * 2 ^ 76 + (random_a * 2 ^ 64 + (2 * 2 ^ 62 + random_b))"
    using assms by (intro push_bit_or_low) simp_all
  have t: "push_bit 80 ?t OR (7 * 2 ^ 76 + (random_a * 2 ^ 64 + (2 * 2 ^ 62 + random_b))) =
      ?t * 2 ^ 80 + (7 * 2 ^ 76 + (random_a * 2 ^ 64 + (2 * 2 ^ 62 + random_b)))"
    using assms by (intro push_bit_or_low) simp_all
  have "uuid7 None time_ns random_a random_b =
      push_bit 80 ?t OR (push_bit 76 7 OR (push_bit 64 random_a OR (push_bit 62 2 OR random_b)))"
    unfolding uuid7_def low_and_mask Let_def option.case by (simp only: or.assoc)
  also have "\<dots> = ?t * 2 ^ 80 + (7 * 2 ^ 76 + (random_a * 2 ^ 64 + (2 * 2 ^ 62 + random_b)))"
    by (simp only: b a v t)
  finally show ?thesis by simp
qed

lemma uuid7_fields:
  fixes time_ns :: int
  assumes r: "0 \<le> random_a" "random_a < 2 ^ 12" "0 \<le> random_b" "random_b < 2 ^ 62"
  defines "u \<equiv> uuid7 None time_ns random_a random_b"
  shows "0 \<le> u" and "u < 2 ^ 128" and "uuid_version u = 7" and "uuid_variant u = 2"
    and "uuid_time_ms u = time_ns div 1000000 mod 2 ^ 48"
proof -
  define t where "t = time_ns div 1000000 mod 2 ^ 48"
  have t: "0 \<le> t" "t < 2 ^ 48" by (simp_all add: t_def)
  have u: "u = t * 2 ^ 80 + 7 * 2 ^ 76 + random_a * 2 ^ 64 + 2 * 2 ^ 62 + random_b"
    unfolding u_def t_def by (rule uuid7_sum) fact+
  show "0 \<le> u" "u < 2 ^ 128" using r t unfolding u by simp_all
  have "u div 2 ^ 76 = t * 16 + 7" using r t unfolding u by simp
  then show "uuid_version u = 7"
    using low_and_mask [of "t * 16 + 7" 4] by (simp add: uuid_version_def drop_bit_eq_div)
  have "u div 2 ^ 62 = (t * 2 ^ 16 + 7 * 2 ^ 12 + random_a) * 4 + 2" using r t unfolding u by simp
  then show "uuid_variant u = 2"
    using low_and_mask [of "u div 2 ^ 62" 2]
    by (simp add: uuid_variant_def drop_bit_eq_div del: distrib_right_numeral)
  show "uuid_time_ms u = time_ns div 1000000 mod 2 ^ 48"
    using r t unfolding u by (simp add: uuid_time_ms_def drop_bit_eq_div t_def)
qed

text \<open>Identifiers of a later millisecond are larger, whatever is drawn.\<close>

lemma uuid7_ordered:
  assumes "0 \<le> a" "a < 2 ^ 12" "0 \<le> b" "b < 2 ^ 62" "0 \<le> a'" "a' < 2 ^ 12" "0 \<le> b'" "b' < 2 ^ 62"
    and "0 \<le> t" "t div 1000000 < t' div 1000000" "t' div 1000000 < 2 ^ 48"
  shows "uuid7 None t a b < uuid7 None t' a' b'"
  using assms by (simp add: uuid7_sum)

section \<open>Text\<close>

lemma length_hex_digits [simp]: "length (hex_digits k n) = k"
  by (induction k arbitrary: n) simp_all

lemma hex_char_inj: "d < 16 \<Longrightarrow> d' < 16 \<Longrightarrow> hex_char d = hex_char d' \<longleftrightarrow> d = d'"
  by (metis hex_val_hex_char option.inject)

lemma hex_digits_inj:
  "0 \<le> m \<Longrightarrow> m < 16 ^ k \<Longrightarrow> 0 \<le> n \<Longrightarrow> n < 16 ^ k \<Longrightarrow> hex_digits k m = hex_digits k n \<Longrightarrow> m = n"
proof (induction k arbitrary: m n)
  case 0
  then show ?case by simp
next
  case (Suc k)
  have "m div 16 = n div 16"
    using Suc.prems by (intro Suc.IH) (auto simp: pos_imp_zdiv_nonneg_iff)
  moreover have "m mod 16 = n mod 16"
    using Suc.prems hex_char_inj [of "nat (m mod 16)" "nat (n mod 16)"]
    by (simp add: nat_less_iff eq_nat_nat_iff)
  ultimately show ?case by (metis div_mult_mod_eq)
qed

lemma uuid_text_slices:
  "hex_digits 32 u = take 8 (uuid_text u) @ take 4 (drop 9 (uuid_text u)) @ take 4 (drop 14 (uuid_text u))
     @ take 4 (drop 19 (uuid_text u)) @ drop 24 (uuid_text u)"
proof -
  have "\<exists>x. x = hex_digits 32 u \<and> length x = 32" by simp
  then obtain x where x: "x = hex_digits 32 u" "length x = 32" by blast
  have d: "drop m x = take k (drop m x) @ drop (m + k) x" for m k
    by (metis append_take_drop_id drop_drop add.commute)
  have "x = take 8 x @ drop 8 x" by simp
  also have "drop 8 x = take 4 (drop 8 x) @ drop 12 x" by (rule d [of 8 4, simplified])
  also have "drop 12 x = take 4 (drop 12 x) @ drop 16 x" by (rule d [of 12 4, simplified])
  also have "drop 16 x = take 4 (drop 16 x) @ drop 20 x" by (rule d [of 16 4, simplified])
  finally have e: "x = take 8 x @ take 4 (drop 8 x) @ take 4 (drop 12 x) @ take 4 (drop 16 x) @ drop 20 x" .
  have r: "take 8 (uuid_text u) @ take 4 (drop 9 (uuid_text u)) @ take 4 (drop 14 (uuid_text u))
      @ take 4 (drop 19 (uuid_text u)) @ drop 24 (uuid_text u) =
      take 8 x @ take 4 (drop 8 x) @ take 4 (drop 12 x) @ take 4 (drop 16 x) @ drop 20 x"
    using x(2) by (simp add: uuid_text_def Let_def x(1) [symmetric])
  show ?thesis unfolding r x(1) [symmetric] by (rule e)
qed

lemma length_uuid_text: "length (uuid_text u) = 36"
  by (simp add: uuid_text_def Let_def)

lemma uuid_text_inj:
  "0 \<le> u \<Longrightarrow> u < 2 ^ 128 \<Longrightarrow> 0 \<le> v \<Longrightarrow> v < 2 ^ 128 \<Longrightarrow> uuid_text u = uuid_text v \<Longrightarrow> u = v"
  by (rule hex_digits_inj [of _ 32]) (simp_all add: uuid_text_slices)

end
