(* ===== verification/Pipeline.thy ===== *)
theory Pipeline
  imports Metrics Logging Ids Worker
begin

text \<open>
  The request pipeline: \<open>app/core/middleware.py\<close>, \<open>app/core/request_context.py\<close>,
  \<open>app/core/security_headers.py\<close>, \<open>app/core/runtime.py\<close>, \<open>app/core/error_tracking.py\<close>,
  \<open>app/db/pool_config.py\<close> and the assembly in \<open>app/main.py\<close>.

  An ASGI application is an operation on a \<open>conn\<close>: the scope of the request, the messages handed to the
  server so far and the process. A middleware is a function on applications. The middleware classes of
  Starlette and the router with its exception handlers are parameters, the record \<open>framework\<close>; what the
  sources rely on is stated in the locale \<open>asgi_framework\<close>. Readings of the clock, fresh identifiers and the
  rendering of numbers are arguments.
\<close>

section \<open>Connections\<close>

type_synonym http_headers = "(string \<times> string) list"

datatype asgi_message = Response_start int http_headers | Response_body string

record http_scope =
  sc_type :: string
  sc_headers :: http_headers
  sc_method :: "string option"
  sc_path :: "string option"
  sc_request_id :: "string option"
  sc_route :: "string option option"

text \<open>\<open>sc_route\<close> is what routing stores: nothing, or a route object with or without a path template.\<close>

record ('r, 'm) api_process =
  ap_world :: "'r world"
  ap_shutdown :: shutdown_state
  ap_metrics :: "'m metrics"
  request_id_var :: "string option"
  ap_log :: "(string \<times> pydict) list"
  ap_sentry_tags :: "(string \<times> string) list"

record ('r, 'm) conn =
  cn_scope :: http_scope
  cn_sent :: "asgi_message list"
  cn_process :: "('r, 'm) api_process"

type_synonym ('r, 'm) asgi_app = "(('r, 'm) conn, unit) action"
type_synonym ('r, 'm) layer = "('r, 'm) asgi_app \<Rightarrow> ('r, 'm) asgi_app"

definition on_process :: "(('r, 'm) api_process \<Rightarrow> ('r, 'm) api_process) \<Rightarrow> ('r, 'm) asgi_app" where
  "on_process f c = (Inr (), c\<lparr>cn_process := f (cn_process c)\<rparr>)"

text \<open>A middleware that hands the application a \<open>send\<close> of its own.\<close>

definition with_send :: "(asgi_message list \<Rightarrow> asgi_message list) \<Rightarrow> ('r, 'm) layer" where
  "with_send f app c = (case app (c\<lparr>cn_sent := []\<rparr>) of
       (res, c') \<Rightarrow> (res, c'\<lparr>cn_sent := cn_sent c @ f (cn_sent c')\<rparr>))"

fun map_start :: "(http_headers \<Rightarrow> http_headers) \<Rightarrow> asgi_message \<Rightarrow> asgi_message" where
  "map_start g (Response_start s hs) = Response_start s (g hs)"
| "map_start g (Response_body b) = Response_body b"

section \<open>Request context\<close>

definition get_header :: "http_headers \<Rightarrow> string \<Rightarrow> string option" where
  "get_header headers name = map_option snd (List.find (\<lambda>(k, v). lower k = lower name) headers)"

definition get_request_id :: "('r, 'm) api_process \<Rightarrow> string option" where
  "get_request_id p = request_id_var p"

definition get_route_path :: "http_scope \<Rightarrow> string" where
  "get_route_path scope =
     (let default = (case sc_path scope of None \<Rightarrow> ''unknown'' | Some p \<Rightarrow> p)
      in case sc_route scope of Some (Some template) \<Rightarrow> template | _ \<Rightarrow> default)"

text \<open>What one request reads of its surroundings: the clock at its start, at each message and at its end.\<close>

record request_env =
  re_start :: rat
  re_clock_at :: "nat \<Rightarrow> rat"
  re_end :: rat
  re_uuid :: int
  re_show :: "rat \<Rightarrow> string"

definition choose_request_id :: "request_env \<Rightarrow> http_headers \<Rightarrow> string" where
  "choose_request_id env headers = (case get_header headers ''X-Request-ID'' of
       Some (c # cs) \<Rightarrow> c # cs
     | _ \<Rightarrow> uuid_text (re_uuid env))"

fun send_wrapper :: "request_env \<Rightarrow> string \<Rightarrow> nat \<Rightarrow> asgi_message list \<Rightarrow> asgi_message list" where
  "send_wrapper env rid i [] = []"
| "send_wrapper env rid i (m # ms) =
     map_start (\<lambda>hs. hs @ [(''x-request-id'', rid), (''x-process-time'', re_show env (re_clock_at env i - re_start env))]) m
     # send_wrapper env rid (Suc i) ms"

fun last_status :: "int \<Rightarrow> asgi_message list \<Rightarrow> int" where
  "last_status s [] = s"
| "last_status s (Response_start s' hs # ms) = last_status s' ms"
| "last_status s (Response_body b # ms) = last_status s ms"

definition log_request :: "string \<Rightarrow> pydict \<Rightarrow> ('r, 'm) asgi_app" where
  "log_request message extra = on_process (\<lambda>p. p\<lparr>ap_log := ap_log p @ [(message, extra)]\<rparr>)"

definition enter_request :: "string \<Rightarrow> ('r, 'm) conn \<Rightarrow> ('r, 'm) conn" where
  "enter_request rid c = c\<lparr>cn_scope := (cn_scope c)\<lparr>sc_request_id := Some rid\<rparr>,
     cn_process := (cn_process c)\<lparr>request_id_var := Some rid,
       ap_sentry_tags := (''request_id'', rid) # ap_sentry_tags (cn_process c),
       ap_world := snd (clear_tenant_context (ap_world (cn_process c))),
       ap_shutdown := increment_in_flight_requests (ap_shutdown (cn_process c))\<rparr>\<rparr>"

definition leave_request :: "string option \<Rightarrow> ('r, 'm) asgi_app" where
  "leave_request previous_id = on_process (\<lambda>p. p\<lparr>request_id_var := previous_id,
     ap_shutdown := decrement_in_flight_requests (ap_shutdown p)\<rparr>)"

definition on_metrics :: "('m, unit) metrics_action \<Rightarrow> ('r, 'm) asgi_app" where
  "on_metrics f c = (case f (ap_metrics (cn_process c)) of
       (res, m) \<Rightarrow> (res, c\<lparr>cn_process := (cn_process c)\<lparr>ap_metrics := m\<rparr>\<rparr>))"

text \<open>Scrapes of the metrics are not counted themselves.\<close>

definition count_request ::
  "('m, 'z) prometheus_scheme \<Rightarrow> settings \<Rightarrow> string \<Rightarrow> string \<Rightarrow> int \<Rightarrow> rat \<Rightarrow> ('r, 'm) asgi_app" where
  "count_request P cfg meth path status_code process_time c =
     (if path \<noteq> ''/metrics''
      then on_metrics (observe_request P cfg meth (get_route_path (cn_scope c)) status_code process_time) c
      else noop c)"

text \<open>The application with the wrapped \<open>send\<close>; the value is the status the middleware has seen.\<close>

definition serve_wrapped :: "request_env \<Rightarrow> string \<Rightarrow> ('r, 'm) asgi_app \<Rightarrow> (('r, 'm) conn, int) action" where
  "serve_wrapped env rid app c = (case app (c\<lparr>cn_sent := []\<rparr>) of
       (res, c') \<Rightarrow> (and_then res (\<lambda>_. Inr (last_status 500 (cn_sent c'))),
                   c'\<lparr>cn_sent := cn_sent c @ send_wrapper env rid 0 (cn_sent c')\<rparr>))"

definition RequestContextMiddleware ::
  "('m, 'z) prometheus_scheme \<Rightarrow> settings \<Rightarrow> request_env \<Rightarrow> ('r, 'm) layer" where
  "RequestContextMiddleware P cfg env app c =
     (if sc_type (cn_scope c) \<noteq> ''http'' then app c
      else
        let rid = choose_request_id env (sc_headers (cn_scope c));
            meth = (case sc_method (cn_scope c) of None \<Rightarrow> ''GET'' | Some m \<Rightarrow> m);
            path = (case sc_path (cn_scope c) of None \<Rightarrow> [] | Some p \<Rightarrow> p);
            extra = [(''request_id'', PStr rid), (''method'', PStr meth), (''path'', PStr path)];
            process_time = re_end env - re_start env
        in finally_do
             (run_then (log_request ''request_started'' extra) (\<lambda>_.
              run_then (serve_wrapped env rid app) (\<lambda>status_code.
              run_then (count_request P cfg meth path status_code process_time) (\<lambda>_.
              log_request ''request_finished''
                (extra @ [(''status_code'', PInt status_code), (''process_time'', PFloat (re_show env process_time))])))))
             (leave_request (request_id_var (cn_process c)))
             (enter_request rid c))"

section \<open>Security headers\<close>

definition setdefault_header :: "string \<Rightarrow> string \<Rightarrow> http_headers \<Rightarrow> http_headers" where
  "setdefault_header k v hs = (if lower k \<in> fst ` set hs then hs else hs @ [(lower k, v)])"

definition security_dispatch :: "bool \<Rightarrow> int \<Rightarrow> http_headers \<Rightarrow> http_headers" where
  "security_dispatch hsts max_age hs =
     (let hs1 = setdefault_header ''X-Content-Type-Options'' ''nosniff'' hs;
          hs2 = setdefault_header ''X-Frame-Options'' ''DENY'' hs1;
          hs3 = setdefault_header ''Referrer-Policy'' ''no-referrer'' hs2;
          hs4 = setdefault_header ''Permissions-Policy'' ''geolocation=(), microphone=(), camera=()'' hs3
      in if hsts
         then setdefault_header ''Strict-Transport-Security'' (''max-age='' @ show_int max_age @ ''; includeSubDomains'') hs4
         else hs4)"

section \<open>Assembly\<close>

record ('r, 'm) framework =
  fw_respond :: "response \<Rightarrow> asgi_message list"
  fw_base_http :: "(http_headers \<Rightarrow> http_headers) \<Rightarrow> ('r, 'm) layer"
  fw_cors :: "string list \<Rightarrow> bool \<Rightarrow> string list \<Rightarrow> string list \<Rightarrow> ('r, 'm) layer"
  fw_trusted_host :: "string list \<Rightarrow> ('r, 'm) layer"
  fw_server_error :: "(exn \<Rightarrow> response) \<Rightarrow> ('r, 'm) layer"
  fw_exceptions :: "(exn \<Rightarrow> response) \<Rightarrow> ('r, 'm) layer"

text \<open>\<open>app.add_middleware\<close> puts a middleware in front of those added before.\<close>

definition add_middleware :: "('r, 'm) layer \<Rightarrow> ('r, 'm) layer list \<Rightarrow> ('r, 'm) layer list" where
  "add_middleware l ls = l # ls"

definition configure_runtime_middleware ::
  "('r, 'm, 'y) framework_scheme \<Rightarrow> settings \<Rightarrow> ('r, 'm) layer list \<Rightarrow> ('r, 'm) layer list" where
  "configure_runtime_middleware F cfg ls =
     (let ls1 = (if security_headers_enabled cfg
            then add_middleware (fw_base_http F (security_dispatch (hsts_enabled cfg) (hsts_max_age_seconds cfg))) ls
            else ls);
          ls2 = (if cors_enabled cfg
            then add_middleware (fw_cors F (cors_origins_list cfg) (cors_allow_credentials cfg)
                   (cors_methods_list cfg) (cors_headers_list cfg)) ls1
            else ls1)
      in if trusted_hosts_enabled cfg
         then add_middleware (fw_trusted_host F (trusted_hosts_list cfg)) ls2
         else ls2)"

definition application ::
  "('r, 'm, 'y) framework_scheme \<Rightarrow> ('m, 'z) prometheus_scheme \<Rightarrow> settings \<Rightarrow> request_env \<Rightarrow> ('r, 'm) asgi_app \<Rightarrow> ('r, 'm) asgi_app" where
  "application F P cfg env router =
     fw_server_error F (\<lambda>_. unhandled_exception_handler)
       (foldr (\<lambda>l app. l app)
          (configure_runtime_middleware F cfg (add_middleware (RequestContextMiddleware P cfg env) []))
          (fw_exceptions F handle_exn router))"

section \<open>Start and end of the process\<close>

definition describe_db_pool_configuration :: "settings \<Rightarrow> (string \<times> int) list" where
  "describe_db_pool_configuration cfg =
     [(''pool_size'', db_pool_size cfg), (''max_overflow'', db_max_overflow cfg),
      (''max_connections_per_process'', db_pool_size cfg + db_max_overflow cfg)]"

definition log_db_pool_configuration :: "settings \<Rightarrow> string" where
  "log_db_pool_configuration cfg =
     (let pool_config = (\<lambda>k. case map_of (describe_db_pool_configuration cfg) k of Some n \<Rightarrow> show_int n | None \<Rightarrow> [])
      in ''db_pool_configured pool_size='' @ pool_config ''pool_size'' @ '' max_overflow='' @ pool_config ''max_overflow''
       @ '' max_connections_per_process='' @ pool_config ''max_connections_per_process''
       @ '' max_postgres_connections_formula=''
       @ ''api_workers_or_replicas*(pool_size+max_overflow)+worker_headroom'')"

definition lifespan_shutdown ::
  "settings \<Rightarrow> time \<Rightarrow> (time \<times> shutdown_state) list \<Rightarrow> wait_outcome option" where
  "lifespan_shutdown cfg start passes =
     wait_for_in_flight_requests (\<lfloor>api_shutdown_grace_seconds cfg * of_int second\<rfloor>) start passes"

text \<open>The options of the database engine; \<open>eng_options\<close> are libpq options for every connection.\<close>

record engine_options =
  eng_url :: string
  eng_pool_size :: int
  eng_max_overflow :: int
  eng_pool_recycle :: int
  eng_pool_pre_ping :: bool
  eng_pool_timeout :: int
  eng_options :: "string option"

definition build_engine :: "settings \<Rightarrow> string option \<Rightarrow> engine_options" where
  "build_engine cfg url =
     \<lparr>eng_url = (case url of Some (c # cs) \<Rightarrow> c # cs | _ \<Rightarrow> database_url cfg),
      eng_pool_size = db_pool_size cfg, eng_max_overflow = db_max_overflow cfg,
      eng_pool_recycle = db_pool_recycle_seconds cfg, eng_pool_pre_ping = db_pool_pre_ping cfg,
      eng_pool_timeout = db_pool_timeout_seconds cfg,
      eng_options = (if db_statement_timeout_ms cfg > 0
        then Some (''-c statement_timeout='' @ show_int (db_statement_timeout_ms cfg)) else None)\<rparr>"

record sentry_options =
  se_dsn :: string
  se_environment :: string
  se_traces_sample_rate :: rat
  se_send_default_pii :: bool
  se_release :: "string option"

definition initialize_error_tracking :: "settings \<Rightarrow> sentry_options option" where
  "initialize_error_tracking cfg =
     (if sentry_dsn cfg = [] then None
      else Some \<lparr>se_dsn = sentry_dsn cfg, se_environment = environment cfg,
        se_traces_sample_rate = sentry_traces_sample_rate cfg,
        se_send_default_pii = sentry_send_default_pii cfg,
        se_release = (if sentry_release cfg = [] then None else Some (sentry_release cfg))\<rparr>)"

text \<open>\<open>d.setdefault(k, {})\<close> where only a dictionary can be used further.\<close>

definition setdefault_dict :: "pydict \<Rightarrow> string \<Rightarrow> string \<Rightarrow> (exn, pydict) result" where
  "setdefault_dict d k e = (case dict_get d k of
       None \<Rightarrow> Inr [] | Some (PDict v) \<Rightarrow> Inr v | Some _ \<Rightarrow> Inl (Unexpected e))"

definition attach_request_id_to_event :: "string option \<Rightarrow> pydict \<Rightarrow> (exn, pydict) result" where
  "attach_request_id_to_event rid event = (case rid of
       None \<Rightarrow> Inr event
     | Some i \<Rightarrow>
         and_then (setdefault_dict event ''tags'' ''TypeError'') (\<lambda>tags.
         let e1 = dict_set event ''tags'' (PDict (dict_set tags ''request_id'' (PStr i)))
         in and_then (setdefault_dict e1 ''contexts'' ''AttributeError'') (\<lambda>contexts.
            and_then (setdefault_dict contexts ''request'' ''TypeError'') (\<lambda>req.
            Inr (dict_set e1 ''contexts'' (PDict (dict_set contexts ''request''
              (PDict (dict_set req ''request_id'' (PStr i))))))))))"

text \<open>The module \<open>main\<close>: the metrics are configured while it is imported.\<close>

definition start_api ::
  "('r, 'm, 'y) framework_scheme \<Rightarrow> ('m, 'z) prometheus_scheme \<Rightarrow> settings
     \<Rightarrow> ('m, request_env \<Rightarrow> ('r, 'm) asgi_app \<Rightarrow> ('r, 'm) asgi_app) metrics_action" where
  "start_api F P cfg = run_then (configure_metrics P cfg) (\<lambda>_. ret (application F P cfg))"

lemma attach_request_id_keeps:
  "attach_request_id_to_event r event = Inr event' \<Longrightarrow> k \<notin> {''tags'', ''contexts''} \<Longrightarrow>
   dict_get event' k = dict_get event k"
  by (auto simp: attach_request_id_to_event_def and_then_Inr_iff Let_def dict_get_set split: option.splits)

text \<open>With a multi-process directory the import of \<open>main\<close> raises: there is no application.\<close>

lemma start_api_multi_process:
  assumes "prometheus_laws P names sample" and "strip (prometheus_multiproc_dir cfg) \<noteq> []"
  shows "\<exists>e m. start_api F P cfg (fresh_metrics s) = (Inl e, m)"
  using prometheus_laws.configure_multi_process [OF assms, of "fresh_metrics s"]
  by (auto simp: start_api_def fresh_metrics_def)

section \<open>Laws of the framework\<close>

text \<open>
  A plain layer either answers a request on its own, or hands it on once, adding headers to the start of
  the response and letting exceptions through.
\<close>

definition plain_at :: "('r, 'm) conn \<Rightarrow> ('r, 'm) layer \<Rightarrow> bool" where
  "plain_at c l \<longleftrightarrow>
     (\<exists>ms. \<forall>app. l app c = (Inr (), c\<lparr>cn_sent := cn_sent c @ ms\<rparr>))
     \<or> (\<exists>g. (\<forall>hs. set hs \<subseteq> set (g hs)) \<and> (\<forall>app. l app c = with_send (map (map_start g)) app c))"

fun starts_response :: "asgi_message \<Rightarrow> bool" where
  "starts_response (Response_start s hs) = True"
| "starts_response (Response_body b) = False"

locale asgi_framework =
  fixes F :: "('r, 'm, 'z) framework_scheme"
  assumes respond: "\<exists>n b. fw_respond F r =
      [Response_start (resp_status r) [(''content-length'', n), (''content-type'', ''application/json'')], Response_body b]"
    and base_http: "sc_type (cn_scope c) = ''http'' \<Longrightarrow>
      fw_base_http F g app c = with_send (map (map_start g)) app c"
    and cors: "sc_type (cn_scope c) = ''http'' \<Longrightarrow> plain_at c (fw_cors F origins credentials methods headers)"
    and trusted_host: "sc_type (cn_scope c) = ''http'' \<Longrightarrow> plain_at c (fw_trusted_host F hosts)"
    and server_error: "sc_type (cn_scope c) = ''http'' \<Longrightarrow> cn_sent c = [] \<Longrightarrow>
      fw_server_error F h app c = (case app c of
          (Inr u, c') \<Rightarrow> (Inr u, c')
        | (Inl e, c') \<Rightarrow> (Inl e, if list_ex starts_response (cn_sent c') then c'
                                else c'\<lparr>cn_sent := cn_sent c' @ fw_respond F (h e)\<rparr>))"

section \<open>Layers\<close>

lemma map_start_comp: "map_start g (map_start g' m) = map_start (g \<circ> g') m"
  by (cases m) simp_all

lemma map_start_eq: "Response_start s hs = map_start g m \<longleftrightarrow> (\<exists>hs'. m = Response_start s hs' \<and> hs = g hs')"
  by (cases m) auto

lemma with_send_comp:
  "with_send (map (map_start g)) (with_send (map (map_start g')) app) c = with_send (map (map_start (g \<circ> g'))) app c"
  by (simp add: with_send_def map_start_comp split: prod.splits)

text \<open>
  A stack of layers at a connection with nothing sent: it answers on its own, or it hands the request on
  and its answers have all headers of the application's and headers of the given names.
\<close>

definition stack_at :: "string set \<Rightarrow> ('r, 'm) conn \<Rightarrow> ('r, 'm) layer \<Rightarrow> bool" where
  "stack_at ns c L \<longleftrightarrow>
     (\<exists>ms. \<forall>app. L app c = (Inr (), c\<lparr>cn_sent := ms\<rparr>))
     \<or> (\<exists>g. (\<forall>hs. set hs \<subseteq> set (g hs) \<and> ns \<subseteq> fst ` set (g hs)) \<and> (\<forall>app. L app c = with_send (map (map_start g)) app c))"

lemma stack_at_plain:
  assumes l: "plain_at c l" and L: "stack_at ns c L" and c: "cn_sent c = []"
  shows "stack_at ns c (\<lambda>app. l (L app))"
proof -
  have c0: "c\<lparr>cn_sent := []\<rparr> = c" using c by (cases c) simp
  from l consider ms where "\<And>app. l app c = (Inr (), c\<lparr>cn_sent := cn_sent c @ ms\<rparr>)"
    | h where "\<And>hs. set hs \<subseteq> set (h hs)" "\<And>app. l app c = with_send (map (map_start h)) app c"
    unfolding plain_at_def by blast
  then show ?thesis
  proof cases
    case 1
    then show ?thesis unfolding stack_at_def by auto
  next
    case 2
    from L consider ms where "\<And>app. L app c = (Inr (), c\<lparr>cn_sent := ms\<rparr>)"
      | g where "\<And>hs. set hs \<subseteq> set (g hs) \<and> ns \<subseteq> fst ` set (g hs)" "\<And>app. L app c = with_send (map (map_start g)) app c"
      unfolding stack_at_def by blast
    then show ?thesis
    proof cases
      fix ms assume "\<And>app. L app c = (Inr (), c\<lparr>cn_sent := ms\<rparr>)"
      then have "l (L app) c = (Inr (), c\<lparr>cn_sent := map (map_start h) ms\<rparr>)" for app
        by (simp add: 2 with_send_def c0 c)
      then show ?thesis unfolding stack_at_def by blast
    next
      fix g assume g: "\<And>hs. set hs \<subseteq> set (g hs) \<and> ns \<subseteq> fst ` set (g hs)"
        "\<And>app. L app c = with_send (map (map_start g)) app c"
      have "l (L app) c = with_send (map (map_start (h \<circ> g))) app c" for app
      proof -
        have "l (L app) c = with_send (map (map_start h)) (with_send (map (map_start g)) app) c"
          by (simp add: 2 with_send_def g(2) c0)
        then show ?thesis by (simp add: with_send_comp)
      qed
      moreover have "set hs \<subseteq> set ((h \<circ> g) hs) \<and> ns \<subseteq> fst ` set ((h \<circ> g) hs)" for hs
        using g(1) [of hs] 2(1) [of "g hs"] image_mono [OF 2(1) [of "g hs"], of fst] by (simp, blast)
      ultimately show ?thesis unfolding stack_at_def by blast
    qed
  qed
qed

lemma stack_at_none: "cn_sent c = [] \<Longrightarrow> stack_at {} c (\<lambda>app. app)"
proof -
  assume c: "cn_sent c = []"
  have "map_start (\<lambda>hs. hs) m = m" for m by (cases m) simp_all
  then have "app c = with_send (map (map_start (\<lambda>hs. hs))) app c" for app
    using c by (cases c) (simp add: with_send_def map_idI split: prod.split)
  then show ?thesis unfolding stack_at_def by (intro disjI2 exI [of _ "\<lambda>hs. hs"]) simp
qed

lemma set_setdefault: "set hs \<subseteq> set (setdefault_header k v hs)" "lower k \<in> fst ` set (setdefault_header k v hs)"
  by (auto simp: setdefault_header_def)

definition security_header_names :: "string list" where
  "security_header_names = map lower [''X-Content-Type-Options'', ''X-Frame-Options'', ''Referrer-Policy'', ''Permissions-Policy'']"

lemma security_dispatch_adds: "set hs \<subseteq> set (security_dispatch hsts age hs)"
proof -
  have mono: "x \<in> set hs \<Longrightarrow> x \<in> set (setdefault_header k v hs)" for x k v hs
    using set_setdefault(1) by blast
  show ?thesis by (auto simp: security_dispatch_def Let_def mono)
qed

lemma security_dispatch_names: "set security_header_names \<subseteq> fst ` set (security_dispatch hsts age hs)"
proof -
  have mono: "x \<in> fst ` set hs \<Longrightarrow> x \<in> fst ` set (setdefault_header k v hs)" for x k v hs
    using set_setdefault(1) [of hs k v] by blast
  show ?thesis
    unfolding security_dispatch_def Let_def security_header_names_def
    by (auto intro!: mono set_setdefault(2) split: if_splits)
qed

definition runtime_stack :: "('r, 'm, 'y) framework_scheme \<Rightarrow> settings \<Rightarrow> ('r, 'm) layer" where
  "runtime_stack F cfg app = foldr (\<lambda>l a. l a) (configure_runtime_middleware F cfg []) app"

lemma application_stack:
  "application F P cfg env router =
     fw_server_error F (\<lambda>_. unhandled_exception_handler)
       (runtime_stack F cfg (RequestContextMiddleware P cfg env (fw_exceptions F handle_exn router)))"
  by (simp add: application_def runtime_stack_def configure_runtime_middleware_def add_middleware_def Let_def)

context asgi_framework
begin

lemma runtime_stack_at:
  assumes "sc_type (cn_scope c) = ''http''" and c: "cn_sent c = []"
  shows "stack_at (if security_headers_enabled cfg then set security_header_names else {}) c (runtime_stack F cfg)"
proof -
  let ?ns = "if security_headers_enabled cfg then set security_header_names else {}"
  define L1 :: "('r, 'm) layer" where "L1 = (\<lambda>app. if security_headers_enabled cfg
      then fw_base_http F (security_dispatch (hsts_enabled cfg) (hsts_max_age_seconds cfg)) app else app)"
  define L2 :: "('r, 'm) layer" where "L2 = (\<lambda>app. if cors_enabled cfg
      then fw_cors F (cors_origins_list cfg) (cors_allow_credentials cfg) (cors_methods_list cfg) (cors_headers_list cfg) (L1 app)
      else L1 app)"
  define L3 :: "('r, 'm) layer" where "L3 = (\<lambda>app. if trusted_hosts_enabled cfg
      then fw_trusted_host F (trusted_hosts_list cfg) (L2 app) else L2 app)"
  have "stack_at ?ns c L1"
  proof (cases "security_headers_enabled cfg")
    case True
    then show ?thesis
      unfolding stack_at_def L1_def
      by (intro disjI2 exI [of _ "security_dispatch (hsts_enabled cfg) (hsts_max_age_seconds cfg)"])
        (simp add: base_http [OF assms(1)] security_dispatch_adds security_dispatch_names)
  next
    case False
    then show ?thesis using stack_at_none [OF c] by (simp add: L1_def)
  qed
  then have "stack_at ?ns c L2"
    unfolding L2_def by (cases "cors_enabled cfg") (simp_all add: stack_at_plain [OF cors [OF assms(1)] _ c])
  then have "stack_at ?ns c L3"
    unfolding L3_def by (cases "trusted_hosts_enabled cfg") (simp_all add: stack_at_plain [OF trusted_host [OF assms(1)] _ c])
  moreover have "runtime_stack F cfg = L3"
    by (rule ext) (simp add: runtime_stack_def configure_runtime_middleware_def add_middleware_def Let_def L1_def L2_def L3_def)
  ultimately show ?thesis by simp
qed

end

section \<open>One request\<close>

text \<open>The connection the application behind the request context is called on.\<close>

definition begin_request :: "request_env \<Rightarrow> ('r, 'm) conn \<Rightarrow> ('r, 'm) conn" where
  "begin_request env c =
     (let rid = choose_request_id env (sc_headers (cn_scope c));
          meth = (case sc_method (cn_scope c) of None \<Rightarrow> ''GET'' | Some m \<Rightarrow> m);
          path = (case sc_path (cn_scope c) of None \<Rightarrow> [] | Some p \<Rightarrow> p)
      in (snd (log_request ''request_started'' [(''request_id'', PStr rid), (''method'', PStr meth), (''path'', PStr path)]
            (enter_request rid c)))\<lparr>cn_sent := []\<rparr>)"

definition sent_by :: "request_env \<Rightarrow> ('r, 'm) conn \<Rightarrow> asgi_message list \<Rightarrow> asgi_message list" where
  "sent_by env c ms = cn_sent c @ send_wrapper env (choose_request_id env (sc_headers (cn_scope c))) 0 ms"

lemma enter_request_simps [simp]:
  "cn_sent (enter_request rid c) = cn_sent c"
  "sc_headers (cn_scope (enter_request rid c)) = sc_headers (cn_scope c)"
  by (simp_all add: enter_request_def)

lemma serve_wrapped_begin:
  assumes "app (begin_request env c) = (res, c1)"
  defines "rid \<equiv> choose_request_id env (sc_headers (cn_scope c))"
  shows "\<exists>c0. log_request ''request_started''
      [(''request_id'', PStr rid), (''method'', PStr (case sc_method (cn_scope c) of None \<Rightarrow> ''GET'' | Some m \<Rightarrow> m)),
       (''path'', PStr (case sc_path (cn_scope c) of None \<Rightarrow> [] | Some p \<Rightarrow> p))] (enter_request rid c) = (Inr (), c0)
    \<and> serve_wrapped env rid app c0 =
       (and_then res (\<lambda>_. Inr (last_status 500 (cn_sent c1))), c1\<lparr>cn_sent := sent_by env c (cn_sent c1)\<rparr>)"
  using assms(1) unfolding rid_def begin_request_def Let_def
  by (simp add: serve_wrapped_def sent_by_def log_request_def on_process_def)

lemma request_raises:
  assumes "sc_type (cn_scope c) = ''http''" and "app (begin_request env c) = (Inl e, c1)"
  shows "RequestContextMiddleware P cfg env app c =
    (Inl e, snd (leave_request (request_id_var (cn_process c)) (c1\<lparr>cn_sent := sent_by env c (cn_sent c1)\<rparr>)))"
proof -
  obtain c0 where l: "log_request ''request_started''
      [(''request_id'', PStr (choose_request_id env (sc_headers (cn_scope c)))),
       (''method'', PStr (case sc_method (cn_scope c) of None \<Rightarrow> ''GET'' | Some m \<Rightarrow> m)),
       (''path'', PStr (case sc_path (cn_scope c) of None \<Rightarrow> [] | Some p \<Rightarrow> p))]
        (enter_request (choose_request_id env (sc_headers (cn_scope c))) c) = (Inr (), c0)"
    and w: "serve_wrapped env (choose_request_id env (sc_headers (cn_scope c))) app c0 =
       (Inl e, c1\<lparr>cn_sent := sent_by env c (cn_sent c1)\<rparr>)"
    using serve_wrapped_begin [where app = app, OF assms(2)] by auto
  show ?thesis
    by (simp add: RequestContextMiddleware_def Let_def finally_do_def assms(1) l w leave_request_def on_process_def)
qed

definition observes :: "('m, 'z) prometheus_scheme \<Rightarrow> settings \<Rightarrow> request_env \<Rightarrow> ('r, 'm) conn \<Rightarrow> ('r, 'm) conn \<Rightarrow> 'm metrics" where
  "observes P cfg env c c1 =
     (if sc_path (cn_scope c) = Some ''/metrics'' then ap_metrics (cn_process c1)
      else snd (observe_request P cfg (case sc_method (cn_scope c) of None \<Rightarrow> ''GET'' | Some m \<Rightarrow> m)
             (get_route_path (cn_scope c1)) (last_status 500 (cn_sent c1)) (re_end env - re_start env)
             (ap_metrics (cn_process c1))))"

lemma request_returns:
  assumes "sc_type (cn_scope c) = ''http''" and "app (begin_request env c) = (Inr u, c1)"
    and "set family_names \<subseteq> set (met_handles (ap_metrics (cn_process c1)))"
  shows "\<exists>finished. RequestContextMiddleware P cfg env app c = (Inr (), c1\<lparr>cn_sent := sent_by env c (cn_sent c1),
      cn_process := (cn_process c1)\<lparr>ap_metrics := observes P cfg env c c1,
        ap_log := ap_log (cn_process c1) @ [(''request_finished'', finished)],
        request_id_var := request_id_var (cn_process c),
        ap_shutdown := decrement_in_flight_requests (ap_shutdown (cn_process c1))\<rparr>\<rparr>)"
proof -
  have ok: "observe_request P cfg meth path code secs (ap_metrics (cn_process c1)) =
      (Inr (), snd (observe_request P cfg meth path code secs (ap_metrics (cn_process c1))))" for meth path code secs
    using assms(3) by (simp add: observe_request_def Let_def with_handles_made family_names_def)
  obtain c0 where l: "log_request ''request_started''
      [(''request_id'', PStr (choose_request_id env (sc_headers (cn_scope c)))),
       (''method'', PStr (case sc_method (cn_scope c) of None \<Rightarrow> ''GET'' | Some m \<Rightarrow> m)),
       (''path'', PStr (case sc_path (cn_scope c) of None \<Rightarrow> [] | Some p \<Rightarrow> p))]
        (enter_request (choose_request_id env (sc_headers (cn_scope c))) c) = (Inr (), c0)"
    and w: "serve_wrapped env (choose_request_id env (sc_headers (cn_scope c))) app c0 =
       (Inr (last_status 500 (cn_sent c1)), c1\<lparr>cn_sent := sent_by env c (cn_sent c1)\<rparr>)"
    using serve_wrapped_begin [where app = app, OF assms(2)] by auto
  define c2 where "c2 = c1\<lparr>cn_sent := sent_by env c (cn_sent c1),
      cn_process := (cn_process c1)\<lparr>ap_metrics := observes P cfg env c c1\<rparr>\<rparr>"
  have o: "count_request P cfg (case sc_method (cn_scope c) of None \<Rightarrow> ''GET'' | Some m \<Rightarrow> m)
      (case sc_path (cn_scope c) of None \<Rightarrow> [] | Some p \<Rightarrow> p) (last_status 500 (cn_sent c1)) (re_end env - re_start env)
      (c1\<lparr>cn_sent := sent_by env c (cn_sent c1)\<rparr>) = (Inr (), c2)"
    by (cases "sc_path (cn_scope c) = Some ''/metrics''")
      (auto simp: count_request_def c2_def on_metrics_def observes_def split: option.splits, (subst ok, simp)+)
  have f: "log_request ''request_finished'' x c2 =
      (Inr (), c2\<lparr>cn_process := (cn_process c2)\<lparr>ap_log := ap_log (cn_process c2) @ [(''request_finished'', x)]\<rparr>\<rparr>)" for x
    by (simp add: log_request_def on_process_def)
  let ?x = "[(''request_id'', PStr (choose_request_id env (sc_headers (cn_scope c)))),
       (''method'', PStr (case sc_method (cn_scope c) of None \<Rightarrow> ''GET'' | Some m \<Rightarrow> m)),
       (''path'', PStr (case sc_path (cn_scope c) of None \<Rightarrow> [] | Some p \<Rightarrow> p))]
      @ [(''status_code'', PInt (last_status 500 (cn_sent c1))), (''process_time'', PFloat (re_show env (re_end env - re_start env)))]"
  have "RequestContextMiddleware P cfg env app c = (Inr (), snd (leave_request (request_id_var (cn_process c))
      (snd (log_request ''request_finished'' ?x c2))))"
    unfolding RequestContextMiddleware_def Let_def finally_do_def
    by (simp add: assms(1) l w o f leave_request_def on_process_def)
  then show ?thesis
    unfolding f by (intro exI [of _ ?x]) (simp add: leave_request_def on_process_def c2_def)
qed

section \<open>Answers of the application\<close>

lemma send_wrapper_start:
  "Response_start s hs \<in> set (send_wrapper env rid i ms) \<Longrightarrow> (''x-request-id'', rid) \<in> set hs"
proof (induction ms arbitrary: i)
  case (Cons m ms)
  then show ?case by (cases m) auto
qed simp

lemma send_wrapper_Nil [simp]: "send_wrapper env rid i ms = [] \<longleftrightarrow> ms = []"
  by (cases ms) simp_all

lemma begin_request_metrics [simp]: "ap_metrics (cn_process (begin_request env c)) = ap_metrics (cn_process c)"
  by (simp add: begin_request_def Let_def log_request_def on_process_def enter_request_def)

lemma begin_request_resent: "cn_sent c = [] \<Longrightarrow> begin_request env (c\<lparr>cn_sent := []\<rparr>) = begin_request env c"
  by (cases c) simp

context asgi_framework
begin

lemma answered_or_passed:
  assumes h: "sc_type (cn_scope c) = ''http''" and c: "cn_sent c = []"
  obtains (own) ms where "\<And>router. application F P cfg env router c = (Inr (), c\<lparr>cn_sent := ms\<rparr>)"
  | (passed) g where "\<And>hs. set hs \<subseteq> set (g hs)"
      "\<And>hs. security_headers_enabled cfg \<Longrightarrow> set security_header_names \<subseteq> fst ` set (g hs)"
      "\<And>router. application F P cfg env router c = fw_server_error F (\<lambda>_. unhandled_exception_handler)
         (with_send (map (map_start g)) (RequestContextMiddleware P cfg env (fw_exceptions F handle_exn router))) c"
proof -
  have same: "app c = app' c \<Longrightarrow> fw_server_error F r app c = fw_server_error F r app' c" for app app' r
    by (simp add: server_error [OF h c])
  from runtime_stack_at [OF h c, of cfg] show ?thesis
    unfolding stack_at_def
  proof (elim disjE exE)
    fix ms assume "\<forall>app. runtime_stack F cfg app c = (Inr (), c\<lparr>cn_sent := ms\<rparr>)"
    then show ?thesis by (intro own [of ms]) (simp add: application_stack server_error [OF h c])
  next
    fix g assume g: "(\<forall>hs. set hs \<subseteq> set (g hs) \<and> (if security_headers_enabled cfg then set security_header_names else {})
        \<subseteq> fst ` set (g hs)) \<and> (\<forall>app. runtime_stack F cfg app c = with_send (map (map_start g)) app c)"
    show ?thesis
    proof (rule passed [of g])
      show "application F P cfg env router c = fw_server_error F (\<lambda>_. unhandled_exception_handler)
          (with_send (map (map_start g)) (RequestContextMiddleware P cfg env (fw_exceptions F handle_exn router))) c" for router
        unfolding application_stack using g by (intro same) simp
    qed (use g in auto)
  qed
qed

lemma returned_answer:
  assumes h: "sc_type (cn_scope c) = ''http''" and c: "cn_sent c = []"
    and g: "\<And>hs. set hs \<subseteq> set (g hs)"
      "\<And>hs. security_headers_enabled cfg \<Longrightarrow> set security_header_names \<subseteq> fst ` set (g hs)"
    and ret: "inner (begin_request env c) = (Inr u, c1)"
    and m: "set family_names \<subseteq> set (met_handles (ap_metrics (cn_process c1)))"
  shows "\<exists>c'. fw_server_error F r (with_send (map (map_start g)) (RequestContextMiddleware P cfg env inner)) c = (Inr (), c')
    \<and> (\<forall>s hs. Response_start s hs \<in> set (cn_sent c') \<longrightarrow>
         (''x-request-id'', choose_request_id env (sc_headers (cn_scope c))) \<in> set hs
         \<and> (security_headers_enabled cfg \<longrightarrow> set security_header_names \<subseteq> fst ` set hs))
    \<and> ap_metrics (cn_process c') = observes P cfg env c c1"
proof -
  have c0: "c\<lparr>cn_sent := []\<rparr> = c" using c by (cases c) simp
  obtain c2 where rc: "RequestContextMiddleware P cfg env inner c = (Inr (), c2)"
      and c2: "cn_sent c2 = sent_by env c (cn_sent c1)" "ap_metrics (cn_process c2) = observes P cfg env c c1"
    using request_returns [where app = inner and P = P and cfg = cfg, OF h ret m] by auto
  let ?c' = "c2\<lparr>cn_sent := map (map_start g) (cn_sent c2)\<rparr>"
  have "fw_server_error F r (with_send (map (map_start g)) (RequestContextMiddleware P cfg env inner)) c = (Inr (), ?c')"
    by (simp add: server_error [OF h c] with_send_def c0 rc c)
  moreover have "(''x-request-id'', choose_request_id env (sc_headers (cn_scope c))) \<in> set hs
      \<and> (security_headers_enabled cfg \<longrightarrow> set security_header_names \<subseteq> fst ` set hs)"
    if "Response_start s hs \<in> set (cn_sent ?c')" for s hs
  proof -
    from that obtain hs0 where "Response_start s hs0 \<in> set (cn_sent c2)" "hs = g hs0"
      by (auto simp: map_start_eq)
    then have "(''x-request-id'', choose_request_id env (sc_headers (cn_scope c))) \<in> set hs0"
      by (simp add: c2(1) sent_by_def c send_wrapper_start)
    then show ?thesis using g \<open>hs = g hs0\<close> by blast
  qed
  ultimately show ?thesis using c2(2) by auto
qed

lemma crashed_answer:
  assumes h: "sc_type (cn_scope c) = ''http''" and c: "cn_sent c = []"
    and raised: "inner (begin_request env c) = (Inl e, c1)" "cn_sent c1 = []"
  shows "\<exists>c'. fw_server_error F (\<lambda>_. unhandled_exception_handler)
        (with_send (map (map_start g)) (RequestContextMiddleware P cfg env inner)) c = (Inl e, c')
    \<and> cn_sent c' = fw_respond F unhandled_exception_handler
    \<and> ap_metrics (cn_process c') = ap_metrics (cn_process c1) \<and> ap_log (cn_process c') = ap_log (cn_process c1)"
proof -
  have c0: "c\<lparr>cn_sent := []\<rparr> = c" using c by (cases c) simp
  obtain c2 where rc: "RequestContextMiddleware P cfg env inner c = (Inl e, c2)" and c2: "cn_sent c2 = []"
      "ap_metrics (cn_process c2) = ap_metrics (cn_process c1)" "ap_log (cn_process c2) = ap_log (cn_process c1)"
    using request_raises [where app = inner and P = P and cfg = cfg, OF h raised(1)] raised(2)
    by (simp add: leave_request_def on_process_def sent_by_def c)
  show ?thesis
    by (simp add: server_error [OF h c] with_send_def c0 rc c c2)
qed

end

section \<open>Concurrent requests\<close>

text \<open>
  The requests of a process interleave: \<open>serving p open\<close> holds of a process \<open>p\<close> in which the requests \<open>open\<close>
  have entered the request context and not left it. Between these two steps the process changes in any
  way that does not touch the counter.
\<close>

inductive serving :: "('r, 'm) api_process \<Rightarrow> nat list \<Rightarrow> bool" where
  idle: "in_flight_requests (ap_shutdown p) = 0 \<Longrightarrow> serving p []"
| entered: "serving (cn_process c) rs \<Longrightarrow> i \<notin> set rs \<Longrightarrow> serving (cn_process (enter_request rid c)) (i # rs)"
| worked: "serving p rs \<Longrightarrow> in_flight_requests (ap_shutdown p') = in_flight_requests (ap_shutdown p) \<Longrightarrow> serving p' rs"
| left: "serving (cn_process c) rs \<Longrightarrow> i \<in> set rs \<Longrightarrow> serving (cn_process (snd (leave_request rid c))) (remove1 i rs)"

lemma serving_count: "serving p rs \<Longrightarrow> in_flight_requests (ap_shutdown p) = int (length rs)"
proof (induction rule: serving.induct)
  case (left c rs i rid)
  then have "length rs > 0" by (cases rs) simp_all
  with left show ?case
    by (simp add: leave_request_def on_process_def decrement_in_flight_requests_def length_remove1 of_nat_diff
        Suc_leI)
qed (simp_all add: enter_request_def increment_in_flight_requests_def)

lemma drained_pass: "wait_loop calm deadline passes = Drained \<Longrightarrow> \<exists>(t, x) \<in> set passes. t < deadline \<and> calm x"
  by (induction calm deadline passes rule: wait_loop.induct) (auto split: if_splits)

definition in_flight :: "('r, 'm) conn \<Rightarrow> int" where
  "in_flight c = in_flight_requests (ap_shutdown (cn_process c))"

lemma in_flight_leave: "in_flight (snd (leave_request v c)) = in_flight c - 1"
  by (simp add: leave_request_def on_process_def in_flight_def decrement_in_flight_requests_def)

lemma request_context_balanced:
  assumes "\<And>c. in_flight (snd (app c)) = in_flight c"
  shows "in_flight (snd (RequestContextMiddleware P cfg env app c)) = in_flight c"
proof (cases "sc_type (cn_scope c) = ''http''")
  case True
  let ?same = "\<lambda>c'. in_flight c' = in_flight c + 1"
  have l: "keeps ?same (log_request m x)" for m x
    by (simp add: keeps_def log_request_def on_process_def in_flight_def)
  have s: "keeps ?same (serve_wrapped env rid app)" for rid
  proof -
    have "in_flight (snd (serve_wrapped env rid app c')) = in_flight c'" for c'
      using assms [of "c'\<lparr>cn_sent := []\<rparr>"] by (auto simp: serve_wrapped_def in_flight_def split: prod.splits)
    then show ?thesis by (simp add: keeps_def)
  qed
  have k: "keeps ?same (count_request P cfg meth path code secs)" for meth path code secs
    by (auto simp: keeps_def count_request_def on_metrics_def in_flight_def split: prod.splits)
  let ?rid = "choose_request_id env (sc_headers (cn_scope c))"
  have e: "?same (enter_request ?rid c)"
    by (simp add: in_flight_def enter_request_def increment_in_flight_requests_def)
  have leave: "snd (finally_do m (leave_request v) w) = snd (leave_request v (snd (m w)))" for m v w
    by (simp add: finally_do_def leave_request_def on_process_def split: prod.splits)
  have fin: "in_flight (snd (finally_do m (leave_request v) w)) = in_flight c" if "keeps ?same m" "?same w" for m v w
    using that by (simp add: leave in_flight_leave keeps_def)
  show ?thesis
    by (simp only: RequestContextMiddleware_def Let_def True simp_thms if_False) (intro fin e keeps_run_then l s k)
next
  case False
  then show ?thesis by (simp add: RequestContextMiddleware_def assms)
qed

section \<open>A framework\<close>

definition plain_framework :: "('r, 'm) framework" where
  "plain_framework =
     (let respond = (\<lambda>r. [Response_start (resp_status r)
            [(''content-length'', show_int (int (length (dumps (resp_body r))))), (''content-type'', ''application/json'')],
          Response_body (dumps (resp_body r))]);
          base = (\<lambda>g. with_send (map (map_start g)))
      in \<lparr>fw_respond = respond, fw_base_http = base,
          fw_cors = (\<lambda>origins credentials methods headers app c.
            (case get_header (sc_headers (cn_scope c)) ''origin'' of
               None \<Rightarrow> base (\<lambda>hs. hs) app c
             | Some orig \<Rightarrow> base (\<lambda>hs. if orig \<in> set origins then hs @ [(''access-control-allow-origin'', orig)] else hs) app c)),
          fw_trusted_host = (\<lambda>hosts app c.
            if ''*'' \<in> set hosts \<or> (\<exists>h \<in> set hosts. get_header (sc_headers (cn_scope c)) ''host'' = Some h)
            then base (\<lambda>hs. hs) app c
            else (Inr (), c\<lparr>cn_sent := cn_sent c @ [Response_start 400 [(''content-type'', ''text/plain'')], Response_body ''Invalid host header'']\<rparr>)),
          fw_server_error = (\<lambda>h app c. case app c of
              (Inr u, c') \<Rightarrow> (Inr u, c')
            | (Inl e, c') \<Rightarrow> (Inl e, if list_ex starts_response (cn_sent c') then c'
                                    else c'\<lparr>cn_sent := cn_sent c' @ respond (h e)\<rparr>)),
          fw_exceptions = (\<lambda>h app c. case app c of
              (Inr u, c') \<Rightarrow> (Inr u, c')
            | (Inl e, c') \<Rightarrow> (case e of
                Domain d \<Rightarrow> (Inr (), c'\<lparr>cn_sent := cn_sent c' @ respond (h e)\<rparr>)
              | HTTPException s m \<Rightarrow> (Inr (), c'\<lparr>cn_sent := cn_sent c' @ respond (h e)\<rparr>)
              | _ \<Rightarrow> (Inl e, c')))\<rparr>)"

lemma plain_base: "(\<And>hs. set hs \<subseteq> set (g hs)) \<Longrightarrow> plain_at c (with_send (map (map_start g)))"
  unfolding plain_at_def by blast

interpretation plain_framework: asgi_framework plain_framework
proof
  fix c :: "('r, 'm) conn" and origins methods headers :: "string list" and credentials
  show "plain_at c (fw_cors plain_framework origins credentials methods headers)"
  proof (cases "get_header (sc_headers (cn_scope c)) ''origin''")
    case None
    then show ?thesis unfolding plain_at_def
      by (intro disjI2 exI [of _ "\<lambda>hs. hs"]) (simp add: plain_framework_def Let_def)
  next
    case (Some orig)
    then show ?thesis unfolding plain_at_def
      by (intro disjI2 exI [of _ "\<lambda>hs. if orig \<in> set origins then hs @ [(''access-control-allow-origin'', orig)] else hs"])
        (auto simp: plain_framework_def Let_def)
  qed
next
  fix c :: "('r, 'm) conn" and hosts
  show "plain_at c (fw_trusted_host plain_framework hosts)"
  proof (cases "''*'' \<in> set hosts \<or> (\<exists>h \<in> set hosts. get_header (sc_headers (cn_scope c)) ''host'' = Some h)")
    case True
    then show ?thesis unfolding plain_at_def
      by (intro disjI2 exI [of _ "\<lambda>hs. hs"]) (simp add: plain_framework_def Let_def)
  next
    case False
    then show ?thesis unfolding plain_at_def
      by (intro disjI1 exI [of _ "[Response_start 400 [(''content-type'', ''text/plain'')], Response_body ''Invalid host header'']"])
        (simp add: plain_framework_def Let_def)
  qed
qed (auto simp: plain_framework_def Let_def split: prod.splits sum.splits)

section \<open>Properties\<close>

lemma observes_count:
  assumes "prometheus_laws P names sample" and "set family_names \<subseteq> set (met_handles (ap_metrics (cn_process c1)))"
  shows "sample (met_samples (observes P cfg env c c1)) ''http_requests_total'' l =
    sample (met_samples (ap_metrics (cn_process c1))) ''http_requests_total'' l
    + (if sc_path (cn_scope c) \<noteq> Some ''/metrics''
         \<and> l = [(''method'', case sc_method (cn_scope c) of None \<Rightarrow> ''GET'' | Some m \<Rightarrow> m),
                (''path'', get_route_path (cn_scope c1)),
                (''status_code'', show_int (last_status 500 (cn_sent c1)))] then 1 else 0)"
proof (cases "sc_path (cn_scope c) = Some ''/metrics''")
  case False
  obtain m' where "observe_request P cfg (case sc_method (cn_scope c) of None \<Rightarrow> ''GET'' | Some m \<Rightarrow> m)
        (get_route_path (cn_scope c1)) (last_status 500 (cn_sent c1)) (re_end env - re_start env)
        (ap_metrics (cn_process c1)) = (Inr (), m')"
      and "sample (met_samples m') ''http_requests_total'' l =
        sample (met_samples (ap_metrics (cn_process c1))) ''http_requests_total'' l
        + (if l = [(''method'', case sc_method (cn_scope c) of None \<Rightarrow> ''GET'' | Some m \<Rightarrow> m),
                (''path'', get_route_path (cn_scope c1)),
                (''status_code'', show_int (last_status 500 (cn_sent c1)))] then 1 else 0)"
    by (rule prometheus_laws.observe_request_counts [OF assms]) blast
  with False show ?thesis by (simp add: observes_def)
qed (simp add: observes_def)

text \<open>
  C38: A request is answered by the host or cross-origin check alone, or it is handled under its request
  identifier. When handling returns, every response starts with the request identifier and, where they are
  enabled, the security headers, and the request is counted once under its method, route template and
  status, scrapes of the metrics apart. When handling raises before it answers, the client gets the uniform
  500 with neither the request identifier nor the security headers, and the request is not counted.
\<close>

theorem request_answered:
  assumes F: "asgi_framework F" and P: "prometheus_laws P names sample"
    and h: "sc_type (cn_scope c) = ''http''" and c: "cn_sent c = []"
    and handles: "\<And>c1. snd (fw_exceptions F handle_exn router (begin_request env c)) = c1 \<Longrightarrow>
      set family_names \<subseteq> set (met_handles (ap_metrics (cn_process c1)))"
  shows "(\<exists>ms. \<forall>router'. application F P cfg env router' c = (Inr (), c\<lparr>cn_sent := ms\<rparr>)) \<or>
    (case fw_exceptions F handle_exn router (begin_request env c) of
       (Inr u, c1) \<Rightarrow> \<exists>c'. application F P cfg env router c = (Inr (), c')
         \<and> (\<forall>s hs. Response_start s hs \<in> set (cn_sent c') \<longrightarrow>
              (''x-request-id'', choose_request_id env (sc_headers (cn_scope c))) \<in> set hs
              \<and> (security_headers_enabled cfg \<longrightarrow> set security_header_names \<subseteq> fst ` set hs))
         \<and> (\<forall>l. sample (met_samples (ap_metrics (cn_process c'))) ''http_requests_total'' l =
              sample (met_samples (ap_metrics (cn_process c1))) ''http_requests_total'' l
              + (if sc_path (cn_scope c) \<noteq> Some ''/metrics''
                   \<and> l = [(''method'', case sc_method (cn_scope c) of None \<Rightarrow> ''GET'' | Some m \<Rightarrow> m),
                          (''path'', get_route_path (cn_scope c1)),
                          (''status_code'', show_int (last_status 500 (cn_sent c1)))] then 1 else 0))
     | (Inl e, c1) \<Rightarrow> cn_sent c1 = [] \<longrightarrow>
         (\<exists>c'. application F P cfg env router c = (Inl e, c')
            \<and> (\<forall>s hs. Response_start s hs \<in> set (cn_sent c') \<longrightarrow> s = 500 \<and> fst ` set hs = {''content-length'', ''content-type''})
            \<and> ap_metrics (cn_process c') = ap_metrics (cn_process c1)))"
proof (rule asgi_framework.answered_or_passed [OF F h c, where cfg = cfg and P = P and env = env])
  fix ms assume "\<And>router. application F P cfg env router c = (Inr (), c\<lparr>cn_sent := ms\<rparr>)"
  then show ?thesis by blast
next
  fix g assume g: "\<And>hs. set hs \<subseteq> set (g hs)"
      "\<And>hs. security_headers_enabled cfg \<Longrightarrow> set security_header_names \<subseteq> fst ` set (g hs)"
    and app: "\<And>router. application F P cfg env router c = fw_server_error F (\<lambda>_. unhandled_exception_handler)
         (with_send (map (map_start g)) (RequestContextMiddleware P cfg env (fw_exceptions F handle_exn router))) c"
  obtain res c1 where run: "fw_exceptions F handle_exn router (begin_request env c) = (res, c1)" by fastforce
  then have made: "set family_names \<subseteq> set (met_handles (ap_metrics (cn_process c1)))" using handles by simp
  show ?thesis
  proof (cases res)
    case (Inl e)
    obtain n b where resp: "fw_respond F unhandled_exception_handler =
        [Response_start 500 [(''content-length'', n), (''content-type'', ''application/json'')], Response_body b]"
      using asgi_framework.respond [OF F, of unhandled_exception_handler]
      by (auto simp: unhandled_exception_handler_def error_response_def)
    show ?thesis
      using asgi_framework.crashed_answer [where inner = "fw_exceptions F handle_exn router" and g = g and P = P
          and cfg = cfg and env = env, OF F h c run [unfolded Inl]]
      by (auto simp: app resp run Inl)
  next
    case (Inr u)
    note a = asgi_framework.returned_answer [where inner = "fw_exceptions F handle_exn router" and P = P and env = env
        and r = "\<lambda>_. unhandled_exception_handler", OF F h c g run [unfolded Inr] made]
    obtain c' where c': "application F P cfg env router c = (Inr (), c')"
        "ap_metrics (cn_process c') = observes P cfg env c c1"
      and starts: "\<forall>s hs. Response_start s hs \<in> set (cn_sent c') \<longrightarrow>
         (''x-request-id'', choose_request_id env (sc_headers (cn_scope c))) \<in> set hs
         \<and> (security_headers_enabled cfg \<longrightarrow> set security_header_names \<subseteq> fst ` set hs)"
      using a unfolding app by blast
    show ?thesis
      unfolding run Inr prod.case sum.case
      by (intro disjI2 exI [of _ c'] conjI c'(1) starts allI) (simp add: c'(2) observes_count [OF P made])
  qed
qed

definition example_env :: request_env where
  "example_env = \<lparr>re_start = 0, re_clock_at = (\<lambda>_. 1), re_end = 2, re_uuid = 0, re_show = (\<lambda>_. ''1.0'')\<rparr>"

definition example_conn :: "(store, sample_store) conn" where
  "example_conn = \<lparr>cn_scope = \<lparr>sc_type = ''http'', sc_headers = [(''x-request-id'', ''r1'')], sc_method = Some ''GET'',
       sc_path = Some ''/users'', sc_request_id = None, sc_route = None\<rparr>, cn_sent = [],
     cn_process = \<lparr>ap_world = example_world,
       ap_shutdown = \<lparr>in_flight_requests = 0, shutdown_flag = False, job_in_progress = False\<rparr>,
       ap_metrics = (fresh_metrics empty_samples)\<lparr>met_handles := family_names\<rparr>,
       request_id_var = None, ap_log = [], ap_sentry_tags = []\<rparr>\<rparr>"

definition example_crash :: "(store, sample_store) asgi_app" where
  "example_crash = raise (Unexpected ''boom'')"

lemma example_crash_passed:
  "fst (application plain_framework store_metrics (default_settings ''k'') example_env example_crash example_conn)
     = Inl (Unexpected ''boom'')"
proof -
  have "fw_exceptions plain_framework handle_exn example_crash (begin_request example_env example_conn)
      = (Inl (Unexpected ''boom''), begin_request example_env example_conn)"
    by (simp add: plain_framework_def Let_def example_crash_def)
  from request_raises [where app = "fw_exceptions plain_framework handle_exn example_crash"
      and P = store_metrics and cfg = "default_settings ''k''", OF _ this] show ?thesis
    by (simp add: application_stack runtime_stack_def configure_runtime_middleware_def add_middleware_def
        default_settings_def plain_framework_def with_send_def Let_def example_conn_def split: prod.splits)
qed

text \<open>A crash in the example: the response starts with 500 and the headers of the body alone.\<close>

lemma request_answered_witness:
  "\<exists>c'. application plain_framework store_metrics (default_settings ''k'') example_env example_crash example_conn
      = (Inl (Unexpected ''boom''), c')
    \<and> (\<forall>s hs. Response_start s hs \<in> set (cn_sent c') \<longrightarrow> s = 500 \<and> fst ` set hs = {''content-length'', ''content-type''})"
proof -
  have run: "fw_exceptions plain_framework handle_exn example_crash (begin_request example_env example_conn)
      = (Inl (Unexpected ''boom''), begin_request example_env example_conn)"
    by (simp add: plain_framework_def Let_def example_crash_def)
  have h: "sc_type (cn_scope example_conn) = ''http''" "cn_sent example_conn = []"
    "cn_sent (begin_request example_env example_conn) = []"
    by (simp_all add: example_conn_def begin_request_def Let_def)
  have m: "set family_names \<subseteq> set (met_handles (ap_metrics (cn_process example_conn)))"
    by (simp add: example_conn_def)
  have "\<nexists>ms. \<forall>router. application plain_framework store_metrics (default_settings ''k'') example_env router example_conn
      = (Inr (), example_conn\<lparr>cn_sent := ms\<rparr>)"
    using example_crash_passed by (metis Inl_Inr_False fst_conv)
  moreover note request_answered [where cfg = "default_settings ''k''" and env = example_env and router = example_crash,
      OF plain_framework.asgi_framework_axioms store_metrics.prometheus_laws_axioms h(1,2)]
  ultimately show ?thesis using h(3) m by (auto simp: run)
qed

text \<open>
  Graceful shutdown. In every interleaving the counter is the number of requests that are inside the request
  context. When the waiting loop of a shutdown reports that all requests are done, then at one of its
  readings, within the grace period, no request was open.
\<close>

theorem graceful_shutdown:
  assumes "\<forall>(t, p, rs) \<in> set passes. serving p rs"
  shows "(\<forall>(t, p, rs) \<in> set passes. get_in_flight_request_count (ap_shutdown p) = int (length rs))
    \<and> (lifespan_shutdown cfg start (map (\<lambda>(t, p, rs). (t, ap_shutdown p)) passes) = Some Drained \<longrightarrow>
        (\<exists>t p. (t, p, []) \<in> set passes \<and> t < start + \<lfloor>api_shutdown_grace_seconds cfg * of_int second\<rfloor>))"
proof (intro conjI impI)
  show counts: "\<forall>(t, p, rs) \<in> set passes. get_in_flight_request_count (ap_shutdown p) = int (length rs)"
    using assms by (auto simp: get_in_flight_request_count_def serving_count)
  assume "lifespan_shutdown cfg start (map (\<lambda>(t, p, rs). (t, ap_shutdown p)) passes) = Some Drained"
  then have "wait_loop (\<lambda>s. get_in_flight_request_count s = 0)
      (start + \<lfloor>api_shutdown_grace_seconds cfg * of_int second\<rfloor>) (map (\<lambda>(t, p, rs). (t, ap_shutdown p)) passes) = Drained"
    by (simp add: lifespan_shutdown_def wait_for_in_flight_requests_def split: if_splits)
  from drained_pass [OF this] counts
  show "\<exists>t p. (t, p, []) \<in> set passes \<and> t < start + \<lfloor>api_shutdown_grace_seconds cfg * of_int second\<rfloor>"
    by fastforce
qed

lemma graceful_shutdown_witness:
  "lifespan_shutdown (default_settings ''k'') 0
     [(0, ap_shutdown (cn_process (enter_request ''r1'' example_conn))), (100000, ap_shutdown (cn_process example_conn))]
     = Some Drained
   \<and> get_in_flight_request_count (ap_shutdown (cn_process (enter_request ''r1'' example_conn))) = 1"
proof -
  have i: "serving (cn_process example_conn) []" by (rule serving.idle) (simp add: example_conn_def)
  have e: "serving (cn_process (enter_request ''r1'' example_conn)) [1]" by (rule serving.entered [OF i]) simp
  have "\<forall>(t, p, rs) \<in> set [(0, cn_process (enter_request ''r1'' example_conn), [1]), (100000, cn_process example_conn, [])].
      serving p rs"
    using i e by simp
  from graceful_shutdown [OF this, of "default_settings ''k''" 0] show ?thesis
    by (simp add: lifespan_shutdown_def wait_for_in_flight_requests_def get_in_flight_request_count_def
        enter_request_def increment_in_flight_requests_def example_conn_def default_settings_def)
qed

end
