(* ===== verification/Health.thy ===== *)
theory Health
  imports Metrics Storage Rate_Limit
begin

text \<open>
  Health checks: \<open>app/services/health_service.py\<close>, \<open>app/schemas/health.py\<close> and \<open>app/api/routes/health.py\<close>.
  What a probe of the database and of Redis does is an argument, the exception it raises or nothing; the
  object store is probed through \<open>verify_bucket_access\<close>. A check is an operation on the metrics, where it
  leaves its result.
\<close>

section \<open>Schemas\<close>

text \<open>\<open>HealthState\<close> has the values \<open>ok\<close> and \<open>unavailable\<close>.\<close>

datatype health_state = State_ok | State_unavailable

fun state_text :: "health_state \<Rightarrow> string" where
  "state_text State_ok = ''ok''"
| "state_text State_unavailable = ''unavailable''"

record dependency_health =
  dh_status :: health_state
  dh_message :: "string option"

record readiness_health =
  rh_status :: health_state
  rh_checks :: "(string \<times> dependency_health) list"

text \<open>\<open>model_dump(exclude_none=True)\<close>, which is also how the routes answer with a model.\<close>

definition dump_dependency :: "dependency_health \<Rightarrow> pyval" where
  "dump_dependency h = PDict ((''status'', PStr (state_text (dh_status h)))
     # (case dh_message h of None \<Rightarrow> [] | Some m \<Rightarrow> [(''message'', PStr m)]))"

definition dump_readiness :: "readiness_health \<Rightarrow> pyval" where
  "dump_readiness h = PDict [(''status'', PStr (state_text (rh_status h))),
     (''checks'', PDict (map (\<lambda>(k, d). (k, dump_dependency d)) (rh_checks h)))]"

section \<open>Checks\<close>

definition observed_check ::
  "('m, 'z) prometheus_scheme \<Rightarrow> settings \<Rightarrow> string \<Rightarrow> (exn, unit) result \<Rightarrow> string \<Rightarrow> ('m, dependency_health) metrics_action" where
  "observed_check P cfg dependency probe message = (case probe of
       Inl e \<Rightarrow> run_then (observe_dependency_check P cfg dependency ''unavailable'')
                (\<lambda>_. ret \<lparr>dh_status = State_unavailable, dh_message = Some message\<rparr>)
     | Inr _ \<Rightarrow> run_then (observe_dependency_check P cfg dependency ''ok'')
                (\<lambda>_. ret \<lparr>dh_status = State_ok, dh_message = None\<rparr>))"

definition check_database ::
  "('m, 'z) prometheus_scheme \<Rightarrow> settings \<Rightarrow> (exn, unit) result \<Rightarrow> ('m, dependency_health) metrics_action" where
  "check_database P cfg select_1 = observed_check P cfg ''database'' select_1 ''database unavailable''"

definition check_redis ::
  "('m, 'z) prometheus_scheme \<Rightarrow> settings \<Rightarrow> (exn, unit) result \<Rightarrow> ('m, dependency_health) metrics_action" where
  "check_redis P cfg ping = observed_check P cfg ''redis'' ping ''redis unavailable''"

definition check_s3 ::
  "('m, 'z) prometheus_scheme \<Rightarrow> settings \<Rightarrow> ('s, 'y) s3_client_scheme \<Rightarrow> 's \<Rightarrow> ('m, dependency_health) metrics_action" where
  "check_s3 P cfg S s =
     (if \<not> readiness_check_s3_enabled cfg
      then ret \<lparr>dh_status = State_ok, dh_message = Some ''object storage check disabled''\<rparr>
      else observed_check P cfg ''object_storage'' (verify_bucket_access cfg S s) ''object storage unavailable'')"

record 's probes =
  pb_select_1 :: "(exn, unit) result"
  pb_ping :: "(exn, unit) result"
  pb_objects :: 's

definition get_readiness ::
  "('m, 'z) prometheus_scheme \<Rightarrow> settings \<Rightarrow> ('s, 'y) s3_client_scheme \<Rightarrow> 's probes \<Rightarrow> ('m, readiness_health) metrics_action" where
  "get_readiness P cfg S pb =
     run_then (check_database P cfg (pb_select_1 pb)) (\<lambda>d.
     run_then (check_redis P cfg (pb_ping pb)) (\<lambda>r.
     run_then (if readiness_check_s3_enabled cfg
               then run_then (check_s3 P cfg S (pb_objects pb)) (\<lambda>o3. ret [(''object_storage'', o3)])
               else ret []) (\<lambda>o3.
     let checks = [(''database'', d), (''redis'', r)] @ o3
     in ret \<lparr>rh_status = (if list_ex (\<lambda>(k, h). dh_status h \<noteq> State_ok) checks then State_unavailable else State_ok),
             rh_checks = checks\<rparr>)))"

section \<open>Routes\<close>

definition readiness_response :: "readiness_health \<Rightarrow> response" where
  "readiness_response h =
     \<lparr>resp_status = (if rh_status h = State_ok then 200 else 503), resp_body = dump_readiness h\<rparr>"

definition health_check :: response where
  "health_check = \<lparr>resp_status = 200, resp_body = PDict [(''status'', PStr ''ok'')]\<rparr>"

definition liveness_check :: response where
  "liveness_check = \<lparr>resp_status = 200, resp_body = PDict [(''status'', PStr ''ok'')]\<rparr>"

definition readiness_check ::
  "('m, 'z) prometheus_scheme \<Rightarrow> settings \<Rightarrow> ('s, 'y) s3_client_scheme \<Rightarrow> 's probes \<Rightarrow> ('m, response) metrics_action" where
  "readiness_check P cfg S pb = run_then (get_readiness P cfg S pb) (\<lambda>h. ret (readiness_response h))"

definition single_check :: "string \<Rightarrow> ('m, dependency_health) metrics_action \<Rightarrow> ('m, response) metrics_action" where
  "single_check name check = run_then check (\<lambda>h. ret (readiness_response
     \<lparr>rh_status = dh_status h, rh_checks = [(name, h)]\<rparr>))"

definition db_health_check where
  "db_health_check P cfg pb = single_check ''database'' (check_database P cfg (pb_select_1 pb))"

definition redis_health where
  "redis_health P cfg pb = single_check ''redis'' (check_redis P cfg (pb_ping pb))"

definition s3_health where
  "s3_health P cfg S pb = single_check ''object_storage'' (check_s3 P cfg S (pb_objects pb))"

definition limited_endpoint ::
  "('r, 'z) redis_keys_scheme \<Rightarrow> settings \<Rightarrow> time \<Rightarrow> request \<Rightarrow> ('r world, response) action" where
  "limited_endpoint K cfg now req = (case rate_limit K cfg None None ''rate_limit'' of
       Inl e \<Rightarrow> raise e
     | Inr dependency \<Rightarrow> run_then (dependency now req)
         (\<lambda>_. ret \<lparr>resp_status = 200, resp_body = PDict [(''message'', PStr ''ok'')]\<rparr>))"

section \<open>What the checks report\<close>

text \<open>The dependencies a readiness probe asks, each with its probe and the message of a failure.\<close>

definition probed :: "settings \<Rightarrow> ('s, 'y) s3_client_scheme \<Rightarrow> 's probes \<Rightarrow> (string \<times> (exn, unit) result \<times> string) list" where
  "probed cfg S pb = [(''database'', pb_select_1 pb, ''database unavailable''), (''redis'', pb_ping pb, ''redis unavailable'')]
     @ (if readiness_check_s3_enabled cfg
        then [(''object_storage'', verify_bucket_access cfg S (pb_objects pb), ''object storage unavailable'')] else [])"

definition reported :: "(string \<times> (exn, unit) result \<times> string) \<Rightarrow> string \<times> dependency_health" where
  "reported x = (case x of (n, res, m) \<Rightarrow> (n, case res of
       Inl e \<Rightarrow> \<lparr>dh_status = State_unavailable, dh_message = Some m\<rparr>
     | Inr _ \<Rightarrow> \<lparr>dh_status = State_ok, dh_message = None\<rparr>))"

definition gauge_value :: "(exn, unit) result \<Rightarrow> rat" where
  "gauge_value res = (case res of Inl e \<Rightarrow> 0 | Inr _ \<Rightarrow> 1)"

context prometheus_laws
begin

lemma observed_check_made:
  assumes "set family_names \<subseteq> set (met_handles m)"
  obtains m' where "observed_check P cfg n probe msg m = (Inr (snd (reported (n, probe, msg))), m')"
    and "met_handles m' = met_handles m"
    and "\<And>l. sample (met_samples m') ''dependency_health_status'' l =
      (if l = [(''dependency'', n)] then gauge_value probe else sample (met_samples m) ''dependency_health_status'' l)"
  using assms
  by (cases probe) (simp_all add: observed_check_def observe_dependency_check_def with_handles_made family_names_def
      reported_def gauge_value_def set_sample inc_sample)

lemma readiness_observed:
  assumes m: "set family_names \<subseteq> set (met_handles m)"
  shows "\<exists>m'. get_readiness P cfg S pb m =
      (Inr \<lparr>rh_status = (if list_all (\<lambda>(n, res, msg). res = Inr ()) (probed cfg S pb) then State_ok else State_unavailable),
            rh_checks = map reported (probed cfg S pb)\<rparr>, m')
    \<and> (\<forall>n res msg. (n, res, msg) \<in> set (probed cfg S pb) \<longrightarrow>
         sample (met_samples m') ''dependency_health_status'' [(''dependency'', n)] = gauge_value res)"
proof -
  obtain m1 where d: "check_database P cfg (pb_select_1 pb) m =
        (Inr (snd (reported (''database'', pb_select_1 pb, ''database unavailable''))), m1)"
      and h1: "set family_names \<subseteq> set (met_handles m1)"
      and s1: "\<And>l. sample (met_samples m1) ''dependency_health_status'' l = (if l = [(''dependency'', ''database'')]
        then gauge_value (pb_select_1 pb) else sample (met_samples m) ''dependency_health_status'' l)"
    unfolding check_database_def using m by (metis observed_check_made [OF m])
  obtain m2 where r: "check_redis P cfg (pb_ping pb) m1 =
        (Inr (snd (reported (''redis'', pb_ping pb, ''redis unavailable''))), m2)"
      and h2: "set family_names \<subseteq> set (met_handles m2)"
      and s2: "\<And>l. sample (met_samples m2) ''dependency_health_status'' l = (if l = [(''dependency'', ''redis'')]
        then gauge_value (pb_ping pb) else sample (met_samples m1) ''dependency_health_status'' l)"
    unfolding check_redis_def using h1 by (metis observed_check_made [OF h1])
  have down: "dh_status (snd (reported (n, res, msg))) = State_ok \<longleftrightarrow> res = Inr ()"
    "(case reported (n, res, msg) of (k, h) \<Rightarrow> dh_status h \<noteq> State_ok) \<longleftrightarrow> res \<noteq> Inr ()" for n res msg
    by (simp_all add: reported_def split: sum.split)
  have named: "reported (n, res, msg) = (n, snd (reported (n, res, msg)))" for n res msg
    by (simp add: reported_def)
  show ?thesis
  proof (cases "readiness_check_s3_enabled cfg")
    case True
    obtain m3 where o3: "check_s3 P cfg S (pb_objects pb) m2 = (Inr (snd (reported (''object_storage'',
          verify_bucket_access cfg S (pb_objects pb), ''object storage unavailable''))), m3)"
        and s3: "\<And>l. sample (met_samples m3) ''dependency_health_status'' l = (if l = [(''dependency'', ''object_storage'')]
          then gauge_value (verify_bucket_access cfg S (pb_objects pb)) else sample (met_samples m2) ''dependency_health_status'' l)"
      unfolding check_s3_def using True h2 by simp (metis observed_check_made [OF h2])
    show ?thesis
      by (rule exI [of _ m3]) (simp add: get_readiness_def d r o3 True probed_def Let_def down s1 s2 s3 named [symmetric])
  next
    case False
    then show ?thesis
      by (intro exI [of _ m2]) (simp add: get_readiness_def d r probed_def Let_def down s1 s2 named [symmetric])
  qed
qed

end

text \<open>
  C39: The readiness route answers 200 exactly when every probed dependency answers: the database, Redis and,
  where it is enabled, the object store; otherwise 503. The body gives each of them its state, with a
  message for those that fail that says nothing of the cause, and the gauges show the same states.
\<close>

theorem readiness_reports:
  assumes "prometheus_laws P names sample" and "set family_names \<subseteq> set (met_handles m)"
  shows "\<exists>m'. readiness_check P cfg S pb m =
      (Inr \<lparr>resp_status = (if \<forall>(n, res, msg) \<in> set (probed cfg S pb). res = Inr () then 200 else 503),
            resp_body = PDict
              [(''status'', PStr (if \<forall>(n, res, msg) \<in> set (probed cfg S pb). res = Inr () then ''ok'' else ''unavailable'')),
               (''checks'', PDict (map (\<lambda>(n, res, msg). (n, PDict (if res = Inr () then [(''status'', PStr ''ok'')]
                  else [(''status'', PStr ''unavailable''), (''message'', PStr msg)]))) (probed cfg S pb)))]\<rparr>, m')
    \<and> (\<forall>n res msg. (n, res, msg) \<in> set (probed cfg S pb) \<longrightarrow>
         sample (met_samples m') ''dependency_health_status'' [(''dependency'', n)] = (if res = Inr () then 1 else 0))"
proof -
  have g: "gauge_value res = (if res = Inr () then 1 else 0)" for res
    by (simp add: gauge_value_def split: sum.split)
  have dump: "(\<lambda>(k, d). (k, dump_dependency d)) (reported (n, res, msg)) =
      (n, PDict (if res = Inr () then [(''status'', PStr ''ok'')]
                 else [(''status'', PStr ''unavailable''), (''message'', PStr msg)]))" for n res msg
    by (simp add: reported_def dump_dependency_def split: sum.split)
  have dumps: "map ((\<lambda>(k, d). (k, dump_dependency d)) \<circ> reported) xs = map (\<lambda>(n, res, msg). (n, PDict (if res = Inr ()
      then [(''status'', PStr ''ok'')] else [(''status'', PStr ''unavailable''), (''message'', PStr msg)]))) xs" for xs
    using dump by (auto simp: comp_def)
  obtain m' where run: "get_readiness P cfg S pb m =
      (Inr \<lparr>rh_status = (if \<forall>(n, res, msg) \<in> set (probed cfg S pb). res = Inr () then State_ok else State_unavailable),
            rh_checks = map reported (probed cfg S pb)\<rparr>, m')"
    and gauges: "\<forall>n res msg. (n, res, msg) \<in> set (probed cfg S pb) \<longrightarrow>
         sample (met_samples m') ''dependency_health_status'' [(''dependency'', n)] = gauge_value res"
    using prometheus_laws.readiness_observed [OF assms, of cfg S pb] by (auto simp: list_all_iff)
  define ok where "ok \<longleftrightarrow> (\<forall>(n, res, msg) \<in> set (probed cfg S pb). res = Inr ())"
  show ?thesis
    using gauges run unfolding ok_def [symmetric]
    by (intro exI [of _ m']) (simp add: readiness_check_def readiness_response_def dump_readiness_def g dumps)
qed


definition no_redis :: "object_map probes" where
  "no_redis = \<lparr>pb_select_1 = Inr (), pb_ping = Inl RedisError, pb_objects = (\<lambda>_ _. None)\<rparr>"

lemma readiness_reports_witness:
  "\<exists>m'. readiness_check store_metrics (default_settings ''k'') store_objects no_redis
        ((fresh_metrics empty_samples)\<lparr>met_handles := family_names\<rparr>) =
      (Inr \<lparr>resp_status = 503, resp_body = PDict [(''status'', PStr ''unavailable''),
         (''checks'', PDict [(''database'', PDict [(''status'', PStr ''ok'')]),
            (''redis'', PDict [(''status'', PStr ''unavailable''), (''message'', PStr ''redis unavailable'')])])]\<rparr>, m')"
proof -
  have m: "set family_names \<subseteq> set (met_handles ((fresh_metrics empty_samples)\<lparr>met_handles := family_names\<rparr>))" by simp
  have p: "probed (default_settings ''k'') store_objects no_redis =
      [(''database'', Inr (), ''database unavailable''), (''redis'', Inl RedisError, ''redis unavailable'')]"
    by (simp add: probed_def no_redis_def default_settings_def)
  from readiness_reports [OF store_metrics.prometheus_laws_axioms m, of "default_settings ''k''" store_objects no_redis]
  show ?thesis by (auto simp: p)
qed

end
