(* ===== verification/Load_Baseline.thy ===== *)
theory Load_Baseline
  imports Keyset Errors Complex_Main
begin

text \<open>
  The load baseline (\<open>perf/thresholds.py\<close>, \<open>perf/load_baseline.py\<close>): percentiles and the summary of a run,
  profiles of requests with thresholds, the comparison of a summary with thresholds, and the command line.

  Floating-point numbers are rationals. The record \<open>py_floats\<close> has the operations that round: \<open>fl\<close> is the
  rounding of an exact result to a float, \<open>round2\<close> is \<open>round(x, 2)\<close>, and \<open>float_of\<close> and \<open>py_str\<close> read and
  print numbers. The locale \<open>float_laws\<close> states what is used of them: both roundings are monotone, and
  integers up to \<open>2 ^ 53\<close> are exact. The requests themselves are an argument, the list of their outcomes in
  the order in which they complete.
\<close>

section \<open>Numbers\<close>

record py_floats =
  fl :: "rat \<Rightarrow> rat"
  round2 :: "rat \<Rightarrow> rat"
  float_of :: "string \<Rightarrow> rat"
  py_str :: "pyval \<Rightarrow> string"
  float_repr :: "rat \<Rightarrow> string"

locale float_laws =
  fixes X :: "'x py_floats_scheme"
  assumes fl_mono: "a \<le> b \<Longrightarrow> fl X a \<le> fl X b"
    and fl_int: "\<bar>i\<bar> \<le> 2 ^ 53 \<Longrightarrow> fl X (of_int i) = of_int i"
    and round2_mono: "a \<le> b \<Longrightarrow> round2 X a \<le> round2 X b"

text \<open>\<open>round(x)\<close>: to the nearest integer, halves to the even one.\<close>

definition round_half_even :: "rat \<Rightarrow> int" where
  "round_half_even x = (let f = \<lfloor>x\<rfloor>; d = x - of_int f in
     if d < 1/2 then f else if d > 1/2 then f + 1 else if even f then f else f + 1)"

text \<open>Numbers in a document; the comparison of anything else with a float raises.\<close>

definition number_of :: "'x py_floats_scheme \<Rightarrow> pyval \<Rightarrow> (exn, rat) result" where
  "number_of X v = (case v of
       PInt i \<Rightarrow> Inr (of_int i)
     | PFloat l \<Rightarrow> Inr (float_of X l)
     | PBool b \<Rightarrow> Inr (if b then 1 else 0)
     | _ \<Rightarrow> Inl (Unexpected ''TypeError''))"

section \<open>Thresholds and profiles\<close>

text \<open>A threshold that is not set is \<open>PNone\<close>.\<close>

record load_thresholds =
  max_p95_ms :: pyval
  max_p99_ms :: pyval
  min_throughput_rps :: pyval

record load_request =
  lq_path :: pyval
  lq_method :: pyval
  lq_headers :: pyval
  lq_json_body :: pyval

record load_profile =
  lp_request :: load_request
  lp_thresholds :: load_thresholds

definition no_thresholds :: load_thresholds where
  "no_thresholds = \<lparr>max_p95_ms = PNone, max_p99_ms = PNone, min_throughput_rps = PNone\<rparr>"

definition path_request :: "string \<Rightarrow> load_request" where
  "path_request p = \<lparr>lq_path = PStr p, lq_method = PStr ''GET'', lq_headers = PDict [], lq_json_body = PNone\<rparr>"

definition PROFILE_PATHS :: "(string \<times> string) list" where
  "PROFILE_PATHS = [(''health'', ''/health''), (''health-ready'', ''/health/ready''), (''auth-login'', ''/api/v1/auth/login'')]"

definition DEFAULT_PROFILES :: "(string \<times> load_profile) list" where
  "DEFAULT_PROFILES =
     [(''health'', \<lparr>lp_request = path_request ''/health'',
         lp_thresholds = no_thresholds\<lparr>max_p95_ms := PFloat ''500.0'', min_throughput_rps := PFloat ''10.0''\<rparr>\<rparr>),
      (''health-ready'', \<lparr>lp_request = path_request ''/health/ready'',
         lp_thresholds = no_thresholds\<lparr>max_p95_ms := PFloat ''2000.0'', min_throughput_rps := PFloat ''5.0''\<rparr>\<rparr>)]"

definition get_or :: "pydict \<Rightarrow> string \<Rightarrow> pyval \<Rightarrow> pyval" where
  "get_or d k dflt = (case dict_get d k of None \<Rightarrow> dflt | Some v \<Rightarrow> v)"

definition build_profile_request :: "string \<Rightarrow> pydict \<Rightarrow> load_request" where
  "build_profile_request profile_name values =
     \<lparr>lq_path = get_or values ''path'' (PStr (case map_of PROFILE_PATHS profile_name of None \<Rightarrow> ''/health'' | Some p \<Rightarrow> p)),
      lq_method = get_or values ''method'' (PStr ''GET''),
      lq_headers = get_or values ''headers'' (PDict []),
      lq_json_body = get_or values ''json_body'' PNone\<rparr>"

definition build_profile_thresholds :: "pydict \<Rightarrow> load_thresholds" where
  "build_profile_thresholds values =
     \<lparr>max_p95_ms = get_or values ''max_p95_ms'' PNone, max_p99_ms = get_or values ''max_p99_ms'' PNone,
      min_throughput_rps = get_or values ''min_throughput_rps'' PNone\<rparr>"

fun put_profile :: "string \<Rightarrow> load_profile \<Rightarrow> (string \<times> load_profile) list \<Rightarrow> (string \<times> load_profile) list" where
  "put_profile k p [] = [(k, p)]"
| "put_profile k p ((k', p') # ps) = (if k' = k then (k, p) # ps else (k', p') # put_profile k p ps)"

fun read_profiles :: "pydict \<Rightarrow> (string \<times> load_profile) list \<Rightarrow> (exn, (string \<times> load_profile) list) result" where
  "read_profiles [] profiles = Inr profiles"
| "read_profiles ((name, PDict values) # rest) profiles =
     read_profiles rest (put_profile name \<lparr>lp_request = build_profile_request name values,
       lp_thresholds = build_profile_thresholds values\<rparr> profiles)"
| "read_profiles ((name, v) # rest) profiles = Inl (Unexpected ''AttributeError'')"

definition load_profiles_file :: "(exn, string) result \<Rightarrow> (exn, (string \<times> load_profile) list) result" where
  "load_profiles_file text = and_then text (\<lambda>t. case loads t of
       None \<Rightarrow> Inl (ValueErr ''JSONDecodeError'')
     | Some (PDict raw_profiles) \<Rightarrow> read_profiles raw_profiles []
     | Some v \<Rightarrow> Inl (Unexpected ''AttributeError''))"

definition resolve_profile :: "string \<Rightarrow> (exn, string) result option \<Rightarrow> (exn, load_profile) result" where
  "resolve_profile profile_name profiles_file =
     and_then (case profiles_file of
         None \<Rightarrow> Inr DEFAULT_PROFILES
       | Some text \<Rightarrow> and_then (load_profiles_file text)
           (\<lambda>loaded. Inr (fold (\<lambda>(k, p). put_profile k p) loaded DEFAULT_PROFILES)))
     (\<lambda>profiles. case map_of profiles profile_name of
         None \<Rightarrow> Inl (ValueErr (''Unknown profile '' @ [CHR 0x27] @ profile_name @ [CHR 0x27] @ ''. Available: ''
                    @ join '', '' (sort (map fst profiles))))
       | Some p \<Rightarrow> Inr p)"

definition overridden :: "pyval \<Rightarrow> pyval \<Rightarrow> pyval" where
  "overridden v base = (if v \<noteq> PNone then v else base)"

definition merge_thresholds :: "load_thresholds \<Rightarrow> load_thresholds \<Rightarrow> load_thresholds" where
  "merge_thresholds base given =
     \<lparr>max_p95_ms = overridden (max_p95_ms given) (max_p95_ms base),
      max_p99_ms = overridden (max_p99_ms given) (max_p99_ms base),
      min_throughput_rps = overridden (min_throughput_rps given) (min_throughput_rps base)\<rparr>"

section \<open>The summary of a run\<close>

definition py_nth :: "'a list \<Rightarrow> int \<Rightarrow> (exn, 'a) result" where
  "py_nth xs i =
     (if 0 \<le> i \<and> i < int (length xs) then Inr (xs ! nat i)
      else if - int (length xs) \<le> i \<and> i < 0 then Inr (xs ! nat (int (length xs) + i))
      else Inl (Unexpected ''IndexError''))"

definition percentile :: "'x py_floats_scheme \<Rightarrow> rat list \<Rightarrow> rat \<Rightarrow> (exn, rat) result" where
  "percentile X values pct =
     (if values = [] then Inr 0
      else py_nth (sort values)
             (round_half_even (fl X (fl X (pct / 100) * of_int (int (length values) - 1)))))"

record load_summary =
  sm_target :: string
  sm_count :: int
  sm_total_seconds :: rat
  sm_throughput_rps :: rat
  sm_min_ms :: rat
  sm_max_ms :: rat
  sm_mean_ms :: rat
  sm_p50_ms :: rat
  sm_p95_ms :: rat
  sm_p99_ms :: rat

definition in_ms :: "'x py_floats_scheme \<Rightarrow> rat \<Rightarrow> rat" where
  "in_ms X x = round2 X (fl X (x * 1000))"

definition summarize :: "'x py_floats_scheme \<Rightarrow> rat list \<Rightarrow> rat \<Rightarrow> string \<Rightarrow> (exn, load_summary) result" where
  "summarize X latencies elapsed_seconds target =
     (if latencies = [] then Inl (ValueErr ''min() arg is an empty sequence'')
      else and_then (percentile X latencies 50) (\<lambda>p50.
           and_then (percentile X latencies 95) (\<lambda>p95.
           and_then (percentile X latencies 99) (\<lambda>p99.
           Inr \<lparr>sm_target = target, sm_count = int (length latencies), sm_total_seconds = round2 X elapsed_seconds,
                sm_throughput_rps = (if elapsed_seconds \<noteq> 0
                   then round2 X (fl X (of_int (int (length latencies)) / elapsed_seconds)) else 0),
                sm_min_ms = in_ms X (Min (set latencies)), sm_max_ms = in_ms X (Max (set latencies)),
                sm_mean_ms = in_ms X (fl X (sum_list latencies / of_int (int (length latencies)))),
                sm_p50_ms = in_ms X p50, sm_p95_ms = in_ms X p95, sm_p99_ms = in_ms X p99\<rparr>))))"

section \<open>Comparison with thresholds\<close>

definition violation ::
  "'x py_floats_scheme \<Rightarrow> bool \<Rightarrow> string \<Rightarrow> string \<Rightarrow> rat \<Rightarrow> pyval \<Rightarrow> (exn, string list) result" where
  "violation X upper_bound name words measured threshold =
     (if threshold = PNone then Inr []
      else and_then (number_of X threshold) (\<lambda>t.
        Inr (if (if upper_bound then t < measured else measured < t)
             then [name @ '' '' @ float_repr X measured @ words @ py_str X threshold] else [])))"

definition evaluate_thresholds :: "'x py_floats_scheme \<Rightarrow> load_summary \<Rightarrow> load_thresholds \<Rightarrow> (exn, string list) result" where
  "evaluate_thresholds X s t =
     and_then (violation X True ''p95_ms'' '' exceeds max '' (sm_p95_ms s) (max_p95_ms t)) (\<lambda>v1.
     and_then (violation X True ''p99_ms'' '' exceeds max '' (sm_p99_ms s) (max_p99_ms t)) (\<lambda>v2.
     and_then (violation X False ''throughput_rps'' '' below min '' (sm_throughput_rps s) (min_throughput_rps t)) (\<lambda>v3.
     Inr (v1 @ v2 @ v3))))"

record result_payload =
  rp_summary :: load_summary
  rp_thresholds :: "load_thresholds option"
  rp_violations :: "string list"
  rp_passed :: bool

definition build_result_payload ::
  "'x py_floats_scheme \<Rightarrow> load_summary \<Rightarrow> load_thresholds option \<Rightarrow> (exn, result_payload) result" where
  "build_result_payload X s thresholds = (case thresholds of
       None \<Rightarrow> Inr \<lparr>rp_summary = s, rp_thresholds = None, rp_violations = [], rp_passed = True\<rparr>
     | Some t \<Rightarrow> and_then (evaluate_thresholds X s t) (\<lambda>violations.
         Inr \<lparr>rp_summary = s, rp_thresholds = Some t, rp_violations = violations, rp_passed = (violations = [])\<rparr>))"

section \<open>The command line\<close>

text \<open>The two environment variables for the credentials of the login profile.\<close>

definition apply_login_env_overrides :: "string option \<Rightarrow> string option \<Rightarrow> pyval \<Rightarrow> (exn, pyval) result" where
  "apply_login_env_overrides email password json_body = (case json_body of
       PNone \<Rightarrow> Inr PNone
     | body \<Rightarrow> if email = None \<and> password = None then Inr body
         else (case body of
             PDict d \<Rightarrow>
               let d1 = (case email of None \<Rightarrow> d | Some e \<Rightarrow> dict_set d ''email'' (PStr e))
               in Inr (PDict (case password of None \<Rightarrow> d1 | Some p \<Rightarrow> dict_set d1 ''password'' (PStr p)))
           | _ \<Rightarrow> Inl (Unexpected ''TypeError'')))"

definition prepare_profile_request :: "string option \<Rightarrow> string option \<Rightarrow> load_profile \<Rightarrow> (exn, load_request) result" where
  "prepare_profile_request email password profile =
     (let request = lp_request profile in
      if lq_json_body request = PNone then Inr request
      else and_then (apply_login_env_overrides email password (lq_json_body request))
             (\<lambda>body. Inr (request\<lparr>lq_json_body := body\<rparr>)))"

text \<open>One request: two readings of the clock, and what the client raises or nothing.\<close>

definition run_request :: "'x py_floats_scheme \<Rightarrow> rat \<Rightarrow> (exn, unit) result \<Rightarrow> rat \<Rightarrow> (exn, rat) result" where
  "run_request X start reply stop = and_then reply (\<lambda>_. Inr (fl X (stop - start)))"

fun collect_results :: "(exn, rat) result list \<Rightarrow> (exn, rat list) result" where
  "collect_results [] = Inr []"
| "collect_results (Inl e # rs) = Inl e"
| "collect_results (Inr x # rs) = and_then (collect_results rs) (\<lambda>xs. Inr (x # xs))"

definition collect_latencies :: "int \<Rightarrow> (exn, rat) result list \<Rightarrow> (exn, rat list) result" where
  "collect_latencies concurrency results =
     (if concurrency \<le> 0 then Inl (ValueErr ''max_workers must be greater than 0'') else collect_results results)"

record load_args =
  la_base_url :: string
  la_path :: string
  la_profile :: "string option"
  la_profiles_file :: "(exn, string) result"
  la_concurrency :: int
  la_thresholds :: load_thresholds
  la_check_thresholds :: bool
  la_email :: "string option"
  la_password :: "string option"

datatype load_exit = UsageError | LoadRaised exn | Exited int result_payload

definition select_request ::
  "load_args \<Rightarrow> (exn, load_request \<times> load_thresholds option) result" where
  "select_request args = (case la_profile args of
       Some (c # cs) \<Rightarrow>
         and_then (resolve_profile (c # cs) (Some (la_profiles_file args))) (\<lambda>profile.
         and_then (prepare_profile_request (la_email args) (la_password args) profile) (\<lambda>request.
         Inr (request, Some (merge_thresholds (lp_thresholds profile) (la_thresholds args)))))
     | _ \<Rightarrow> Inr (path_request (la_path args),
           if la_thresholds args = no_thresholds then None else Some (la_thresholds args)))"

definition rstrip_slashes :: "string \<Rightarrow> string" where
  "rstrip_slashes s = rev (dropWhile (\<lambda>c. c = CHR ''/'') (rev s))"

definition load_main :: "'x py_floats_scheme \<Rightarrow> load_args \<Rightarrow> (exn, rat) result list \<Rightarrow> rat \<Rightarrow> load_exit" where
  "load_main X args results elapsed_seconds = (case select_request args of
       Inl e \<Rightarrow> LoadRaised e
     | Inr (request, thresholds) \<Rightarrow>
         if la_check_thresholds args \<and> thresholds = None then UsageError
         else (case and_then (collect_latencies (la_concurrency args) results) (\<lambda>latencies.
                    and_then (summarize X latencies elapsed_seconds
                      (rstrip_slashes (la_base_url args) @ py_str X (lq_path request))) (\<lambda>s.
                    build_result_payload X s (if la_check_thresholds args then thresholds else None))) of
             Inl e \<Rightarrow> LoadRaised e
           | Inr payload \<Rightarrow> Exited (if la_check_thresholds args \<and> \<not> rp_passed payload then 1 else 0) payload))"

section \<open>Rounding\<close>

lemma round_half_even_bounds: "\<lfloor>x\<rfloor> \<le> round_half_even x \<and> round_half_even x \<le> \<lfloor>x\<rfloor> + 1"
  by (simp add: round_half_even_def Let_def)

lemma round_half_even_int [simp]: "round_half_even (of_int i) = i"
  by (simp add: round_half_even_def)

lemma round_half_even_mono: "x \<le> y \<Longrightarrow> round_half_even x \<le> round_half_even y"
proof -
  assume xy: "x \<le> y"
  then have f: "\<lfloor>x\<rfloor> \<le> \<lfloor>y\<rfloor>" by (rule floor_mono)
  show ?thesis
  proof (cases "\<lfloor>x\<rfloor> = \<lfloor>y\<rfloor>")
    case True
    then show ?thesis using xy by (auto simp: round_half_even_def Let_def)
  next
    case False
    then show ?thesis using f round_half_even_bounds [of x] round_half_even_bounds [of y] by linarith
  qed
qed

section \<open>Percentiles and summaries\<close>

definition rank :: "'x py_floats_scheme \<Rightarrow> nat \<Rightarrow> rat \<Rightarrow> int" where
  "rank X n pct = round_half_even (fl X (fl X (pct / 100) * of_int (int n - 1)))"

context float_laws
begin

lemma fl_range: "0 \<le> x \<Longrightarrow> x \<le> of_int i \<Longrightarrow> i \<le> 2 ^ 53 \<Longrightarrow> 0 \<le> fl X x \<and> fl X x \<le> of_int i"
proof -
  assume a: "0 \<le> x" "x \<le> of_int i" "i \<le> 2 ^ 53"
  then have "0 \<le> i" by (metis of_int_0_le_iff order_trans)
  with a show ?thesis using fl_mono [of 0 x] fl_mono [of x "of_int i"] fl_int [of 0] fl_int [of i] by simp
qed

lemma rank_range:
  assumes "0 \<le> pct" "pct \<le> 100" "0 < n" "int n \<le> 2 ^ 53"
  shows "0 \<le> rank X n pct \<and> rank X n pct < int n"
proof -
  have q: "0 \<le> fl X (pct / 100) \<and> fl X (pct / 100) \<le> 1"
    using fl_range [of "pct / 100" 1] assms by simp
  then have p: "fl X (pct / 100) * of_int (int n - 1) \<le> of_int (int n - 1)"
    "0 \<le> fl X (pct / 100) * of_int (int n - 1)"
    using assms(3) by (simp_all add: mult_left_le_one_le)
  then have "0 \<le> fl X (fl X (pct / 100) * of_int (int n - 1)) \<and>
      fl X (fl X (pct / 100) * of_int (int n - 1)) \<le> of_int (int n - 1)"
    using assms(4) by (intro fl_range) simp_all
  then show ?thesis
    using round_half_even_mono [of 0 "fl X (fl X (pct / 100) * of_int (int n - 1))"]
      round_half_even_mono [of "fl X (fl X (pct / 100) * of_int (int n - 1))" "of_int (int n - 1)"]
      round_half_even_int [of 0] round_half_even_int [of "int n - 1"]
    unfolding rank_def by simp
qed

lemma rank_mono:
  assumes "0 < n" "p \<le> q"
  shows "rank X n p \<le> rank X n q"
  unfolding rank_def
  using assms by (intro round_half_even_mono fl_mono mult_right_mono) (simp_all add: divide_right_mono)

lemma percentile_rank:
  assumes "xs \<noteq> []" "int (length xs) \<le> 2 ^ 53" "0 \<le> pct" "pct \<le> 100"
  shows "percentile X xs pct = Inr (sort xs ! nat (rank X (length xs) pct))"
  using rank_range [of pct "length xs"] assms by (simp add: percentile_def py_nth_def rank_def)

lemma percentile_mono:
  assumes "xs \<noteq> []" "int (length xs) \<le> 2 ^ 53" "0 \<le> p" "p \<le> q" "q \<le> 100"
  shows "sort xs ! nat (rank X (length xs) p) \<le> sort xs ! nat (rank X (length xs) q)"
  using rank_range [of q "length xs"] rank_mono [of "length xs" p q] assms
  by (intro sorted_nth_mono) (simp_all add: nat_le_iff nat_less_iff)

lemma percentile_between:
  assumes "xs \<noteq> []" "int (length xs) \<le> 2 ^ 53" "0 \<le> p" "p \<le> 100"
  shows "Min (set xs) \<le> sort xs ! nat (rank X (length xs) p)"
    and "sort xs ! nat (rank X (length xs) p) \<le> Max (set xs)"
proof -
  have "sort xs ! nat (rank X (length xs) p) \<in> set (sort xs)"
    using rank_range [of p "length xs"] assms by (intro nth_mem) (simp add: nat_less_iff)
  then show "Min (set xs) \<le> sort xs ! nat (rank X (length xs) p)"
    and "sort xs ! nat (rank X (length xs) p) \<le> Max (set xs)" by simp_all
qed

lemma in_ms_mono: "a \<le> b \<Longrightarrow> in_ms X a \<le> in_ms X b"
  unfolding in_ms_def by (intro round2_mono fl_mono) simp

end

lemma mean_between:
  fixes xs :: "rat list"
  assumes "xs \<noteq> []"
  shows "Min (set xs) \<le> sum_list xs / of_int (int (length xs))"
    and "sum_list xs / of_int (int (length xs)) \<le> Max (set xs)"
proof -
  have "of_nat (length ys) * lo \<le> sum_list ys \<and> sum_list ys \<le> of_nat (length ys) * hi"
    if "\<forall>y \<in> set ys. lo \<le> y \<and> y \<le> hi" for ys and lo hi :: rat
    using that by (induction ys) (auto simp: algebra_simps intro: add_mono)
  from this [of xs "Min (set xs)" "Max (set xs)"]
  show "Min (set xs) \<le> sum_list xs / of_int (int (length xs))"
    and "sum_list xs / of_int (int (length xs)) \<le> Max (set xs)"
    using assms by (simp_all add: field_simps)
qed

lemma summarize_order:
  assumes "mset xs = mset ys"
  shows "summarize X xs elapsed target = summarize X ys elapsed target"
proof -
  have "sort xs = sort ys" using assms by (simp add: properties_for_sort)
  moreover have "length xs = length ys" using assms by (rule mset_eq_length)
  moreover have "set xs = set ys" using assms by (rule mset_eq_setD)
  moreover have "sum_list xs = sum_list ys" using assms by (metis sum_mset_sum_list)
  moreover have "xs = [] \<longleftrightarrow> ys = []" using assms by auto
  ultimately show ?thesis by (simp add: summarize_def percentile_def)
qed

definition ordered_summary :: "load_summary \<Rightarrow> bool" where
  "ordered_summary s \<longleftrightarrow> sm_min_ms s \<le> sm_p50_ms s \<and> sm_p50_ms s \<le> sm_p95_ms s \<and> sm_p95_ms s \<le> sm_p99_ms s
     \<and> sm_p99_ms s \<le> sm_max_ms s \<and> sm_min_ms s \<le> sm_mean_ms s \<and> sm_mean_ms s \<le> sm_max_ms s"

text \<open>\<open>representable\<close>: every latency is a float and there are no more of them than floats count exactly.\<close>

definition representable :: "'x py_floats_scheme \<Rightarrow> rat list \<Rightarrow> bool" where
  "representable X xs \<longleftrightarrow> (\<forall>x \<in> set xs. fl X x = x) \<and> int (length xs) \<le> 2 ^ 53"

context float_laws
begin

lemma summarize_ordered:
  assumes "xs \<noteq> []" and r: "representable X xs"
  shows "\<exists>s. summarize X xs elapsed target = Inr s \<and> ordered_summary s"
proof -
  have n: "int (length xs) \<le> 2 ^ 53" using r by (simp add: representable_def)
  let ?p = "\<lambda>q. sort xs ! nat (rank X (length xs) q)"
  have p: "percentile X xs q = Inr (?p q)" if "0 \<le> q" "q \<le> 100" for q
    using percentile_rank [OF assms(1) n that] .
  have "Min (set xs) \<in> set xs" "Max (set xs) \<in> set xs" using assms(1) by simp_all
  then have "fl X (Min (set xs)) = Min (set xs)" "fl X (Max (set xs)) = Max (set xs)"
    using r by (simp_all add: representable_def)
  then have "Min (set xs) \<le> fl X (sum_list xs / of_int (int (length xs)))"
    "fl X (sum_list xs / of_int (int (length xs))) \<le> Max (set xs)"
    using fl_mono [OF mean_between(1) [OF assms(1)]] fl_mono [OF mean_between(2) [OF assms(1)]] by simp_all
  then show ?thesis
    using assms(1) percentile_between [OF assms(1) n, of 50] percentile_between [OF assms(1) n, of 99]
      percentile_mono [OF assms(1) n, of 50 95] percentile_mono [OF assms(1) n, of 95 99]
    by (simp add: summarize_def p ordered_summary_def in_ms_mono)
qed

end

lemma collect_results_Inr: "collect_results rs = Inr xs \<Longrightarrow> rs = map Inr xs"
  by (induction rs arbitrary: xs rule: collect_results.induct) (auto simp: and_then_Inr_iff)

section \<open>The verdict\<close>

definition meets :: "'x py_floats_scheme \<Rightarrow> load_summary \<Rightarrow> load_thresholds \<Rightarrow> bool" where
  "meets X s t \<longleftrightarrow> (\<forall>v. number_of X (max_p95_ms t) = Inr v \<longrightarrow> sm_p95_ms s \<le> v)
     \<and> (\<forall>v. number_of X (max_p99_ms t) = Inr v \<longrightarrow> sm_p99_ms s \<le> v)
     \<and> (\<forall>v. number_of X (min_throughput_rps t) = Inr v \<longrightarrow> v \<le> sm_throughput_rps s)"

lemma violation_none:
  "violation X b name words x t = Inr [] \<longleftrightarrow> (t = PNone \<or> (\<exists>v. number_of X t = Inr v \<and> (if b then x \<le> v else v \<le> x)))"
  by (auto simp: violation_def and_then_Inr_iff not_less)

lemma evaluate_meets:
  assumes "evaluate_thresholds X s t = Inr vs"
  shows "vs = [] \<longleftrightarrow> meets X s t"
proof -
  obtain v1 v2 v3 where v: "violation X True ''p95_ms'' '' exceeds max '' (sm_p95_ms s) (max_p95_ms t) = Inr v1"
      "violation X True ''p99_ms'' '' exceeds max '' (sm_p99_ms s) (max_p99_ms t) = Inr v2"
      "violation X False ''throughput_rps'' '' below min '' (sm_throughput_rps s) (min_throughput_rps t) = Inr v3"
      "vs = v1 @ v2 @ v3"
    using assms by (auto simp: evaluate_thresholds_def and_then_Inr_iff)
  have none: "number_of X PNone = Inl (Unexpected ''TypeError'')" by (simp add: number_of_def)
  have read: "violation X b name words x w = Inr y \<Longrightarrow> w = PNone \<or> (\<exists>v. number_of X w = Inr v)" for b name words x w y
    by (auto simp: violation_def and_then_Inr_iff split: if_splits)
  have "v1 = [] \<longleftrightarrow> (\<forall>v. number_of X (max_p95_ms t) = Inr v \<longrightarrow> sm_p95_ms s \<le> v)"
    using v(1) read [OF v(1)] violation_none [of X True "''p95_ms''" "'' exceeds max ''" "sm_p95_ms s" "max_p95_ms t"] none
    by (cases "max_p95_ms t = PNone") auto
  moreover have "v2 = [] \<longleftrightarrow> (\<forall>v. number_of X (max_p99_ms t) = Inr v \<longrightarrow> sm_p99_ms s \<le> v)"
    using v(2) read [OF v(2)] violation_none [of X True "''p99_ms''" "'' exceeds max ''" "sm_p99_ms s" "max_p99_ms t"] none
    by (cases "max_p99_ms t = PNone") auto
  moreover have "v3 = [] \<longleftrightarrow> (\<forall>v. number_of X (min_throughput_rps t) = Inr v \<longrightarrow> v \<le> sm_throughput_rps s)"
    using v(3) read [OF v(3)] violation_none [of X False "''throughput_rps''" "'' below min ''" "sm_throughput_rps s" "min_throughput_rps t"] none
    by (cases "min_throughput_rps t = PNone") auto
  ultimately show ?thesis by (auto simp: v(4) meets_def)
qed

text \<open>
  C40: A run of the load baseline that ends normally has sent at least one request and every request succeeded;
  its summary is ordered, from the minimum over the percentiles to the maximum. With threshold checking it
  ends with 0 exactly when the summary meets every threshold that is set, by the profile or by the options,
  and with 1 otherwise; without checking it ends with 0.
\<close>

theorem load_gate:
  assumes X: "float_laws X" and run: "load_main X args results elapsed = Exited code payload"
    and r: "\<And>xs. results = map Inr xs \<Longrightarrow> representable X xs"
  shows "(\<exists>xs. results = map Inr xs \<and> xs \<noteq> []) \<and> ordered_summary (rp_summary payload)
    \<and> (if la_check_thresholds args
       then \<exists>request t. select_request args = Inr (request, Some t)
          \<and> code = (if meets X (rp_summary payload) t then 0 else 1)
       else code = 0)"
proof -
  obtain request thresholds where sel: "select_request args = Inr (request, thresholds)"
    using run by (auto simp: load_main_def split: sum.splits)
  let ?target = "rstrip_slashes (la_base_url args) @ py_str X (lq_path request)"
  have checked: "la_check_thresholds args \<longrightarrow> thresholds \<noteq> None"
    using run by (auto simp: load_main_def sel split: if_splits)
  have "and_then (collect_latencies (la_concurrency args) results) (\<lambda>latencies.
      and_then (summarize X latencies elapsed ?target) (\<lambda>s.
      build_result_payload X s (if la_check_thresholds args then thresholds else None))) = Inr payload"
    and code: "code = (if la_check_thresholds args \<and> \<not> rp_passed payload then 1 else 0)"
    using run checked by (auto simp: load_main_def sel split: sum.splits if_splits)
  then obtain xs s where xs: "collect_latencies (la_concurrency args) results = Inr xs"
      and s: "summarize X xs elapsed ?target = Inr s"
      and pay: "build_result_payload X s (if la_check_thresholds args then thresholds else None) = Inr payload"
    unfolding and_then_Inr_iff by blast
  have results: "results = map Inr xs"
    using xs collect_results_Inr by (auto simp: collect_latencies_def split: if_splits)
  have ne: "xs \<noteq> []" using s by (auto simp: summarize_def split: if_splits)
  have ord: "ordered_summary s"
    using float_laws.summarize_ordered [OF X ne r [OF results], of elapsed ?target] s by auto
  have summary: "rp_summary payload = s"
    using pay by (auto simp: build_result_payload_def and_then_Inr_iff split: option.splits)
  show ?thesis
  proof (cases "la_check_thresholds args")
    case True
    then obtain t where t: "thresholds = Some t" using checked by auto
    then have "rp_passed payload \<longleftrightarrow> meets X s t"
      using pay True evaluate_meets [of X s t] by (auto simp: build_result_payload_def and_then_Inr_iff)
    then show ?thesis using True results ne ord summary sel t code by auto
  next
    case False
    then show ?thesis using results ne ord summary code by auto
  qed
qed

section \<open>An example\<close>

text \<open>Floats on a grid of \<open>2 ^ -20\<close>.\<close>

definition on_grid :: "rat \<Rightarrow> rat \<Rightarrow> rat" where
  "on_grid k x = of_int (round_half_even (x * k)) / k"

definition grid_floats :: py_floats where
  "grid_floats = \<lparr>fl = on_grid (2 ^ 20), round2 = on_grid 100, float_of = (\<lambda>_. 0), py_str = (\<lambda>v. case v of PStr s \<Rightarrow> s | _ \<Rightarrow> []),
     float_repr = (\<lambda>_. [])\<rparr>"

lemma on_grid_mono: "0 < k \<Longrightarrow> x \<le> y \<Longrightarrow> on_grid k x \<le> on_grid k y"
  by (simp add: on_grid_def divide_right_mono round_half_even_mono)

lemma on_grid_int: "on_grid (of_int k) (of_int i) = of_int i" if "0 < k"
  using that round_half_even_int [of "i * k"] by (simp add: on_grid_def)

interpretation grid_floats: float_laws grid_floats
  by unfold_locales (use on_grid_int [of "2 ^ 20"] in \<open>simp_all add: grid_floats_def on_grid_mono\<close>)

definition example_args :: load_args where
  "example_args = \<lparr>la_base_url = ''http://api:8000/'', la_path = ''/health'', la_profile = None,
     la_profiles_file = Inr [], la_concurrency = 5, la_thresholds = no_thresholds\<lparr>max_p95_ms := PInt 400\<rparr>,
     la_check_thresholds = True, la_email = None, la_password = None\<rparr>"

lemma grid_int: "on_grid 1048576 (of_int i) = of_int i" "on_grid 100 (of_int i) = of_int i"
  using on_grid_int [of 1048576 i] on_grid_int [of 100 i] by simp_all

lemma grid_half: "on_grid 1048576 (1 / 2) = 1 / 2"
  using round_half_even_int [of 524288] by (simp add: on_grid_def)

lemma example_run:
  "\<exists>payload. load_main grid_floats example_args [Inr (1 / 2)] 1 = Exited 1 payload"
proof -
  have i: "on_grid 1048576 0 = 0" "on_grid 1048576 1 = 1" "on_grid 1048576 500 = 500" "on_grid 100 500 = 500"
      "on_grid 100 1 = 1" "round_half_even 0 = 0"
    using grid_int [of 0] grid_int [of 1] grid_int [of 500] round_half_even_int [of 0] by simp_all
  have p: "percentile grid_floats [1 / 2] q = Inr (1 / 2)" for q
    by (simp add: percentile_def py_nth_def grid_floats_def i)
  have "summarize grid_floats [1 / 2] 1 (''http://api:8000'' @ ''/health'') = Inr \<lparr>sm_target = ''http://api:8000/health'',
      sm_count = 1, sm_total_seconds = 1, sm_throughput_rps = 1, sm_min_ms = 500, sm_max_ms = 500, sm_mean_ms = 500,
      sm_p50_ms = 500, sm_p95_ms = 500, sm_p99_ms = 500\<rparr>"
    unfolding summarize_def p by (simp add: grid_floats_def in_ms_def i grid_half)
  then show ?thesis
    by (simp add: load_main_def select_request_def example_args_def no_thresholds_def path_request_def
        collect_latencies_def rstrip_slashes_def grid_floats_def build_result_payload_def evaluate_thresholds_def
        violation_def number_of_def)
qed

lemma load_gate_witness:
  "\<exists>payload t. load_main grid_floats example_args [Inr (1 / 2)] 1 = Exited 1 payload
     \<and> ordered_summary (rp_summary payload) \<and> \<not> meets grid_floats (rp_summary payload) t"
proof -
  obtain payload where run: "load_main grid_floats example_args [Inr (1 / 2)] 1 = Exited 1 payload"
    using example_run by blast
  have r: "representable grid_floats xs" if "[Inr (1 / 2)] = map Inr xs" for xs
  proof -
    from that have "xs = [1 / 2]" by (cases xs) auto
    then show ?thesis by (simp add: representable_def grid_floats_def grid_half)
  qed
  have "la_check_thresholds example_args" by (simp add: example_args_def)
  then show ?thesis
    using load_gate [OF grid_floats.float_laws_axioms run r] run by (auto split: if_splits)
qed

end
