(* ===== verification/Openapi.thy ===== *)
theory Openapi
  imports Errors
begin

text \<open>
  The documentation of the interface, \<open>app/api/openapi.py\<close>: the tags, the tables of documented error
  responses and \<open>configure_openapi\<close>, which completes the document the framework generates and keeps it.
  The generator of the framework is a parameter; the locale \<open>openapi_generator\<close> says which parts its
  document has.
\<close>

section \<open>Tags\<close>

definition OPENAPI_TAGS :: "(string \<times> string) list" where
  "OPENAPI_TAGS =
     [(''auth'', ''Registration, login, token refresh/logout, and password reset flows.''),
      (''users'', ''User listing, profile reads, and self/admin updates.''),
      (''admin'', ''Admin-only operations and audit log inspection.''),
      (''files'', ''Authenticated file uploads backed by object storage.''),
      (''health'', ''Process and dependency health checks for orchestration.''),
      (''metrics'', ''Prometheus-compatible application metrics.''),
      (''webhooks'', ''Signed inbound webhook processing with replay protection.'')]"

section \<open>Documented responses\<close>

record response_doc =
  rd_model :: string
  rd_description :: string

type_synonym response_table = "(int \<times> response_doc) list"

definition documented_error :: "string \<Rightarrow> response_doc" where
  "documented_error description = \<lparr>rd_model = ''ErrorResponse'', rd_description = description\<rparr>"

definition ERROR_RESPONSES :: response_table where
  "ERROR_RESPONSES =
     [(400, documented_error ''Bad request.''),
      (401, documented_error ''Authentication required or credentials are invalid.''),
      (403, documented_error ''Authenticated but not authorized for this action.''),
      (404, documented_error ''Requested resource was not found.''),
      (409, documented_error ''Request conflicts with current resource state.''),
      (422, documented_error ''Request validation failed.''),
      (429, documented_error ''Rate limit exceeded.'')]"

text \<open>Entries taken over from the table, and \<open>{**a, **b}\<close>.\<close>

definition from_table :: "int list \<Rightarrow> response_table" where
  "from_table statuses = map (\<lambda>s. (s, the (map_of ERROR_RESPONSES s))) statuses"

fun put_response :: "response_table \<Rightarrow> int \<Rightarrow> response_doc \<Rightarrow> response_table" where
  "put_response [] s d = [(s, d)]"
| "put_response ((s', d') # t) s d = (if s' = s then (s, d) # t else (s', d') # put_response t s d)"

definition merged :: "response_table \<Rightarrow> response_table \<Rightarrow> response_table" where
  "merged a b = foldl (\<lambda>t (s, d). put_response t s d) a b"

definition AUTH_ERROR_RESPONSES :: response_table where
  "AUTH_ERROR_RESPONSES = from_table [401, 422]"

definition PROTECTED_ERROR_RESPONSES :: response_table where
  "PROTECTED_ERROR_RESPONSES = from_table [401, 403, 404, 422]"

definition ADMIN_ERROR_RESPONSES :: response_table where
  "ADMIN_ERROR_RESPONSES = merged [] PROTECTED_ERROR_RESPONSES"

definition RATE_LIMITED_ERROR_RESPONSES :: response_table where
  "RATE_LIMITED_ERROR_RESPONSES = merged (merged [] AUTH_ERROR_RESPONSES) (from_table [429])"

lemma map_of_put_response: "map_of (put_response t s d) s' = (if s' = s then Some d else map_of t s')"
  by (induction t) auto

lemma merged_Nil [simp]: "merged a [] = a" by (simp add: merged_def)

lemma merged_Cons: "merged a ((s, d) # b) = merged (put_response a s d) b"
  by (simp add: merged_def)

lemma map_of_merged:
  "distinct (map fst b) \<Longrightarrow>
   map_of (merged a b) s = (case map_of b s of Some d \<Rightarrow> Some d | None \<Rightarrow> map_of a s)"
proof (induction b arbitrary: a)
  case (Cons x b)
  obtain s' d where x: "x = (s', d)" by fastforce
  then have "map_of b s' = None" using Cons.prems by (simp add: map_of_eq_None_iff)
  then show ?case using Cons x by (simp add: merged_Cons map_of_put_response split: option.splits)
qed simp

section \<open>The document\<close>

text \<open>The two attributes of the application; an empty document is false, as in the source.\<close>

record docs_app =
  openapi_tags :: "(string \<times> string) list"
  openapi_schema :: pydict

definition sub_dict :: "pydict \<Rightarrow> string \<Rightarrow> (exn, pydict) result" where
  "sub_dict d k = (case dict_get d k of
       Some (PDict v) \<Rightarrow> Inr v | Some _ \<Rightarrow> Inl (Unexpected ''TypeError'') | None \<Rightarrow> Inl (Unexpected ''KeyError''))"

definition dict_get_or_empty :: "pydict \<Rightarrow> string \<Rightarrow> (exn, pydict) result" where
  "dict_get_or_empty d k = (case dict_get d k of
       Some (PDict v) \<Rightarrow> Inr v | Some _ \<Rightarrow> Inl (Unexpected ''TypeError'') | None \<Rightarrow> Inr [])"

definition api_description :: string where
  "api_description = ''Production-oriented FastAPI backend template with versioned routes, ''
     @ ''JWT auth, admin workflows, audit logs, Redis-backed rate limiting, '' @ ''and object storage uploads.''"

definition bearer_scheme_update :: pydict where
  "bearer_scheme_update =
     [(''type'', PStr ''http''), (''scheme'', PStr ''bearer''), (''bearerFormat'', PStr ''JWT''),
      (''description'', PStr (''Use the access token returned by login or refresh. ''
         @ ''Send it as `Authorization: Bearer <access_token>`.''))]"

definition dict_update :: "pydict \<Rightarrow> pydict \<Rightarrow> pydict" where
  "dict_update d e = foldl (\<lambda>d (k, v). dict_set d k v) d e"

definition completed :: "pydict \<Rightarrow> (exn, pydict) result" where
  "completed s =
     and_then (sub_dict s ''info'') (\<lambda>info.
     let s1 = dict_set s ''info'' (PDict (dict_set info ''description'' (PStr api_description)))
     in and_then (sub_dict s1 ''components'') (\<lambda>components.
        and_then (sub_dict components ''securitySchemes'') (\<lambda>schemes.
        and_then (dict_get_or_empty schemes ''HTTPBearer'') (\<lambda>bearer.
        let schemes' = dict_set schemes ''HTTPBearer'' (PDict (dict_update bearer bearer_scheme_update))
        in Inr (dict_set s1 ''components''
             (PDict (dict_set components ''securitySchemes'' (PDict schemes'))))))))"

definition custom_openapi :: "(docs_app \<Rightarrow> pydict \<times> docs_app) \<Rightarrow> docs_app \<Rightarrow> (exn, pydict \<times> docs_app) result" where
  "custom_openapi generate a =
     (if openapi_schema a \<noteq> [] then Inr (openapi_schema a, a)
      else let (s, a1) = generate a
        in and_then (completed s) (\<lambda>s'. Inr (s', a1\<lparr>openapi_schema := s'\<rparr>)))"

definition configure_openapi ::
  "(docs_app \<Rightarrow> pydict \<times> docs_app) \<Rightarrow> docs_app \<Rightarrow> docs_app \<times> (docs_app \<Rightarrow> (exn, pydict \<times> docs_app) result)" where
  "configure_openapi generate a = (a\<lparr>openapi_tags := OPENAPI_TAGS\<rparr>, custom_openapi generate)"

text \<open>A key path through nested dictionaries, and what the generated document of an application with authenticated routes has.\<close>

fun dict_path :: "pyval \<Rightarrow> string list \<Rightarrow> pyval option" where
  "dict_path v [] = Some v"
| "dict_path (PDict d) (k # ks) = (case dict_get d k of Some v \<Rightarrow> dict_path v ks | None \<Rightarrow> None)"
| "dict_path _ (k # ks) = None"

fun is_dict :: "pyval option \<Rightarrow> bool" where
  "is_dict (Some (PDict d)) \<longleftrightarrow> True"
| "is_dict _ \<longleftrightarrow> False"

definition has_sections :: "pydict \<Rightarrow> bool" where
  "has_sections s \<longleftrightarrow> is_dict (dict_path (PDict s) [''info''])
     \<and> is_dict (dict_path (PDict s) [''components'', ''securitySchemes''])
     \<and> (let bearer = dict_path (PDict s) [''components'', ''securitySchemes'', ''HTTPBearer'']
        in bearer = None \<or> is_dict bearer)"

locale openapi_generator =
  fixes generate :: "docs_app \<Rightarrow> pydict \<times> docs_app"
  assumes sections: "generate a = (s, a') \<Longrightarrow> has_sections s"

lemma is_dict_iff: "is_dict v \<longleftrightarrow> (\<exists>d. v = Some (PDict d))"
  by (cases v rule: is_dict.cases) auto

lemma dict_path_dict:
  "dict_path (PDict d) (k # ks) = Some v \<longleftrightarrow> (\<exists>w. dict_get d k = Some w \<and> dict_path w ks = Some v)"
  by (auto split: option.splits)

lemma dict_path_Some_Cons: "dict_path w (k # ks) = Some v \<Longrightarrow> \<exists>d. w = PDict d"
  by (cases w) auto

lemma dict_set_not_Nil [simp]: "dict_set d k v \<noteq> []"
  by (induction d k v rule: dict_set.induct) auto

lemma dict_get_update:
  "distinct (map fst e) \<Longrightarrow>
   dict_get (dict_update d e) k = (case dict_get e k of Some v \<Rightarrow> Some v | None \<Rightarrow> dict_get d k)"
proof (induction e arbitrary: d)
  case (Cons x e)
  have "dict_update d (x # e) = dict_update (dict_set d (fst x) (snd x)) e"
    by (cases x) (simp add: dict_update_def)
  moreover have "dict_get e (fst x) = None" using Cons.prems by (simp add: map_of_eq_None_iff)
  ultimately show ?case using Cons by (cases x) (simp add: dict_get_set split: option.splits)
qed (simp add: dict_update_def)

lemma completed_sections:
  assumes "has_sections s"
  obtains s' info components schemes bearer where "completed s = Inr s'"
    "dict_get s ''info'' = Some (PDict info)" "dict_get s ''components'' = Some (PDict components)"
    "dict_get components ''securitySchemes'' = Some (PDict schemes)"
    "dict_get_or_empty schemes ''HTTPBearer'' = Inr bearer"
    "s' = dict_set (dict_set s ''info'' (PDict (dict_set info ''description'' (PStr api_description))))
       ''components'' (PDict (dict_set components ''securitySchemes''
         (PDict (dict_set schemes ''HTTPBearer'' (PDict (dict_update bearer bearer_scheme_update))))))"
proof -
  from assms obtain info where info: "dict_get s ''info'' = Some (PDict info)"
    by (auto simp: has_sections_def is_dict_iff dict_path_dict simp del: dict_path.simps(2))
  from assms obtain w schemes where w: "dict_get s ''components'' = Some w"
    "dict_path w [''securitySchemes''] = Some (PDict schemes)"
    by (auto simp: has_sections_def is_dict_iff dict_path_dict simp del: dict_path.simps(2))
  then obtain components where c: "w = PDict components" using dict_path_Some_Cons by blast
  with w have schemes: "dict_get components ''securitySchemes'' = Some (PDict schemes)"
    by (auto split: option.splits)
  have "dict_path (PDict s) [''components'', ''securitySchemes'', ''HTTPBearer''] = dict_get schemes ''HTTPBearer''"
    using w(1) c schemes by (simp split: option.splits)
  with assms have "dict_get schemes ''HTTPBearer'' = None \<or> is_dict (dict_get schemes ''HTTPBearer'')"
    by (simp add: has_sections_def Let_def del: dict_path.simps(2))
  then obtain bearer where bearer: "dict_get_or_empty schemes ''HTTPBearer'' = Inr bearer"
    by (auto simp: dict_get_or_empty_def is_dict_iff)
  show ?thesis
    by (rule that [OF _ info w(1) [unfolded c] schemes bearer])
      (simp_all add: completed_def sub_dict_def and_then_def dict_get_set info w(1) c schemes bearer)
qed

context openapi_generator
begin

lemma first_call:
  assumes "openapi_schema a = []"
  shows "\<exists>s'. completed (fst (generate a)) = Inr s' \<and> s' \<noteq> []
    \<and> custom_openapi generate a = Inr (s', (snd (generate a))\<lparr>openapi_schema := s'\<rparr>)"
proof -
  obtain s a1 where g: "generate a = (s, a1)" by fastforce
  from completed_sections [OF sections [OF g]] obtain s' where "completed s = Inr s'" "s' \<noteq> []"
    by (metis dict_set_not_Nil)
  with assms g show ?thesis by (simp add: custom_openapi_def and_then_def)
qed

end

text \<open>
  The first request for the document generates and completes it; every later one gets the same document without
  generating anything. The completed document describes the bearer scheme the interface uses, and
  what the generator wrote elsewhere is kept.
\<close>

theorem custom_openapi_cached:
  assumes "openapi_generator generate" "openapi_schema a = []"
  shows "\<exists>s a'. custom_openapi generate a = Inr (s, a') \<and> custom_openapi other a' = Inr (s, a')
    \<and> dict_path (PDict s) [''info'', ''description''] = Some (PStr api_description)
    \<and> dict_path (PDict s) [''components'', ''securitySchemes'', ''HTTPBearer'', ''scheme''] = Some (PStr ''bearer'')
    \<and> dict_path (PDict s) [''components'', ''securitySchemes'', ''HTTPBearer'', ''bearerFormat''] = Some (PStr ''JWT'')
    \<and> (\<forall>k. k = ''info'' \<or> k = ''components'' \<or> dict_get s k = dict_get (fst (generate a)) k)"
proof -
  obtain s0 a1 where g: "generate a = (s0, a1)" by fastforce
  obtain s' info components schemes bearer where c: "completed s0 = Inr s'"
    "s' = dict_set (dict_set s0 ''info'' (PDict (dict_set info ''description'' (PStr api_description))))
       ''components'' (PDict (dict_set components ''securitySchemes''
         (PDict (dict_set schemes ''HTTPBearer'' (PDict (dict_update bearer bearer_scheme_update))))))"
    using completed_sections [OF openapi_generator.sections [OF assms(1) g]] by metis
  have bearer: "dict_get (dict_update bearer bearer_scheme_update) ''scheme'' = Some (PStr ''bearer'')"
    "dict_get (dict_update bearer bearer_scheme_update) ''bearerFormat'' = Some (PStr ''JWT'')"
    by (simp_all add: dict_get_update bearer_scheme_update_def)
  show ?thesis
    by (rule exI [of _ s'], rule exI [of _ "a1\<lparr>openapi_schema := s'\<rparr>"])
      (use assms(2) g c in \<open>auto simp: custom_openapi_def and_then_def dict_get_set bearer\<close>)
qed

text \<open>A generator that meets the contract: a minimal document, kept as the application's own.\<close>

definition minimal_document :: "docs_app \<Rightarrow> pydict \<times> docs_app" where
  "minimal_document a =
     (let s = [(''openapi'', PStr ''3.1.0''), (''info'', PDict [(''title'', PStr ''api'')]),
        (''components'', PDict [(''securitySchemes'', PDict [(''HTTPBearer'', PDict [(''type'', PStr ''http'')])])])]
      in (s, a\<lparr>openapi_schema := s\<rparr>))"

interpretation minimal_generator: openapi_generator minimal_document
  by unfold_locales (auto simp: minimal_document_def has_sections_def Let_def)

lemma custom_openapi_cached_witness:
  "\<exists>s a'. custom_openapi minimal_document \<lparr>openapi_tags = OPENAPI_TAGS, openapi_schema = []\<rparr> = Inr (s, a')
     \<and> custom_openapi minimal_document a' = Inr (s, a')"
  using custom_openapi_cached [OF minimal_generator.openapi_generator_axioms,
    of "\<lparr>openapi_tags = OPENAPI_TAGS, openapi_schema = []\<rparr>" minimal_document]
  by auto

end
