(* ===== verification/Routing.thy ===== *)
theory Routing
  imports Openapi Permissions Config
begin

text \<open>
  The routes of the API: the declarations of \<open>app/api/routes\<close>, the two routers that collect them
  (\<open>app/api/v1.py\<close>, \<open>app/api/legacy.py\<close>) and their inclusion in \<open>app/main.py\<close>. A
  route is its declaration: method, path template, documentation and the dependencies that are resolved before
  its handler runs (the database session apart).

  How a request finds its route is left to the framework: the locale \<open>route_choice\<close> only says that it finds
  one whose method and template match, and that it finds one when there is one.
\<close>

section \<open>Routes\<close>

datatype dependency =
    CurrentUser
  | RequirePermission permission
  | MetricsAccess
  | RequestTenant
  | IdempotencyKey
  | RateLimit string

record route =
  rt_method :: string
  rt_path :: string
  rt_handler :: string
  rt_response_model :: string
  rt_summary :: string
  rt_description :: string
  rt_tags :: "string list"
  rt_status :: int
  rt_dependencies :: "dependency list"
  rt_responses :: response_table
  rt_deprecated :: bool

definition route_of :: "string \<Rightarrow> string \<Rightarrow> string \<Rightarrow> string \<Rightarrow> string \<Rightarrow> string \<Rightarrow> int
     \<Rightarrow> dependency list \<Rightarrow> response_table \<Rightarrow> route" where
  "route_of meth path handler model summary description st deps responses =
     \<lparr>rt_method = meth, rt_path = path, rt_handler = handler, rt_response_model = model, rt_summary = summary, rt_description = description,
     rt_tags = [], rt_status = st, rt_dependencies = deps, rt_responses = responses, rt_deprecated = False\<rparr>"

definition include_router :: "string \<Rightarrow> string list \<Rightarrow> route list \<Rightarrow> route list" where
  "include_router prefix tags rs = map (\<lambda>r. r\<lparr>rt_path := prefix @ rt_path r, rt_tags := tags @ rt_tags r\<rparr>) rs"

definition declare_health_check :: route where
  "declare_health_check = route_of ''GET'' [] ''health_check''
     ''HealthStatus'' ''Basic health check''
     ''Backward-compatible process health endpoint.''
     200 [] []"

definition declare_liveness_check :: route where
  "declare_liveness_check = route_of ''GET'' ''/live'' ''liveness_check''
     ''HealthStatus'' ''Liveness probe''
     []
     200 [] []"

definition declare_readiness_check :: route where
  "declare_readiness_check = route_of ''GET'' ''/ready'' ''readiness_check''
     ''ReadinessHealth'' ''Readiness probe''
     (''Checks database, Redis, and optional object storage dependencies required to ''
       @ ''serve traffic.'')
     200 [] []"

definition declare_db_health_check :: route where
  "declare_db_health_check = route_of ''GET'' ''/db'' ''db_health_check''
     ''ReadinessHealth'' ''Database health check''
     []
     200 [] []"

definition declare_redis_health :: route where
  "declare_redis_health = route_of ''GET'' ''/redis'' ''redis_health''
     ''ReadinessHealth'' ''Redis health check''
     []
     200 [] []"

definition declare_s3_health :: route where
  "declare_s3_health = route_of ''GET'' ''/s3'' ''s3_health''
     ''ReadinessHealth'' ''Object storage health check''
     []
     200 [] []"

definition declare_limited_endpoint :: route where
  "declare_limited_endpoint = route_of ''GET'' ''/limited'' ''limited_endpoint''
     [] ''Rate-limited example endpoint''
     ''Demonstrates Redis-backed IP rate limiting for template projects.''
     200 [RateLimit ''rate_limit''] []"

definition declare_metrics :: route where
  "declare_metrics = route_of ''GET'' ''/metrics'' ''metrics''
     ''PlainTextResponse'' ''Prometheus metrics''
     ''Exposes request counters and latency histograms in Prometheus text format.''
     200 [MetricsAccess] []"

definition declare_register :: route where
  "declare_register = route_of ''POST'' ''/register'' ''register''
     ''UserRead'' ''Register a new user''
     ''Create an active user account with the default `user` role.''
     200 [RateLimit ''rate_limit:auth_register'', RequestTenant] (merged (merged [] AUTH_ERROR_RESPONSES) RATE_LIMITED_ERROR_RESPONSES)"

definition declare_login :: route where
  "declare_login = route_of ''POST'' ''/login'' ''login''
     ''Token'' ''Login and receive JWT tokens''
     (''Authenticate with email and password. Returns a short-lived access token and a ''
       @ ''refresh token used for rotation.'')
     200 [RateLimit ''rate_limit:auth_login'', RequestTenant] (merged (merged [] AUTH_ERROR_RESPONSES) RATE_LIMITED_ERROR_RESPONSES)"

definition declare_me :: route where
  "declare_me = route_of ''GET'' ''/me'' ''me''
     ''UserRead'' ''Get the current user profile''
     []
     200 [CurrentUser] AUTH_ERROR_RESPONSES"

definition declare_refresh_token :: route where
  "declare_refresh_token = route_of ''POST'' ''/refresh'' ''refresh_token''
     ''Token'' ''Rotate access and refresh tokens''
     ''Exchange a valid refresh token for a new access/refresh pair.''
     200 [RateLimit ''rate_limit:auth_refresh''] (merged (merged [] AUTH_ERROR_RESPONSES) RATE_LIMITED_ERROR_RESPONSES)"

definition declare_logout :: route where
  "declare_logout = route_of ''POST'' ''/logout'' ''logout''
     [] ''Logout and revoke refresh token''
     ''Revokes the submitted refresh token in Redis.''
     204 [RateLimit ''rate_limit:auth_logout''] (merged (merged [] AUTH_ERROR_RESPONSES) RATE_LIMITED_ERROR_RESPONSES)"

definition declare_request_reset_password :: route where
  "declare_request_reset_password = route_of ''POST'' ''/password-reset/request'' ''request_reset_password''
     ''MessageResponse'' ''Request a password reset email''
     (''Always returns the same success message to avoid account enumeration. Active ''
       @ ''users receive a background email job with a single-use reset token.'')
     200 [RequestTenant] RATE_LIMITED_ERROR_RESPONSES"

definition declare_confirm_reset_password :: route where
  "declare_confirm_reset_password = route_of ''POST'' ''/password-reset/confirm'' ''confirm_reset_password''
     ''MessageResponse'' ''Confirm a password reset''
     ''Set a new password using a valid, unused, unexpired reset token.''
     200 [] AUTH_ERROR_RESPONSES"

definition declare_list_users :: route where
  "declare_list_users = route_of ''GET'' ''/'' ''list_users''
     ''UserListPage'' ''List users''
     (''Admin-only user listing with keyset pagination, sorting, filters, and email ''
       @ ''search. Use `cursor` for scalable paging; `page` remains as a legacy offset ''
       @ ''fallback.'')
     200 [RequirePermission USERS_LIST] ADMIN_ERROR_RESPONSES"

definition declare_get_user :: route where
  "declare_get_user = route_of ''GET'' ''/{user_id}'' ''get_user''
     ''UserRead'' ''Get a user by ID''
     ''Admins can read any user. Regular users can only read themselves.''
     200 [CurrentUser] PROTECTED_ERROR_RESPONSES"

definition declare_patch_user :: route where
  "declare_patch_user = route_of ''PATCH'' ''/{user_id}'' ''patch_user''
     ''UserRead'' ''Update a user''
     (''Admins can update managed fields and activation state. Regular users can update ''
       @ ''only their own safe profile fields.'')
     200 [CurrentUser] PROTECTED_ERROR_RESPONSES"

definition declare_deactivate_user_endpoint :: route where
  "declare_deactivate_user_endpoint = route_of ''PATCH'' ''/{user_id}/deactivate'' ''deactivate_user_endpoint''
     ''UserRead'' ''Deactivate a user''
     []
     200 [RequirePermission USERS_DEACTIVATE] ADMIN_ERROR_RESPONSES"

definition declare_activate_user_endpoint :: route where
  "declare_activate_user_endpoint = route_of ''PATCH'' ''/{user_id}/activate'' ''activate_user_endpoint''
     ''UserRead'' ''Activate a user''
     []
     200 [RequirePermission USERS_ACTIVATE] ADMIN_ERROR_RESPONSES"

definition declare_remove_user :: route where
  "declare_remove_user = route_of ''DELETE'' ''/{user_id}'' ''remove_user''
     [] ''Delete a user''
     []
     204 [RequirePermission USERS_DELETE] ADMIN_ERROR_RESPONSES"

definition declare_admin_panel :: route where
  "declare_admin_panel = route_of ''GET'' [] ''admin_panel''
     [] ''Admin panel welcome payload''
     []
     200 [RequirePermission ADMIN_ACCESS] ADMIN_ERROR_RESPONSES"

definition declare_list_audit_logs :: route where
  "declare_list_audit_logs = route_of ''GET'' ''/audit-logs'' ''list_audit_logs''
     ''list[AuditLogRead]'' ''List audit logs''
     ''Admin-only paginated audit log listing with action and actor filters.''
     200 [RequirePermission AUDIT_LOGS_LIST] ADMIN_ERROR_RESPONSES"

definition declare_create_tenant :: route where
  "declare_create_tenant = route_of ''POST'' [] ''create_tenant''
     ''TenantRead'' ''Provision a new tenant''
     []
     201 [RequirePermission TENANTS_PROVISION] ADMIN_ERROR_RESPONSES"

definition declare_list_tenant_records :: route where
  "declare_list_tenant_records = route_of ''GET'' [] ''list_tenant_records''
     ''list[TenantRead]'' ''List tenants''
     []
     200 [RequirePermission TENANTS_LIST] ADMIN_ERROR_RESPONSES"

definition declare_get_tenant :: route where
  "declare_get_tenant = route_of ''GET'' ''/{tenant_id}'' ''get_tenant''
     ''TenantRead'' ''Get tenant details''
     []
     200 [RequirePermission TENANTS_LIST] ADMIN_ERROR_RESPONSES"

definition declare_patch_tenant :: route where
  "declare_patch_tenant = route_of ''PATCH'' ''/{tenant_id}'' ''patch_tenant''
     ''TenantRead'' ''Update tenant metadata or lifecycle state''
     []
     200 [RequirePermission TENANTS_MANAGE] ADMIN_ERROR_RESPONSES"

definition declare_upload_file :: route where
  "declare_upload_file = route_of ''POST'' ''/upload'' ''upload_file''
     ''UploadedFileRead'' ''Upload a file''
     (''Authenticated multipart upload with size, declared content-type, and ''
       @ ''content-sniff validation. Objects are stored privately in S3-compatible storage.'')
     201 [RequirePermission FILES_UPLOAD] PROTECTED_ERROR_RESPONSES"

definition declare_create_presigned_upload :: route where
  "declare_create_presigned_upload = route_of ''POST'' ''/presigned-upload'' ''create_presigned_upload''
     ''PresignedUploadResponse'' ''Create a presigned upload URL''
     ''Returns a short-lived private PUT URL for direct client-side uploads.''
     200 [RequirePermission FILES_UPLOAD] PROTECTED_ERROR_RESPONSES"

definition declare_complete_presigned_upload :: route where
  "declare_complete_presigned_upload = route_of ''POST'' ''/presigned-upload/complete'' ''complete_presigned_upload''
     ''UploadedFileRead'' ''Register a presigned upload''
     []
     201 [RequirePermission FILES_UPLOAD] PROTECTED_ERROR_RESPONSES"

definition declare_get_download_url :: route where
  "declare_get_download_url = route_of ''GET'' ''/{file_id}/download-url'' ''get_download_url''
     ''PresignedDownloadUrlRead'' ''Get a presigned download URL''
     []
     200 [CurrentUser] PROTECTED_ERROR_RESPONSES"

definition declare_delete_file :: route where
  "declare_delete_file = route_of ''DELETE'' ''/{file_id}'' ''delete_file''
     [] ''Delete an uploaded file''
     []
     204 [CurrentUser] PROTECTED_ERROR_RESPONSES"

definition declare_inbound_webhook :: route where
  "declare_inbound_webhook = route_of ''POST'' ''/inbound'' ''inbound_webhook''
     ''WebhookInboundResponse'' ''Receive a signed inbound webhook''
     (''Provider-neutral webhook entrypoint with timestamped HMAC signature verification, ''
       @ ''replay-window protection, event deduplication, and Idempotency-Key replay-safe ''
       @ ''response caching.'')
     200 [IdempotencyKey, RateLimit ''rate_limit:webhook_ingress''] AUTH_ERROR_RESPONSES"

definition health_router :: "route list" where
  "health_router = include_router ''/health'' [''health'']
     [declare_health_check,
      declare_liveness_check,
      declare_readiness_check,
      declare_db_health_check,
      declare_redis_health,
      declare_s3_health,
      declare_limited_endpoint]"

definition metrics_router :: "route list" where
  "metrics_router = include_router [] [''metrics'']
     [declare_metrics]"

definition auth_router :: "route list" where
  "auth_router = include_router ''/auth'' [''auth'']
     [declare_register,
      declare_login,
      declare_me,
      declare_refresh_token,
      declare_logout,
      declare_request_reset_password,
      declare_confirm_reset_password]"

definition users_router :: "route list" where
  "users_router = include_router ''/users'' [''users'']
     [declare_list_users,
      declare_get_user,
      declare_patch_user,
      declare_deactivate_user_endpoint,
      declare_activate_user_endpoint,
      declare_remove_user]"

definition admin_router :: "route list" where
  "admin_router = include_router ''/admin'' [''admin'']
     [declare_admin_panel,
      declare_list_audit_logs]"

definition tenants_router :: "route list" where
  "tenants_router = include_router ''/admin/tenants'' [''admin'', ''tenants'']
     [declare_create_tenant,
      declare_list_tenant_records,
      declare_get_tenant,
      declare_patch_tenant]"

definition files_router :: "route list" where
  "files_router = include_router ''/files'' [''files'']
     [declare_upload_file,
      declare_create_presigned_upload,
      declare_complete_presigned_upload,
      declare_get_download_url,
      declare_delete_file]"

definition webhooks_router :: "route list" where
  "webhooks_router = include_router ''/webhooks'' [''webhooks'']
     [declare_inbound_webhook]"

definition API_V1_PREFIX :: string where
  "API_V1_PREFIX = ''/api/v1''"

definition api_v1_router :: "route list" where
  "api_v1_router = include_router API_V1_PREFIX []
     (auth_router @ users_router @ admin_router @ tenants_router @ files_router @ webhooks_router)"

definition legacy_api_router :: "route list" where
  "legacy_api_router = map (\<lambda>r. r\<lparr>rt_deprecated := True\<rparr>)
     (auth_router @ users_router @ admin_router @ tenants_router @ files_router)"

definition include_application_routers :: "settings \<Rightarrow> route list" where
  "include_application_routers cfg = health_router @ metrics_router @ api_v1_router
     @ (if legacy_routes_enabled cfg = Some True then legacy_api_router else [])"


section \<open>Matching\<close>

text \<open>A parameter of a template stands for one non-empty segment.\<close>

definition is_parameter :: "string \<Rightarrow> bool" where
  "is_parameter t \<longleftrightarrow> starts_with t ''{''"

fun matches_segments :: "string list \<Rightarrow> string list \<Rightarrow> bool" where
  "matches_segments [] [] \<longleftrightarrow> True"
| "matches_segments (t # ts) (s # ss) \<longleftrightarrow>
     (if is_parameter t then s \<noteq> [] else s = t) \<and> matches_segments ts ss"
| "matches_segments _ _ \<longleftrightarrow> False"

definition route_matches :: "string \<Rightarrow> string \<Rightarrow> route \<Rightarrow> bool" where
  "route_matches meth path r \<longleftrightarrow>
     rt_method r = meth \<and> matches_segments (split_on CHR ''/'' (rt_path r)) (split_on CHR ''/'' path)"

text \<open>
  Two templates may match a common path when they agree segment by segment, a parameter agreeing with every non-empty one.
  A table is free of clashes when no two routes of one method may; the check runs on the keys of the routes.
\<close>

fun may_overlap :: "string list \<Rightarrow> string list \<Rightarrow> bool" where
  "may_overlap [] [] \<longleftrightarrow> True"
| "may_overlap (t # ts) (u # us) \<longleftrightarrow>
     (if (if is_parameter t then is_parameter u \<or> u \<noteq> [] else if is_parameter u then t \<noteq> [] else t = u)
      then may_overlap ts us else False)"
| "may_overlap _ _ \<longleftrightarrow> False"

definition route_key :: "route \<Rightarrow> string \<times> string list" where
  "route_key r = (rt_method r, split_on CHR ''/'' (rt_path r))"

fun overlaps :: "string \<times> string list \<Rightarrow> (string \<times> string list) list \<Rightarrow> bool" where
  "overlaps k [] \<longleftrightarrow> False"
| "overlaps k (k' # ks) \<longleftrightarrow>
     (if length (snd k) = length (snd k')
      then if fst k = fst k' then if may_overlap (snd k) (snd k') then True else overlaps k ks else overlaps k ks
      else overlaps k ks)"

fun keys_clash_free :: "(string \<times> string list) list \<Rightarrow> bool" where
  "keys_clash_free [] \<longleftrightarrow> True"
| "keys_clash_free (k # ks) \<longleftrightarrow> (if overlaps k ks then False else keys_clash_free ks)"

definition clash_free :: "route list \<Rightarrow> bool" where
  "clash_free rs \<longleftrightarrow> keys_clash_free (map route_key rs)"

lemma matches_overlap: "matches_segments ts ss \<Longrightarrow> matches_segments us ss \<Longrightarrow> may_overlap ts us"
  by (induction ts ss arbitrary: us rule: matches_segments.induct; case_tac us) (auto split: if_splits)

lemma may_overlap_length: "may_overlap ts us \<Longrightarrow> length ts = length us"
  by (induction ts us rule: may_overlap.induct) (auto split: if_splits)

lemma overlaps_iff: "overlaps k ks \<longleftrightarrow> (\<exists>k' \<in> set ks. fst k = fst k' \<and> may_overlap (snd k) (snd k'))"
  by (induction ks) (auto dest: may_overlap_length)

lemma clash_free_Cons:
  "clash_free (r # rs) \<longleftrightarrow>
     (\<forall>q \<in> set rs. rt_method r = rt_method q \<longrightarrow>
        \<not> may_overlap (split_on CHR ''/'' (rt_path r)) (split_on CHR ''/'' (rt_path q))) \<and> clash_free rs"
  by (auto simp: clash_free_def overlaps_iff route_key_def)

lemma clash_free_unique:
  "clash_free rs \<Longrightarrow> r \<in> set rs \<Longrightarrow> q \<in> set rs \<Longrightarrow> route_matches meth path r \<Longrightarrow> route_matches meth path q \<Longrightarrow> r = q"
  by (induction rs) (auto simp: clash_free_Cons route_matches_def dest: matches_overlap)

locale route_choice =
  fixes find_route :: "route list \<Rightarrow> string \<Rightarrow> string \<Rightarrow> route option"
  assumes chosen: "find_route rs meth path = Some r \<Longrightarrow> r \<in> set rs \<and> route_matches meth path r"
    and none: "find_route rs meth path = None \<Longrightarrow> r \<in> set rs \<Longrightarrow> \<not> route_matches meth path r"
begin

lemma choose_iff:
  assumes "clash_free rs"
  shows "find_route rs meth path = Some r \<longleftrightarrow> r \<in> set rs \<and> route_matches meth path r"
  using assms chosen none clash_free_unique by (metis not_None_eq)

end

interpretation first_match: route_choice "\<lambda>rs meth path. List.find (route_matches meth path) rs"
  by unfold_locales (auto dest: find_SomeD simp: find_None_iff')

section \<open>Protection\<close>

definition route_protected :: "route \<Rightarrow> bool" where
  "route_protected r \<longleftrightarrow> list_ex (\<lambda>d. case d of CurrentUser \<Rightarrow> True | RequirePermission p \<Rightarrow> True | _ \<Rightarrow> False) (rt_dependencies r)"

definition public_handlers :: "string list" where
  "public_handlers = [''register'', ''login'', ''refresh_token'', ''logout'', ''request_reset_password'', ''confirm_reset_password'',
     ''inbound_webhook'', ''health_check'', ''liveness_check'', ''readiness_check'', ''db_health_check'', ''redis_health'', ''s3_health'',
     ''limited_endpoint'', ''metrics'']"

lemma routers_clash_free:
  "clash_free (health_router @ metrics_router @ api_v1_router @ legacy_api_router)"
  by code_simp

lemma clash_free_append: "clash_free (rs @ qs) \<Longrightarrow> clash_free rs"
  by (induction rs) (auto simp: clash_free_Cons, simp add: clash_free_def)

lemma application_clash_free: "clash_free (include_application_routers cfg)"
proof -
  have "clash_free ((health_router @ metrics_router @ api_v1_router) @ legacy_api_router)"
    using routers_clash_free by simp
  then have "clash_free (health_router @ metrics_router @ api_v1_router)" by (rule clash_free_append)
  with routers_clash_free show ?thesis by (simp add: include_application_routers_def)
qed

lemma all_routes:
  assumes "list_all P (health_router @ metrics_router @ api_v1_router @ legacy_api_router)"
    and "r \<in> set (include_application_routers cfg)"
  shows "P r"
  using assms by (auto simp: include_application_routers_def list_all_iff split: if_splits)

lemma unprotected_routes:
  "r \<in> set (include_application_routers cfg) \<Longrightarrow> route_protected r \<or> rt_handler r \<in> set public_handlers"
proof (rule all_routes [where P = "\<lambda>r. route_protected r \<or> rt_handler r \<in> set public_handlers"])
  show "list_all (\<lambda>r. route_protected r \<or> rt_handler r \<in> set public_handlers)
      (health_router @ metrics_router @ api_v1_router @ legacy_api_router)" by code_simp
qed

text \<open>
  Routing does not depend on the order in which routers are included: every request has at most one route,
  whether the legacy routes are mounted or not, and however the framework looks for it. Every legacy route is a
  route of the versioned interface without its prefix, and outside an explicit list of handlers every route needs an
  authenticated user.
\<close>

theorem routes_unambiguous:
  assumes "route_choice find_route"
  shows "(find_route (include_application_routers cfg) meth path = Some r \<longleftrightarrow>
      r \<in> set (include_application_routers cfg) \<and> route_matches meth path r)
    \<and> (find_route (include_application_routers cfg) meth path = Some r \<longrightarrow>
        route_protected r \<or> rt_handler r \<in> set public_handlers)
    \<and> (\<forall>q \<in> set legacy_api_router. q\<lparr>rt_path := API_V1_PREFIX @ rt_path q, rt_deprecated := False\<rparr> \<in> set api_v1_router)"
proof (intro conjI impI ballI)
  show "find_route (include_application_routers cfg) meth path = Some r \<longleftrightarrow>
      r \<in> set (include_application_routers cfg) \<and> route_matches meth path r"
    by (rule route_choice.choose_iff [OF assms application_clash_free])
  then show "route_protected r \<or> rt_handler r \<in> set public_handlers"
    if "find_route (include_application_routers cfg) meth path = Some r"
    using that unprotected_routes by blast
  show "q\<lparr>rt_path := API_V1_PREFIX @ rt_path q, rt_deprecated := False\<rparr> \<in> set api_v1_router"
    if q: "q \<in> set legacy_api_router" for q
  proof -
    have "list_all (\<lambda>q. q\<lparr>rt_path := API_V1_PREFIX @ rt_path q, rt_deprecated := False\<rparr> \<in> set api_v1_router) legacy_api_router"
      by code_simp
    then show ?thesis using q by (simp add: list_all_iff)
  qed
qed

lemma routes_unambiguous_witness:
  "\<exists>r. List.find (route_matches ''GET'' ''/api/v1/users/7'') (include_application_routers (default_settings [])) = Some r
     \<and> rt_handler r = ''get_user''"
proof -
  define r where "r = (route_of ''GET'' ''/api/v1/users/{user_id}'' ''get_user'' ''UserRead'' ''Get a user by ID''
    ''Admins can read any user. Regular users can only read themselves.'' 200 [CurrentUser] PROTECTED_ERROR_RESPONSES)
    \<lparr>rt_tags := [''users'']\<rparr>"
  have "r \<in> set api_v1_router" unfolding r_def by code_simp
  then have "r \<in> set (include_application_routers (default_settings []))" by (simp add: include_application_routers_def)
  moreover have "route_matches ''GET'' ''/api/v1/users/7'' r" unfolding r_def by code_simp
  ultimately have "List.find (route_matches ''GET'' ''/api/v1/users/7'') (include_application_routers (default_settings [])) = Some r"
    using routes_unambiguous [OF first_match.route_choice_axioms, where cfg = "default_settings []" and meth = "''GET''" and path = "''/api/v1/users/7''" and r = r]
    by simp
  then show ?thesis by (simp add: r_def route_of_def)
qed

section \<open>Production\<close>

text \<open>A process that starts in production serves no legacy route unless the operator asks for them.\<close>

lemma production_routes:
  assumes "validate_settings raw = Inr cfg" "lower (environment raw) = ''production''"
    and "legacy_routes_enabled raw = None"
  shows "include_application_routers cfg = health_router @ metrics_router @ api_v1_router"
proof -
  obtain s0 where s0: "validate_fields raw = Inr s0" "cfg = with_defaults s0"
    using assms(1) by (auto simp: validate_settings_Inr_iff)
  have "environment s0 = ''production''" using validate_fieldsD(3) [OF s0(1)] assms(2) by simp
  moreover have "legacy_routes_enabled s0 = None"
    using s0(1) assms(3) by (auto simp: validate_fields_def and_then_Inr_iff Let_def split: if_splits)
  ultimately show ?thesis by (simp add: include_application_routers_def s0(2))
qed

section \<open>Documentation\<close>

definition route_limited :: "route \<Rightarrow> bool" where
  "route_limited r \<longleftrightarrow> list_ex (\<lambda>d. case d of RateLimit _ \<Rightarrow> True | _ \<Rightarrow> False) (rt_dependencies r)"

definition documents :: "route \<Rightarrow> int \<Rightarrow> bool" where
  "documents r st \<longleftrightarrow> map_of (rt_responses r) st = map_of ERROR_RESPONSES st"

text \<open>
  Every route that needs a user documents the refusals of authentication, every limited route except the webhook
  and the example documents 429, and the tags in use are described except the one of the tenant routes.
\<close>

lemma documented_refusals:
  assumes "r \<in> set (include_application_routers cfg)"
  shows "(route_protected r \<longrightarrow> documents r 401 \<and> documents r 422)
    \<and> (route_limited r \<longrightarrow> documents r 429 \<or> rt_handler r \<in> {''inbound_webhook'', ''limited_endpoint''})
    \<and> (\<forall>t \<in> set (rt_tags r). t \<in> fst ` set OPENAPI_TAGS \<or> t = ''tenants'')"
proof (rule all_routes [where P = "\<lambda>r. (route_protected r \<longrightarrow> documents r 401 \<and> documents r 422)
    \<and> (route_limited r \<longrightarrow> documents r 429 \<or> rt_handler r \<in> {''inbound_webhook'', ''limited_endpoint''})
    \<and> (\<forall>t \<in> set (rt_tags r). t \<in> fst ` set OPENAPI_TAGS \<or> t = ''tenants'')", OF _ assms])
  show "list_all (\<lambda>r. (route_protected r \<longrightarrow> documents r 401 \<and> documents r 422)
    \<and> (route_limited r \<longrightarrow> documents r 429 \<or> rt_handler r \<in> {''inbound_webhook'', ''limited_endpoint''})
    \<and> (\<forall>t \<in> set (rt_tags r). t \<in> fst ` set OPENAPI_TAGS \<or> t = ''tenants''))
    (health_router @ metrics_router @ api_v1_router @ legacy_api_router)" by code_simp
qed

lemma undocumented_refusals:
  "\<exists>r \<in> set (include_application_routers cfg). rt_handler r = ''inbound_webhook'' \<and> route_limited r \<and> \<not> documents r 429 \<and> \<not> documents r 409"
  "\<exists>r \<in> set (include_application_routers cfg). rt_handler r = ''create_tenant'' \<and> \<not> documents r 400"
  "\<exists>r \<in> set (include_application_routers cfg). ''tenants'' \<in> set (rt_tags r) \<and> ''tenants'' \<notin> fst ` set OPENAPI_TAGS"
proof -
  have "list_ex (\<lambda>r. rt_handler r = ''inbound_webhook'' \<and> route_limited r \<and> \<not> documents r 429 \<and> \<not> documents r 409) api_v1_router"
    "list_ex (\<lambda>r. rt_handler r = ''create_tenant'' \<and> \<not> documents r 400) api_v1_router"
    "list_ex (\<lambda>r. ''tenants'' \<in> set (rt_tags r) \<and> ''tenants'' \<notin> fst ` set OPENAPI_TAGS) api_v1_router"
    by code_simp+
  then show "\<exists>r \<in> set (include_application_routers cfg). rt_handler r = ''inbound_webhook'' \<and> route_limited r \<and> \<not> documents r 429 \<and> \<not> documents r 409"
    "\<exists>r \<in> set (include_application_routers cfg). rt_handler r = ''create_tenant'' \<and> \<not> documents r 400"
    "\<exists>r \<in> set (include_application_routers cfg). ''tenants'' \<in> set (rt_tags r) \<and> ''tenants'' \<notin> fst ` set OPENAPI_TAGS"
    by (auto simp: list_ex_iff include_application_routers_def)
qed

end
