(* ===== verification/Schemas.thy ===== *)
theory Schemas
  imports Seeding Storage Tenant_Admin
begin

text \<open>
  The request and response schemas of \<open>app/schemas/auth.py\<close>, \<open>app/schemas/file.py\<close>, \<open>app/schemas/error.py\<close> and
  \<open>app/schemas/errors.py\<close>: which decoded bodies they accept, the values they hand to the handlers and the names of
  the fields they refuse. How an address is checked and how a number is read are up to the validation
  package: the parameters \<open>email_str\<close> and \<open>int_value\<close>, with the documented behaviour of the first one
  in the locale \<open>email_rules\<close>.
\<close>

section \<open>Fields\<close>

definition str_field :: "nat \<Rightarrow> pydict \<Rightarrow> string \<Rightarrow> string option" where
  "str_field min_length b k = (case dict_get b k of
       Some (PStr s) \<Rightarrow> if min_length \<le> length s then Some s else None
     | _ \<Rightarrow> None)"

definition email_field :: "(string \<Rightarrow> string option) \<Rightarrow> pydict \<Rightarrow> string \<Rightarrow> string option" where
  "email_field email_str b k = (case dict_get b k of Some (PStr s) \<Rightarrow> email_str s | _ \<Rightarrow> None)"

definition int_field :: "(pyval \<Rightarrow> int option) \<Rightarrow> int \<Rightarrow> pydict \<Rightarrow> string \<Rightarrow> int option" where
  "int_field int_value gt b k = (case dict_get b k of
       Some v \<Rightarrow> (case int_value v of Some i \<Rightarrow> if gt < i then Some i else None | None \<Rightarrow> None)
     | None \<Rightarrow> None)"

text \<open>The fields of a body that are refused, in the order of their declaration.\<close>

definition refused :: "(string \<times> 'a option) list \<Rightarrow> string list" where
  "refused fs = map fst (filter (\<lambda>f. snd f = None) fs)"

section \<open>Authentication bodies\<close>

record user_create =
  uc_email :: string
  uc_password :: string

definition UserCreate :: "(string \<Rightarrow> string option) \<Rightarrow> pydict \<Rightarrow> (string list, user_create) result" where
  "UserCreate email_str b =
     (case (email_field email_str b ''email'', str_field 8 b ''password'') of
        (Some e, Some p) \<Rightarrow> Inr \<lparr>uc_email = e, uc_password = p\<rparr>
      | (e, p) \<Rightarrow> Inl (refused [(''email'', e), (''password'', p)]))"

record user_login =
  ul_email :: string
  ul_password :: string

definition UserLogin :: "(string \<Rightarrow> string option) \<Rightarrow> pydict \<Rightarrow> (string list, user_login) result" where
  "UserLogin email_str b =
     (case (email_field email_str b ''email'', str_field 0 b ''password'') of
        (Some e, Some p) \<Rightarrow> Inr \<lparr>ul_email = e, ul_password = p\<rparr>
      | (e, p) \<Rightarrow> Inl (refused [(''email'', e), (''password'', p)]))"

definition one_field :: "string \<Rightarrow> string option \<Rightarrow> (string list, string) result" where
  "one_field k v = (case v of Some s \<Rightarrow> Inr s | None \<Rightarrow> Inl [k])"

definition RefreshTokenRequest :: "pydict \<Rightarrow> (string list, string) result" where
  "RefreshTokenRequest b = one_field ''refresh_token'' (str_field 0 b ''refresh_token'')"

definition LogoutRequest :: "pydict \<Rightarrow> (string list, string) result" where
  "LogoutRequest b = one_field ''refresh_token'' (str_field 0 b ''refresh_token'')"

definition PasswordResetRequest :: "(string \<Rightarrow> string option) \<Rightarrow> pydict \<Rightarrow> (string list, string) result" where
  "PasswordResetRequest email_str b = one_field ''email'' (email_field email_str b ''email'')"

record password_reset_confirm =
  prc_token :: string
  prc_new_password :: string

definition PasswordResetConfirm :: "pydict \<Rightarrow> (string list, password_reset_confirm) result" where
  "PasswordResetConfirm b =
     (case (str_field 1 b ''token'', str_field 8 b ''new_password'') of
        (Some t, Some p) \<Rightarrow> Inr \<lparr>prc_token = t, prc_new_password = p\<rparr>
      | (t, p) \<Rightarrow> Inl (refused [(''token'', t), (''new_password'', p)]))"

text \<open>The answers of the authentication routes; \<open>token_type\<close> keeps its default.\<close>

definition Token :: "string \<times> string \<Rightarrow> pyval" where
  "Token pair = PDict [(''access_token'', PStr (fst pair)), (''refresh_token'', PStr (snd pair)),
     (''token_type'', PStr ''bearer'')]"

definition MessageResponse :: "string \<Rightarrow> pyval" where
  "MessageResponse message = PDict [(''message'', PStr message)]"

definition UserRead :: "(string \<Rightarrow> string option) \<Rightarrow> user \<Rightarrow> user_read option" where
  "UserRead email_str u = (case email_str (u_email u) of
       Some e \<Rightarrow> Some ((read_user u)\<lparr>ur_email := e\<rparr>)
     | None \<Rightarrow> None)"

section \<open>File bodies\<close>

record presigned_upload_request =
  pur_filename :: string
  pur_content_type :: string

definition PresignedUploadRequest :: "pydict \<Rightarrow> (string list, presigned_upload_request) result" where
  "PresignedUploadRequest b =
     (case (str_field 0 b ''filename'', str_field 0 b ''content_type'') of
        (Some f, Some c) \<Rightarrow> Inr \<lparr>pur_filename = f, pur_content_type = c\<rparr>
      | (f, c) \<Rightarrow> Inl (refused [(''filename'', f), (''content_type'', c)]))"

record presigned_upload_complete_request =
  puc_object_key :: string
  puc_filename :: string
  puc_content_type :: string
  puc_size_bytes :: int

definition PresignedUploadCompleteRequest ::
  "(pyval \<Rightarrow> int option) \<Rightarrow> pydict \<Rightarrow> (string list, presigned_upload_complete_request) result" where
  "PresignedUploadCompleteRequest int_value b =
     (case (str_field 0 b ''object_key'', str_field 0 b ''filename'', str_field 0 b ''content_type'',
         int_field int_value 0 b ''size_bytes'') of
        (Some k, Some f, Some c, Some n) \<Rightarrow>
          Inr \<lparr>puc_object_key = k, puc_filename = f, puc_content_type = c, puc_size_bytes = n\<rparr>
      | (k, f, c, n) \<Rightarrow> Inl (refused [(''object_key'', k), (''filename'', f), (''content_type'', c)]
          @ refused [(''size_bytes'', n)]))"

definition PresignedDownloadUrlRead :: "presigned_url \<Rightarrow> pyval" where
  "PresignedDownloadUrlRead u = PDict [(''download_url'', PStr (pu_url u)),
     (''expires_in_seconds'', PInt (pu_expires_in_seconds u))]"

section \<open>Updates\<close>

text \<open>
  An optional field: absent, \<open>null\<close> or a value; the outermost option is whether it is accepted.
\<close>

definition optional_field :: "(pyval \<Rightarrow> 'a option) \<Rightarrow> pydict \<Rightarrow> string \<Rightarrow> 'a option option option" where
  "optional_field read_value b k = (case dict_get b k of
       None \<Rightarrow> Some None
     | Some PNone \<Rightarrow> Some (Some None)
     | Some v \<Rightarrow> (case read_value v of Some x \<Rightarrow> Some (Some (Some x)) | None \<Rightarrow> None))"

definition text_value :: "nat \<Rightarrow> nat \<Rightarrow> pyval \<Rightarrow> string option" where
  "text_value lo hi v = (case v of
       PStr s \<Rightarrow> if lo \<le> length s \<and> length s \<le> hi then Some s else None | _ \<Rightarrow> None)"

definition role_of_value :: "pyval \<Rightarrow> user_role option" where
  "role_of_value v = (case v of
       PStr s \<Rightarrow> List.find (\<lambda>r. role_value r = s) [role_user, role_admin, role_platform_admin] | _ \<Rightarrow> None)"

definition email_value :: "(string \<Rightarrow> string option) \<Rightarrow> pyval \<Rightarrow> string option" where
  "email_value email_str v = (case v of PStr s \<Rightarrow> email_str s | _ \<Rightarrow> None)"

definition UserAdminUpdate ::
  "(string \<Rightarrow> string option) \<Rightarrow> (pyval \<Rightarrow> bool option) \<Rightarrow> pydict \<Rightarrow> (string list, user_update) result" where
  "UserAdminUpdate email_str bool_value b =
     (case (optional_field (email_value email_str) b ''email'', optional_field bool_value b ''is_active'',
         optional_field role_of_value b ''role'') of
        (Some e, Some a, Some r) \<Rightarrow> Inr \<lparr>upd_email = e, upd_is_active = a, upd_role = r\<rparr>
      | (e, a, r) \<Rightarrow> Inl (refused [(''email'', e)] @ refused [(''is_active'', a)] @ refused [(''role'', r)]))"

definition UserSelfUpdate :: "(string \<Rightarrow> string option) \<Rightarrow> pydict \<Rightarrow> (string list, user_update) result" where
  "UserSelfUpdate email_str b = (case optional_field (email_value email_str) b ''email'' of
       Some e \<Rightarrow> Inr \<lparr>upd_email = e, upd_is_active = None, upd_role = None\<rparr>
     | None \<Rightarrow> Inl [''email''])"

record tenant_update =
  tu_name :: "string option"
  tu_is_active :: "bool option"

text \<open>The tenant routes treat an absent field and \<open>null\<close> alike.\<close>

definition flat :: "'a option option \<Rightarrow> 'a option" where
  "flat v = (case v of Some x \<Rightarrow> x | None \<Rightarrow> None)"

definition TenantUpdate :: "(pyval \<Rightarrow> bool option) \<Rightarrow> pydict \<Rightarrow> (string list, tenant_update) result" where
  "TenantUpdate bool_value b =
     (case (optional_field (text_value 1 255) b ''name'', optional_field bool_value b ''is_active'') of
        (Some n, Some a) \<Rightarrow> Inr \<lparr>tu_name = flat n, tu_is_active = flat a\<rparr>
      | (n, a) \<Rightarrow> Inl (refused [(''name'', n)] @ refused [(''is_active'', a)]))"

text \<open>What a self update keeps of a body is what its own schema reads from it.\<close>

lemma self_update_reads_self_schema:
  "UserAdminUpdate email_str bool_value b = Inr u \<Longrightarrow> UserSelfUpdate email_str b = Inr (self_update u)"
  by (auto simp: UserAdminUpdate_def UserSelfUpdate_def self_update_def split: option.splits)

lemma role_of_role_value [simp]: "role_of_value (PStr (role_value r)) = Some r"
  by (cases r) (simp_all add: role_of_value_def)

lemma TenantUpdate_name:
  "TenantUpdate bool_value b = Inr t \<Longrightarrow> tu_name t = Some n \<Longrightarrow> 1 \<le> length n \<and> length n \<le> 255"
  by (auto simp: TenantUpdate_def optional_field_def text_value_def flat_def
      split: option.splits pyval.splits if_splits)

section \<open>Error bodies\<close>

text \<open>
  The two declarations of the error body: the one of \<open>schemas/error.py\<close> leaves the details open, the one of
  \<open>schemas/errors.py\<close>, which the documentation of the interface names, asks for a list or an object.
\<close>

definition ErrorBody_open :: "pyval \<Rightarrow> bool" where
  "ErrorBody_open v = (case v of
       PDict d \<Rightarrow> (case (dict_get d ''code'', dict_get d ''message'') of
           (Some (PStr c), Some (PStr m)) \<Rightarrow> True | _ \<Rightarrow> False)
     | _ \<Rightarrow> False)"

definition ErrorBody :: "pyval \<Rightarrow> bool" where
  "ErrorBody v \<longleftrightarrow> ErrorBody_open v \<and> (case v of
       PDict d \<Rightarrow> (case dict_get d ''details'' of
           None \<Rightarrow> True | Some PNone \<Rightarrow> True | Some (PList l) \<Rightarrow> True | Some (PDict e) \<Rightarrow> True | _ \<Rightarrow> False)
     | _ \<Rightarrow> False)"

definition ErrorResponse_open :: "pyval \<Rightarrow> bool" where
  "ErrorResponse_open v = (case v of
       PDict d \<Rightarrow> (case dict_get d ''error'' of Some e \<Rightarrow> ErrorBody_open e | None \<Rightarrow> False) | _ \<Rightarrow> False)"

definition ErrorResponse :: "pyval \<Rightarrow> bool" where
  "ErrorResponse v = (case v of
       PDict d \<Rightarrow> (case dict_get d ''error'' of Some e \<Rightarrow> ErrorBody e | None \<Rightarrow> False) | _ \<Rightarrow> False)"

section \<open>Lemmas\<close>

lemma str_field_Some: "str_field n b k = Some s \<longleftrightarrow> dict_get b k = Some (PStr s) \<and> n \<le> length s"
  by (auto simp: str_field_def split: option.splits pyval.splits)

lemma refused_Nil_iff: "refused fs = [] \<longleftrightarrow> (\<forall>f \<in> set fs. snd f \<noteq> None)"
  by (auto simp: refused_def filter_empty_conv)

text \<open>Every handler of \<open>core/exception_handlers.py\<close> answers with the documented body.\<close>

lemma handlers_answer_documented_body:
  "ErrorResponse (resp_body (handle_exn e))"
  "ErrorResponse (resp_body (validation_exception_handler (PList errors)))"
  "ErrorResponse v \<Longrightarrow> ErrorResponse_open v"
proof -
  have *: "ErrorResponse (resp_body (error_response s c m None))"
    "ErrorResponse (resp_body (error_response s c m (Some (PList l))))" for s c m l
    by (simp_all add: ErrorResponse_def ErrorBody_def ErrorBody_open_def error_response_def)
  show "ErrorResponse (resp_body (handle_exn e))"
    by (cases e) (simp_all add: handle_exn_def domain_error_handler_def http_exception_handler_def
        unhandled_exception_handler_def *)
  show "ErrorResponse (resp_body (validation_exception_handler (PList errors)))"
    by (simp add: validation_exception_handler_def *)
  show "ErrorResponse v \<Longrightarrow> ErrorResponse_open v"
  proof (cases v)
    case (PDict d)
    then show "ErrorResponse v \<Longrightarrow> ErrorResponse_open v"
      by (cases "dict_get d ''error''") (simp_all add: ErrorResponse_def ErrorResponse_open_def ErrorBody_def)
  qed (simp_all add: ErrorResponse_def)
qed

text \<open>
  Addresses: a checked address passes the check again unchanged, and names under \<open>.local\<close>, which is reserved for
  local networks, are refused.
\<close>

locale email_rules =
  fixes email_str :: "string \<Rightarrow> string option"
  assumes stable: "email_str s = Some e \<Longrightarrow> email_str e = Some e"
    and special_use: "email_str (l @ ''.local'') = None"
begin

lemma registered_readable:
  assumes "UserCreate email_str b = Inr u" "u_email v = uc_email u"
  shows "UserRead email_str v = Some (read_user v)" and "8 \<le> length (uc_password u)"
proof -
  from assms(1) obtain s where "dict_get b ''email'' = Some (PStr s)" "email_str s = Some (uc_email u)"
      "8 \<le> length (uc_password u)"
    by (auto simp: UserCreate_def email_field_def str_field_Some split: option.splits pyval.splits)
  with assms(2) stable show "UserRead email_str v = Some (read_user v)" "8 \<le> length (uc_password u)"
    by (auto simp: UserRead_def read_user_def)
qed

lemma local_address_refused:
  assumes "dict_get b ''email'' = Some (PStr (l @ ''.local''))"
  shows "\<exists>fs. UserLogin email_str b = Inl (''email'' # fs)" and "\<exists>fs. UserCreate email_str b = Inl (''email'' # fs)"
    and "PasswordResetRequest email_str b = Inl [''email'']"
  using assms special_use
  by (auto simp: UserLogin_def UserCreate_def PasswordResetRequest_def one_field_def email_field_def refused_def
      split: option.splits)

lemma local_user_unreadable: "u_email v = l @ ''.local'' \<Longrightarrow> UserRead email_str v = None"
  using special_use by (simp add: UserRead_def)

end

text \<open>A check that follows the rules: one at sign, no blanks, no name under \<open>.local\<close>.\<close>

definition plain_email :: "string \<Rightarrow> string option" where
  "plain_email s = (if count_list s CHR ''@'' = 1 \<and> CHR '' '' \<notin> set s \<and> drop (length s - 6) s \<noteq> ''.local'' then Some s else None)"

interpretation plain_addresses: email_rules plain_email
  by unfold_locales (auto simp: plain_email_def split: if_splits)

text \<open>
  No seeded account can be used: whatever the rest of the body says, a login or a reset request with its address is
  refused before the password is looked at, and a response that shows its row cannot be built.
\<close>

lemma seeded_accounts_refused:
  assumes "email_rules email_str"
  shows "list_all (\<lambda>d.
      (case UserLogin email_str (dict_set b ''email'' (PStr (ds_email d))) of Inl fs \<Rightarrow> ''email'' \<in> set fs | Inr u \<Rightarrow> False)
      \<and> PasswordResetRequest email_str (dict_set b ''email'' (PStr (ds_email d))) = Inl [''email'']
      \<and> UserRead email_str (v\<lparr>u_email := ds_email d\<rparr>) = None) DEV_USERS"
proof -
  have local: "ds_email d = (case d of x \<Rightarrow> take (length (ds_email d) - 6) (ds_email d)) @ ''.local''"
    if "d \<in> set DEV_USERS" for d
    using that by (auto simp: DEV_USERS_def)
  show ?thesis unfolding list_all_iff
  proof (intro ballI conjI)
    fix d assume "d \<in> set DEV_USERS"
    from local [OF this] obtain l where l: "ds_email d = l @ ''.local''" by blast
    then have e: "dict_get (dict_set b ''email'' (PStr (ds_email d))) ''email'' = Some (PStr (l @ ''.local''))"
      by (simp add: dict_get_set)
    obtain fs where "UserLogin email_str (dict_set b ''email'' (PStr (ds_email d))) = Inl (''email'' # fs)"
      using email_rules.local_address_refused(1) [OF assms e] by blast
    then show "case UserLogin email_str (dict_set b ''email'' (PStr (ds_email d))) of Inl fs \<Rightarrow> ''email'' \<in> set fs | Inr u \<Rightarrow> False"
      by simp
    show "PasswordResetRequest email_str (dict_set b ''email'' (PStr (ds_email d))) = Inl [''email'']"
      by (rule email_rules.local_address_refused(3) [OF assms e])
    show "UserRead email_str (v\<lparr>u_email := ds_email d\<rparr>) = None"
      by (rule email_rules.local_user_unreadable [OF assms]) (simp add: l)
  qed
qed

lemma seeded_accounts_example:
  "UserLogin plain_email [(''email'', PStr ''admin@example.local''), (''password'', PStr DEV_PASSWORD)] = Inl [''email'']
   \<and> UserLogin plain_email [(''email'', PStr ''admin@example.com''), (''password'', PStr DEV_PASSWORD)]
       = Inr \<lparr>ul_email = ''admin@example.com'', ul_password = DEV_PASSWORD\<rparr>
   \<and> PasswordResetRequest plain_email [(''email'', PStr ''admin@example.local'')] = Inl [''email'']"
  by (intro conjI) code_simp+

end
