(* ===== verification/Clients.thy ===== *)
theory Clients
  imports Schema_Upgrade Config
begin

text \<open>
  What a process builds once and keeps: the object storage client (\<open>app/core/s3_client.py\<close>) and the storage
  service over it (\<open>app/services/storage_service.py\<close>); and the statements of the restore check
  (\<open>app/ops/restore_verification.py\<close>). Building a client is a parameter.
\<close>

section \<open>Object storage client\<close>

record s3_options =
  so_service :: string
  so_endpoint_url :: string
  so_access_key_id :: string
  so_secret_access_key :: string
  so_region_name :: string

record 'c process_clients =
  s3_client_cache :: "'c option"
  storage_service_cache :: "'c option"

definition s3_client_options :: "settings \<Rightarrow> s3_options" where
  "s3_client_options cfg = \<lparr>so_service = ''s3'', so_endpoint_url = s3_endpoint_url cfg,
     so_access_key_id = s3_access_key_id cfg, so_secret_access_key = s3_secret_access_key cfg,
     so_region_name = s3_region_name cfg\<rparr>"

definition get_s3_client :: "(s3_options \<Rightarrow> 'c) \<Rightarrow> settings \<Rightarrow> 'c process_clients \<Rightarrow> 'c \<times> 'c process_clients" where
  "get_s3_client build cfg p = (case s3_client_cache p of
       None \<Rightarrow> let c = build (s3_client_options cfg) in (c, p\<lparr>s3_client_cache := Some c\<rparr>)
     | Some c \<Rightarrow> (c, p))"

definition reset_s3_client_cache :: "'c process_clients \<Rightarrow> 'c process_clients" where
  "reset_s3_client_cache p = p\<lparr>s3_client_cache := None\<rparr>"

text \<open>A storage service is its provider, a provider is its client.\<close>

definition get_storage_service :: "(s3_options \<Rightarrow> 'c) \<Rightarrow> settings \<Rightarrow> 'c process_clients \<Rightarrow> 'c \<times> 'c process_clients" where
  "get_storage_service build cfg p = (case storage_service_cache p of
       None \<Rightarrow> let (c, p1) = get_s3_client build cfg p in (c, p1\<lparr>storage_service_cache := Some c\<rparr>)
     | Some c \<Rightarrow> (c, p))"

definition reset_storage_service_cache :: "'c process_clients \<Rightarrow> 'c process_clients" where
  "reset_storage_service_cache p = p\<lparr>storage_service_cache := None\<rparr>"

text \<open>The calls of a process, with the results of the two getters in order.\<close>

datatype client_use = Get_client | Get_service | Reset_client | Reset_service

fun client_call :: "(s3_options \<Rightarrow> 'c) \<Rightarrow> settings \<Rightarrow> client_use \<Rightarrow> 'c process_clients \<Rightarrow> 'c list \<times> 'c process_clients" where
  "client_call build cfg Get_client p = map_prod (\<lambda>c. [c]) id (get_s3_client build cfg p)"
| "client_call build cfg Get_service p = map_prod (\<lambda>c. [c]) id (get_storage_service build cfg p)"
| "client_call build cfg Reset_client p = ([], reset_s3_client_cache p)"
| "client_call build cfg Reset_service p = ([], reset_storage_service_cache p)"

fun client_calls ::
  "(s3_options \<Rightarrow> 'c) \<Rightarrow> (settings \<times> client_use) list \<Rightarrow> 'c process_clients \<Rightarrow> 'c list \<times> 'c process_clients" where
  "client_calls build [] p = ([], p)"
| "client_calls build ((cfg, a) # as) p =
     (let (r, p1) = client_call build cfg a p; (rs, p2) = client_calls build as p1 in (r @ rs, p2))"

definition no_clients :: "'c process_clients" where
  "no_clients = \<lparr>s3_client_cache = None, storage_service_cache = None\<rparr>"

text \<open>Without a reset every caller of a process shares one client, the one of the settings at the first call.\<close>

definition shares :: "'c \<Rightarrow> 'c process_clients \<Rightarrow> bool" where
  "shares c p \<longleftrightarrow> s3_client_cache p = Some c \<and> storage_service_cache p \<in> {None, Some c}"

lemma shared_call:
  assumes "shares c p" "a = Get_client \<or> a = Get_service"
  shows "shares c (snd (client_call build cfg a p))" and "fst (client_call build cfg a p) = [c]"
  using assms by (auto simp: shares_def get_s3_client_def get_storage_service_def Let_def split: option.splits)

lemma first_use:
  assumes "a = Get_client \<or> a = Get_service"
  shows "shares (build (s3_client_options cfg)) (snd (client_call build cfg a no_clients))"
    and "fst (client_call build cfg a no_clients) = [build (s3_client_options cfg)]"
  using assms by (auto simp: shares_def no_clients_def get_s3_client_def get_storage_service_def Let_def)

lemma client_calls_results:
  "fst (client_calls build ((cfg, a) # as) p)
     = fst (client_call build cfg a p) @ fst (client_calls build as (snd (client_call build cfg a p)))"
  by (simp add: split_beta)

lemma shared_calls:
  assumes "shares c p" "\<forall>(cfg, a) \<in> set as. a = Get_client \<or> a = Get_service"
  shows "set (fst (client_calls build as p)) \<subseteq> {c}"
  using assms
proof (induction as arbitrary: p)
  case (Cons x as)
  obtain cfg a where x: "x = (cfg, a)" by fastforce
  have a: "a = Get_client \<or> a = Get_service" using Cons.prems(2) x by simp
  have "set (fst (client_calls build as (snd (client_call build cfg a p)))) \<subseteq> {c}"
    using Cons.IH [OF shared_call(1) [OF Cons.prems(1) a]] Cons.prems(2) by simp
  then show ?case using shared_call(2) [OF Cons.prems(1) a, of build cfg] by (simp add: x client_calls_results del: client_calls.simps)
qed simp

theorem one_client_per_process:
  assumes "\<forall>(cfg, a) \<in> set as. a = Get_client \<or> a = Get_service" and "as = (cfg0, a0) # as'"
  shows "set (fst (client_calls build as no_clients)) = {build (s3_client_options cfg0)}"
proof -
  have a: "a0 = Get_client \<or> a0 = Get_service" using assms by simp
  have "set (fst (client_calls build as' (snd (client_call build cfg0 a0 no_clients)))) \<subseteq> {build (s3_client_options cfg0)}"
    by (rule shared_calls [OF first_use(1) [OF a]]) (use assms in simp)
  then show ?thesis using first_use(2) [OF a, of build cfg0] by (auto simp: assms(2) client_calls_results simp del: client_calls.simps)
qed

text \<open>Resetting the client alone leaves a storage service with the client it was built with.\<close>

lemma stale_storage_service:
  "get_storage_service build cfg' (reset_s3_client_cache (snd (get_storage_service build cfg no_clients)))
     = (build (s3_client_options cfg), reset_s3_client_cache (snd (get_storage_service build cfg no_clients)))"
  by (simp add: get_storage_service_def get_s3_client_def reset_s3_client_cache_def no_clients_def Let_def)

section \<open>Restore check\<close>

definition CORE_RESTORE_TABLES :: "string list" where
  "CORE_RESTORE_TABLES = [''alembic_version'', ''tenants'', ''users'', ''audit_logs'', ''uploaded_files'',
     ''idempotency_records'', ''webhook_events'']"

definition restore_statement :: "string \<Rightarrow> string" where
  "restore_statement table_name = ''SELECT EXISTS ('' @ ''SELECT 1 FROM information_schema.tables ''
     @ ''WHERE table_schema = '' @ [CHR 0x27] @ ''public'' @ [CHR 0x27] @ '' AND table_name = ''
     @ [CHR 0x27] @ table_name @ [CHR 0x27] @ '') AS has_'' @ table_name @ '';''"

definition build_restore_verification_sql :: string where
  "build_restore_verification_sql =
     join [CHR 0x0A] (''SELECT 1 AS restore_smoke_check;'' # map restore_statement CORE_RESTORE_TABLES)"

text \<open>
  The check asks for tables the models declare and for the version table of alembic; it leaves out exactly the two
  tables of the password reset.
\<close>

lemma restore_check_covers:
  "set CORE_RESTORE_TABLES - {''alembic_version''} \<subseteq> set (map fst metadata)"
  "set (map fst metadata) - set CORE_RESTORE_TABLES = {''password_reset_job_completions'', ''password_reset_tokens''}"
  by (auto simp: CORE_RESTORE_TABLES_def metadata_def)

end
